(* ===== verification/Axel_Prelude.thy ===== *)
theory Axel_Prelude
  imports Main "HOL-Library.Word"
begin

text \<open>
  Shared vocabulary of the development: Rust's machine integers, the outcomes of Rust
  code that can panic, checked arithmetic, indexed access, and the arithmetic of aligned
  power-of-two blocks.

  The Makefile builds the kernel with \<^verbatim>\<open>xargo build\<close>, that is in the debug profile:
  arithmetic on \<^verbatim>\<open>usize\<close> that leaves its range panics, shifts by 64 or more panic,
  and every \<^verbatim>\<open>debug_assert!\<close> is live.  A \<^verbatim>\<open>usize\<close> is therefore a natural number below
  \<open>2 ^ 64\<close>; each operation checks its range and returns the panic otherwise, left shifts
  drop the bits that leave the word, and complement is taken in 64 bits.  The narrower
  integers (\<^verbatim>\<open>u8\<close>, \<^verbatim>\<open>u16\<close>, \<^verbatim>\<open>u32\<close>, \<^verbatim>\<open>u64\<close>) that the code casts between are words.
\<close>

unbundle bit_operations_syntax

section \<open>Types and outcomes\<close>

type_synonym usize = nat
type_synonym u8 = "8 word"
type_synonym u16 = "16 word"
type_synonym u32 = "32 word"
type_synonym u64 = "64 word"

text \<open>
  The ways in which a run of the kernel stops.  \<open>PageFault\<close> is the processor's answer to
  an access through an address that the page tables do not map; the other constructors
  are Rust panics.
\<close>

datatype panic =
    Overflow
  | IndexOutOfBounds
  | DebugAssertFailed
  | UnwrapNone
  | UnwrapErr
  | Unimplemented
  | AlreadyLinked
  | ExplicitPanic string
  | PageFault

type_synonym 'a res = "panic + 'a"

definition res_bind :: "'e + 'a \<Rightarrow> ('a \<Rightarrow> 'e + 'b) \<Rightarrow> 'e + 'b" where
  "res_bind r f = (case r of Inl e \<Rightarrow> Inl e | Inr a \<Rightarrow> f a)"

named_theorems res_simps \<open>equations and case splits for outcomes\<close>

lemma res_bind_simps [simp, res_simps]:
  "res_bind (Inr a) f = f a"
  "res_bind (Inl e) f = Inl e"
  by (simp_all add: res_bind_def)

lemma res_bind_eq_Inr: "res_bind r f = Inr b \<longleftrightarrow> (\<exists>a. r = Inr a \<and> f a = Inr b)"
  by (cases r) auto

lemma res_bind_eq_Inl:
  "res_bind r f = Inl e \<longleftrightarrow> r = Inl e \<or> (\<exists>a. r = Inr a \<and> f a = Inl e)"
  by (cases r) auto

lemma res_bind_cong [fundef_cong]:
  "r = r' \<Longrightarrow> (\<And>a. r' = Inr a \<Longrightarrow> f a = g a) \<Longrightarrow> res_bind r f = res_bind r' g"
  by (cases r') auto

text \<open>As a congruence rule of the simplifier: a run is evaluated from its first step on.\<close>

lemma res_bind_weak_cong: "r = r' \<Longrightarrow> res_bind r f = res_bind r' f"
  by simp

section \<open>Checked arithmetic on usize\<close>

abbreviation is_usize :: "nat \<Rightarrow> bool" where
  "is_usize n \<equiv> n < 2 ^ 64"

definition uadd :: "usize \<Rightarrow> usize \<Rightarrow> usize res" where
  "uadd a b = (if a + b < 2 ^ 64 then Inr (a + b) else Inl Overflow)"

definition usub :: "usize \<Rightarrow> usize \<Rightarrow> usize res" where
  "usub a b = (if b \<le> a then Inr (a - b) else Inl Overflow)"

definition umul :: "usize \<Rightarrow> usize \<Rightarrow> usize res" where
  "umul a b = (if a * b < 2 ^ 64 then Inr (a * b) else Inl Overflow)"

definition ushl :: "usize \<Rightarrow> nat \<Rightarrow> usize res" where
  "ushl a k = (if k < 64 then Inr (take_bit 64 (push_bit k a)) else Inl Overflow)"

definition unot :: "usize \<Rightarrow> usize" where
  "unot a = mask 64 XOR a"

definition debug_assert :: "bool \<Rightarrow> unit res" where
  "debug_assert b = (if b then Inr () else Inl DebugAssertFailed)"

lemma uadd_eq_Inr [res_simps]: "uadd a b = Inr c \<longleftrightarrow> c = a + b \<and> a + b < 2 ^ 64"
  by (auto simp: uadd_def)

lemma usub_eq_Inr [res_simps]: "usub a b = Inr c \<longleftrightarrow> c = a - b \<and> b \<le> a"
  by (auto simp: usub_def)

lemma umul_eq_Inr [res_simps]: "umul a b = Inr c \<longleftrightarrow> c = a * b \<and> a * b < 2 ^ 64"
  by (auto simp: umul_def)

lemma debug_assert_eq_Inr [res_simps]: "debug_assert b = Inr u \<longleftrightarrow> b"
  by (auto simp: debug_assert_def)

lemma debug_assert_True [simp]: "debug_assert True = Inr ()"
  by (simp add: debug_assert_def)

lemma uadd_ok [simp]: "a + b < 2 ^ 64 \<Longrightarrow> uadd a b = Inr (a + b)"
  by (simp add: uadd_def)

lemma usub_ok [simp]: "b \<le> a \<Longrightarrow> usub a b = Inr (a - b)"
  by (simp add: usub_def)

lemma umul_ok [simp]: "a * b < 2 ^ 64 \<Longrightarrow> umul a b = Inr (a * b)"
  by (simp add: umul_def)

lemma bit_unot_iff: "bit (unot a) n \<longleftrightarrow> (n < 64) \<noteq> bit a n"
  by (simp add: unot_def bit_xor_iff bit_mask_iff)

lemma nat_bit_bound:
  fixes x :: nat
  assumes "x < 2 ^ m" and "bit x n"
  shows "n < m"
proof (rule ccontr)
  assume "\<not> n < m"
  with assms(1) have "x < 2 ^ n"
    by (meson less_le_trans not_less one_le_numeral power_increasing)
  with assms(2) show False by (simp add: bit_nat_def)
qed

section \<open>Indexed access\<close>

definition vec_get :: "'a list \<Rightarrow> nat \<Rightarrow> 'a res" where
  "vec_get xs i = (if i < length xs then Inr (xs ! i) else Inl IndexOutOfBounds)"

definition vec_set :: "'a list \<Rightarrow> nat \<Rightarrow> 'a \<Rightarrow> 'a list res" where
  "vec_set xs i v = (if i < length xs then Inr (xs[i := v]) else Inl IndexOutOfBounds)"

lemma vec_get_ok [simp]: "i < length xs \<Longrightarrow> vec_get xs i = Inr (xs ! i)"
  by (simp add: vec_get_def)

lemma vec_set_ok [simp]: "i < length xs \<Longrightarrow> vec_set xs i v = Inr (xs[i := v])"
  by (simp add: vec_set_def)

lemma vec_get_eq_Inr [res_simps]: "vec_get xs i = Inr v \<longleftrightarrow> i < length xs \<and> v = xs ! i"
  by (auto simp: vec_get_def)

lemma vec_set_eq_Inr [res_simps]: "vec_set xs i v = Inr ys \<longleftrightarrow> i < length xs \<and> ys = xs[i := v]"
  by (auto simp: vec_set_def)

section \<open>Powers of two and aligned blocks\<close>

lemma and_unot_mask:
  fixes x :: nat
  assumes "x < 2 ^ 64"
  shows "x AND unot (2 ^ k - 1) = x - x mod 2 ^ k"
proof -
  have "x AND unot (mask k) = push_bit k (drop_bit k x)"
    by (rule bit_eqI)
      (auto simp: bit_and_iff bit_unot_iff bit_mask_iff bit_push_bit_iff_nat bit_drop_bit_eq
        dest: nat_bit_bound [OF assms])
  also have "\<dots> = x - x mod 2 ^ k"
    by (simp add: push_bit_eq_mult drop_bit_eq_div minus_mod_eq_div_mult)
  finally show ?thesis by (simp add: mask_eq_exp_minus_1)
qed

lemma pow2_dvd_mono: "i \<le> k \<Longrightarrow> 2 ^ k dvd p \<Longrightarrow> 2 ^ i dvd (p :: nat)"
  by (rule dvd_trans [OF le_imp_power_dvd])

lemma dvd_pow2_bit:
  fixes p :: nat
  assumes "2 ^ k dvd p" and "i < k"
  shows "\<not> bit p i"
proof -
  from assms(1) obtain c where "p = push_bit k c"
    by (auto elim!: dvdE simp: push_bit_eq_mult mult.commute)
  with assms(2) show ?thesis by (simp add: bit_push_bit_iff_nat)
qed

end
