(* ===== verification/Alignment.thy ===== *)
theory Alignment
  imports Axel_Prelude
begin

text \<open>
  \<^verbatim>\<open>src/memory/address/alignment.rs\<close> (the trait \<^verbatim>\<open>Alignment\<close> for \<^verbatim>\<open>usize\<close>) and
  \<^verbatim>\<open>src/bytes.rs\<close> (the trait \<^verbatim>\<open>Bytes\<close>).  The lemmas give the value of both alignments
  for powers of two, including the panic when the rounded address leaves the word.
\<close>

section \<open>Operations\<close>

definition align_up :: "usize \<Rightarrow> usize \<Rightarrow> usize res" where
  "align_up self alignment =
     res_bind (usub alignment 1) (\<lambda>msk.
     res_bind (uadd self msk) (\<lambda>s. Inr (s AND unot msk)))"

definition align_down :: "usize \<Rightarrow> usize \<Rightarrow> usize res" where
  "align_down self alignment =
     res_bind (usub alignment 1) (\<lambda>msk. Inr (self AND unot msk))"

definition kb :: "usize \<Rightarrow> usize" where
  "kb self = self div 1024"

definition mb :: "usize \<Rightarrow> usize" where
  "mb self = kb self div 1024"

definition gb :: "usize \<Rightarrow> usize" where
  "gb self = mb self div 1024"

section \<open>Rounding to a power of two\<close>

text \<open>The reference rounding: the least multiple of \<open>n\<close> that is not below \<open>x\<close>.\<close>

definition round_up :: "nat \<Rightarrow> nat \<Rightarrow> nat" where
  "round_up n x = (x + (n - 1)) div n * n"

lemma round_up_bounds:
  assumes "0 < n"
  shows "x \<le> round_up n x" and "round_up n x < x + n" and "n dvd round_up n x"
proof -
  have "x + (n - 1) = round_up n x + (x + (n - 1)) mod n"
    by (simp add: round_up_def)
  moreover have "(x + (n - 1)) mod n < n" using assms by simp
  ultimately show "x \<le> round_up n x" "round_up n x < x + n"
    using assms by linarith+
  show "n dvd round_up n x" by (simp add: round_up_def)
qed

lemma round_up_least: "0 < n \<Longrightarrow> n dvd y \<Longrightarrow> x \<le> y \<Longrightarrow> round_up n x \<le> y"
proof -
  assume n: "0 < n" and "n dvd y" and le: "x \<le> y"
  then obtain c where y: "y = n * c" by (auto elim: dvdE)
  have "(x + (n - 1)) div n \<le> (y + (n - 1)) div n"
    using le by (intro div_le_mono) simp
  also have "\<dots> = ((n - 1) + n * c) div n" by (simp only: y add.commute)
  also have "\<dots> = c" using n by (subst div_mult_self2) simp_all
  finally show ?thesis using n y by (simp add: round_up_def mult.commute)
qed

lemma round_up_dvd: "0 < n \<Longrightarrow> n dvd x \<Longrightarrow> round_up n x = x"
  using round_up_least [of n x x] round_up_bounds(1) [of n x] by simp

lemma round_up_mono: "x \<le> y \<Longrightarrow> round_up n x \<le> round_up n y"
  by (simp add: round_up_def div_le_mono)

lemma align_up_pow2:
  "align_up x (2 ^ k) =
     (if x + (2 ^ k - 1) < 2 ^ 64 then Inr (round_up (2 ^ k) x) else Inl Overflow)"
proof (cases "x + (2 ^ k - 1) < 2 ^ 64")
  case True
  have "(x + (2 ^ k - 1)) AND unot (2 ^ k - 1) = round_up (2 ^ k) x"
    using and_unot_mask [OF True, of k] by (simp add: round_up_def minus_mod_eq_div_mult)
  with True show ?thesis by (simp add: align_up_def)
next
  case False
  then show ?thesis by (simp add: align_up_def uadd_def)
qed

lemma align_down_pow2: "x < 2 ^ 64 \<Longrightarrow> align_down x (2 ^ k) = Inr (x - x mod 2 ^ k)"
  by (simp add: align_down_def and_unot_mask [simplified])

text \<open>The page size is the power of two the memory code rounds to.\<close>

lemma align_up_page:
  "align_up x 4096 = (if x + 4095 < 2 ^ 64 then Inr (round_up 4096 x) else Inl Overflow)"
  using align_up_pow2 [of x 12] by simp

section \<open>Properties\<close>



end
