(* ===== verification/Frame.thy ===== *)
theory Frame
  imports Axel_Prelude
begin

text \<open>
  \<^verbatim>\<open>src/memory/frame.rs\<close> (the physical frame and its implementation of the trait
  \<^verbatim>\<open>Object\<close>), \<^verbatim>\<open>src/memory/buddy_system/mod.rs\<close> (the trait \<^verbatim>\<open>Object\<close>) and
  \<^verbatim>\<open>src/memory/frame_allocator.rs\<close> (the trait \<^verbatim>\<open>FrameAllocator\<close>, as the locale
  \<open>frame_allocator\<close>).

  The field \<^verbatim>\<open>link\<close> is a \<^verbatim>\<open>LinkedListLink\<close> of the crate \<^verbatim>\<open>intrusive_collections\<close>;
  what the code observes of it is whether the object is linked into a list, so the
  field records that.
\<close>

section \<open>The frame\<close>

datatype State = Used | Free

record Frame =
  link :: bool
  number :: usize
  order :: usize
  state :: State

definition SIZE :: usize where
  "SIZE = 4096"

definition frame_from_address :: "usize \<Rightarrow> Frame" where
  "frame_from_address addr = \<lparr>link = False, number = addr div SIZE, order = 0, state = Free\<rparr>"

definition set_number :: "usize \<Rightarrow> Frame \<Rightarrow> Frame" where
  "set_number i f = f\<lparr>number := i\<rparr>"

definition frame_address :: "Frame \<Rightarrow> usize res" where
  "frame_address f = umul (number f) SIZE"

definition reset_link :: "Frame \<Rightarrow> Frame" where
  "reset_link f = f\<lparr>link := False\<rparr>"

definition mark_used :: "Frame \<Rightarrow> Frame" where
  "mark_used f = f\<lparr>state := Used\<rparr>"

definition mark_free :: "Frame \<Rightarrow> Frame" where
  "mark_free f = f\<lparr>state := Free\<rparr>"

definition is_used :: "Frame \<Rightarrow> bool" where
  "is_used f \<longleftrightarrow> state f = Used"

definition set_order :: "usize \<Rightarrow> Frame \<Rightarrow> Frame" where
  "set_order k f = f\<lparr>order := k\<rparr>"

text \<open>The default method \<^verbatim>\<open>Object::size\<close>.\<close>

definition object_size :: "Frame \<Rightarrow> usize res" where
  "object_size f = ushl 1 (order f)"

text \<open>
  \<^verbatim>\<open>#[derive(Clone)]\<close> copies every field; a cloned \<^verbatim>\<open>LinkedListLink\<close> is a fresh,
  unlinked one.
\<close>

definition frame_clone :: "Frame \<Rightarrow> Frame" where
  "frame_clone f = f\<lparr>link := False\<rparr>"

lemmas frame_op_defs = set_number_def reset_link_def mark_used_def mark_free_def is_used_def
  set_order_def frame_clone_def

lemma State_not_iff [simp]: "s \<noteq> Used \<longleftrightarrow> s = Free" "s \<noteq> Free \<longleftrightarrow> s = Used"
  by (cases s; simp)+

lemma frame_address_from_address:
  assumes "SIZE dvd addr" and "addr < 2 ^ 64"
  shows "frame_address (frame_from_address addr) = Inr addr"
  using assms by (simp add: frame_address_def frame_from_address_def)

section \<open>The frame allocator interface\<close>

text \<open>
  Memory handed out is a set of blocks: \<open>(n, k)\<close> stands for the \<open>2 ^ k\<close> frames from
  number \<open>n\<close> on.
\<close>

definition block :: "nat \<times> nat \<Rightarrow> nat set" where
  "block b = {fst b..<fst b + 2 ^ snd b}"

definition cells :: "(nat \<times> nat) set \<Rightarrow> nat set" where
  "cells U = (\<Union>b \<in> U. block b)"

text \<open>The number of frames that are left, of a set \<open>M\<close> of managed ones.\<close>

definition avail :: "nat set \<Rightarrow> (nat \<times> nat) set \<Rightarrow> nat" where
  "avail M U = card (M - cells U)"

lemma avail_insert: "avail M U \<le> Suc (avail M (insert (f, 0) U))"
proof -
  have "card A \<le> Suc (card (A - {f}))" for A :: "nat set"
    by (cases "finite A") (auto simp: card_Diff_singleton_if)
  moreover have "cells (insert (f, 0) U) = insert f (cells U)" by (auto simp: cells_def block_def)
  ultimately show ?thesis unfolding avail_def by (metis Diff_insert)
qed

lemma avail_remove: "finite M \<Longrightarrow> avail M U \<le> avail M (U - {b})"
  unfolding avail_def by (rule card_mono) (auto simp: cells_def)

lemma avail_full: "M \<subseteq> cells U \<Longrightarrow> avail M U = 0"
  by (simp add: avail_def Diff_eq_empty_iff [THEN iffD2])

text \<open>
  The trait \<^verbatim>\<open>FrameAllocator\<close>, which the page tables call through \<^verbatim>\<open>&mut dyn\<close>.  A provider
  has an invariant \<open>fa_inv a U\<close> between its state and the blocks it has handed out, and the
  set \<open>managed a\<close> of frame numbers it deals in; the laws are what the clients rely on: a
  frame that is allocated is a managed one, disjoint from everything handed out before and
  addressable in 48 bits, and none is returned only when all are handed out.  \<open>can_free\<close> is the provider's condition on the single frames it
  accepts back.
\<close>

locale frame_allocator =
  fixes alloc_one :: "'a \<Rightarrow> (Frame option \<times> 'a) res"
    and free_one :: "'a \<Rightarrow> Frame \<Rightarrow> 'a res"
    and fa_inv :: "'a \<Rightarrow> (nat \<times> nat) set \<Rightarrow> bool"
    and managed :: "'a \<Rightarrow> nat set"
    and can_free :: "'a \<Rightarrow> Frame \<Rightarrow> bool"
  assumes alloc_one_total: "fa_inv a U \<Longrightarrow> \<exists>r a'. alloc_one a = Inr (r, a')"
    and alloc_one_Some: "fa_inv a U \<Longrightarrow> alloc_one a = Inr (Some f, a') \<Longrightarrow>
          number f \<in> managed a - cells U \<and> number f < 2 ^ 36
          \<and> fa_inv a' (insert (number f, 0) U) \<and> managed a' = managed a"
    and alloc_one_None: "fa_inv a U \<Longrightarrow> alloc_one a = Inr (None, a') \<Longrightarrow>
          fa_inv a' U \<and> managed a' = managed a \<and> managed a \<subseteq> cells U"
    and finite_managed: "fa_inv a U \<Longrightarrow> finite (managed a)"
    and free_one_ok: "fa_inv a U \<Longrightarrow> (number f, 0) \<in> U \<Longrightarrow> can_free a f \<Longrightarrow>
          \<exists>a'. free_one a f = Inr a' \<and> fa_inv a' (U - {(number f, 0)}) \<and> managed a' = managed a"

end
