(* ===== verification/Format.thy ===== *)
theory Format
  imports Axel_Prelude
begin

text \<open>
  What \<^verbatim>\<open>core::fmt\<close> makes of an unsigned integer: \<^verbatim>\<open>{}\<close>, \<^verbatim>\<open>{:x}\<close> and \<^verbatim>\<open>{:016x}\<close>.  Messages are
  strings of ASCII characters.  Reading a number back is the reference against which the
  printed text is judged.  The last section is the interface through which the rest of the
  kernel prints: \<^verbatim>\<open>println!\<close>, as seen by its callers.
\<close>

section \<open>Printing\<close>

definition digit_char :: "nat \<Rightarrow> char" where
  "digit_char d = char_of (if d < 10 then 48 + d else 87 + d)"

fun fmt_radix :: "nat \<Rightarrow> nat \<Rightarrow> string" where
  "fmt_radix b n = (if n < b \<or> b < 2 then [digit_char n] else fmt_radix b (n div b) @ [digit_char (n mod b)])"

declare fmt_radix.simps [simp del]

definition fmt_dec :: "nat \<Rightarrow> string" where
  "fmt_dec n = fmt_radix 10 n"

definition fmt_hex :: "nat \<Rightarrow> string" where
  "fmt_hex n = fmt_radix 16 n"

definition fmt_hex_pad :: "nat \<Rightarrow> nat \<Rightarrow> string" where
  "fmt_hex_pad w n = replicate (w - length (fmt_hex n)) CHR ''0'' @ fmt_hex n"

text \<open>Equations that evaluate the text of a concrete number.\<close>

lemma digit_char_simps:
  "digit_char 0 = CHR ''0''" "digit_char (Suc 0) = CHR ''1''" "digit_char 2 = CHR ''2''" "digit_char 3 = CHR ''3''"
  "digit_char 4 = CHR ''4''" "digit_char 5 = CHR ''5''" "digit_char 6 = CHR ''6''" "digit_char 7 = CHR ''7''"
  "digit_char 8 = CHR ''8''" "digit_char 9 = CHR ''9''" "digit_char 10 = CHR ''a''" "digit_char 11 = CHR ''b''"
  "digit_char 12 = CHR ''c''" "digit_char 13 = CHR ''d''" "digit_char 14 = CHR ''e''" "digit_char 15 = CHR ''f''"
  by (simp_all add: digit_char_def char_of_def bit_0)

lemmas fmt_eval = fmt_dec_def fmt_hex_def fmt_radix.simps digit_char_simps

section \<open>Reading back\<close>

definition char_digit :: "char \<Rightarrow> nat" where
  "char_digit c = (let v = of_char c :: nat in if v < 58 then v - 48 else v - 87)"

definition is_digit :: "nat \<Rightarrow> char \<Rightarrow> bool" where
  "is_digit b c \<longleftrightarrow> (\<exists>d < b. c = digit_char d)"

definition read_radix :: "nat \<Rightarrow> string \<Rightarrow> nat" where
  "read_radix b s = foldl (\<lambda>n c. n * b + char_digit c) 0 s"

lemma digit_char_code: "d < 16 \<Longrightarrow> of_char (digit_char d) = (if d < 10 then 48 + d else 87 + d :: nat)"
  by (simp add: digit_char_def take_bit_eq_mod)

lemma char_digit_digit_char [simp]: "d < 16 \<Longrightarrow> char_digit (digit_char d) = d"
  by (simp add: char_digit_def digit_char_code)

lemma is_digit_digit_char [simp]: "d < b \<Longrightarrow> is_digit b (digit_char d)"
  by (auto simp: is_digit_def)

lemma is_digit_code: "is_digit b c \<Longrightarrow> b \<le> 16 \<Longrightarrow> 48 \<le> (of_char c :: nat) \<and> of_char c \<le> (102 :: nat)"
  by (auto simp: is_digit_def digit_char_code)

lemma fmt_radix_digits:
  assumes "2 \<le> b"
  shows "\<forall>c \<in> set (fmt_radix b n). is_digit b c"
  using assms by (induction b n rule: fmt_radix.induct) (subst fmt_radix.simps, auto)

lemma fmt_radix_nonempty [simp]: "fmt_radix b n \<noteq> []"
  by (subst fmt_radix.simps) simp

lemma read_fmt_radix:
  assumes "2 \<le> b" and "b \<le> 16"
  shows "read_radix b (fmt_radix b n) = n"
  using assms
proof (induction b n rule: fmt_radix.induct)
  case (1 b n)
  show ?case
  proof (cases "n < b")
    case True
    then show ?thesis using 1(3) by (simp add: fmt_radix.simps [of b n] read_radix_def)
  next
    case False
    then have "read_radix b (fmt_radix b (n div b)) = n div b" "n mod b < 16"
      using 1 by (simp_all add: less_le_trans [of _ b])
    then show ?thesis
      using False 1(2) by (simp add: fmt_radix.simps [of b n] read_radix_def)
  qed
qed

lemma read_radix_zeros: "read_radix b (replicate k CHR ''0'' @ s) = read_radix b s"
proof -
  have "foldl (\<lambda>n c. n * b + char_digit c) 0 (replicate k CHR ''0'') = 0"
    by (induction k) (simp_all add: char_digit_def)
  then show ?thesis by (simp add: read_radix_def)
qed

lemma length_fmt_radix:
  assumes "2 \<le> b" and "n < b ^ k" and "0 < k"
  shows "length (fmt_radix b n) \<le> k"
  using assms
proof (induction k arbitrary: n)
  case (Suc k)
  show ?case
  proof (cases "n < b")
    case True
    then show ?thesis by (simp add: fmt_radix.simps [of b n])
  next
    case False
    then have "0 < k" using Suc.prems(2) by (cases k) simp_all
    moreover have "n div b < b ^ k" using Suc.prems by (simp add: less_mult_imp_div_less mult.commute)
    ultimately have "length (fmt_radix b (n div b)) \<le> k" using Suc.IH Suc.prems(1) by blast
    then show ?thesis using False Suc.prems(1) by (simp add: fmt_radix.simps [of b n])
  qed
qed simp

text \<open>A printed number that is followed by a character that is no digit is determined by the text.\<close>

lemma digits_prefix_eq:
  assumes "\<forall>c \<in> set xs. P c" "\<forall>c \<in> set ys. P c" "\<not> P x" "\<not> P y" "xs @ x # us = ys @ y # vs"
  shows "xs = ys \<and> us = vs"
proof -
  have "takeWhile P (zs @ z # ws) = zs \<and> dropWhile P (zs @ z # ws) = z # ws" if "\<forall>c \<in> set zs. P c" "\<not> P z" for zs z ws
    using that by (induction zs) simp_all
  from this [OF assms(1,3), of us] this [OF assms(2,4), of vs] show ?thesis
    unfolding assms(5) by (metis list.inject)
qed

lemma read_fmt_hex: "read_radix 16 (fmt_hex n) = n"
  unfolding fmt_hex_def by (rule read_fmt_radix) simp_all

lemma fmt_hex_followed:
  assumes "fmt_hex m @ x # us = fmt_hex n @ y # vs" and "\<not> is_digit 16 x" and "\<not> is_digit 16 y"
  shows "m = n \<and> us = vs"
proof -
  have d: "\<forall>c \<in> set (fmt_hex k). is_digit 16 c" for k unfolding fmt_hex_def by (rule fmt_radix_digits) simp
  have "fmt_hex m = fmt_hex n \<and> us = vs" by (rule digits_prefix_eq [OF d d assms(2,3,1)])
  then show ?thesis by (metis read_fmt_hex)
qed

lemma fmt_hex_sep: "fmt_hex m @ x # p @ us = fmt_hex n @ x # p @ vs \<Longrightarrow> \<not> is_digit 16 x \<Longrightarrow> m = n \<and> us = vs"
  using fmt_hex_followed [of m x "p @ us" n x "p @ vs"] by simp

lemma fmt_hex_pad_16:
  assumes "n < 2 ^ 64"
  shows "length (fmt_hex_pad 16 n) = 16" and "read_radix 16 (fmt_hex_pad 16 n) = n"
  using assms length_fmt_radix [of 16 n 16] read_fmt_radix [of 16 n]
  by (simp_all add: fmt_hex_pad_def fmt_hex_def read_radix_zeros)

section \<open>The log, as its users see it\<close>

text \<open>
  Code that prints takes \<^verbatim>\<open>println!\<close> as its argument \<open>out\<close> and passes the state of the console
  along.  The laws: under the console's invariant a line is always accepted, the invariant is
  kept, and \<open>shown\<close> says what the console is afterwards.
\<close>

type_synonym 'c printer = "string \<Rightarrow> 'c \<Rightarrow> 'c res"

fun print_lines :: "'c printer \<Rightarrow> string list \<Rightarrow> 'c \<Rightarrow> 'c res" where
  "print_lines out [] con = Inr con"
| "print_lines out (s # lines) con = res_bind (out s con) (print_lines out lines)"

locale console =
  fixes out :: "'c printer"
    and con_inv :: "'c \<Rightarrow> bool"
    and shown :: "string \<Rightarrow> 'c \<Rightarrow> 'c"
  assumes out_ok: "con_inv con \<Longrightarrow> out s con = Inr (shown s con)"
    and con_inv_shown: "con_inv con \<Longrightarrow> con_inv (shown s con)"
begin

lemma con_inv_fold: "con_inv con \<Longrightarrow> con_inv (fold shown lines con)"
  by (induction lines arbitrary: con) (simp_all add: con_inv_shown)

lemma print_lines_ok: "con_inv con \<Longrightarrow> print_lines out lines con = Inr (fold shown lines con)"
  by (induction lines arbitrary: con) (simp_all add: out_ok con_inv_shown)

end

text \<open>The simplest console is the list of its lines.\<close>

definition transcript :: "string list printer" where
  "transcript s con = Inr (con @ [s])"

interpretation transcript: console transcript "\<lambda>_. True" "\<lambda>s con. con @ [s]"
  by unfold_locales (simp_all add: transcript_def)

end
