(* ===== verification/Paging_Entry.thy ===== *)
theory Paging_Entry
  imports Alignment Frame Format
begin

text \<open>
  \<^verbatim>\<open>src/memory/paging/entry.rs\<close>, \<^verbatim>\<open>page.rs\<close> and \<^verbatim>\<open>page_index.rs\<close>: page table entries, pages
  and the indices of a virtual address.

  A \<^verbatim>\<open>PageEntry\<close> is the \<^verbatim>\<open>usize\<close> it wraps, and a \<^verbatim>\<open>PageEntryFlags\<close> is its bits.  The methods
  of the flags are generated by the crate \<^verbatim>\<open>bitflags\<close>; they are a parameter \<open>B\<close>, and the
  locale \<open>bitflags\<close> states their documented behaviour.
\<close>

section \<open>Flags\<close>

type_synonym PageEntryFlags = usize
type_synonym PageEntry = usize

definition PRESENT :: PageEntryFlags where "PRESENT = 1"
definition WRITABLE :: PageEntryFlags where "WRITABLE = 2"
definition USER_ACCESSIBLE :: PageEntryFlags where "USER_ACCESSIBLE = 4"
definition WRITE_THROUGH :: PageEntryFlags where "WRITE_THROUGH = 8"
definition CACHE_DISABLE :: PageEntryFlags where "CACHE_DISABLE = 16"
definition ACCESSED :: PageEntryFlags where "ACCESSED = 32"
definition DIRTY :: PageEntryFlags where "DIRTY = 64"
definition HUGE_PAGE :: PageEntryFlags where "HUGE_PAGE = 128"
definition GLOBAL :: PageEntryFlags where "GLOBAL = 256"
definition NO_EXECUTE :: PageEntryFlags where "NO_EXECUTE = 2 ^ 63"

lemmas flag_defs = PRESENT_def WRITABLE_def USER_ACCESSIBLE_def WRITE_THROUGH_def CACHE_DISABLE_def
  ACCESSED_def DIRTY_def HUGE_PAGE_def GLOBAL_def NO_EXECUTE_def

definition flags_all :: PageEntryFlags where
  "flags_all = PRESENT + WRITABLE + USER_ACCESSIBLE + WRITE_THROUGH + CACHE_DISABLE
     + ACCESSED + DIRTY + HUGE_PAGE + GLOBAL + NO_EXECUTE"

record bitflags_api =
  from_bits_truncate :: "usize \<Rightarrow> PageEntryFlags"
  flags_union :: "PageEntryFlags \<Rightarrow> PageEntryFlags \<Rightarrow> PageEntryFlags"
  flags_contains :: "PageEntryFlags \<Rightarrow> PageEntryFlags \<Rightarrow> bool"

locale bitflags =
  fixes B :: bitflags_api
  assumes truncate: "from_bits_truncate B b = b AND flags_all"
    and union: "flags_union B f g = f OR g"
    and contains: "flags_contains B f g \<longleftrightarrow> f AND g = g"

definition bit_flags :: bitflags_api where
  "bit_flags = \<lparr>from_bits_truncate = (\<lambda>b. b AND flags_all), flags_union = (OR),
     flags_contains = (\<lambda>f g. f AND g = g)\<rparr>"

interpretation bit_flags: bitflags bit_flags
  by unfold_locales (simp_all add: bit_flags_def)

section \<open>Entries\<close>

definition flags :: "bitflags_api \<Rightarrow> PageEntry \<Rightarrow> PageEntryFlags" where
  "flags B e = from_bits_truncate B e"

definition set_flags :: "bitflags_api \<Rightarrow> PageEntryFlags \<Rightarrow> PageEntry \<Rightarrow> PageEntry" where
  "set_flags B fl e = e OR flags_union B (flags B e) fl"

definition clear_all :: "PageEntry \<Rightarrow> PageEntry" where
  "clear_all e = 0"

definition set_frame_addr :: "bitflags_api \<Rightarrow> usize \<Rightarrow> PageEntry \<Rightarrow> PageEntry res" where
  "set_frame_addr B addr e =
     res_bind (debug_assert (addr AND 0xFFF = 0)) (\<lambda>_.
     res_bind (debug_assert (addr AND 0xFFFF000000000000 = 0)) (\<lambda>_.
     let fl = flags B e; e' = addr in Inr (set_flags B (flags_union B fl PRESENT) e')))"

definition get_frame_addr :: "bitflags_api \<Rightarrow> PageEntry \<Rightarrow> usize option" where
  "get_frame_addr B e =
     (if flags_contains B (flags B e) PRESENT then Some (e AND unot 0xFFF) else None)"

text \<open>The implementations of \<^verbatim>\<open>Display\<close> and \<^verbatim>\<open>LowerHex\<close>.\<close>

definition entry_display :: "PageEntry \<Rightarrow> string" where
  "entry_display e = fmt_dec e"

definition entry_lower_hex :: "PageEntry \<Rightarrow> string" where
  "entry_lower_hex e = fmt_hex_pad 16 e"

section \<open>Pages and indices\<close>

record Page =
  page_number :: usize

definition PAGE_SIZE :: usize where
  "PAGE_SIZE = 4096"

definition page_address :: "Page \<Rightarrow> usize res" where
  "page_address p = umul (page_number p) PAGE_SIZE"

definition page_from_address :: "usize \<Rightarrow> Page" where
  "page_from_address addr = \<lparr>page_number = addr div PAGE_SIZE\<rparr>"

definition page_from_number :: "usize \<Rightarrow> Page" where
  "page_from_number n = \<lparr>page_number = n\<rparr>"

definition level4_index :: "usize \<Rightarrow> usize" where
  "level4_index a = drop_bit 39 a AND 511"

definition level3_index :: "usize \<Rightarrow> usize" where
  "level3_index a = drop_bit 30 a AND 511"

definition level2_index :: "usize \<Rightarrow> usize" where
  "level2_index a = drop_bit 21 a AND 511"

definition level1_index :: "usize \<Rightarrow> usize" where
  "level1_index a = drop_bit 12 a AND 511"

definition offset :: "usize \<Rightarrow> usize" where
  "offset a = a AND 0xFFF"

lemmas index_defs = level4_index_def level3_index_def level2_index_def level1_index_def offset_def


section \<open>Bits of entries\<close>

text \<open>What the processor reads in an entry: bit 0, bit 7 and the frame in bits 12 to 51.\<close>

abbreviation present :: "PageEntry \<Rightarrow> bool" where
  "present e \<equiv> bit e 0"

abbreviation huge :: "PageEntry \<Rightarrow> bool" where
  "huge e \<equiv> bit e 7"

definition entry_frame :: "PageEntry \<Rightarrow> nat" where
  "entry_frame e = take_bit 40 (drop_bit 12 e)"

lemma bit_pow2_nat: "bit (2 ^ k :: nat) n \<longleftrightarrow> n = k"
  by (auto simp: bit_exp_iff)

lemma flags_all_eq: "flags_all = mask 9 OR 2 ^ 63"
  by (simp add: flags_all_def flag_defs mask_eq_exp_minus_1)

lemma bit_flags_all: "bit flags_all n \<longleftrightarrow> n < 9 \<or> n = 63"
  unfolding flags_all_eq bit_or_iff bit_pow2_nat by (simp add: bit_mask_iff)

lemma and_pow2_eq: "x AND 2 ^ k = (2 ^ k :: nat) \<longleftrightarrow> bit x k"
proof
  assume "x AND 2 ^ k = (2 ^ k :: nat)"
  then have "bit (x AND 2 ^ k) k" by (simp only: bit_pow2_nat)
  then show "bit x k" by (simp only: bit_and_iff)
next
  assume "bit x k"
  then show "x AND 2 ^ k = 2 ^ k"
    by (intro bit_eqI) (auto simp only: bit_and_iff bit_pow2_nat)
qed

lemma and_pow2_eq_numeral:
  "x AND 1 = (1 :: nat) \<longleftrightarrow> bit x 0" "x AND 2 = (2 :: nat) \<longleftrightarrow> bit x 1" "x AND 128 = (128 :: nat) \<longleftrightarrow> bit x 7"
  using and_pow2_eq [of x 0] and_pow2_eq [of x 1] and_pow2_eq [of x 7] by simp_all

lemma or_less_pow2:
  fixes a b :: nat
  assumes "a < 2 ^ n" and "b < 2 ^ n"
  shows "a OR b < 2 ^ n"
proof -
  have "take_bit n (a OR b) = a OR b"
    using assms by (simp add: take_bit_or take_bit_nat_eq_self)
  then show ?thesis by (metis take_bit_nat_less_exp)
qed

lemma and_less_pow2:
  fixes a b :: nat
  assumes "a < 2 ^ n"
  shows "a AND b < 2 ^ n"
proof -
  have "take_bit n (a AND b) = a AND b"
    using assms by (metis and.commute and.left_commute take_bit_eq_mask take_bit_nat_eq_self)
  then show ?thesis by (metis take_bit_nat_less_exp)
qed

lemma bit_mult_page: "bit (n * 4096 :: nat) j \<longleftrightarrow> 12 \<le> j \<and> bit n (j - 12)"
  using bit_push_bit_iff_nat [of 12 n j] by (simp add: push_bit_eq_mult)

lemma page_addr_masks:
  assumes "n < 2 ^ 36"
  shows "n * 4096 AND 0xFFF = 0" "n * 4096 AND 0xFFFF000000000000 = 0" "n * 4096 AND flags_all = 0"
proof -
  have n: "j < 36" if "bit n j" for j using nat_bit_bound [OF assms that] .
  show "n * 4096 AND 0xFFF = 0"
  proof (rule bit_eqI)
    fix j
    have "(0xFFF :: nat) = mask 12" by (simp add: mask_eq_exp_minus_1)
    then show "bit (n * 4096 AND 0xFFF) j \<longleftrightarrow> bit (0 :: nat) j"
      by (simp only: bit_and_iff bit_mult_page bit_mask_iff bit_0_eq) auto
  qed
  have "(0xFFFF000000000000 :: nat) = push_bit 48 (mask 16)"
    by (simp add: mask_eq_exp_minus_1 push_bit_eq_mult)
  then show "n * 4096 AND 0xFFFF000000000000 = 0"
    by (intro bit_eqI) (auto simp only: bit_and_iff bit_mult_page bit_push_bit_iff_nat bit_0_eq dest: n)
  show "n * 4096 AND flags_all = 0"
    by (intro bit_eqI) (auto simp: bit_and_iff bit_mult_page bit_flags_all dest: n)
qed

text \<open>The entry that \<^verbatim>\<open>set_frame_addr\<close> stores for frame \<open>n\<close> over the entry \<open>e\<close>.\<close>

definition frame_entry :: "nat \<Rightarrow> PageEntry \<Rightarrow> PageEntry" where
  "frame_entry n e = n * 4096 OR (e AND flags_all OR 1)"

lemma bit_frame_entry:
  "bit (frame_entry n e) j \<longleftrightarrow> 12 \<le> j \<and> bit n (j - 12) \<or> (j < 9 \<or> j = 63) \<and> bit e j \<or> j = 0"
  by (auto simp: frame_entry_def bit_or_iff bit_and_iff bit_mult_page bit_flags_all bit_Suc_0_iff)

lemma frame_entry_simps:
  assumes "n < 2 ^ 36"
  shows "present (frame_entry n e)" "huge (frame_entry n e) \<longleftrightarrow> huge e"
    "e < 2 ^ 48 \<Longrightarrow> frame_entry n e < 2 ^ 48" "e < 2 ^ 48 \<Longrightarrow> entry_frame (frame_entry n e) = n"
proof -
  have n: "j < 36" if "bit n j" for j using nat_bit_bound [OF assms that] .
  show "present (frame_entry n e)" "huge (frame_entry n e) \<longleftrightarrow> huge e" by (simp_all add: bit_frame_entry)
  show lt: "frame_entry n e < 2 ^ 48" if "e < 2 ^ 48"
    unfolding frame_entry_def using assms that by (intro or_less_pow2 and_less_pow2) simp_all
  show "entry_frame (frame_entry n e) = n" if "e < 2 ^ 48"
    using nat_bit_bound [OF that]
    by (intro bit_eqI) (auto simp: entry_frame_def bit_take_bit_iff bit_drop_bit_eq bit_frame_entry dest: n)
qed

lemma or_writable_simps:
  "present (e OR 2) \<longleftrightarrow> present e" "huge (e OR 2) \<longleftrightarrow> huge e" "entry_frame (e OR 2) = entry_frame e"
  "e < 2 ^ 48 \<Longrightarrow> e OR 2 < 2 ^ 48"
proof -
  have two: "bit (2 :: nat) n \<longleftrightarrow> n = 1" for n using bit_pow2_nat [of 1 n] by simp
  show "present (e OR 2) \<longleftrightarrow> present e" "huge (e OR 2) \<longleftrightarrow> huge e" by (simp_all add: bit_or_iff two)
  show "entry_frame (e OR 2) = entry_frame e"
    by (rule bit_eqI) (simp add: entry_frame_def bit_take_bit_iff bit_drop_bit_eq bit_or_iff two)
  show "e OR 2 < 2 ^ 48" if "e < 2 ^ 48" by (rule or_less_pow2 [OF that]) simp
qed

context bitflags
begin

lemma contains_PRESENT: "flags_contains B (flags B e) PRESENT \<longleftrightarrow> present e"
  and contains_HUGE_PAGE: "flags_contains B (flags B e) HUGE_PAGE \<longleftrightarrow> huge e"
  unfolding contains flags_def truncate PRESENT_def HUGE_PAGE_def and_pow2_eq_numeral bit_and_iff bit_flags_all
  by simp_all

lemma set_frame_addr_ok:
  "n < 2 ^ 36 \<Longrightarrow> set_frame_addr B (n * 4096) e = Inr (frame_entry n e)"
  using page_addr_masks [of n]
  by (simp add: set_frame_addr_def set_flags_def union flags_def truncate PRESENT_def frame_entry_def or.assoc)

lemma set_flags_WRITABLE: "set_flags B WRITABLE e = e OR 2"
proof -
  have "e OR (e AND flags_all) = e" by (rule bit_eqI) (auto simp: bit_or_iff bit_and_iff)
  then show ?thesis by (simp add: set_flags_def union flags_def truncate WRITABLE_def or.assoc [symmetric])
qed

lemma get_frame_addr_eq:
  assumes "e < 2 ^ 48"
  shows "get_frame_addr B e = (if present e then Some (entry_frame e * 4096) else None)"
proof -
  have "e AND unot (2 ^ 12 - 1) = e - e mod 2 ^ 12" using assms by (intro and_unot_mask) simp
  also have "\<dots> = entry_frame e * 4096"
  proof -
    have "e div 4096 < 2 ^ 40" using assms by (simp add: less_mult_imp_div_less)
    then show ?thesis
      by (simp add: entry_frame_def drop_bit_eq_div take_bit_nat_eq_self minus_mod_eq_div_mult)
  qed
  finally show ?thesis by (simp add: get_frame_addr_def contains_PRESENT)
qed

end

end
