(* ===== verification/Paging_Machine.thy ===== *)
theory Paging_Machine
  imports Paging_Entry
begin

text \<open>
  The machine the paging code runs on: register CR3, physical memory as 64-bit words per
  frame, and the address translation of the processor (four levels, pages of 4 KB, 2 MB and
  1 GB).  Every access of the kernel to a page table goes through this translation, since
  the tables are reached by virtual addresses.  A translation always walks the tables; a
  TLB is not part of the model.  The kernel runs with CR0.WP clear (see
  \<^verbatim>\<open>arch/x86_64/boot.asm\<close>), so supervisor writes do not need the flag \<^verbatim>\<open>WRITABLE\<close>.
\<close>

section \<open>Machine and translation\<close>

record machine =
  cr3 :: nat
  phys :: "nat \<Rightarrow> nat \<Rightarrow> usize"

definition mset :: "nat \<Rightarrow> nat \<Rightarrow> usize \<Rightarrow> machine \<Rightarrow> machine" where
  "mset f i v m = m\<lparr>phys := (phys m)(f := (phys m f)(i := v))\<rparr>"

lemma mset_simps [simp]:
  "cr3 (mset f i v m) = cr3 m"
  "phys (mset f i v m) t j = (if t = f \<and> j = i then v else phys m t j)"
  by (auto simp: mset_def)

definition canonical :: "usize \<Rightarrow> bool" where
  "canonical a \<longleftrightarrow> a < 2 ^ 47 \<or> 2 ^ 64 - 2 ^ 47 \<le> a \<and> a < 2 ^ 64"

definition indices :: "usize \<Rightarrow> nat list" where
  "indices a = [level4_index a, level3_index a, level2_index a, level1_index a]"

text \<open>
  The walk from table \<open>t\<close>: the frame of the last entry and the indices that were not
  needed, because an entry above the last level mapped a huge page.
\<close>

fun look :: "machine \<Rightarrow> nat \<Rightarrow> nat list \<Rightarrow> (nat \<times> nat list) option" where
  "look m t [] = None"
| "look m t (i # is) =
     (if \<not> present (phys m t i) then None
      else if is = [] \<or> huge (phys m t i) then Some (entry_frame (phys m t i), is)
      else look m (entry_frame (phys m t i)) is)"

definition page_frame :: "nat \<times> nat list \<Rightarrow> nat option" where
  "page_frame r =
     (case r of (f, []) \<Rightarrow> Some f
      | (f, [i1]) \<Rightarrow> Some (f div 512 * 512 + i1)
      | (f, [i2, i1]) \<Rightarrow> Some (f div 512 ^ 2 * 512 ^ 2 + i2 * 512 + i1)
      | _ \<Rightarrow> None)"

definition translate :: "machine \<Rightarrow> usize \<Rightarrow> (nat \<times> nat) option" where
  "translate m a =
     (if canonical a
      then map_option (\<lambda>f. (f, offset a)) (Option.bind (look m (cr3 m) (indices a)) page_frame)
      else None)"

section \<open>Access to table entries\<close>

text \<open>
  \<^verbatim>\<open>Index\<close> and \<^verbatim>\<open>IndexMut\<close> of \<^verbatim>\<open>Table\<close>: entry \<open>i\<close> of the table at the virtual address \<open>t\<close>,
  with the bounds check of the array.
\<close>

definition entry_read :: "machine \<Rightarrow> usize \<Rightarrow> usize \<Rightarrow> PageEntry res" where
  "entry_read m t i =
     (if i < 512 then
        (case translate m (t + 8 * i) of
           None \<Rightarrow> Inl PageFault
         | Some (f, ofs) \<Rightarrow> Inr (phys m f (ofs div 8)))
      else Inl IndexOutOfBounds)"

definition entry_write :: "usize \<Rightarrow> usize \<Rightarrow> PageEntry \<Rightarrow> machine \<Rightarrow> machine res" where
  "entry_write t i v m =
     (if i < 512 then
        (case translate m (t + 8 * i) of
           None \<Rightarrow> Inl PageFault
         | Some (f, ofs) \<Rightarrow> Inr (mset f (ofs div 8) v m))
      else Inl IndexOutOfBounds)"

section \<open>Virtual addresses from indices\<close>

definition mk_va :: "nat \<Rightarrow> nat \<Rightarrow> nat \<Rightarrow> nat \<Rightarrow> nat \<Rightarrow> nat" where
  "mk_va a b c d ofs =
     (if 256 \<le> a then 2 ^ 64 - 2 ^ 48 else 0) + (((a * 512 + b) * 512 + c) * 512 + d) * 4096 + ofs"

lemma and_511: "x AND 511 = (x :: nat) mod 512"
  using take_bit_eq_mask [of 9 x] by (simp add: take_bit_eq_mod mask_eq_exp_minus_1)

lemma and_4095: "x AND 4095 = (x :: nat) mod 4096"
  using take_bit_eq_mask [of 12 x] by (simp add: take_bit_eq_mod mask_eq_exp_minus_1)

lemma index_eqs:
  "level4_index x = x div 2 ^ 39 mod 512" "level3_index x = x div 2 ^ 30 mod 512"
  "level2_index x = x div 2 ^ 21 mod 512" "level1_index x = x div 2 ^ 12 mod 512"
  "offset x = x mod 4096"
  by (simp_all add: index_defs and_511 and_4095 drop_bit_eq_div)

lemma index_less [simp]:
  "level4_index x < 512" "level3_index x < 512" "level2_index x < 512" "level1_index x < 512"
  "offset x < 4096"
  by (simp_all add: index_eqs)

lemma radix_div: "r < n \<Longrightarrow> (q * n + r) div n = (q :: nat)"
  by (simp add: div_mult_self3)

lemma mod_split: "x = q * n + r \<Longrightarrow> r < n \<Longrightarrow> x mod n = (r :: nat)"
  by simp

lemma indices_radix:
  assumes "a < 512" "b < 512" "c < 512" "d < 512" "ofs < 4096"
    and va: "x = ((((s * 512 + a) * 512 + b) * 512 + c) * 512 + d) * 4096 + ofs"
  shows "indices x = [a, b, c, d]" and "offset x = ofs"
proof -
  have d12: "x div 4096 = (((s * 512 + a) * 512 + b) * 512 + c) * 512 + d"
    unfolding va by (rule radix_div [OF assms(5)])
  have d21: "x div 4096 div 512 = ((s * 512 + a) * 512 + b) * 512 + c"
    unfolding d12 by (rule radix_div [OF assms(4)])
  have d30: "x div 4096 div 512 div 512 = (s * 512 + a) * 512 + b"
    unfolding d21 by (rule radix_div [OF assms(3)])
  have d39: "x div 4096 div 512 div 512 div 512 = s * 512 + a"
    unfolding d30 by (rule radix_div [OF assms(2)])
  have mod: "(q * 512 + r) mod 512 = r" if "r < 512" for q r :: nat using that by simp
  have div39: "x div 2 ^ 39 = x div 4096 div 512 div 512 div 512"
    and div30: "x div 2 ^ 30 = x div 4096 div 512 div 512"
    and div21: "x div 2 ^ 21 = x div 4096 div 512" and div12: "x div 2 ^ 12 = x div 4096"
    by (simp_all add: div_mult2_eq [symmetric])
  show "indices x = [a, b, c, d]"
    unfolding indices_def index_eqs trans [OF div39 d39] trans [OF div30 d30] trans [OF div21 d21]
      trans [OF div12 d12] mod [OF assms(1)] mod [OF assms(2)] mod [OF assms(3)] mod [OF assms(4)] ..
  show "offset x = ofs" unfolding index_eqs by (rule mod_split [OF va assms(5)])
qed

lemma mk_va_indices:
  assumes "a < 512" "b < 512" "c < 512" "d < 512" "ofs < 4096"
  shows "indices (mk_va a b c d ofs) = [a, b, c, d]" and "offset (mk_va a b c d ofs) = ofs"
    and "canonical (mk_va a b c d ofs)" and "mk_va a b c d ofs < 2 ^ 64"
proof -
  let ?x = "mk_va a b c d ofs"
  have va: "?x = (((((if 256 \<le> a then 2 ^ 16 - 1 else 0) * 512 + a) * 512 + b) * 512 + c) * 512 + d) * 4096 + ofs"
    by (simp add: mk_va_def)
  show "indices ?x = [a, b, c, d]" "offset ?x = ofs" using indices_radix [OF assms va] by simp_all
  have body: "(((a * 512 + b) * 512 + c) * 512 + d) * 4096 + ofs < (a + 1) * 2 ^ 39"
    using assms by simp
  show "?x < 2 ^ 64" using body assms(1) by (simp add: mk_va_def)
  show "canonical ?x"
  proof (cases "256 \<le> a")
    case True
    then show ?thesis using assms by (auto simp: canonical_def mk_va_def)
  next
    case False
    then show ?thesis using body by (auto simp: canonical_def mk_va_def)
  qed
qed

lemma mk_va_entry: "mk_va a b c d 0 + k = mk_va a b c d k"
  by (simp add: mk_va_def)

lemma or_disjoint_add:
  fixes a b :: nat
  assumes "2 ^ n dvd a" and "b < 2 ^ n"
  shows "a OR b = a + b"
proof -
  have "take_bit n a = 0" using assms(1) by (simp add: take_bit_eq_mod)
  then have "a AND b = 0"
    using assms by (intro bit_eqI) (auto simp: bit_and_iff dest: nat_bit_bound dvd_pow2_bit)
  then show ?thesis by (simp add: disjunctive_add_eq_or)
qed


text \<open>
  The address arithmetic of \<^verbatim>\<open>next_level_table_address\<close> on an address in the recursive
  region: the indices move up by one level, and the new index becomes the last one.
\<close>

lemma next_va:
  assumes "c < 512" "d < 512" "i < 512"
  shows "take_bit 64 (push_bit 9 (mk_va 511 511 c d 0)) OR take_bit 64 (push_bit 12 i) = mk_va 511 c d i 0"
proof -
  have "take_bit 64 (push_bit 9 (mk_va 511 511 c d 0)) = mk_va 511 c d 0 0"
    unfolding take_bit_eq_mod push_bit_eq_mult
    by (rule mod_split [of _ 511]) (use assms in \<open>simp_all add: mk_va_def\<close>)
  moreover have "take_bit 64 (push_bit 12 i) = i * 4096"
    using assms(3) by (simp add: take_bit_nat_eq_self push_bit_eq_mult)
  moreover have "2 ^ 21 dvd mk_va 511 c d 0 0" by (simp add: mk_va_def)
  ultimately show ?thesis
    using or_disjoint_add [of 21 "mk_va 511 c d 0 0" "i * 4096"] assms(3) by (simp add: mk_va_def)
qed

lemma level4_table_va: "0xfffffffffffff000 = mk_va 511 511 511 511 0"
  by (simp add: mk_va_def)

section \<open>Tables behind virtual addresses\<close>

text \<open>\<open>shows_table m t f\<close>: the virtual address \<open>t\<close> shows the table in frame \<open>f\<close>.\<close>

definition shows_table :: "machine \<Rightarrow> usize \<Rightarrow> nat \<Rightarrow> bool" where
  "shows_table m t f \<longleftrightarrow> (\<forall>i < 512. translate m (t + 8 * i) = Some (f, 8 * i))"

lemma entry_access:
  assumes "shows_table m t f" and "i < 512"
  shows "entry_read m t i = Inr (phys m f i)" and "entry_write t i v m = Inr (mset f i v m)"
  using assms by (simp_all add: shows_table_def entry_read_def entry_write_def)

lemma look_shows_table:
  assumes "look m (cr3 m) [a, b, c, d] = Some (f, [])" and "a < 512" "b < 512" "c < 512" "d < 512"
  shows "shows_table m (mk_va a b c d 0) f"
  using assms mk_va_indices [OF assms(2-5)]
  by (simp add: shows_table_def mk_va_entry translate_def page_frame_def del: look.simps)

text \<open>A walk through tables: every entry on the way is present and not a huge page.\<close>

fun walk :: "machine \<Rightarrow> nat \<Rightarrow> nat list \<Rightarrow> nat option" where
  "walk m t [] = Some t"
| "walk m t (i # is) =
     (if present (phys m t i) \<and> \<not> huge (phys m t i) then walk m (entry_frame (phys m t i)) is else None)"

fun slots :: "machine \<Rightarrow> nat \<Rightarrow> nat list \<Rightarrow> (nat \<times> nat) set" where
  "slots m t [] = {}"
| "slots m t (i # is) = insert (t, i) (slots m (entry_frame (phys m t i)) is)"

lemma walk_append: "walk m t (is @ js) = Option.bind (walk m t is) (\<lambda>f. walk m f js)"
  by (induction "is" arbitrary: t) auto

lemma walk_slots_present: "walk m t is = Some f \<Longrightarrow> (u, i) \<in> slots m t is \<Longrightarrow> present (phys m u i) \<and> \<not> huge (phys m u i)"
  by (induction "is" arbitrary: t) (auto split: if_splits)

lemma slots_cong:
  assumes "\<And>u i. (u, i) \<in> slots m t is \<Longrightarrow> phys m' u i = phys m u i"
  shows "walk m' t is = walk m t is" and "slots m' t is = slots m t is" and "look m' t is = look m t is"
  using assms by (induction "is" arbitrary: t) auto

lemma look_walk: "walk m t is = Some f \<Longrightarrow> is \<noteq> [] \<Longrightarrow> look m t is = Some (f, [])"
  by (induction "is" arbitrary: t) (auto split: if_splits)

lemma look_append: "walk m t is = Some f \<Longrightarrow> js \<noteq> [] \<Longrightarrow> look m t (is @ js) = look m f js"
  by (induction "is" arbitrary: t) (auto split: if_splits)

text \<open>
  The recursive mapping: the last entry of the active level-4 table leads to the table \<open>G\<close>,
  whose own last entry leads to itself.  Then the table at the end of a walk from \<open>G\<close> is at
  a fixed virtual address.
\<close>

definition links_to :: "machine \<Rightarrow> nat \<Rightarrow> nat \<Rightarrow> nat \<Rightarrow> bool" where
  "links_to m t i f \<longleftrightarrow> present (phys m t i) \<and> \<not> huge (phys m t i) \<and> entry_frame (phys m t i) = f"

definition rec_root :: "machine \<Rightarrow> nat \<Rightarrow> bool" where
  "rec_root m G \<longleftrightarrow> links_to m (cr3 m) 511 G \<and> links_to m G 511 G"

fun table_va :: "nat list \<Rightarrow> usize" where
  "table_va [] = mk_va 511 511 511 511 0"
| "table_va [a] = mk_va 511 511 511 a 0"
| "table_va [a, b] = mk_va 511 511 a b 0"
| "table_va (a # b # c # _) = mk_va 511 a b c 0"

lemma rec_root_shows:
  assumes "rec_root m G" and "walk m G is = Some f" and "length is \<le> 3" and "\<forall>i \<in> set is. i < 512"
  shows "shows_table m (table_va is) f"
proof -
  have C: "walk m (cr3 m) (511 # js) = walk m G js" and G: "walk m G (511 # js) = walk m G js" for js
    using assms(1) by (simp_all add: rec_root_def links_to_def)
  consider "is = []" | a where "is = [a]" | a b where "is = [a, b]" | a b c where "is = [a, b, c]"
    using assms(3) by (auto simp: length_Suc_conv le_Suc_eq numeral_3_eq_3)
  then show ?thesis
  proof cases
    case 1
    have "walk m (cr3 m) [511, 511, 511, 511] = Some f" using assms(2) unfolding 1 C G .
    from look_walk [OF this] show ?thesis unfolding 1 table_va.simps by (rule look_shows_table) simp_all
  next
    case (2 a)
    have "walk m (cr3 m) [511, 511, 511, a] = Some f" using assms(2) unfolding 2 C G .
    from look_walk [OF this] assms(4) show ?thesis unfolding 2 table_va.simps by (intro look_shows_table) auto
  next
    case (3 a b)
    have "walk m (cr3 m) [511, 511, a, b] = Some f" using assms(2) unfolding 3 C G .
    from look_walk [OF this] assms(4) show ?thesis unfolding 3 table_va.simps by (intro look_shows_table) auto
  next
    case (4 a b c)
    have "walk m (cr3 m) [511, a, b, c] = Some f" using assms(2) unfolding 4 C .
    from look_walk [OF this] assms(4) show ?thesis unfolding 4 table_va.simps by (intro look_shows_table) auto
  qed
qed

end
