(* ===== verification/Address.thy ===== *)
theory Address
  imports Alignment
begin

text \<open>
  \<^verbatim>\<open>src/memory/address.rs\<close>: the kernel's addresses and the translation between physical
  addresses and their image in the kernel's half of the address space.

  The linker script defines the symbols; they are a parameter \<open>K\<close>, a record of their
  addresses.  \<^verbatim>\<open>CURRENT_KERNEL_ADDR_PHYSICAL_END\<close> is a \<^verbatim>\<open>lazy_static\<close>: the state \<open>None\<close> is
  "not initialised yet", and the first access stores the linker's value.
\<close>

section \<open>Operations\<close>

type_synonym PhysicalAddress = usize
type_synonym VirtualAddress = usize

record kernel_symbols =
  KERNEL_ADDR_PHYSICAL_BEGIN :: usize
  KERNEL_ADDR_PHYSICAL_END :: usize
  KERNEL_ADDR_VIRTUAL_BEGIN :: usize
  KERNEL_ADDR_BSS_BEGIN :: usize
  KERNEL_ADDR_VIRTUAL_OFFSET :: usize
  KERNEL_SIZE_BSS :: usize

type_synonym kernel_end = "usize option"

definition kernel_addr_begin_virtual :: "kernel_symbols \<Rightarrow> VirtualAddress" where
  "kernel_addr_begin_virtual K = KERNEL_ADDR_VIRTUAL_BEGIN K"

definition kernel_addr_begin_physical :: "kernel_symbols \<Rightarrow> PhysicalAddress" where
  "kernel_addr_begin_physical K = KERNEL_ADDR_PHYSICAL_BEGIN K"

definition kernel_addr_end_physical :: "kernel_symbols \<Rightarrow> kernel_end \<Rightarrow> PhysicalAddress \<times> kernel_end" where
  "kernel_addr_end_physical K cur =
     (case cur of None \<Rightarrow> (KERNEL_ADDR_PHYSICAL_END K, Some (KERNEL_ADDR_PHYSICAL_END K))
      | Some e \<Rightarrow> (e, Some e))"

definition to_physical_addr :: "kernel_symbols \<Rightarrow> VirtualAddress \<Rightarrow> PhysicalAddress res" where
  "to_physical_addr K v = usub v (KERNEL_ADDR_VIRTUAL_OFFSET K)"

definition to_virtual_addr :: "kernel_symbols \<Rightarrow> PhysicalAddress \<Rightarrow> VirtualAddress res" where
  "to_virtual_addr K p = uadd p (KERNEL_ADDR_VIRTUAL_OFFSET K)"

definition kernel_addr_end_virtual :: "kernel_symbols \<Rightarrow> kernel_end \<Rightarrow> (VirtualAddress \<times> kernel_end) res" where
  "kernel_addr_end_virtual K cur =
     (let (e, cur') = kernel_addr_end_physical K cur in
      res_bind (to_virtual_addr K e) (\<lambda>v. Inr (v, cur')))"

definition update_kernel_addr_end_physical :: "PhysicalAddress \<Rightarrow> kernel_end \<Rightarrow> kernel_end" where
  "update_kernel_addr_end_physical new_addr cur = Some new_addr"

definition kernel_bss_section_addr_begin :: "kernel_symbols \<Rightarrow> VirtualAddress" where
  "kernel_bss_section_addr_begin K = KERNEL_ADDR_BSS_BEGIN K"

definition kernel_bss_section_size :: "kernel_symbols \<Rightarrow> usize" where
  "kernel_bss_section_size K = KERNEL_SIZE_BSS K"

text \<open>
  \<^verbatim>\<open>clean_bss_section\<close> of \<^verbatim>\<open>src/memory.rs\<close>.  \<^verbatim>\<open>rlibc::memset(s, c, n)\<close> is a parameter that
  acts on the memory, a function from addresses to bytes.
\<close>

type_synonym bytes_mem = "usize \<Rightarrow> u8"

definition clean_bss_section ::
  "(usize \<Rightarrow> 32 word \<Rightarrow> usize \<Rightarrow> bytes_mem \<Rightarrow> bytes_mem) \<Rightarrow> kernel_symbols \<Rightarrow> bytes_mem \<Rightarrow> bytes_mem" where
  "clean_bss_section memset K m =
     (let begin = kernel_bss_section_addr_begin K;
          size = word_of_nat (kernel_bss_section_size K) :: 32 word
      in memset begin size 0 m)"

section \<open>Lemmas\<close>

lemma to_physical_to_virtual:
  "to_virtual_addr K p = Inr v \<Longrightarrow> to_physical_addr K v = Inr p"
  by (auto simp: to_virtual_addr_def to_physical_addr_def res_simps)

lemma to_virtual_to_physical:
  "v < 2 ^ 64 \<Longrightarrow> to_physical_addr K v = Inr p \<Longrightarrow> to_virtual_addr K p = Inr v"
  by (auto simp: to_virtual_addr_def to_physical_addr_def res_simps)

lemma to_physical_aligned:
  assumes "n dvd KERNEL_ADDR_VIRTUAL_OFFSET K" and "n dvd v" and "to_physical_addr K v = Inr p"
  shows "n dvd p"
  using assms by (auto simp: to_physical_addr_def res_simps)

section \<open>Properties\<close>

text \<open>
  The two translations are inverse to each other wherever they do not panic, on the
  whole range of 64-bit addresses.
\<close>

theorem address_translation_roundtrip:
  assumes "v < 2 ^ 64"
  shows "to_virtual_addr K p = Inr v \<longleftrightarrow> to_physical_addr K v = Inr p"
  using to_physical_to_virtual to_virtual_to_physical [OF assms] by blast

theorem address_translation_roundtrip_witness:
  "to_physical_addr \<lparr>KERNEL_ADDR_PHYSICAL_BEGIN = 0x100000, KERNEL_ADDR_PHYSICAL_END = 0x200000,
      KERNEL_ADDR_VIRTUAL_BEGIN = 0xFFFF800000100000, KERNEL_ADDR_BSS_BEGIN = 0xFFFF800000150000,
      KERNEL_ADDR_VIRTUAL_OFFSET = 0xFFFF800000000000, KERNEL_SIZE_BSS = 0x1000\<rparr> 0xFFFF800000123456
     = Inr 0x123456"
  by (subst address_translation_roundtrip [symmetric]) (simp_all add: to_virtual_addr_def)

text \<open>
  C38. \<^verbatim>\<open>clean_bss_section\<close> passes the size as the byte value and 0 as the length: with a
  \<^verbatim>\<open>memset\<close> that writes its second argument to the \<open>n\<close> bytes from its first argument on,
  no byte of the section is changed.
\<close>

theorem clean_bss_section_is_noop:
  assumes "\<And>s c n m a. memset s c n m a = (if s \<le> a \<and> a < s + n then ucast c else m a)"
  shows "clean_bss_section memset K m = m"
  by (rule ext) (auto simp: clean_bss_section_def assms)

theorem clean_bss_section_is_noop_witness:
  "clean_bss_section (\<lambda>s c n m a. if s \<le> a \<and> a < s + n then ucast c else m a)
     \<lparr>KERNEL_ADDR_PHYSICAL_BEGIN = 0x100000, KERNEL_ADDR_PHYSICAL_END = 0x200000,
      KERNEL_ADDR_VIRTUAL_BEGIN = 0x100000, KERNEL_ADDR_BSS_BEGIN = 0x150000,
      KERNEL_ADDR_VIRTUAL_OFFSET = 0, KERNEL_SIZE_BSS = 16\<rparr> (\<lambda>_. 7) 0x150003 = 7"
  by (subst clean_bss_section_is_noop) simp_all

end
