(* ===== verification/Paging_Table.thy ===== *)
theory Paging_Table
  imports Paging_Machine Address
begin

text \<open>
  \<^verbatim>\<open>src/memory/paging/table.rs\<close> and \<^verbatim>\<open>src/memory/paging.rs\<close>: the page tables reached through
  the recursive mapping, and the construction of the kernel's page table.

  A \<^verbatim>\<open>&mut Table\<close> is the virtual address of the table.  The operations take the machine and
  the allocator's state and return both; \<^verbatim>\<open>&mut dyn FrameAllocator\<close> and the methods of the
  \<^verbatim>\<open>bitflags\<close> crate are the fields of the parameter \<open>E\<close>.  The outer sum holds panics and
  page faults, the inner one Rust's \<^verbatim>\<open>Result\<close>.
\<close>

section \<open>Types\<close>

datatype PageTableError = NoPageTable | AlreadyMapped | NoEntry

fun page_table_error_display :: "PageTableError \<Rightarrow> string" where
  "page_table_error_display NoPageTable = ''No page table''"
| "page_table_error_display AlreadyMapped = ''Already mapped page''"
| "page_table_error_display NoEntry = ''There is no page table entry''"

record 'a paging_env =
  pe_flags :: bitflags_api
  pe_alloc :: "'a \<Rightarrow> (Frame option \<times> 'a) res"
  pe_free :: "'a \<Rightarrow> Frame \<Rightarrow> 'a res"

type_synonym 'a pstate = "machine \<times> 'a"

definition LEVEL4_PAGE_TABLE :: usize where
  "LEVEL4_PAGE_TABLE = 0xfffffffffffff000"

definition MAX_ENTRY_COUNT :: usize where
  "MAX_ENTRY_COUNT = 512"

section \<open>Table\<close>

definition entry_update :: "usize \<Rightarrow> usize \<Rightarrow> (PageEntry \<Rightarrow> PageEntry res) \<Rightarrow> machine \<Rightarrow> machine res" where
  "entry_update t i g m =
     res_bind (entry_read m t i) (\<lambda>e. res_bind (g e) (\<lambda>e'. entry_write t i e' m))"

fun clear_entries :: "usize \<Rightarrow> usize list \<Rightarrow> machine \<Rightarrow> machine res" where
  "clear_entries t [] m = Inr m"
| "clear_entries t (i # is) m =
     res_bind (entry_update t i (\<lambda>e. Inr (clear_all e)) m) (\<lambda>m'. clear_entries t is m')"

definition clear_all_entries :: "usize \<Rightarrow> machine \<Rightarrow> machine res" where
  "clear_all_entries t m = clear_entries t [0..<MAX_ENTRY_COUNT] m"

fun find_free_loop ::
  "bitflags_api \<Rightarrow> usize \<Rightarrow> machine \<Rightarrow> usize \<Rightarrow> usize list \<Rightarrow> usize option \<Rightarrow> usize \<Rightarrow> usize option res" where
  "find_free_loop B count m t [] index c = Inr None"
| "find_free_loop B count m t (i # is) index c =
     res_bind (entry_read m t i) (\<lambda>e.
     if \<not> flags_contains B (flags B e) PRESENT then
       let index' = (if index = None then Some i else index) in
       res_bind (usub c 1) (\<lambda>c'.
       if c' = 0 then Inr index' else find_free_loop B count m t is index' c')
     else find_free_loop B count m t is index count)"

definition find_free_entry_index_with :: "bitflags_api \<Rightarrow> usize \<Rightarrow> machine \<Rightarrow> usize \<Rightarrow> usize option res" where
  "find_free_entry_index_with B count m t = find_free_loop B count m t [1..<512] None count"

definition find_free_entry_index :: "bitflags_api \<Rightarrow> machine \<Rightarrow> usize \<Rightarrow> usize option res" where
  "find_free_entry_index B m t = find_free_entry_index_with B 1 m t"

definition next_level_table_address :: "bitflags_api \<Rightarrow> machine \<Rightarrow> usize \<Rightarrow> usize \<Rightarrow> usize option res" where
  "next_level_table_address B m t index =
     res_bind (entry_read m t index) (\<lambda>e.
     let fl = flags B e in
     if flags_contains B fl PRESENT \<and> \<not> flags_contains B fl HUGE_PAGE
     then res_bind (ushl t 9) (\<lambda>x. res_bind (ushl index 12) (\<lambda>y. Inr (Some (x OR y))))
     else Inr None)"

definition next_level_table_mut :: "bitflags_api \<Rightarrow> machine \<Rightarrow> usize \<Rightarrow> usize \<Rightarrow> usize option res" where
  "next_level_table_mut B m t index = next_level_table_address B m t index"

definition next_level_table_create_mut ::
  "'a paging_env \<Rightarrow> usize \<Rightarrow> usize \<Rightarrow> 'a pstate \<Rightarrow> (usize option \<times> 'a pstate) res" where
  "next_level_table_create_mut E t index st =
     (let B = pe_flags E; (m, a) = st in
      res_bind (next_level_table_mut B m t index) (\<lambda>r.
      if r \<noteq> None then res_bind (next_level_table_mut B m t index) (\<lambda>r'. Inr (r', (m, a)))
      else
        res_bind (pe_alloc E a) (\<lambda>(fo, a').
        case fo of
          Some frame \<Rightarrow>
            res_bind (frame_address frame) (\<lambda>addr.
            res_bind (entry_update t index (set_frame_addr B addr) m) (\<lambda>m1.
            res_bind (next_level_table_mut B m1 t index) (\<lambda>r1.
            case r1 of
              Some table \<Rightarrow>
                res_bind (clear_all_entries table m1) (\<lambda>m2.
                res_bind (frame_address frame) (\<lambda>addr'.
                res_bind (entry_update table 511 (set_frame_addr B addr') m2) (\<lambda>m3.
                res_bind (entry_update table 511 (\<lambda>e. Inr (set_flags B WRITABLE e)) m3) (\<lambda>m4.
                Inr (Some table, (m4, a'))))))
            | None \<Rightarrow> Inl DebugAssertFailed)))
        | None \<Rightarrow> Inr (None, (m, a')))))"

text \<open>\<^verbatim>\<open>Option::and_then\<close> with a step that can panic and changes the state.\<close>

definition and_then ::
  "('b option \<times> 's) res \<Rightarrow> ('b \<Rightarrow> 's \<Rightarrow> ('c option \<times> 's) res) \<Rightarrow> ('c option \<times> 's) res" where
  "and_then r f = res_bind r (\<lambda>(t, st). case t of None \<Rightarrow> Inr (None, st) | Some x \<Rightarrow> f x st)"

section \<open>ActivePageTable\<close>

definition map_page ::
  "'a paging_env \<Rightarrow> Page \<Rightarrow> Frame \<Rightarrow> 'a pstate \<Rightarrow> ((PageTableError + unit) \<times> 'a pstate) res" where
  "map_page E page frame st =
     res_bind (page_address page) (\<lambda>page_addr.
     res_bind (frame_address frame) (\<lambda>frame_addr.
     res_bind
       (and_then
         (and_then
           (next_level_table_create_mut E LEVEL4_PAGE_TABLE (level4_index page_addr) st)
           (\<lambda>t. next_level_table_create_mut E t (level3_index page_addr)))
         (\<lambda>t. next_level_table_create_mut E t (level2_index page_addr)))
     (\<lambda>(table, (m, a)).
     case table of
       Some t \<Rightarrow>
         res_bind (entry_read m t (level1_index page_addr)) (\<lambda>e.
         if \<not> flags_contains (pe_flags E) (flags (pe_flags E) e) PRESENT then
           res_bind (entry_update t (level1_index page_addr) (set_frame_addr (pe_flags E) frame_addr) m)
             (\<lambda>m'. Inr (Inr (), (m', a)))
         else Inr (Inl AlreadyMapped, (m, a)))
     | None \<Rightarrow> Inr (Inl NoPageTable, (m, a)))))"

text \<open>The loop over the 4 KB pages of \<^verbatim>\<open>map_fitting\<close>, with its running offset.\<close>

fun map_fitting_loop ::
  "'a paging_env \<Rightarrow> usize \<Rightarrow> usize \<Rightarrow> nat \<Rightarrow> usize \<Rightarrow> 'a pstate \<Rightarrow> ((PageTableError + unit) \<times> 'a pstate) res" where
  "map_fitting_loop E v_begin p_begin 0 ofs st = Inr (Inr (), st)"
| "map_fitting_loop E v_begin p_begin (Suc n) ofs st =
     res_bind (uadd v_begin ofs) (\<lambda>va.
     res_bind (uadd p_begin ofs) (\<lambda>pa.
     res_bind (map_page E (page_from_address va) (frame_from_address pa) st) (\<lambda>(r, st').
     case r of
       Inl e \<Rightarrow> Inr (Inl e, st')
     | Inr u \<Rightarrow> res_bind (uadd ofs 4096) (\<lambda>ofs'. map_fitting_loop E v_begin p_begin n ofs' st'))))"

definition map_fitting ::
  "'a paging_env \<Rightarrow> usize \<times> usize \<Rightarrow> usize \<times> usize \<Rightarrow> 'a pstate \<Rightarrow> ((PageTableError + unit) \<times> 'a pstate) res" where
  "map_fitting E v_range p_range st =
     (let (v_begin, v_end) = v_range; (p_begin, p_end) = p_range in
      res_bind (usub v_end v_begin) (\<lambda>vs.
      res_bind (usub p_end p_begin) (\<lambda>ps.
      res_bind (debug_assert (vs = ps)) (\<lambda>_.
      let size = vs;
          count_2mb = size div (2 * 1024 * 1024);
          count_4kb = (size - count_2mb * 2 * 1024 * 1024) div 4096
      in if 0 < count_2mb then Inl Unimplemented
         else map_fitting_loop E v_begin p_begin count_4kb 0 st))))"

definition find_empty_pages ::
  "'a paging_env \<Rightarrow> usize \<Rightarrow> 'a pstate \<Rightarrow> (Page option \<times> 'a pstate) res" where
  "find_empty_pages E count st =
     (let B = pe_flags E;
          free = (\<lambda>t st. res_bind (find_free_entry_index B (fst st) t) (\<lambda>i. Inr (i, st)))
      in
      and_then (free LEVEL4_PAGE_TABLE st) (\<lambda>i4 st.
      and_then (next_level_table_create_mut E LEVEL4_PAGE_TABLE i4 st) (\<lambda>t3 st.
      and_then (free t3 st) (\<lambda>i3 st.
      and_then (next_level_table_create_mut E t3 i3 st) (\<lambda>t2 st.
      and_then (free t2 st) (\<lambda>i2 st.
      and_then (next_level_table_create_mut E t2 i2 st) (\<lambda>t1 st.
      res_bind (find_free_entry_index_with B count (fst st) t1) (\<lambda>i1.
      Inr (map_option (\<lambda>i1. page_from_number (i4 * 512 * 512 * 512 + i3 * 512 * 512 + i2 * 512 + i1)) i1, st)))))))))"

definition find_empty_page :: "'a paging_env \<Rightarrow> 'a pstate \<Rightarrow> (Page option \<times> 'a pstate) res" where
  "find_empty_page E st = find_empty_pages E 1 st"

fun auto_map_loop ::
  "'a paging_env \<Rightarrow> Page \<Rightarrow> Frame \<Rightarrow> usize list \<Rightarrow> 'a pstate \<Rightarrow> 'a pstate res" where
  "auto_map_loop E page frame [] st = Inr st"
| "auto_map_loop E page frame (i # is) st =
     res_bind (frame_address frame) (\<lambda>fa.
     res_bind (umul i SIZE) (\<lambda>fo.
     res_bind (uadd fa fo) (\<lambda>faddr.
     res_bind (page_address page) (\<lambda>pa.
     res_bind (umul i PAGE_SIZE) (\<lambda>po.
     res_bind (uadd pa po) (\<lambda>paddr.
     res_bind (map_page E (page_from_address paddr) (frame_from_address faddr) st) (\<lambda>(r, st').
     case r of
       Inl e \<Rightarrow> Inl (ExplicitPanic ''FIXME'')
     | Inr u \<Rightarrow> auto_map_loop E page frame is st')))))))"

definition auto_continuous_map ::
  "'a paging_env \<Rightarrow> Frame \<Rightarrow> 'a pstate \<Rightarrow> ((usize \<times> usize) option \<times> 'a pstate) res" where
  "auto_continuous_map E frame st =
     res_bind (ushl 1 (order frame)) (\<lambda>frame_count.
     res_bind (umul frame_count SIZE) (\<lambda>size.
     and_then (find_empty_pages E frame_count st) (\<lambda>page st1.
     res_bind (auto_map_loop E page frame [0..<frame_count] st1) (\<lambda>st2.
     res_bind (page_address page) (\<lambda>addr.
     res_bind (uadd addr size) (\<lambda>addr_end.
     Inr (Some (addr, addr_end), st2)))))))"

definition unmap ::
  "'a paging_env \<Rightarrow> Page \<Rightarrow> 'a pstate \<Rightarrow> ((PageTableError + unit) \<times> 'a pstate) res" where
  "unmap E page st =
     (let B = pe_flags E; (m, a) = st;
          nxt = (\<lambda>t i. res_bind (next_level_table_mut B m t i) (\<lambda>r. Inr (r, ())))
      in
      res_bind (page_address page) (\<lambda>addr.
      res_bind
        (and_then
          (and_then (nxt LEVEL4_PAGE_TABLE (level4_index addr)) (\<lambda>t _. nxt t (level3_index addr)))
          (\<lambda>t _. nxt t (level2_index addr)))
      (\<lambda>(table, _).
      case table of
        None \<Rightarrow> Inr (Inl NoEntry, (m, a))
      | Some t \<Rightarrow>
          res_bind (entry_read m t (level1_index addr)) (\<lambda>e.
          case get_frame_addr B e of
            None \<Rightarrow> Inr (Inl NoEntry, (m, a))
          | Some faddr \<Rightarrow>
              res_bind (pe_free E a (frame_from_address faddr)) (\<lambda>a'.
              res_bind (entry_update t (level1_index addr) (\<lambda>e. Inr (clear_all e)) m) (\<lambda>m'.
              Inr (Inr (), (m', a'))))))))"

end
