(* ===== verification/Paging_Boot.thy ===== *)
theory Paging_Boot
  imports Paging_Table
begin

text \<open>
  Building and activating a page table: \<^verbatim>\<open>InActivePageTable\<close>, \<^verbatim>\<open>ActivePageTable::with\<close> and
  \<^verbatim>\<open>switch\<close> of \<^verbatim>\<open>table.rs\<close>, and \<^verbatim>\<open>runtime_test\<close> and \<^verbatim>\<open>init\<close> of \<^verbatim>\<open>src/memory/paging.rs\<close>.

  Register CR3 is read and written through the crate \<^verbatim>\<open>x86_64\<close>; in the model it is the field
  \<open>cr3\<close>.  Flushing the TLB has no effect on a machine that always walks the tables.
\<close>

section \<open>Inactive tables\<close>

record InActivePageTable =
  level4_page_table :: Frame

definition inactive_new ::
  "'a paging_env \<Rightarrow> 'a pstate \<Rightarrow> (InActivePageTable option \<times> 'a pstate) res" where
  "inactive_new E st =
     (let B = pe_flags E; (m, a) = st in
      res_bind (pe_alloc E a) (\<lambda>(fo, a').
      case fo of
        None \<Rightarrow> Inr (None, (m, a'))
      | Some frame \<Rightarrow>
          res_bind (find_empty_page E (m, a')) (\<lambda>(po, st1).
          case po of
            None \<Rightarrow> Inl UnwrapNone
          | Some p \<Rightarrow>
              res_bind (map_page E p (frame_clone frame) st1) (\<lambda>(r, (m2, a2)).
              case r of
                Inl e \<Rightarrow> Inl UnwrapErr
              | Inr _ \<Rightarrow>
                  res_bind (page_address p) (\<lambda>table.
                  res_bind (clear_all_entries table m2) (\<lambda>m3.
                  res_bind (frame_address frame) (\<lambda>addr.
                  res_bind (entry_update table 511 (set_frame_addr B addr) m3) (\<lambda>m4.
                  res_bind (entry_update table 511 (\<lambda>e. Inr (set_flags B WRITABLE e)) m4) (\<lambda>m5.
                  Inr (Some \<lparr>level4_page_table = frame\<rparr>, (m5, a2)))))))))))"

text \<open>\<^verbatim>\<open>with\<close>: the recursive entry leads to the inactive table while the closure \<open>f\<close> runs.\<close>

definition with_table ::
  "'a paging_env \<Rightarrow> InActivePageTable \<Rightarrow> ('a pstate \<Rightarrow> ((PageTableError + unit) \<times> 'a pstate) res) \<Rightarrow>
     'a pstate \<Rightarrow> ((PageTableError + unit) \<times> 'a pstate) res" where
  "with_table E ia f st =
     (let B = pe_flags E; addr = cr3 (fst st) * SIZE in
      res_bind (find_empty_page E st) (\<lambda>(po, st1).
      case po of
        None \<Rightarrow> Inr (Inl NoEntry, st1)
      | Some page \<Rightarrow>
          res_bind (map_page E page (frame_from_address addr) st1) (\<lambda>(r, (m2, a2)).
          case r of
            Inl e \<Rightarrow> Inr (Inl e, (m2, a2))
          | Inr _ \<Rightarrow>
              res_bind (page_address page) (\<lambda>original_table.
              res_bind (frame_address (level4_page_table ia)) (\<lambda>iaddr.
              res_bind (entry_update LEVEL4_PAGE_TABLE 511 (set_frame_addr B iaddr) m2) (\<lambda>m3.
              res_bind (entry_update LEVEL4_PAGE_TABLE 511 (\<lambda>e. Inr (set_flags B WRITABLE e)) m3) (\<lambda>m4.
              res_bind (f (m4, a2)) (\<lambda>(result, (m5, a5)).
              res_bind (entry_update original_table 511 (set_frame_addr B addr) m5) (\<lambda>m6.
              res_bind (entry_update original_table 511 (\<lambda>e. Inr (set_flags B WRITABLE e)) m6) (\<lambda>m7.
              Inr (result, (m7, a5))))))))))))"

text \<open>\<^verbatim>\<open>PhysAddr::new\<close> of the crate \<^verbatim>\<open>x86_64\<close> panics for an address of more than 52 bits.\<close>

definition switch :: "InActivePageTable \<Rightarrow> machine \<Rightarrow> (InActivePageTable \<times> machine) res" where
  "switch new_table m =
     (let old_table = \<lparr>level4_page_table = frame_from_address (cr3 m * SIZE)\<rparr> in
      res_bind (frame_address (level4_page_table new_table)) (\<lambda>addr.
      if addr < 2 ^ 52 then Inr (old_table, m\<lparr>cr3 := addr div SIZE\<rparr>)
      else Inl (ExplicitPanic ''PhysAddr'')))"

section \<open>Initialisation\<close>

datatype memory_error = NoUsableMemory | PageTable PageTableError

fun memory_error_display :: "memory_error \<Rightarrow> string" where
  "memory_error_display NoUsableMemory = ''No usable memory region''"
| "memory_error_display (PageTable inner) = ''Page table error: '' @ page_table_error_display inner"

type_synonym IdenticalReMapRequest = "usize \<times> usize"

text \<open>\<^verbatim>\<open>*i = 1\<close> for the 1024 \<^verbatim>\<open>i32\<close> elements of the page: 512 words.\<close>

fun fill_words :: "usize \<Rightarrow> usize list \<Rightarrow> machine \<Rightarrow> machine res" where
  "fill_words va [] m = Inr m"
| "fill_words va (i # is) m =
     res_bind (entry_write va i 0x0000000100000001 m) (\<lambda>m'. fill_words va is m')"

definition runtime_test :: "'a paging_env \<Rightarrow> 'a pstate \<Rightarrow> ((memory_error + unit) \<times> 'a pstate) res" where
  "runtime_test E st =
     (let (m, a) = st in
      res_bind (pe_alloc E a) (\<lambda>(fo, a').
      case fo of
        None \<Rightarrow> Inr (Inl NoUsableMemory, (m, a'))
      | Some frame \<Rightarrow>
          let page = page_from_address 0x200000 in
          res_bind (map_page E page frame (m, a')) (\<lambda>(r, (m1, a1)).
          case r of
            Inl e \<Rightarrow> Inr (Inl (PageTable e), (m1, a1))
          | Inr _ \<Rightarrow>
              res_bind (page_address page) (\<lambda>va.
              res_bind (fill_words va [0..<512] m1) (\<lambda>m2.
              res_bind (unmap E page (m2, a1)) (\<lambda>(r', st').
              Inr (case r' of Inl e \<Rightarrow> Inl (PageTable e) | Inr u \<Rightarrow> Inr u, st')))))))"

fun remap_pages ::
  "'a paging_env \<Rightarrow> kernel_symbols \<Rightarrow> usize \<Rightarrow> usize list \<Rightarrow> 'a pstate \<Rightarrow> ((PageTableError + unit) \<times> 'a pstate) res" where
  "remap_pages E K base [] st = Inr (Inr (), st)"
| "remap_pages E K base (i # is) st =
     res_bind (umul i SIZE) (\<lambda>o4.
     res_bind (uadd base o4) (\<lambda>addr.
     res_bind (to_virtual_addr K addr) (\<lambda>va.
     res_bind (map_page E (page_from_address va) (frame_from_address addr) st) (\<lambda>(r, st').
     case r of Inl e \<Rightarrow> Inr (Inl e, st') | Inr _ \<Rightarrow> remap_pages E K base is st'))))"

fun remap_requests_loop ::
  "'a paging_env \<Rightarrow> kernel_symbols \<Rightarrow> IdenticalReMapRequest list \<Rightarrow> 'a pstate \<Rightarrow> ((PageTableError + unit) \<times> 'a pstate) res" where
  "remap_requests_loop E K [] st = Inr (Inr (), st)"
| "remap_requests_loop E K ((addr, count) # rs) st =
     res_bind (remap_pages E K addr [0..<count] st) (\<lambda>(r, st').
     case r of Inl e \<Rightarrow> Inr (Inl e, st') | Inr _ \<Rightarrow> remap_requests_loop E K rs st')"

text \<open>
  \<^verbatim>\<open>init\<close> prints one line through \<open>out\<close>; its globals are the current end of the kernel and the
  console.
\<close>

definition kernel_range_message :: "usize \<Rightarrow> usize \<Rightarrow> usize \<Rightarrow> string" where
  "kernel_range_message kernel_begin kernel_end bytes =
     ''Kernel virtual address: 0x'' @ fmt_hex kernel_begin @ '' - 0x'' @ fmt_hex kernel_end @ '', ''
       @ fmt_dec (kb bytes) @ ''KB''"

definition paging_init ::
  "'a paging_env \<Rightarrow> kernel_symbols \<Rightarrow> 'c printer \<Rightarrow> IdenticalReMapRequest list \<Rightarrow> kernel_end \<times> 'c \<Rightarrow> 'a pstate \<Rightarrow>
     ((memory_error + unit) \<times> (kernel_end \<times> 'c) \<times> 'a pstate) res" where
  "paging_init E K out remap_requests globals st =
     (let (cur, con) = globals in
     res_bind (runtime_test E st) (\<lambda>(r, st1).
     case r of
       Inl e \<Rightarrow> Inr (Inl e, (cur, con), st1)
     | Inr _ \<Rightarrow>
         let kernel_begin = kernel_addr_begin_virtual K in
         res_bind (kernel_addr_end_virtual K cur) (\<lambda>(kernel_end, cur1).
         res_bind (usub kernel_end kernel_begin) (\<lambda>size.
         res_bind (out (kernel_range_message kernel_begin kernel_end size) con) (\<lambda>con1.
         res_bind (debug_assert (kernel_begin < kernel_end)) (\<lambda>_.
         res_bind (debug_assert (kernel_begin AND 0xfff = 0)) (\<lambda>_.
         res_bind (debug_assert (kernel_end AND 0xfff = 0)) (\<lambda>_.
         res_bind (inactive_new E st1) (\<lambda>(io, st2).
         case io of
           None \<Rightarrow> Inr (Inl NoUsableMemory, (cur1, con1), st2)
         | Some ia \<Rightarrow>
             let v_range = (kernel_begin, kernel_end);
                 p_range = (kernel_addr_begin_physical K, fst (kernel_addr_end_physical K cur1))
             in
             res_bind (with_table E ia (\<lambda>st3.
                 res_bind (remap_requests_loop E K remap_requests st3) (\<lambda>(r, st4).
                 case r of Inl e \<Rightarrow> Inr (Inl e, st4) | Inr _ \<Rightarrow> map_fitting E v_range p_range st4)) st2)
             (\<lambda>(r, (m5, a5)).
             case r of
               Inl e \<Rightarrow> Inr (Inl (PageTable e), (cur1, con1), (m5, a5))
             | Inr _ \<Rightarrow>
                 res_bind (switch ia m5) (\<lambda>(old_table, m6). Inr (Inr (), (cur1, con1), (m6, a5)))))))))))))"

end
