(* ===== verification/Buddy.thy ===== *)
theory Buddy
  imports Frame
begin

text \<open>
  \<^verbatim>\<open>src/memory/buddy_system/allocator.rs\<close>: the buddy allocator, as it is used for
  \<^verbatim>\<open>BuddyAllocator<FrameAdapter, Frame>\<close>.

  A reference or raw pointer to an object of the managed array is its element offset from
  \<^verbatim>\<open>obj_ptr\<close>; the objects themselves are the list \<open>objs\<close> behind that pointer.  The free
  lists belong to the crate \<^verbatim>\<open>intrusive_collections\<close>: their operations are a parameter
  \<open>L\<close>, and the locale \<open>linked_list\<close> states the documented behaviour the code relies on
  through the sequence \<open>elems\<close> of the objects in a list.  The crate refuses to insert an
  object that is linked already; \<open>list_push_back\<close> keeps that check on the field \<open>link\<close>.
\<close>

section \<open>The intrusive list interface\<close>

record 'l linked_list_api =
  ll_new :: 'l
  ll_push_back :: "'l \<Rightarrow> nat \<Rightarrow> 'l"
  ll_pop_front :: "'l \<Rightarrow> (nat \<times> 'l) option"
  ll_unlink :: "'l \<Rightarrow> nat \<Rightarrow> (nat \<times> 'l) option"

text \<open>
  \<open>ll_pop_front\<close> is \<^verbatim>\<open>front_mut().remove()\<close> and \<open>ll_unlink\<close> is
  \<^verbatim>\<open>cursor_mut_from_ptr(p).remove()\<close>.  The latter is \<^verbatim>\<open>unsafe\<close>: its contract asks that the
  object is in the list the cursor is made for, so there is a law for that case only.
\<close>

locale linked_list =
  fixes L :: "'l linked_list_api"
    and elems :: "'l \<Rightarrow> nat list"
  assumes elems_new: "elems (ll_new L) = []"
    and elems_push_back: "elems (ll_push_back L l p) = elems l @ [p]"
    and pop_front_empty: "elems l = [] \<Longrightarrow> ll_pop_front L l = None"
    and pop_front_cons: "elems l = p # ps \<Longrightarrow> \<exists>l'. ll_pop_front L l = Some (p, l') \<and> elems l' = ps"
    and unlink_member: "p \<in> set (elems l) \<Longrightarrow>
          \<exists>l'. ll_unlink L l p = Some (p, l') \<and> elems l' = remove1 p (elems l)"

text \<open>The sequential reference: a list of offsets, where unlinking a stranger gives nothing.\<close>

definition seq_list :: "nat list linked_list_api" where
  "seq_list =
     \<lparr>ll_new = [],
      ll_push_back = (\<lambda>l p. l @ [p]),
      ll_pop_front = (\<lambda>l. case l of [] \<Rightarrow> None | p # ps \<Rightarrow> Some (p, ps)),
      ll_unlink = (\<lambda>l p. if p \<in> set l then Some (p, remove1 p l) else None)\<rparr>"

interpretation seq: linked_list seq_list "\<lambda>l. l"
  by unfold_locales (auto simp: seq_list_def)

section \<open>State\<close>

definition MAX_ORDER :: usize where
  "MAX_ORDER = 15"

record 'l BuddyAllocator =
  base_addr :: usize
  obj_count :: usize
  free_lists :: "'l list"
  free_counts :: "usize list"
  objs :: "Frame list"

definition obj_update :: "nat \<Rightarrow> (Frame \<Rightarrow> Frame) \<Rightarrow> 'l BuddyAllocator \<Rightarrow> 'l BuddyAllocator" where
  "obj_update p g a = a\<lparr>objs := (objs a)[p := g (objs a ! p)]\<rparr>"

section \<open>Operations\<close>

definition list_push_back ::
  "'l linked_list_api \<Rightarrow> usize \<Rightarrow> nat \<Rightarrow> 'l BuddyAllocator \<Rightarrow> 'l BuddyAllocator res" where
  "list_push_back L k p a =
     res_bind (vec_get (free_lists a) k) (\<lambda>l.
     if link (objs a ! p) then Inl AlreadyLinked
     else Inr (obj_update p (\<lambda>f. f\<lparr>link := True\<rparr>)
                (a\<lparr>free_lists := (free_lists a)[k := ll_push_back L l p]\<rparr>)))"

definition count_incr :: "usize \<Rightarrow> 'l BuddyAllocator \<Rightarrow> 'l BuddyAllocator res" where
  "count_incr k a =
     res_bind (vec_get (free_counts a) k) (\<lambda>c.
     res_bind (uadd c 1) (\<lambda>c'. Inr (a\<lparr>free_counts := (free_counts a)[k := c']\<rparr>)))"

definition count_decr :: "usize \<Rightarrow> 'l BuddyAllocator \<Rightarrow> 'l BuddyAllocator res" where
  "count_decr k a =
     res_bind (vec_get (free_counts a) k) (\<lambda>c.
     res_bind (usub c 1) (\<lambda>c'. Inr (a\<lparr>free_counts := (free_counts a)[k := c']\<rparr>)))"

text \<open>The pair \<^verbatim>\<open>free_lists[k].push_back(obj); free_counts[k] += 1\<close>.\<close>

definition push_free ::
  "'l linked_list_api \<Rightarrow> usize \<Rightarrow> nat \<Rightarrow> 'l BuddyAllocator \<Rightarrow> 'l BuddyAllocator res" where
  "push_free L k p a = res_bind (list_push_back L k p a) (count_incr k)"

text \<open>
  \<^verbatim>\<open>BuddyAllocator::new\<close>: the inner \<^verbatim>\<open>while\<close> cuts blocks of one order from the remaining
  objects; the outer loop goes through the orders downwards.
\<close>

function new_while ::
  "'l linked_list_api \<Rightarrow> usize \<Rightarrow> usize \<Rightarrow> usize \<Rightarrow> 'l BuddyAllocator \<Rightarrow> (usize \<times> 'l BuddyAllocator) res" where
  "new_while L count k index a =
     res_bind (usub count index) (\<lambda>rest.
     if 2 ^ k \<le> rest then
       res_bind (push_free L k index (obj_update index (mark_free \<circ> set_order k) a)) (\<lambda>a1.
       new_while L count k (index + 2 ^ k) a1)
     else Inr (index, a))"
  by pat_completeness auto
termination
proof (relation "measure (\<lambda>(L, count, k, index, a). count - index)", goal_cases)
  case (2 L count k index a rest a1)
  have "0 < (2 :: nat) ^ k" by simp
  moreover have "index \<le> count" "rest = count - index" using 2(1) by (simp_all add: usub_eq_Inr)
  ultimately have "count - (index + 2 ^ k) < count - index" using 2(2) by linarith
  then show ?case by simp
qed simp

declare new_while.simps [simp del]

fun new_orders ::
  "'l linked_list_api \<Rightarrow> usize \<Rightarrow> usize list \<Rightarrow> usize \<Rightarrow> 'l BuddyAllocator \<Rightarrow> (usize \<times> 'l BuddyAllocator) res" where
  "new_orders L count [] index a = Inr (index, a)"
| "new_orders L count (k # ks) index a =
     res_bind (new_while L count k index a) (\<lambda>(index', a'). new_orders L count ks index' a')"

definition buddy_new :: "'l linked_list_api \<Rightarrow> usize \<Rightarrow> Frame list \<Rightarrow> usize \<Rightarrow> 'l BuddyAllocator res" where
  "buddy_new L base os count =
     res_bind (new_orders L count (rev [0..<MAX_ORDER]) 0
       \<lparr>base_addr = base, obj_count = count,
        free_lists = replicate MAX_ORDER (ll_new L),
        free_counts = replicate MAX_ORDER 0,
        objs = map reset_link os\<rparr>) (\<lambda>(index, a). Inr a)"

definition is_managed_obj :: "'l BuddyAllocator \<Rightarrow> int \<Rightarrow> bool res" where
  "is_managed_obj a addr =
     res_bind (usub (obj_count a) 1) (\<lambda>tail. Inr (0 \<le> addr \<and> addr \<le> int tail))"

definition buddy :: "'l BuddyAllocator \<Rightarrow> nat \<Rightarrow> usize \<Rightarrow> nat option res" where
  "buddy a raw k =
     res_bind (is_managed_obj a (int raw)) (\<lambda>m.
     res_bind (debug_assert m) (\<lambda>_.
     if MAX_ORDER \<le> k then Inr None
     else
       let index = int raw in
       if index < 0 \<or> int (obj_count a) < index then Inr None
       else
         let buddy_index = index XOR (push_bit k 1) in
         res_bind (is_managed_obj a buddy_index) (\<lambda>m'.
         Inr (if m' then Some (nat buddy_index) else None))))"

text \<open>The loop \<^verbatim>\<open>for i in request_order..order\<close> that pushes the unused halves back.\<close>

fun allocate_split ::
  "'l linked_list_api \<Rightarrow> nat \<Rightarrow> usize list \<Rightarrow> 'l BuddyAllocator \<Rightarrow> 'l BuddyAllocator res" where
  "allocate_split L obj [] a = Inr a"
| "allocate_split L obj (i # is) a =
     res_bind (buddy a obj i) (\<lambda>b.
     case b of
       Some buddy_obj \<Rightarrow>
         res_bind (push_free L i buddy_obj (obj_update buddy_obj (mark_free \<circ> set_order i) a)) (\<lambda>a1.
         allocate_split L obj is a1)
     | None \<Rightarrow> Inr a)"

text \<open>The loop \<^verbatim>\<open>for order in request_order..MAX_ORDER\<close>.\<close>

fun allocate_search ::
  "'l linked_list_api \<Rightarrow> usize \<Rightarrow> usize list \<Rightarrow> 'l BuddyAllocator \<Rightarrow> (nat option \<times> 'l BuddyAllocator) res" where
  "allocate_search L request_order [] a = Inr (None, a)"
| "allocate_search L request_order (k # ks) a =
     res_bind (vec_get (free_lists a) k) (\<lambda>l.
     case ll_pop_front L l of
       None \<Rightarrow> allocate_search L request_order ks a
     | Some (obj, l') \<Rightarrow>
         res_bind (count_decr k (obj_update obj (\<lambda>f. f\<lparr>link := False\<rparr>)
                     (a\<lparr>free_lists := (free_lists a)[k := l']\<rparr>))) (\<lambda>a1.
         res_bind (allocate_split L obj [request_order..<k]
                     (obj_update obj (mark_used \<circ> set_order request_order) a1)) (\<lambda>a2.
         Inr (Some obj, a2))))"

definition allocate ::
  "'l linked_list_api \<Rightarrow> 'l BuddyAllocator \<Rightarrow> usize \<Rightarrow> (nat option \<times> 'l BuddyAllocator) res" where
  "allocate L a request_order =
     (if MAX_ORDER \<le> request_order then Inr (None, a)
      else allocate_search L request_order [request_order..<MAX_ORDER] a)"

text \<open>
  The merge loop of \<^verbatim>\<open>free\<close>; its result is the object that heads the merged block.  The
  \<^verbatim>\<open>unwrap\<close> after \<^verbatim>\<open>cursor_mut_from_ptr(..).remove()\<close> is the panic \<open>UnwrapNone\<close>.
\<close>

fun free_merge ::
  "'l linked_list_api \<Rightarrow> nat \<Rightarrow> usize list \<Rightarrow> 'l BuddyAllocator \<Rightarrow> (nat \<times> 'l BuddyAllocator) res" where
  "free_merge L obj [] a = Inr (obj, a)"
| "free_merge L obj (i # is) a =
     res_bind (buddy a obj i) (\<lambda>b.
     case b of
       None \<Rightarrow> Inr (obj, a)
     | Some b_ptr \<Rightarrow>
         if is_used (objs a ! b_ptr) then Inr (obj, a)
         else
           res_bind (vec_get (free_lists a) i) (\<lambda>l.
           case ll_unlink L l b_ptr of
             None \<Rightarrow> Inl UnwrapNone
           | Some (buddy_obj, l') \<Rightarrow>
               res_bind (count_decr i (obj_update buddy_obj (\<lambda>f. f\<lparr>link := False\<rparr>)
                           (a\<lparr>free_lists := (free_lists a)[i := l']\<rparr>))) (\<lambda>a1.
               if buddy_obj < obj
               then free_merge L buddy_obj is (obj_update buddy_obj (set_order (i + 1) \<circ> mark_free) a1)
               else free_merge L obj is (obj_update obj (set_order (i + 1)) a1))))"

definition buddy_free :: "'l linked_list_api \<Rightarrow> 'l BuddyAllocator \<Rightarrow> nat \<Rightarrow> 'l BuddyAllocator res" where
  "buddy_free L a obj =
     res_bind (is_managed_obj a (int obj)) (\<lambda>m.
     res_bind (debug_assert m) (\<lambda>_.
     let a0 = obj_update obj mark_free a in
     res_bind (free_merge L obj [order (objs a0 ! obj)..<MAX_ORDER] a0) (\<lambda>(obj', a1).
     push_free L (order (objs a1 ! obj')) obj' a1)))"

fun count_free_fold :: "usize \<Rightarrow> usize \<Rightarrow> usize list \<Rightarrow> usize res" where
  "count_free_fold acc k [] = Inr acc"
| "count_free_fold acc k (c # cs) =
     res_bind (ushl 1 k) (\<lambda>s.
     res_bind (umul c s) (\<lambda>m.
     res_bind (uadd acc m) (\<lambda>acc'. count_free_fold acc' (k + 1) cs)))"

definition count_free_objs :: "'l BuddyAllocator \<Rightarrow> usize res" where
  "count_free_objs a = count_free_fold 0 0 (free_counts a)"

section \<open>The trait FrameAllocator\<close>

definition alloc_one :: "'l linked_list_api \<Rightarrow> 'l BuddyAllocator \<Rightarrow> (Frame option \<times> 'l BuddyAllocator) res" where
  "alloc_one L a =
     res_bind (allocate L a 0) (\<lambda>(r, a'). Inr (map_option (\<lambda>p. frame_clone (objs a' ! p)) r, a'))"

definition free_frame :: "'l linked_list_api \<Rightarrow> 'l BuddyAllocator \<Rightarrow> Frame \<Rightarrow> 'l BuddyAllocator res" where
  "free_frame L a f =
     res_bind (usub (number f) (base_addr a div SIZE)) (\<lambda>i. buddy_free L a i)"

end
