(* ===== verification/Early_Alloc.thy ===== *)
theory Early_Alloc
  imports Address Frame
begin

text \<open>
  \<^verbatim>\<open>src/memory/early_allocator.rs\<close>: the allocator that cuts memory from the front of a
  region, and \<^verbatim>\<open>allocate_frames\<close> of \<^verbatim>\<open>src/memory.rs\<close>, which places the array of \<^verbatim>\<open>Frame\<close>
  objects in it.

  The size and alignment of a Rust type are chosen by the compiler: they are the parameters
  \<open>size_of\<close> and \<open>align_of\<close> (for \<^verbatim>\<open>Frame\<close> 40 and 8 bytes).
\<close>

section \<open>Operations\<close>

record EarlyAllocator =
  addr_begin :: usize
  addr_end :: usize

definition early_new :: "usize \<Rightarrow> usize \<Rightarrow> EarlyAllocator res" where
  "early_new b e =
     res_bind (debug_assert (b < e)) (\<lambda>_. Inr \<lparr>addr_begin = b, addr_end = e\<rparr>)"

definition capacity :: "EarlyAllocator \<Rightarrow> usize res" where
  "capacity ea = usub (addr_end ea) (addr_begin ea)"

definition align_addr_begin :: "usize \<Rightarrow> EarlyAllocator \<Rightarrow> EarlyAllocator res" where
  "align_addr_begin alignment ea =
     res_bind (align_up (addr_begin ea) alignment) (\<lambda>b. Inr (ea\<lparr>addr_begin := b\<rparr>))"

definition early_allocate ::
  "usize \<Rightarrow> usize \<Rightarrow> usize \<Rightarrow> EarlyAllocator \<Rightarrow> (usize \<times> EarlyAllocator) res" where
  "early_allocate size_of align_of count ea =
     res_bind (align_addr_begin align_of ea) (\<lambda>ea1.
     let addr = addr_begin ea1 in
     res_bind (umul size_of count) (\<lambda>size.
     res_bind (uadd (addr_begin ea1) size) (\<lambda>b.
     Inr (addr, ea1\<lparr>addr_begin := b\<rparr>))))"

definition to_addr_begin :: "EarlyAllocator \<Rightarrow> usize" where
  "to_addr_begin ea = addr_begin ea"

definition allocate_frames ::
  "usize \<Rightarrow> usize \<Rightarrow> EarlyAllocator \<Rightarrow> ((usize \<times> usize) \<times> EarlyAllocator) res" where
  "allocate_frames size_of align_of ea =
     res_bind (align_addr_begin SIZE ea) (\<lambda>ea1.
     let struct_size = size_of in
     res_bind (capacity ea1) (\<lambda>cap.
     let count_frames = cap div SIZE in
     res_bind (umul count_frames struct_size) (\<lambda>required_size.
     res_bind (usub cap required_size) (\<lambda>cap'.
     let count_frames' = cap' div SIZE in
     res_bind (early_allocate size_of align_of count_frames' ea1) (\<lambda>(frames, ea2).
     res_bind (align_addr_begin SIZE ea2) (\<lambda>ea3.
     res_bind (capacity ea3) (\<lambda>cap3.
     res_bind (debug_assert (count_frames' \<le> cap3 div SIZE)) (\<lambda>_.
     Inr ((frames, count_frames'), ea3)))))))))"

text \<open>A client that makes one request after the other: pairs of element size and count.\<close>

fun early_requests ::
  "(usize \<times> usize \<times> usize) list \<Rightarrow> EarlyAllocator \<Rightarrow> ((usize \<times> usize) list \<times> EarlyAllocator) res" where
  "early_requests [] ea = Inr ([], ea)"
| "early_requests ((s, al, n) # rs) ea =
     res_bind (early_allocate s al n ea) (\<lambda>(addr, ea1).
     res_bind (early_requests rs ea1) (\<lambda>(as, ea2). Inr ((addr, s * n) # as, ea2)))"

section \<open>Lemmas\<close>

lemma early_allocate_Inr:
  assumes "early_allocate s (2 ^ k) n ea = Inr (addr, ea')"
  shows "addr = round_up (2 ^ k) (addr_begin ea)" "ea' = ea\<lparr>addr_begin := addr + s * n\<rparr>"
    "addr_begin ea \<le> addr" "2 ^ k dvd addr"
  using assms round_up_bounds [of "2 ^ k" "addr_begin ea"]
  by (auto simp: early_allocate_def align_addr_begin_def align_up_pow2 res_bind_eq_Inr res_simps Let_def
      split: if_splits)

lemma early_requests_addrs:
  assumes "early_requests rs ea = Inr (as, ea')" and "\<forall>(s, al, n) \<in> set rs. \<exists>k. al = 2 ^ k"
  shows "(\<forall>(a, l) \<in> set as. addr_begin ea \<le> a \<and> a + l \<le> addr_begin ea')
     \<and> sorted_wrt (\<lambda>(a, l) (b, m). a + l \<le> b) as \<and> addr_begin ea \<le> addr_begin ea'"
  using assms
proof (induction rs arbitrary: ea as)
  case Nil
  then show ?case by simp
next
  case (Cons r rs)
  obtain s al n where r: "r = (s, al, n)" by (cases r)
  with Cons.prems(2) obtain k where al: "al = 2 ^ k" by auto
  obtain addr ea1 as1 where st: "early_allocate s (2 ^ k) n ea = Inr (addr, ea1)"
      "early_requests rs ea1 = Inr (as1, ea')" "as = (addr, s * n) # as1"
    using Cons.prems(1) by (auto simp: r al res_bind_eq_Inr)
  note E = early_allocate_Inr [OF st(1)]
  have "\<forall>(s, al, n) \<in> set rs. \<exists>k. al = 2 ^ k" using Cons.prems(2) by auto
  note IH = Cons.IH [OF st(2) this]
  show ?case using IH E unfolding st(3) by fastforce
qed

lemma round_up_eq_ceiling: "0 < n \<Longrightarrow> x \<le> n * c \<Longrightarrow> round_up n x \<le> n * c"
  by (rule round_up_least) simp_all

text \<open>
  Where the array and the frames go.  With \<open>N\<close> pages between the aligned start and the end,
  the array of the \<open>n\<close> frames takes at most \<open>N - n\<close> pages.
\<close>

lemma frames_fit:
  fixes s N :: nat
  assumes "s \<le> 4096"
  defines "n \<equiv> (4096 * N - N * s) div 4096"
  shows "round_up 4096 (s * n) + 4096 * n \<le> 4096 * N"
proof -
  have Ns: "N * s \<le> 4096 * N" using assms(1) by (simp add: mult.commute)
  have "4096 * n \<le> 4096 * N - N * s" by (simp add: n_def)
  with Ns have n: "4096 * n + N * s \<le> 4096 * N" by linarith
  then have nN: "n \<le> N" by linarith
  then have "s * n \<le> N * s" by (simp add: mult.commute)
  with n have "s * n + 4096 * n \<le> 4096 * N" by linarith
  then have "s * n \<le> 4096 * (N - n)" using nN by (simp add: diff_mult_distrib2)
  then have "round_up 4096 (s * n) \<le> 4096 * (N - n)" by (rule round_up_eq_ceiling [rotated]) simp
  with nN show ?thesis by (simp add: algebra_simps)
qed

lemma round_up_add: "0 < n \<Longrightarrow> n dvd b \<Longrightarrow> round_up n (b + x) = b + round_up n x"
proof -
  assume n: "0 < n" and "n dvd b"
  then obtain c where b: "b = n * c" by (auto elim: dvdE)
  have "(n * c + x + (n - 1)) div n = c + (x + (n - 1)) div n"
    using n by (metis add.assoc div_mult_self4 less_not_refl)
  then show ?thesis by (simp add: round_up_def b algebra_simps)
qed

section \<open>Properties\<close>

lemma allocate_frames_ok:
  assumes "4096 dvd addr_end ea" and "round_up 4096 (addr_begin ea) \<le> addr_end ea"
    and "addr_end ea + 8192 \<le> 2 ^ 64" and "s \<le> 4096" and "k \<le> 12"
  shows "\<exists>frames n ea'. allocate_frames s (2 ^ k) ea = Inr ((frames, n), ea')
     \<and> 4096 dvd frames \<and> addr_begin ea \<le> frames \<and> frames + s * n \<le> addr_begin ea'
     \<and> 4096 dvd addr_begin ea' \<and> addr_begin ea' + 4096 * n \<le> addr_end ea \<and> addr_end ea' = addr_end ea"
proof -
  define b where "b = round_up 4096 (addr_begin ea)"
  have b: "4096 dvd b" "addr_begin ea \<le> b" "b < addr_begin ea + 4096"
    using round_up_bounds [of 4096 "addr_begin ea"] by (simp_all add: b_def)
  have "4096 dvd addr_end ea - b" using assms(1) b(1) by (simp add: dvd_diff_nat)
  then obtain N where N: "addr_end ea - b = 4096 * N" by (auto elim: dvdE)
  then have e: "addr_end ea = b + 4096 * N" using assms(2) by (simp add: b_def)
  define n where "n = (4096 * N - N * s) div 4096"
  have fit: "round_up 4096 (s * n) + 4096 * n \<le> 4096 * N" unfolding n_def by (rule frames_fit [OF assms(4)])
  have sn: "s * n \<le> round_up 4096 (s * n)" "4096 dvd round_up 4096 (s * n)"
    using round_up_bounds [of 4096 "s * n"] by simp_all
  have Ns: "N * s \<le> 4096 * N" using assms(4) by (simp add: mult.commute)
  have dvd: "2 ^ k dvd b" using pow2_dvd_mono [of k 12 b] assms(5) b(1) by simp
  have al: "align_up b (2 ^ k) = Inr b"
  proof -
    have "(2 :: nat) ^ k \<le> 2 ^ 12" using assms(5) by (rule power_increasing) simp
    then show ?thesis using assms(3) e dvd by (simp add: align_up_pow2 round_up_dvd)
  qed
  have al2: "align_up (b + s * n) 4096 = Inr (b + round_up 4096 (s * n))"
    using assms(3) e fit sn(1) b(1) by (simp add: align_up_page round_up_add)
  have "n \<le> (4096 * N - round_up 4096 (s * n)) div 4096"
    using fit by (simp add: less_eq_div_iff_mult_less_eq mult.commute)
  moreover have "umul N s = Inr (N * s)" by (rule umul_ok) (use Ns assms(3) e in linarith)
  moreover have "usub (4096 * N) (N * s) = Inr (4096 * N - N * s)"
    "umul s n = Inr (s * n)" "uadd b (s * n) = Inr (b + s * n)"
    "usub (b + 4096 * N) (b + round_up 4096 (s * n)) = Inr (4096 * N - round_up 4096 (s * n))"
    using Ns assms(3) e fit sn(1) by simp_all
  moreover have "align_up (addr_begin ea) 4096 = Inr b"
    using assms(3) e b by (simp add: align_up_page b_def)
  ultimately have "allocate_frames s (2 ^ k) ea =
      Inr ((b, n), \<lparr>addr_begin = b + round_up 4096 (s * n), addr_end = addr_end ea\<rparr>)"
    using al al2 e
    by (simp add: allocate_frames_def align_addr_begin_def SIZE_def
        capacity_def early_allocate_def n_def [symmetric] Let_def)
  then show ?thesis using b sn fit e by (simp add: dvd_add)
qed



text \<open>
  C26. \<^verbatim>\<open>allocate_frames\<close>: if the region ends on a page boundary and a frame object is at
  most a page large, the function returns (its \<^verbatim>\<open>debug_assert!\<close> holds); the array of frame
  objects and the page-aligned range of that many frames behind it do not overlap and both
  lie inside the region.
\<close>

theorem allocate_frames_correct:
  assumes "4096 dvd addr_end ea" and "round_up 4096 (addr_begin ea) \<le> addr_end ea"
    and "addr_end ea + 8192 \<le> 2 ^ 64" and "s \<le> 4096" and "k \<le> 12"
  shows "\<exists>frames n ea'. allocate_frames s (2 ^ k) ea = Inr ((frames, n), ea')
     \<and> 4096 dvd frames \<and> addr_begin ea \<le> frames \<and> frames + s * n \<le> addr_begin ea'
     \<and> 4096 dvd addr_begin ea' \<and> addr_begin ea' + 4096 * n \<le> addr_end ea \<and> addr_end ea' = addr_end ea"
  by (rule allocate_frames_ok [OF assms])

theorem allocate_frames_correct_witness:
  "\<exists>frames n ea'. allocate_frames 40 (2 ^ 3) \<lparr>addr_begin = 0x101234, addr_end = 0x2000000\<rparr> = Inr ((frames, n), ea')
     \<and> frames + 40 * n \<le> addr_begin ea' \<and> addr_begin ea' + 4096 * n \<le> 0x2000000"
  using allocate_frames_correct [of "\<lparr>addr_begin = 0x101234, addr_end = 0x2000000\<rparr>" 40 3]
  by (auto simp: round_up_def)

text \<open>
  Without the page-aligned end the assertion can fail: a region of one page and 40 bytes,
  with objects of 40 bytes, panics.
\<close>

theorem allocate_frames_unaligned_panics:
  "allocate_frames 40 8 \<lparr>addr_begin = 0x1000, addr_end = 0x1000 + 4136\<rparr> = Inl DebugAssertFailed"
  by (simp add: allocate_frames_def align_addr_begin_def align_up_page SIZE_def capacity_def
      early_allocate_def align_up_pow2 [of _ 3, simplified] round_up_def debug_assert_def)

end
