(* ===== verification/Heap.thy ===== *)
theory Heap
  imports Paging_Boot Buddy Early_Alloc
begin

text \<open>
  \<^verbatim>\<open>src/memory/global_allocator.rs\<close> (the kernel heap), \<^verbatim>\<open>src/memory/region.rs\<close> (memory
  regions) and \<^verbatim>\<open>init\<close> of \<^verbatim>\<open>src/memory.rs\<close>, which puts the memory subsystem together.

  The mutex around the heap only serialises its callers; an operation of
  \<^verbatim>\<open>GlobalAllocator\<close> is one step on the protected value.
\<close>

section \<open>The heap\<close>

record HeapAllocator =
  heap_begin :: usize
  heap_end :: usize

text \<open>\<^verbatim>\<open>core::alloc::Layout\<close>: a size and an alignment that is a power of two.\<close>

record Layout =
  layout_size :: usize
  layout_align :: usize

definition heap_alloc :: "Layout \<Rightarrow> HeapAllocator \<Rightarrow> (usize option \<times> HeapAllocator) res" where
  "heap_alloc layout h =
     res_bind (align_up (heap_begin h) (layout_align layout)) (\<lambda>_.
     res_bind (uadd (heap_begin h) (layout_size layout)) (\<lambda>top.
     if heap_end h \<le> top then Inr (None, h)
     else
       let addr = heap_begin h in
       Inr (Some addr, h\<lparr>heap_begin := top\<rparr>)))"

definition heap_dealloc :: "usize \<Rightarrow> Layout \<Rightarrow> HeapAllocator \<Rightarrow> HeapAllocator" where
  "heap_dealloc ptr layout h = h"

type_synonym GlobalAllocator = "HeapAllocator option"

definition global_new :: GlobalAllocator where
  "global_new = None"

definition global_init :: "HeapAllocator \<Rightarrow> GlobalAllocator \<Rightarrow> GlobalAllocator" where
  "global_init h g = Some h"

definition global_alloc :: "Layout \<Rightarrow> GlobalAllocator \<Rightarrow> (usize \<times> GlobalAllocator) res" where
  "global_alloc layout g =
     (case g of
        None \<Rightarrow> Inl (ExplicitPanic ''GlobalAllocator is not initialized yet'')
      | Some h \<Rightarrow>
          res_bind (heap_alloc layout h) (\<lambda>(r, h').
          case r of
            None \<Rightarrow> Inl (ExplicitPanic ''No memory'')
          | Some ptr \<Rightarrow> Inr (ptr, Some h')))"

definition global_dealloc :: "usize \<Rightarrow> Layout \<Rightarrow> GlobalAllocator \<Rightarrow> GlobalAllocator res" where
  "global_dealloc ptr layout g =
     (case g of
        None \<Rightarrow> Inl (ExplicitPanic ''GlobalAllocator is not initialized yet'')
      | Some h \<Rightarrow> Inr (Some (heap_dealloc ptr layout h)))"

text \<open>
  \<^verbatim>\<open>HeapAllocator::new\<close> over the buddy allocator.  The local list \<^verbatim>\<open>pages\<close> is dropped on
  return, which unlinks its only element again.
\<close>

definition heap_new ::
  "'l linked_list_api \<Rightarrow> 'l BuddyAllocator paging_env \<Rightarrow> machine \<times> 'l BuddyAllocator \<Rightarrow>
     (HeapAllocator option \<times> (machine \<times> 'l BuddyAllocator)) res" where
  "heap_new L E st =
     (let (m, a) = st in
      res_bind (allocate L a 5) (\<lambda>(po, a1).
      case po of
        None \<Rightarrow> Inr (None, (m, a1))
      | Some p \<Rightarrow>
          res_bind (auto_continuous_map E (objs a1 ! p) (m, a1)) (\<lambda>(r, (m2, a2)).
          case r of
            None \<Rightarrow> Inr (None, (m2, a2))
          | Some (b, e) \<Rightarrow>
              if link (objs a2 ! p) then Inl AlreadyLinked
              else Inr (Some \<lparr>heap_begin = b, heap_end = e\<rparr>, (m2, a2)))))"

section \<open>Regions\<close>

datatype region_state = RegionFree | RegionUsed | RegionReserved

record Region =
  region_base_addr :: usize
  region_size :: usize
  region_state :: region_state

definition region_new :: "usize \<Rightarrow> usize \<Rightarrow> region_state \<Rightarrow> Region" where
  "region_new base sz st = \<lparr>region_base_addr = base, region_size = sz, region_state = st\<rparr>"

text \<open>
  The memory areas come from the boot loader through the crate \<^verbatim>\<open>multiboot2\<close>: pairs of start
  address and size, in the order of its iterator.
\<close>

definition area_into_region :: "usize \<times> usize \<Rightarrow> Region" where
  "area_into_region area = region_new (fst area) (snd area) RegionFree"

text \<open>
  \<^verbatim>\<open>AdapterIter::next\<close> on the areas its inner iterator still has, and the regions an
  \<^verbatim>\<open>AdapterIter\<close> yields until it ends.
\<close>

definition adapter_next :: "(usize \<times> usize) list \<Rightarrow> Region option \<times> (usize \<times> usize) list" where
  "adapter_next areas = (case areas of [] \<Rightarrow> (None, []) | area # rest \<Rightarrow> (Some (area_into_region area), rest))"

function adapter_iter :: "(usize \<times> usize) list \<Rightarrow> Region list" where
  "adapter_iter areas = (case adapter_next areas of (None, _) \<Rightarrow> [] | (Some r, rest) \<Rightarrow> r # adapter_iter rest)"
  by pat_completeness auto

termination adapter_iter
  by (relation "measure length") (auto simp: adapter_next_def split: list.splits)

declare adapter_iter.simps [simp del]

lemma adapter_iter_map [simp]: "adapter_iter areas = map area_into_region areas"
  by (induction areas) (simp_all add: adapter_iter.simps adapter_next_def)

section \<open>Initialisation of the memory subsystem\<close>

record kernel_state =
  ks_machine :: machine
  ks_end :: kernel_end
  ks_heap :: GlobalAllocator

text \<open>
  The loop \<^verbatim>\<open>f.set_number(base + i)\<close> over the frame objects; their memory is uninitialised
  before, so their first content is the parameter \<open>raw\<close>.
\<close>

fun set_numbers :: "usize \<Rightarrow> usize \<Rightarrow> Frame list \<Rightarrow> Frame list res" where
  "set_numbers base i [] = Inr []"
| "set_numbers base i (f # fs) =
     res_bind (uadd base i) (\<lambda>n.
     res_bind (set_numbers base (i + 1) fs) (\<lambda>fs'. Inr (set_number n f # fs')))"

text \<open>The lines \<^verbatim>\<open>init\<close> prints itself; \<open>bytes\<close> is the size of the region.\<close>

definition free_region_message :: "usize \<Rightarrow> usize \<Rightarrow> usize \<Rightarrow> string" where
  "free_region_message begin_addr end_addr bytes =
     ''free region: 0x'' @ fmt_hex begin_addr @ '' - 0x'' @ fmt_hex end_addr @ '', '' @ fmt_dec (bytes div 1024) @ ''KB''"

definition buddy_objects_message :: "usize \<Rightarrow> string" where
  "buddy_objects_message count = fmt_dec count @ '' buddy objects''"

definition memory_init ::
  "'l linked_list_api \<Rightarrow> bitflags_api \<Rightarrow> kernel_symbols \<Rightarrow> 'c printer \<Rightarrow> usize \<Rightarrow> usize \<Rightarrow> (usize \<Rightarrow> Frame list) \<Rightarrow>
     (usize \<times> usize) list \<Rightarrow> IdenticalReMapRequest list \<Rightarrow> kernel_state \<times> 'c \<Rightarrow>
     ((memory_error + unit) \<times> (kernel_state \<times> 'c)) res" where
  "memory_init L B K out size_of align_of raw areas remap_requests ksc =
     (let (ks, con) = ksc;
          E = \<lparr>pe_flags = B, pe_alloc = alloc_one L, pe_free = free_frame L\<rparr>;
          kbegin = kernel_addr_begin_physical K;
          usable_memory_regions = filter (\<lambda>r. kbegin \<le> region_base_addr r) (adapter_iter areas)
      in
      case usable_memory_regions of
        [] \<Rightarrow> Inr (Inl NoUsableMemory, (ks, con))
      | free_memory_region # _ \<Rightarrow>
          res_bind (kernel_addr_end_virtual K (ks_end ks)) (\<lambda>(region_begin, cur1).
          res_bind (uadd (region_base_addr free_memory_region) (region_size free_memory_region)) (\<lambda>pend.
          res_bind (to_virtual_addr K pend) (\<lambda>region_end.
          res_bind (early_new region_begin region_end) (\<lambda>ea.
          res_bind (allocate_frames size_of align_of ea) (\<lambda>((frames, count_frames), ea1).
          res_bind (to_physical_addr K (to_addr_begin ea1)) (\<lambda>base_addr.
          let cur2 = update_kernel_addr_end_physical base_addr cur1 in
          res_bind (umul count_frames SIZE) (\<lambda>bytes.
          res_bind (uadd base_addr bytes) (\<lambda>end_addr.
          res_bind (out (free_region_message base_addr end_addr bytes) con) (\<lambda>con1.
          res_bind (set_numbers (base_addr div SIZE) 0 (raw count_frames)) (\<lambda>objects.
          res_bind (buddy_new L base_addr objects count_frames) (\<lambda>bman.
          res_bind (count_free_objs bman) (\<lambda>free_objs.
          res_bind (out (buddy_objects_message free_objs) con1) (\<lambda>con2.
          res_bind (paging_init E K out remap_requests (cur2, con2) (ks_machine ks, bman)) (\<lambda>(r, (cur3, con3), (m1, bman1)).
          case r of
            Inl e \<Rightarrow> Inr (Inl e, (ks\<lparr>ks_machine := m1, ks_end := cur3\<rparr>, con3))
          | Inr _ \<Rightarrow>
              res_bind (heap_new L E (m1, bman1)) (\<lambda>(ho, (m2, bman2)).
              case ho of
                None \<Rightarrow> Inr (Inl NoUsableMemory, (ks\<lparr>ks_machine := m2, ks_end := cur3\<rparr>, con3))
              | Some h \<Rightarrow>
                  let g = global_init h (ks_heap ks) in
                  res_bind (global_alloc \<lparr>layout_size = 4, layout_align = 4\<rparr> g) (\<lambda>(ptr, g1).
                  res_bind (global_dealloc ptr \<lparr>layout_size = 4, layout_align = 4\<rparr> g1) (\<lambda>g2.
                  Inr (Inr (), (ks\<lparr>ks_machine := m2, ks_end := cur3, ks_heap := g2\<rparr>, con3))))))))))))))))))))"

end
