(* ===== verification/Blocks.thy ===== *)
theory Blocks
  imports Buddy
begin

text \<open>
  Tilings of an interval \<open>{..<n}\<close> by aligned blocks of power-of-two size: the abstract
  structure behind the buddy allocator.  The lemmas say how a tiling changes when blocks
  are replaced by others that cover the same cells, and why the buddy of a block is the
  first cell of a block of the same or a smaller order.
\<close>

section \<open>Buddies\<close>

text \<open>The offset of the buddy of the block of order \<open>k\<close> at \<open>p\<close>.\<close>

definition buddy_of :: "nat \<Rightarrow> nat \<Rightarrow> nat" where
  "buddy_of p k = p XOR 2 ^ k"

lemma buddy_of_cases:
  assumes "2 ^ k dvd p"
  shows "2 ^ Suc k dvd p \<and> buddy_of p k = p + 2 ^ k
       \<or> (\<exists>q. p = q + 2 ^ k \<and> 2 ^ Suc k dvd q \<and> buddy_of p k = q)"
proof -
  from assms obtain c where p: "p = push_bit k c"
    by (auto elim!: dvdE simp: push_bit_eq_mult mult.commute)
  have x: "buddy_of p k = push_bit k (c XOR 1)"
    unfolding buddy_of_def p
    by (rule bit_eqI) (auto simp: bit_xor_iff bit_push_bit_iff_nat bit_exp_iff bit_1_iff)
  show ?thesis
  proof (cases "even c")
    case True
    then obtain d where "c = 2 * d" by (auto elim: evenE)
    moreover have "c XOR 1 = Suc c" using True unfolding xor_one_eq by simp
    ultimately show ?thesis using p x
      by (auto simp: push_bit_eq_mult algebra_simps)
  next
    case False
    then obtain d where "c = 2 * d + 1" by (auto elim: oddE)
    moreover have "c XOR 1 = c - 1" using False unfolding xor_one_eq by simp
    ultimately show ?thesis using p x
      by (auto simp: push_bit_eq_mult algebra_simps)
  qed
qed

lemma buddy_of_upper: "2 ^ Suc k dvd p \<Longrightarrow> buddy_of p k = p + 2 ^ k"
proof -
  assume *: "2 ^ Suc k dvd p"
  then have "2 ^ k dvd p" by (rule pow2_dvd_mono [rotated]) simp
  from buddy_of_cases [OF this] show ?thesis
  proof
    assume "\<exists>q. p = q + 2 ^ k \<and> 2 ^ Suc k dvd q \<and> buddy_of p k = q"
    then obtain q where "p = q + 2 ^ k" "2 ^ Suc k dvd q" by blast
    with * have "2 ^ Suc k dvd (2 :: nat) ^ k" by (metis dvd_add_right_iff)
    then have "(2 :: nat) ^ Suc k \<le> 2 ^ k" by (rule dvd_imp_le) simp
    then show ?thesis by simp
  qed simp
qed

lemma buddy_of_neq: "buddy_of p k \<noteq> p"
proof
  assume "buddy_of p k = p"
  then have "bit (p XOR 2 ^ k) k = bit p k" by (simp add: buddy_of_def)
  then show False by (simp add: bit_xor_iff bit_exp_iff)
qed

lemma buddy_of_aligned: "2 ^ k dvd p \<Longrightarrow> 2 ^ k dvd buddy_of p k"
  using buddy_of_cases [of k p] by (auto intro: pow2_dvd_mono [of k "Suc k"])

text \<open>The lower of the two buddies heads the merged block.\<close>

lemma buddy_merge:
  assumes "2 ^ k dvd p"
  shows "2 ^ Suc k dvd min p (buddy_of p k)"
    and "{p, buddy_of p k} = {min p (buddy_of p k), min p (buddy_of p k) + 2 ^ k}"
  using buddy_of_cases [OF assms] by (auto simp: min_def)

section \<open>Tilings\<close>

definition good_blocks :: "(nat \<times> nat) set \<Rightarrow> bool" where
  "good_blocks B \<longleftrightarrow> (\<forall>b \<in> B. snd b < MAX_ORDER \<and> 2 ^ snd b dvd fst b)
     \<and> (\<forall>x. \<forall>b \<in> B. \<forall>c \<in> B. x \<in> block b \<and> x \<in> block c \<longrightarrow> b = c)"

definition tiling :: "nat \<Rightarrow> (nat \<times> nat) set \<Rightarrow> bool" where
  "tiling n B \<longleftrightarrow> good_blocks B \<and> cells B = {..<n}"

lemma block_nonempty [simp]: "fst b \<in> block b" "block b \<noteq> {}"
  by (auto simp: block_def)

lemma cells_insert [simp]: "cells (insert b B) = block b \<union> cells B"
  and cells_empty [simp]: "cells {} = {}"
  and cells_Un: "cells (A \<union> B) = cells A \<union> cells B"
  by (auto simp: cells_def)

text \<open>The blocks of order at least \<open>r\<close>.\<close>

definition large :: "nat \<Rightarrow> (nat \<times> nat) set \<Rightarrow> (nat \<times> nat) set" where
  "large r B = {b \<in> B. r \<le> snd b}"

lemma block_subset_cells: "b \<in> B \<Longrightarrow> block b \<subseteq> cells B"
  by (auto simp: cells_def)

lemma tiling_block_bound:
  assumes "tiling n B" and "(p, k) \<in> B"
  shows "p + 2 ^ k \<le> n" and "p < n" and "k < MAX_ORDER" and "2 ^ k dvd p"
proof -
  have "0 < (2 :: nat) ^ k" by simp
  then have "p \<le> p + (2 ^ k - 1)" "p + (2 ^ k - 1) < p + 2 ^ k" by linarith+
  then have "p + (2 ^ k - 1) \<in> block (p, k)" by (simp only: block_def fst_conv snd_conv atLeastLessThan_iff)
  with assms block_subset_cells [OF assms(2)] have "p + (2 ^ k - 1) < n"
    unfolding tiling_def by blast
  with \<open>0 < 2 ^ k\<close> show "p + 2 ^ k \<le> n" "p < n" by linarith+
  show "k < MAX_ORDER" "2 ^ k dvd p"
    using assms by (auto simp: tiling_def good_blocks_def)
qed

lemma tiling_disjoint:
  assumes "tiling n B" "b \<in> B" "c \<in> B" "x \<in> block b" "x \<in> block c"
  shows "b = c"
  using assms unfolding tiling_def good_blocks_def by blast

lemma tiling_finite: "tiling n B \<Longrightarrow> finite B"
proof -
  assume t: "tiling n B"
  have "B \<subseteq> {..<n} \<times> {..<MAX_ORDER}"
    using tiling_block_bound [OF t] by auto
  then show ?thesis by (rule finite_subset) simp
qed

lemma good_blocks_Un:
  assumes A: "good_blocks A" and B: "good_blocks B"
    and dis: "\<And>a b. a \<in> A \<Longrightarrow> b \<in> B \<Longrightarrow> block a \<inter> block b = {}"
  shows "good_blocks (A \<union> B)"
  unfolding good_blocks_def
proof (intro conjI allI ballI impI)
  fix x b c assume "b \<in> A \<union> B" "c \<in> A \<union> B" and x: "x \<in> block b \<and> x \<in> block c"
  then consider "b \<in> A \<and> c \<in> A" | "b \<in> B \<and> c \<in> B" | "b \<in> A \<and> c \<in> B" | "b \<in> B \<and> c \<in> A"
    by blast
  then show "b = c"
  proof cases
    case 1
    with A x show ?thesis unfolding good_blocks_def by meson
  next
    case 2
    with B x show ?thesis unfolding good_blocks_def by meson
  next
    case 3
    with x dis [of b c] show ?thesis by blast
  next
    case 4
    with x dis [of c b] show ?thesis by blast
  qed
qed (use A B in \<open>auto simp: good_blocks_def\<close>)

text \<open>Replacing the blocks \<open>D\<close> of a tiling by good blocks \<open>C\<close> over the same cells.\<close>

lemma tiling_replace:
  assumes t: "tiling n (D \<union> B)" and "D \<inter> B = {}" and C: "good_blocks C" and eq: "cells C = cells D"
  shows "tiling n (C \<union> B)" and "C \<inter> B = {}"
proof -
  have dis: "block c \<inter> block b = {}" if "c \<in> C" "b \<in> B" for b c
  proof -
    have "block d \<inter> block b = {}" if "d \<in> D" for d
      using tiling_disjoint [OF t, of d b] that \<open>b \<in> B\<close> assms(2) by blast
    then have "cells D \<inter> block b = {}" by (auto simp: cells_def)
    with eq block_subset_cells [OF \<open>c \<in> C\<close>] show ?thesis by blast
  qed
  have "good_blocks B" using t unfolding tiling_def good_blocks_def by blast
  with C have "good_blocks (C \<union> B)" using dis by (rule good_blocks_Un)
  with t eq show "tiling n (C \<union> B)" by (simp add: tiling_def cells_Un)
  show "C \<inter> B = {}" using dis block_nonempty by blast
qed

lemma good_blocks_singleton: "k < MAX_ORDER \<Longrightarrow> 2 ^ k dvd p \<Longrightarrow> good_blocks {(p, k)}"
  by (simp add: good_blocks_def)

text \<open>The chain of halves that splitting the block \<open>(p, m)\<close> down to order \<open>r\<close> leaves.\<close>

definition split_blocks :: "nat \<Rightarrow> nat \<Rightarrow> nat \<Rightarrow> (nat \<times> nat) set" where
  "split_blocks p r m = (\<lambda>i. (p + 2 ^ i, i)) ` {r..<m}"

lemma split_blocks_Suc: "r \<le> m \<Longrightarrow> split_blocks p r (Suc m) = insert (p + 2 ^ m, m) (split_blocks p r m)"
  by (auto simp: split_blocks_def atLeastLessThanSuc)

lemma split_blocks_cover:
  assumes "r \<le> m"
  shows "cells (insert (p, r) (split_blocks p r m)) = block (p, m)"
  using assms
proof (induction m rule: dec_induct)
  case base
  then show ?case by (simp add: split_blocks_def)
next
  case (step m)
  have "block (p + 2 ^ m, m) \<union> block (p, m) = block (p, Suc m)"
    by (auto simp: block_def)
  moreover have "insert (p, r) (split_blocks p r (Suc m)) =
      insert (p + 2 ^ m, m) (insert (p, r) (split_blocks p r m))"
    using step.hyps by (simp add: split_blocks_Suc insert_commute)
  ultimately show ?case using step.IH by (simp only: cells_insert)
qed

lemma split_blocks_good:
  assumes "r \<le> m" and "m < MAX_ORDER" and "2 ^ m dvd p"
  shows "good_blocks (insert (p, r) (split_blocks p r m))"
  using assms
proof (induction m rule: dec_induct)
  case base
  then show ?case by (simp add: split_blocks_def good_blocks_def)
next
  case (step m)
  have dvd: "2 ^ m dvd p" using step.prems(2) by (rule pow2_dvd_mono [rotated]) simp
  let ?C = "insert (p, r) (split_blocks p r m)"
  have IH: "good_blocks ?C" using step dvd by simp
  have "block c \<inter> block (p + 2 ^ m, m) = {}" if "c \<in> ?C" for c
  proof -
    have "block c \<subseteq> block (p, m)"
      using that block_subset_cells [OF that] split_blocks_cover [OF step.hyps(1), of p] by simp
    then show ?thesis by (auto simp: block_def)
  qed
  moreover have "good_blocks {(p + 2 ^ m, m)}"
    using step.prems dvd by (intro good_blocks_singleton) auto
  ultimately have "good_blocks (?C \<union> {(p + 2 ^ m, m)})"
    using IH by (intro good_blocks_Un) auto
  then show ?case by (simp add: split_blocks_Suc step.hyps insert_commute)
qed

lemma tiling_split:
  assumes t: "tiling n (insert (p, m) B)" and "(p, m) \<notin> B" and r: "r \<le> m"
  shows "tiling n (insert (p, r) (split_blocks p r m) \<union> B)"
    and "insert (p, r) (split_blocks p r m) \<inter> B = {}"
proof -
  have pm: "m < MAX_ORDER" "2 ^ m dvd p" using tiling_block_bound [OF t, of p m] by auto
  show "tiling n (insert (p, r) (split_blocks p r m) \<union> B)"
    "insert (p, r) (split_blocks p r m) \<inter> B = {}"
    using tiling_replace [of n "{(p, m)}" B, OF _ _ split_blocks_good [OF r pm]]
      split_blocks_cover [OF r, of p] t assms(2) by simp_all
qed

lemma tiling_merge:
  assumes t: "tiling n (insert (p, k) (insert (buddy_of p k, k) B))"
    and "(p, k) \<notin> B" and "(buddy_of p k, k) \<notin> B" and k: "Suc k < MAX_ORDER"
  shows "tiling n (insert (min p (buddy_of p k), Suc k) B)"
    and "(min p (buddy_of p k), Suc k) \<notin> B"
proof -
  let ?q = "min p (buddy_of p k)"
  have dvd: "2 ^ k dvd p" using tiling_block_bound(4) [OF t, of p k] by simp
  have pair: "{p, buddy_of p k} = {?q, ?q + 2 ^ k}" and q: "2 ^ Suc k dvd ?q"
    using buddy_merge [OF dvd] by auto
  have set_eq: "{(p, k), (buddy_of p k, k)} = {(?q, k), (?q + 2 ^ k, k)}"
    using pair by (auto simp: doubleton_eq_iff)
  have cov: "cells {(?q, Suc k)} = cells {(p, k), (buddy_of p k, k)}"
    unfolding set_eq by (auto simp: block_def)
  have "tiling n ({(?q, Suc k)} \<union> B) \<and> {(?q, Suc k)} \<inter> B = {}"
    using tiling_replace [of n "{(p, k), (buddy_of p k, k)}" B, OF _ _ good_blocks_singleton [OF k q] cov]
      t assms(2,3) by auto
  then show "tiling n (insert (?q, Suc k) B)" "(?q, Suc k) \<notin> B" by auto
qed

lemma tiling_extend:
  assumes t: "tiling n B" and k: "k < MAX_ORDER" and "2 ^ k dvd n"
  shows "tiling (n + 2 ^ k) (insert (n, k) B)"
proof -
  have "block (n, k) \<inter> block b = {}" if "b \<in> B" for b
  proof -
    have "block b \<subseteq> {..<n}" using t block_subset_cells [OF that] by (simp add: tiling_def)
    moreover have "block (n, k) \<subseteq> {n..}" by (auto simp: block_def)
    ultimately show ?thesis by fastforce
  qed
  then have "good_blocks ({(n, k)} \<union> B)"
    using good_blocks_Un [OF good_blocks_singleton [OF k assms(3)], of B] t
    unfolding tiling_def by blast
  moreover have "cells (insert (n, k) B) = {n..<n + 2 ^ k} \<union> {..<n}"
    using t by (simp add: tiling_def block_def)
  moreover have "{n..<n + 2 ^ k} \<union> {..<n} = {..<n + 2 ^ k}" by auto
  ultimately show ?thesis by (simp add: tiling_def)
qed

lemma tiling_empty: "tiling 0 {}"
  by (simp add: tiling_def good_blocks_def)

section \<open>The buddy of a block heads a block\<close>

lemma aligned_in_block:
  assumes "2 ^ j dvd q" and "2 ^ k dvd b" and "j \<le> k" and "b \<in> block (q, j)"
  shows "b = q"
proof -
  have "2 ^ j dvd b" using assms(2,3) by (metis pow2_dvd_mono)
  moreover from assms(4) obtain d where "b = q + d" "d < 2 ^ j"
    by (auto simp: block_def dest: le_Suc_ex)
  ultimately have "2 ^ j dvd d" using assms(1) by (simp add: dvd_add_right_iff)
  with \<open>d < 2 ^ j\<close> have "d = 0" by (auto dest: dvd_imp_le)
  with \<open>b = q + d\<close> show ?thesis by simp
qed

lemma enclosing_block:
  assumes "2 ^ j dvd q" and "2 ^ k dvd p" and "k < j" and "buddy_of p k \<in> block (q, j)"
  shows "p \<in> block (q, j)"
proof -
  let ?m = "min p (buddy_of p k)"
  have m: "2 ^ Suc k dvd ?m" and pair: "{p, buddy_of p k} = {?m, ?m + 2 ^ k}"
    using buddy_merge [OF assms(2)] by auto
  have q: "2 ^ Suc k dvd q" using assms(1,3) by (metis Suc_leI pow2_dvd_mono)
  then obtain c where c: "q = 2 ^ Suc k * c" by (auto elim: dvdE)
  from m obtain e where e: "?m = 2 ^ Suc k * e" by (auto elim: dvdE)
  have "2 ^ Suc k dvd (2 :: nat) ^ j" using assms(3) by (intro le_imp_power_dvd) simp
  then obtain f where f: "(2 :: nat) ^ j = 2 ^ Suc k * f" by (auto elim: dvdE)
  have b: "q \<le> buddy_of p k" "buddy_of p k < q + 2 ^ j" using assms(4) by (auto simp: block_def)
  have near: "?m \<le> buddy_of p k" "buddy_of p k < ?m + 2 ^ Suc k"
    using pair by (auto simp: doubleton_eq_iff)
  have "2 ^ Suc k * c < 2 ^ Suc k * (e + 1)"
    using b(1) near(2) c e by (simp add: algebra_simps)
  then have "c \<le> e" by (metis Suc_eq_plus1 less_Suc_eq_le mult_less_cancel1)
  moreover have "2 ^ Suc k * e < 2 ^ Suc k * (c + f)"
    using b(2) near(1) c e f by (simp add: algebra_simps)
  then have "Suc e \<le> c + f" by (metis Suc_leI mult_less_cancel1)
  ultimately have "q \<le> ?m" "?m + 2 ^ Suc k \<le> q + 2 ^ j"
    using c e f by (auto simp: distrib_left [symmetric] simp del: power_Suc)
      (metis Suc_eq_plus1 mult_Suc_right add.commute mult_le_mono2)
  moreover have "p = ?m \<or> p = ?m + 2 ^ k" using pair by blast
  moreover have "0 < (2 :: nat) ^ k" by simp
  ultimately have "q \<le> p \<and> p < q + 2 ^ j" unfolding power_Suc by linarith
  then show ?thesis by (simp add: block_def)
qed

lemma buddy_heads_block:
  assumes t: "tiling n B" and p: "(p, k) \<in> B" and b: "buddy_of p k < n"
  obtains j where "j \<le> k" and "(buddy_of p k, j) \<in> B"
proof -
  from t b have "buddy_of p k \<in> cells B" by (simp add: tiling_def)
  then obtain q j where qj: "(q, j) \<in> B" and mem: "buddy_of p k \<in> block (q, j)"
    by (auto simp: cells_def)
  have dvd: "2 ^ j dvd q" "2 ^ k dvd p"
    using tiling_block_bound(4) [OF t] p qj by auto
  show thesis
  proof (cases "j \<le> k")
    case True
    have "buddy_of p k = q"
      using aligned_in_block [OF dvd(1) buddy_of_aligned [OF dvd(2)] True mem] .
    with True qj that show ?thesis by blast
  next
    case False
    then have "p \<in> block (q, j)" using enclosing_block [OF dvd _ mem] by simp
    with tiling_disjoint [OF t qj p, of p] have "(q, j) = (p, k)"
      using block_nonempty(1) [of "(p, k)"] by simp
    with False show ?thesis by simp
  qed
qed

section \<open>Counting\<close>

lemma card_block [simp]: "card (block b) = 2 ^ snd b"
  by (simp add: block_def)

lemma card_cells:
  assumes "good_blocks B" and "finite B"
  shows "card (cells B) = (\<Sum>b \<in> B. 2 ^ snd b)"
proof -
  have dis: "\<forall>b \<in> B. \<forall>c \<in> B. b \<noteq> c \<longrightarrow> block b \<inter> block c = {}"
    using assms(1) unfolding good_blocks_def by (meson disjoint_iff)
  have "card (cells B) = (\<Sum>b \<in> B. card (block b))"
    unfolding cells_def using assms(2) _ dis by (rule card_UN_disjoint) (simp add: block_def)
  then show ?thesis by simp
qed

end
