(* ===== verification/Buddy_Inv.thy ===== *)
theory Buddy_Inv
  imports Blocks
begin

text \<open>
  The invariant of the buddy allocator, and what its list and object updates do to it.

  \<open>buddy_inv elems a U\<close> relates the allocator to the set \<open>U\<close> of blocks it has handed out
  and not got back.  The blocks in the free lists and those of \<open>U\<close> tile the managed
  objects; every counter is the length of its list; the stored order and state of the
  first object of every block are those of the block; an object is linked exactly when it
  is in a free list.
\<close>

section \<open>The invariant\<close>

definition free_blocks :: "('l \<Rightarrow> nat list) \<Rightarrow> 'l BuddyAllocator \<Rightarrow> (nat \<times> nat) set" where
  "free_blocks elems a = {(p, k). k < MAX_ORDER \<and> p \<in> set (elems (free_lists a ! k))}"

definition lists_inv :: "('l \<Rightarrow> nat list) \<Rightarrow> 'l BuddyAllocator \<Rightarrow> bool" where
  "lists_inv elems a \<longleftrightarrow>
     length (free_lists a) = MAX_ORDER \<and> length (free_counts a) = MAX_ORDER
     \<and> length (objs a) = obj_count a \<and> obj_count a < 2 ^ 63
     \<and> (\<forall>k < MAX_ORDER. distinct (elems (free_lists a ! k))
          \<and> free_counts a ! k = length (elems (free_lists a ! k)))
     \<and> (\<forall>(p, k) \<in> free_blocks elems a. p < obj_count a
          \<and> order (objs a ! p) = k \<and> state (objs a ! p) = Free)
     \<and> (\<forall>p < obj_count a. link (objs a ! p) \<longleftrightarrow> p \<in> fst ` free_blocks elems a)"

definition used_inv :: "'l BuddyAllocator \<Rightarrow> (nat \<times> nat) set \<Rightarrow> bool" where
  "used_inv a U \<longleftrightarrow> (\<forall>(p, k) \<in> U. order (objs a ! p) = k \<and> state (objs a ! p) = Used)"

definition buddy_inv :: "('l \<Rightarrow> nat list) \<Rightarrow> 'l BuddyAllocator \<Rightarrow> (nat \<times> nat) set \<Rightarrow> bool" where
  "buddy_inv elems a U \<longleftrightarrow> lists_inv elems a \<and> used_inv a U
     \<and> tiling (obj_count a) (free_blocks elems a \<union> U)"

lemma lists_invD:
  assumes "lists_inv elems a"
  shows "length (free_lists a) = MAX_ORDER" "length (free_counts a) = MAX_ORDER"
    "length (objs a) = obj_count a" "obj_count a < 2 ^ 63"
    "k < MAX_ORDER \<Longrightarrow> distinct (elems (free_lists a ! k))"
    "k < MAX_ORDER \<Longrightarrow> free_counts a ! k = length (elems (free_lists a ! k))"
    "(p, k) \<in> free_blocks elems a \<Longrightarrow> p < obj_count a"
    "(p, k) \<in> free_blocks elems a \<Longrightarrow> order (objs a ! p) = k"
    "(p, k) \<in> free_blocks elems a \<Longrightarrow> state (objs a ! p) = Free"
    "p < obj_count a \<Longrightarrow> link (objs a ! p) \<longleftrightarrow> p \<in> fst ` free_blocks elems a"
  using assms by (auto simp: lists_inv_def)

lemma free_blocks_unlinked:
  "lists_inv elems a \<Longrightarrow> p < obj_count a \<Longrightarrow> \<not> link (objs a ! p) \<Longrightarrow> (p, k) \<notin> free_blocks elems a"
  using lists_invD(10) [of elems a p] by force

lemma free_used_disjoint:
  assumes "lists_inv elems a" and "used_inv a U"
  shows "free_blocks elems a \<inter> U = {}"
  using lists_invD(9) [OF assms(1)] assms(2) by (fastforce simp: used_inv_def)

lemma list_length_bound:
  assumes "lists_inv elems a" and "k < MAX_ORDER"
  shows "length (elems (free_lists a ! k)) \<le> obj_count a"
proof -
  have "set (elems (free_lists a ! k)) \<subseteq> {..<obj_count a}"
    using lists_invD(7) [OF assms(1), of _ k] assms(2) by (auto simp: free_blocks_def)
  then have "card (set (elems (free_lists a ! k))) \<le> obj_count a"
    by (metis card_lessThan card_mono finite_lessThan)
  then show ?thesis using lists_invD(5) [OF assms] by (simp add: distinct_card)
qed

section \<open>Updating an object that is in no list\<close>

lemma obj_update_simps [simp]:
  "obj_count (obj_update p g a) = obj_count a"
  "base_addr (obj_update p g a) = base_addr a"
  "free_lists (obj_update p g a) = free_lists a"
  "free_counts (obj_update p g a) = free_counts a"
  "length (objs (obj_update p g a)) = length (objs a)"
  "free_blocks elems (obj_update p g a) = free_blocks elems a"
  by (simp_all add: obj_update_def free_blocks_def)

lemma objs_obj_update [simp]:
  "objs (obj_update p g a) = (objs a)[p := g (objs a ! p)]"
  by (simp add: obj_update_def)

lemma nth_obj_update:
  "p < length (objs a) \<Longrightarrow> objs (obj_update p g a) ! q = (if q = p then g (objs a ! p) else objs a ! q)"
  by simp

lemma lists_inv_obj_update:
  assumes "lists_inv elems a" and "p < obj_count a" and "\<not> link (objs a ! p)"
    and "\<not> link (g (objs a ! p))"
  shows "lists_inv elems (obj_update p g a)"
proof -
  have len: "length (objs a) = obj_count a" using lists_invD(3) [OF assms(1)] .
  have p: "p \<notin> fst ` free_blocks elems a"
    using lists_invD(10) [OF assms(1,2)] assms(3) by simp
  then have ne: "(p, k) \<notin> free_blocks elems a" for k by force
  show ?thesis
    using assms(1,2,4) p ne len unfolding lists_inv_def
    by (auto simp: nth_list_update split: if_splits)
qed

section \<open>Pushing and unlinking\<close>

context linked_list
begin

lemma push_free_ok:
  assumes inv: "lists_inv elems a" and k: "k < MAX_ORDER" and p: "p < obj_count a"
    and obj: "\<not> link (objs a ! p)" "order (objs a ! p) = k" "state (objs a ! p) = Free"
  obtains a' where "push_free L k p a = Inr a'" and "lists_inv elems a'"
    and "free_blocks elems a' = insert (p, k) (free_blocks elems a)"
    and "obj_count a' = obj_count a" and "base_addr a' = base_addr a"
    and "objs a' = (objs a)[p := (objs a ! p)\<lparr>link := True\<rparr>]"
proof -
  note D = lists_invD [OF inv]
  define l where "l = ll_push_back L (free_lists a ! k) p"
  define a' where "a' = a\<lparr>free_lists := (free_lists a)[k := l],
      objs := (objs a)[p := (objs a ! p)\<lparr>link := True\<rparr>],
      free_counts := (free_counts a)[k := free_counts a ! k + 1]\<rparr>"
  have el: "elems l = elems (free_lists a ! k) @ [p]"
    by (simp add: l_def elems_push_back)
  have notin: "p \<notin> fst ` free_blocks elems a" using D(10) [OF p] obj(1) by simp
  have "free_counts a ! k + 1 < 2 ^ 64"
    using list_length_bound [OF inv k] D(4) D(6) [OF k] by simp
  then have res: "push_free L k p a = Inr a'"
    using k p obj(1) D(1,2,3)
    by (simp add: push_free_def list_push_back_def count_incr_def obj_update_def a'_def l_def)
  have lists: "elems (free_lists a' ! j) = (if j = k then elems l else elems (free_lists a ! j))" for j
    using k D(1) by (simp add: a'_def nth_list_update)
  have cnts: "free_counts a' ! j = (if j = k then free_counts a ! k + 1 else free_counts a ! j)" for j
    using k D(2) by (simp add: a'_def nth_list_update)
  have fb: "free_blocks elems a' = insert (p, k) (free_blocks elems a)"
    using k by (auto simp: free_blocks_def lists el split: if_splits)
  have nth: "objs a' ! q = (if q = p then (objs a ! p)\<lparr>link := True\<rparr> else objs a ! q)" for q
    using p D(3) by (simp add: a'_def nth_list_update)
  have oc: "obj_count a' = obj_count a" by (simp add: a'_def)
  have "lists_inv elems a'"
    unfolding lists_inv_def
  proof (intro conjI allI impI)
    fix j assume j: "j < MAX_ORDER"
    show "distinct (elems (free_lists a' ! j))"
      using D(5) [OF j] k notin by (auto simp: lists el free_blocks_def image_iff)
    show "free_counts a' ! j = length (elems (free_lists a' ! j))"
      using D(6) [OF j] by (auto simp: lists el cnts)
  next
    show "\<forall>(q, j) \<in> free_blocks elems a'. q < obj_count a' \<and> order (objs a' ! q) = j \<and> state (objs a' ! q) = Free"
      using D(7,8,9) p obj by (auto simp: fb nth oc split: if_splits)
  next
    fix q assume "q < obj_count a'"
    then show "link (objs a' ! q) \<longleftrightarrow> q \<in> fst ` free_blocks elems a'"
      using D(10) [of q] by (auto simp: fb nth oc)
  qed (use D in \<open>auto simp: a'_def\<close>)
  with res fb that show thesis by (simp add: a'_def)
qed

text \<open>Taking an object out of its list, at the front or in the middle.\<close>

lemma unlink_ok:
  assumes inv: "lists_inv elems a" and k: "k < MAX_ORDER" and p: "p \<in> set (elems (free_lists a ! k))"
    and l': "elems l' = remove1 p (elems (free_lists a ! k))"
  obtains a' where
    "count_decr k (obj_update p (\<lambda>f. f\<lparr>link := False\<rparr>) (a\<lparr>free_lists := (free_lists a)[k := l']\<rparr>)) = Inr a'"
    and "lists_inv elems a'"
    and "free_blocks elems a' = free_blocks elems a - {(p, k)}"
    and "obj_count a' = obj_count a" and "base_addr a' = base_addr a"
    and "objs a' = (objs a)[p := (objs a ! p)\<lparr>link := False\<rparr>]"
proof -
  note D = lists_invD [OF inv]
  define a' where "a' = a\<lparr>free_lists := (free_lists a)[k := l'],
      objs := (objs a)[p := (objs a ! p)\<lparr>link := False\<rparr>],
      free_counts := (free_counts a)[k := free_counts a ! k - 1]\<rparr>"
  have pk: "(p, k) \<in> free_blocks elems a" using k p by (simp add: free_blocks_def)
  have p': "p < obj_count a" using D(7) [OF pk] .
  have "1 \<le> free_counts a ! k" using D(6) [OF k] p by (cases "elems (free_lists a ! k)") auto
  then have res: "count_decr k (obj_update p (\<lambda>f. f\<lparr>link := False\<rparr>)
      (a\<lparr>free_lists := (free_lists a)[k := l']\<rparr>)) = Inr a'"
    using k D(2) by (simp add: count_decr_def obj_update_def a'_def)
  have lists: "elems (free_lists a' ! j) =
      (if j = k then remove1 p (elems (free_lists a ! k)) else elems (free_lists a ! j))" for j
    using k D(1) l' by (simp add: a'_def nth_list_update)
  have cnts: "free_counts a' ! j = (if j = k then free_counts a ! k - 1 else free_counts a ! j)" for j
    using k D(2) by (simp add: a'_def nth_list_update)
  have uniq: "j = k" if "(p, j) \<in> free_blocks elems a" for j
    using D(8) [OF that] D(8) [OF pk] by simp
  have fb: "free_blocks elems a' = free_blocks elems a - {(p, k)}"
    using k D(5) [OF k] by (auto simp: free_blocks_def lists split: if_splits)
  have img: "fst ` (free_blocks elems a - {(p, k)}) = fst ` free_blocks elems a - {p}"
  proof
    show "fst ` (free_blocks elems a - {(p, k)}) \<subseteq> fst ` free_blocks elems a - {p}"
      using uniq by auto
    show "fst ` free_blocks elems a - {p} \<subseteq> fst ` (free_blocks elems a - {(p, k)})"
      by force
  qed
  have nth: "objs a' ! q = (if q = p then (objs a ! p)\<lparr>link := False\<rparr> else objs a ! q)" for q
    using p' D(3) by (simp add: a'_def nth_list_update)
  have oc: "obj_count a' = obj_count a" by (simp add: a'_def)
  have "lists_inv elems a'"
    unfolding lists_inv_def
  proof (intro conjI allI impI)
    fix j assume j: "j < MAX_ORDER"
    show "distinct (elems (free_lists a' ! j))"
      using D(5) [OF j] by (auto simp: lists)
    show "free_counts a' ! j = length (elems (free_lists a' ! j))"
      using D(6) [OF j] p by (auto simp: lists cnts length_remove1)
  next
    show "\<forall>(q, j) \<in> free_blocks elems a'. q < obj_count a' \<and> order (objs a' ! q) = j \<and> state (objs a' ! q) = Free"
      using D(7,8,9) by (auto simp: fb nth oc split: if_splits)
  next
    fix q assume "q < obj_count a'"
    then show "link (objs a' ! q) \<longleftrightarrow> q \<in> fst ` free_blocks elems a'"
      using D(10) [of q] by (auto simp: fb img nth oc)
  qed (use D in \<open>auto simp: a'_def\<close>)
  with res fb that show thesis by (simp add: a'_def)
qed

end

section \<open>The buddy computation\<close>

lemma buddy_eq:
  assumes "p < obj_count a" and "k < MAX_ORDER"
  shows "buddy a p k = Inr (if buddy_of p k < obj_count a then Some (buddy_of p k) else None)"
proof -
  have i: "int p XOR 2 ^ k = int (buddy_of p k)"
    by (simp add: buddy_of_def of_nat_xor_eq)
  have "1 \<le> obj_count a" "p \<le> obj_count a - Suc 0" using assms(1) by simp_all
  then show ?thesis
    using assms by (auto simp: buddy_def is_managed_obj_def i Let_def)
qed

end
