(* ===== verification/Buddy_Ops.thy ===== *)
theory Buddy_Ops
  imports Buddy_Inv
begin

text \<open>
  The operations of the buddy allocator keep its invariant: \<open>buddy_new\<close> establishes it,
  \<open>allocate\<close> always keeps it and hands out an aligned block that was free, and \<open>buddy_free\<close>
  keeps it whenever the merges it attempts are between free buddies of equal order
  (\<open>merge_safe\<close>).
\<close>

section \<open>What no operation changes\<close>

definition same_shape :: "'l BuddyAllocator \<Rightarrow> 'l BuddyAllocator \<Rightarrow> bool" where
  "same_shape a a' \<longleftrightarrow> obj_count a' = obj_count a \<and> base_addr a' = base_addr a
     \<and> map number (objs a') = map number (objs a)"

lemma same_shape_refl [simp]: "same_shape a a"
  and same_shape_trans: "same_shape a b \<Longrightarrow> same_shape b c \<Longrightarrow> same_shape a c"
  by (simp_all add: same_shape_def)

lemma same_shape_count: "same_shape a a' \<Longrightarrow> obj_count a' = obj_count a"
  by (simp add: same_shape_def)

lemma map_number_update:
  "number f = number (xs ! p) \<Longrightarrow> map number (xs[p := f]) = map number xs"
  by (simp add: map_update) (metis list_update_id list_update_beyond map_update not_less nth_map)

lemma same_shape_obj_update:
  "number (g (objs a ! p)) = number (objs a ! p) \<Longrightarrow> same_shape a (obj_update p g a)"
  by (simp add: same_shape_def map_number_update)

section \<open>Allocation\<close>

context linked_list
begin

lemma allocate_split_ok:
  assumes "lists_inv elems a" and "m < MAX_ORDER" and "2 ^ m dvd p" and "p + 2 ^ m \<le> obj_count a"
    and "r \<le> m" and "\<And>i. r \<le> i \<Longrightarrow> i < m \<Longrightarrow> \<not> link (objs a ! (p + 2 ^ i))"
  shows "\<exists>a'. allocate_split L p [r..<m] a = Inr a' \<and> lists_inv elems a' \<and> same_shape a a'
     \<and> free_blocks elems a' = free_blocks elems a \<union> split_blocks p r m
     \<and> (\<forall>q. q \<notin> (\<lambda>i. p + 2 ^ i) ` {r..<m} \<longrightarrow> objs a' ! q = objs a ! q)"
  using assms
proof (induction "m - r" arbitrary: r a)
  case 0
  then show ?case by (simp add: split_blocks_def)
next
  case (Suc d)
  then have r: "r < m" and d: "d = m - Suc r" by simp_all
  let ?b = "p + 2 ^ r"
  have dvd: "2 ^ Suc r dvd p" using Suc.prems(3) r by (metis Suc_leI pow2_dvd_mono)
  have b_of: "buddy_of p r = ?b" using buddy_of_upper [OF dvd] .
  have "(2 :: nat) ^ r < 2 ^ m" using r by simp
  then have b: "?b < obj_count a" "p < obj_count a" using Suc.prems(4) by linarith+
  have len: "length (objs a) = obj_count a" using lists_invD(3) [OF Suc.prems(1)] .
  define a0 where "a0 = obj_update ?b (mark_free \<circ> set_order r) a"
  have nl: "\<not> link (objs a ! ?b)" using Suc.prems(6) r by simp
  have inv0: "lists_inv elems a0" unfolding a0_def
    using lists_inv_obj_update [OF Suc.prems(1) b(1) nl] nl by (simp add: frame_op_defs)
  obtain a1 where a1: "push_free L r ?b a0 = Inr a1" "lists_inv elems a1"
      "free_blocks elems a1 = insert (?b, r) (free_blocks elems a0)"
      "obj_count a1 = obj_count a0" "base_addr a1 = base_addr a0"
      "objs a1 = (objs a0)[?b := (objs a0 ! ?b)\<lparr>link := True\<rparr>]"
    using push_free_ok [OF inv0, of r ?b] r Suc.prems(2) b nl len
    by (auto simp: a0_def frame_op_defs)
  have nth: "objs a1 ! q = objs a ! q" if "q \<noteq> ?b" for q
    using that by (simp add: a1(6) a0_def)
  have shape: "same_shape a a1"
    using a1(4,5) b(1) len by (simp add: same_shape_def a1(6) a0_def map_number_update frame_op_defs)
  have "\<not> link (objs a1 ! (p + 2 ^ i))" if "Suc r \<le> i" "i < m" for i
    using that Suc.prems(6) [of i] nth [of "p + 2 ^ i"] by simp
  then obtain a' where a': "allocate_split L p [Suc r..<m] a1 = Inr a'" "lists_inv elems a'"
      "same_shape a1 a'" "free_blocks elems a' = free_blocks elems a1 \<union> split_blocks p (Suc r) m"
      "\<forall>q. q \<notin> (\<lambda>i. p + 2 ^ i) ` {Suc r..<m} \<longrightarrow> objs a' ! q = objs a1 ! q"
    using Suc.hyps(1) [of "Suc r" a1] d Suc.prems(2,3,4) r a1(2,4)
    by (simp add: a0_def) blast
  have "[r..<m] = r # [Suc r..<m]" using r by (simp add: upt_conv_Cons)
  moreover have "buddy a p r = Inr (Some ?b)"
    using buddy_eq [OF b(2), of r] r Suc.prems(2) b b_of by simp
  ultimately have "allocate_split L p [r..<m] a = Inr a'"
    using a1(1) a'(1) by (simp add: a0_def)
  moreover have "split_blocks p r m = insert (?b, r) (split_blocks p (Suc r) m)"
  proof -
    have "{r..<m} = insert r {Suc r..<m}" using r by auto
    then show ?thesis by (simp add: split_blocks_def)
  qed
  moreover have "objs a' ! q = objs a ! q" if "q \<notin> (\<lambda>i. p + 2 ^ i) ` {r..<m}" for q
    using that a'(5) nth [of q] r by (auto simp: image_iff)
  ultimately show ?case
    using a' a1(3) same_shape_trans [OF shape a'(3)] by (auto simp: a0_def)
qed

text \<open>The branch of \<^verbatim>\<open>allocate\<close> that found a block \<open>(p, m)\<close> at the front of its list.\<close>

lemma tiling_inner:
  assumes "tiling n T" "(p, m) \<in> T" "i < m"
  shows "p + 2 ^ i < n" and "p + 2 ^ i \<notin> fst ` T"
proof -
  have "(2 :: nat) ^ i < 2 ^ m" using assms(3) by simp
  then show "p + 2 ^ i < n" using tiling_block_bound [OF assms(1,2)] by linarith
  show "p + 2 ^ i \<notin> fst ` T"
  proof
    assume "p + 2 ^ i \<in> fst ` T"
    then obtain j where j: "(p + 2 ^ i, j) \<in> T" by force
    have "p + 2 ^ i \<in> block (p, m)" using assms(3) by (simp add: block_def)
    then show False
      using tiling_disjoint [OF assms(1) j assms(2), of "p + 2 ^ i"] block_nonempty(1) [of "(p + 2 ^ i, j)"] by simp
  qed
qed

lemma used_inv_insert:
  assumes "used_inv a U" "p \<notin> fst ` U" "order (objs a' ! p) = r" "state (objs a' ! p) = Used"
    and "\<And>q. q \<in> fst ` U \<Longrightarrow> objs a' ! q = objs a ! q"
  shows "used_inv a' (insert (p, r) U)"
  using assms by (fastforce simp: used_inv_def)

lemma allocate_found:
  assumes inv: "buddy_inv elems a U" and m: "m < MAX_ORDER" and r: "r \<le> m"
    and front: "elems (free_lists a ! m) = p # ps" and l': "elems l' = ps"
  shows "\<exists>a1 a2. count_decr m (obj_update p (\<lambda>f. f\<lparr>link := False\<rparr>)
             (a\<lparr>free_lists := (free_lists a)[m := l']\<rparr>)) = Inr a1
     \<and> allocate_split L p [r..<m] (obj_update p (mark_used \<circ> set_order r) a1) = Inr a2
     \<and> buddy_inv elems a2 (insert (p, r) U) \<and> same_shape a a2
     \<and> free_blocks elems a2 = free_blocks elems a - {(p, m)} \<union> split_blocks p r m"
proof -
  let ?F = "free_blocks elems a"
  have li: "lists_inv elems a" and used: "used_inv a U" and t: "tiling (obj_count a) (?F \<union> U)"
    using inv by (auto simp: buddy_inv_def)
  have pm: "(p, m) \<in> ?F" "(p, m) \<in> ?F \<union> U" using m front by (simp_all add: free_blocks_def)
  note tb = tiling_block_bound [OF t pm(2)] and inner = tiling_inner [OF t pm(2)]
  have len: "length (objs a) = obj_count a" using lists_invD(3) [OF li] .
  have disj: "?F \<inter> U = {}" using free_used_disjoint [OF li used] .
  have pU: "p \<notin> fst ` U"
    using tiling_disjoint [OF t _ pm(2), of "(p, _)" p] pm disj block_nonempty(1) [of "(p, _)"] by fastforce
  obtain a1 where a1: "count_decr m (obj_update p (\<lambda>f. f\<lparr>link := False\<rparr>)
        (a\<lparr>free_lists := (free_lists a)[m := l']\<rparr>)) = Inr a1" "lists_inv elems a1"
      "free_blocks elems a1 = ?F - {(p, m)}" "obj_count a1 = obj_count a" "base_addr a1 = base_addr a"
      "objs a1 = (objs a)[p := (objs a ! p)\<lparr>link := False\<rparr>]"
    using unlink_ok [OF li m, of p l'] front l' by auto
  define a0 where "a0 = obj_update p (mark_used \<circ> set_order r) a1"
  have inv0: "lists_inv elems a0" unfolding a0_def
    using lists_inv_obj_update [OF a1(2), of p] a1(4,6) tb(2) len by (simp add: frame_op_defs)
  have nl: "\<not> link (objs a0 ! (p + 2 ^ i))" if "r \<le> i" "i < m" for i
    using inner [OF that(2)] lists_invD(10) [OF li] by (simp add: a0_def a1(6) image_Un)
  obtain a2 where a2: "allocate_split L p [r..<m] a0 = Inr a2" "lists_inv elems a2" "same_shape a0 a2"
      "free_blocks elems a2 = free_blocks elems a0 \<union> split_blocks p r m"
      "\<forall>q. q \<notin> (\<lambda>i. p + 2 ^ i) ` {r..<m} \<longrightarrow> objs a2 ! q = objs a0 ! q"
    using allocate_split_ok [OF inv0 m tb(4) _ r nl] tb(1) a1(4) by (auto simp: a0_def)
  have "same_shape a a0"
    using a1(4,5) tb(2) len by (simp add: same_shape_def a0_def a1(6) map_number_update frame_op_defs)
  then have shape: "same_shape a a2" by (rule same_shape_trans [OF _ a2(3)])
  have fb: "free_blocks elems a2 = ?F - {(p, m)} \<union> split_blocks p r m"
    using a2(4) a1(3) by (simp add: a0_def)
  have "used_inv a2 (insert (p, r) U)"
  proof (rule used_inv_insert [OF used pU])
    have "p \<notin> (\<lambda>i. p + 2 ^ i) ` {r..<m}" by auto
    then show "order (objs a2 ! p) = r" "state (objs a2 ! p) = Used"
      using a2(5) a1(4,6) tb(2) len by (simp_all add: a0_def frame_op_defs)
    fix q assume q: "q \<in> fst ` U"
    have "q \<notin> (\<lambda>i. p + 2 ^ i) ` {r..<m}"
    proof
      assume "q \<in> (\<lambda>i. p + 2 ^ i) ` {r..<m}"
      then obtain i where "i < m" "q = p + 2 ^ i" by auto
      with inner(2) q show False by (simp add: image_Un)
    qed
    moreover have "q \<noteq> p" using q pU by blast
    ultimately show "objs a2 ! q = objs a ! q" using a2(5) by (simp add: a0_def a1(6))
  qed
  moreover have "tiling (obj_count a) (insert (p, r) (split_blocks p r m) \<union> (?F - {(p, m)} \<union> U))"
  proof (rule tiling_split(1) [OF _ _ r])
    have "insert (p, m) (?F - {(p, m)} \<union> U) = ?F \<union> U" using pm by auto
    with t show "tiling (obj_count a) (insert (p, m) (?F - {(p, m)} \<union> U))" by simp
    show "(p, m) \<notin> ?F - {(p, m)} \<union> U" using pm disj by auto
  qed
  then have "tiling (obj_count a2) (free_blocks elems a2 \<union> insert (p, r) U)"
    using same_shape_count [OF shape] by (simp add: fb Un_ac)
  ultimately show ?thesis
    using a1(1) a2(1,2) shape fb by (auto simp: buddy_inv_def a0_def)
qed

lemma allocate_search_ok:
  assumes inv: "buddy_inv elems a U" and "r \<le> k" and "k \<le> MAX_ORDER"
  shows "(\<exists>p m a'. allocate_search L r [k..<MAX_ORDER] a = Inr (Some p, a')
          \<and> k \<le> m \<and> (p, m) \<in> free_blocks elems a \<and> (\<forall>(q, j) \<in> free_blocks elems a. j < k \<or> m \<le> j)
          \<and> buddy_inv elems a' (insert (p, r) U) \<and> same_shape a a'
          \<and> free_blocks elems a' = free_blocks elems a - {(p, m)} \<union> split_blocks p r m)
     \<or> allocate_search L r [k..<MAX_ORDER] a = Inr (None, a)
          \<and> (\<forall>(p, m) \<in> free_blocks elems a. m < k)"
  using assms(2,3)
proof (induction "MAX_ORDER - k" arbitrary: k)
  case 0
  then show ?case by (auto simp: free_blocks_def)
next
  case (Suc d)
  then have k: "k < MAX_ORDER" and up: "[k..<MAX_ORDER] = k # [Suc k..<MAX_ORDER]"
    by (simp_all add: upt_conv_Cons)
  have len: "k < length (free_lists a)" using k inv by (simp add: buddy_inv_def lists_inv_def)
  show ?case
  proof (cases "elems (free_lists a ! k)")
    case Nil
    then have none: "(p, k) \<notin> free_blocks elems a" for p by (simp add: free_blocks_def)
    have "allocate_search L r [k..<MAX_ORDER] a = allocate_search L r [Suc k..<MAX_ORDER] a"
      using up len pop_front_empty [OF Nil] by simp
    note same = this
    have lt: "j < k" if "(q, j) \<in> free_blocks elems a" "j < Suc k" for q j using none that by (auto simp: less_Suc_eq)
    have "d = MAX_ORDER - Suc k" "r \<le> Suc k" "Suc k \<le> MAX_ORDER" using Suc.hyps(2) Suc.prems k by simp_all
    from Suc.hyps(1) [OF this] show ?thesis
    proof (elim disjE exE conjE)
      fix p m a' assume "allocate_search L r [Suc k..<MAX_ORDER] a = Inr (Some p, a')" "Suc k \<le> m"
        "(p, m) \<in> free_blocks elems a" "\<forall>(q, j) \<in> free_blocks elems a. j < Suc k \<or> m \<le> j"
        "buddy_inv elems a' (insert (p, r) U)" "same_shape a a'"
        "free_blocks elems a' = free_blocks elems a - {(p, m)} \<union> split_blocks p r m"
      then show ?thesis using lt unfolding same by (intro disjI1 exI [of _ p] exI [of _ m] exI [of _ a']) auto
    next
      assume "allocate_search L r [Suc k..<MAX_ORDER] a = Inr (None, a)" "\<forall>(p, m) \<in> free_blocks elems a. m < Suc k"
      then show ?thesis using lt unfolding same by (intro disjI2) auto
    qed
  next
    case (Cons p ps)
    then obtain l' where l': "ll_pop_front L (free_lists a ! k) = Some (p, l')" "elems l' = ps"
      using pop_front_cons by blast
    have "(p, k) \<in> free_blocks elems a" using k Cons by (simp add: free_blocks_def)
    with allocate_found [OF inv k Suc.prems(1) Cons l'(2)] l'(1) up len show ?thesis
      by fastforce
  qed
qed

end

section \<open>Freeing\<close>

text \<open>
  The merge loop of \<^verbatim>\<open>free\<close> asks of a buddy only whether it is marked used.  It works as
  intended if every buddy it finds free is free as a block of the order at hand, and if the
  merging stops below \<open>MAX_ORDER\<close>.
\<close>

fun merge_safe :: "'l BuddyAllocator \<Rightarrow> nat \<Rightarrow> nat list \<Rightarrow> bool" where
  "merge_safe a p [] = False"
| "merge_safe a p (i # is) =
     (obj_count a \<le> buddy_of p i \<or> is_used (objs a ! buddy_of p i)
      \<or> order (objs a ! buddy_of p i) = i \<and> merge_safe a (min p (buddy_of p i)) is)"

lemma buddy_not_in_block:
  assumes "2 ^ k dvd p"
  shows "buddy_of p k \<notin> block (p, k)"
  using buddy_of_cases [OF assms] by (auto simp: block_def)

lemma merged_block:
  assumes "2 ^ k dvd p"
  shows "block (p, k) \<union> block (buddy_of p k, k) = block (min p (buddy_of p k), Suc k)"
  using buddy_of_cases [OF assms] by (auto simp: block_def min_def)

lemma merge_safe_cong:
  assumes "2 ^ k dvd p" and "obj_count a' = obj_count a"
    and "\<And>x. x \<notin> block (p, k) \<Longrightarrow> objs a' ! x = objs a ! x"
  shows "merge_safe a' p [k..<m] \<longleftrightarrow> merge_safe a p [k..<m]"
  using assms
proof (induction "m - k" arbitrary: k p)
  case 0
  then show ?case by simp
next
  case (Suc d)
  then have up: "[k..<m] = k # [Suc k..<m]" by (simp add: upt_conv_Cons)
  let ?b = "buddy_of p k"
  have b: "objs a' ! ?b = objs a ! ?b"
    using Suc.prems(3) buddy_not_in_block [OF Suc.prems(1)] by blast
  have "merge_safe a' (min p ?b) [Suc k..<m] \<longleftrightarrow> merge_safe a (min p ?b) [Suc k..<m]"
  proof (rule Suc.hyps(1))
    show "d = m - Suc k" using Suc.hyps(2) by simp
    show "2 ^ Suc k dvd min p ?b" using buddy_merge(1) [OF Suc.prems(1)] .
    show "objs a' ! x = objs a ! x" if "x \<notin> block (min p ?b, Suc k)" for x
      using that Suc.prems(3) merged_block [OF Suc.prems(1)] by blast
  qed (rule Suc.prems(2))
  then show ?case by (simp add: up b Suc.prems(2))
qed

text \<open>The block under way: free, of order \<open>k\<close>, and in no list yet.\<close>

definition pending :: "('l \<Rightarrow> nat list) \<Rightarrow> 'l BuddyAllocator \<Rightarrow> (nat \<times> nat) set \<Rightarrow> nat \<Rightarrow> nat \<Rightarrow> bool" where
  "pending elems a U p k \<longleftrightarrow> lists_inv elems a \<and> used_inv a U
     \<and> tiling (obj_count a) (insert (p, k) (free_blocks elems a \<union> U))
     \<and> (p, k) \<notin> free_blocks elems a \<union> U
     \<and> \<not> link (objs a ! p) \<and> order (objs a ! p) = k \<and> state (objs a ! p) = Free"

lemma pendingD:
  assumes "pending elems a U p k"
  shows "lists_inv elems a" "used_inv a U"
    "tiling (obj_count a) (insert (p, k) (free_blocks elems a \<union> U))"
    "(p, k) \<notin> free_blocks elems a" "(p, k) \<notin> U"
    "\<not> link (objs a ! p)" "order (objs a ! p) = k" "state (objs a ! p) = Free"
    "p < obj_count a" "k < MAX_ORDER" "2 ^ k dvd p"
  using assms tiling_block_bound [of "obj_count a" "insert (p, k) (free_blocks elems a \<union> U)" p k]
  by (auto simp: pending_def)

lemma pending_free_buddy:
  assumes P: "pending elems a U p k" and b: "buddy_of p k < obj_count a"
    and "\<not> is_used (objs a ! buddy_of p k)"
  shows "(buddy_of p k, order (objs a ! buddy_of p k)) \<in> free_blocks elems a
     \<and> order (objs a ! buddy_of p k) \<le> k"
proof -
  obtain j where j: "j \<le> k" "(buddy_of p k, j) \<in> insert (p, k) (free_blocks elems a \<union> U)"
    using buddy_heads_block [OF pendingD(3) [OF P], of p k] b by auto
  then have "(buddy_of p k, j) \<in> free_blocks elems a \<or> (buddy_of p k, j) \<in> U"
    using buddy_of_neq by auto
  moreover have "(buddy_of p k, j) \<notin> U"
    using pendingD(2) [OF P] assms(3) by (auto simp: used_inv_def is_used_def)
  ultimately show ?thesis
    using j(1) lists_invD(8) [OF pendingD(1) [OF P]] by blast
qed

context linked_list
begin

lemma merge_step:
  assumes P: "pending elems a U p k" and b: "(buddy_of p k, k) \<in> free_blocks elems a"
  obtains l' a1 a2 where "ll_unlink L (free_lists a ! k) (buddy_of p k) = Some (buddy_of p k, l')"
    and "count_decr k (obj_update (buddy_of p k) (\<lambda>f. f\<lparr>link := False\<rparr>)
           (a\<lparr>free_lists := (free_lists a)[k := l']\<rparr>)) = Inr a1"
    and "a2 = (if buddy_of p k < p then obj_update (buddy_of p k) (set_order (k + 1) \<circ> mark_free) a1
               else obj_update p (set_order (k + 1)) a1)"
    and "Suc k < MAX_ORDER \<Longrightarrow> pending elems a2 U (min p (buddy_of p k)) (Suc k)"
    and "order (objs a2 ! min p (buddy_of p k)) = Suc k"
    and "same_shape a a2" and "lists_inv elems a2"
    and "\<And>x. x \<notin> {p, buddy_of p k} \<Longrightarrow> objs a2 ! x = objs a ! x"
    and "free_blocks elems a2 = free_blocks elems a - {(buddy_of p k, k)}"
proof -
  let ?b = "buddy_of p k" and ?F = "free_blocks elems a"
  note D = pendingD [OF P]
  let ?q = "min p ?b"
  have mem: "?b \<in> set (elems (free_lists a ! k))" using b by (simp add: free_blocks_def)
  obtain l' where l': "ll_unlink L (free_lists a ! k) ?b = Some (?b, l')"
      "elems l' = remove1 ?b (elems (free_lists a ! k))"
    using unlink_member [OF mem] by blast
  obtain a1 where a1: "count_decr k (obj_update ?b (\<lambda>f. f\<lparr>link := False\<rparr>)
        (a\<lparr>free_lists := (free_lists a)[k := l']\<rparr>)) = Inr a1" "lists_inv elems a1"
      "free_blocks elems a1 = ?F - {(?b, k)}" "obj_count a1 = obj_count a" "base_addr a1 = base_addr a"
      "objs a1 = (objs a)[?b := (objs a ! ?b)\<lparr>link := False\<rparr>]"
    using unlink_ok [OF D(1,10) mem l'(2)] by blast
  have bn: "?b < obj_count a" "?b \<noteq> p" "state (objs a ! ?b) = Free"
    using lists_invD(7,9) [OF D(1) b] buddy_of_neq by auto
  have len: "length (objs a) = obj_count a" using lists_invD(3) [OF D(1)] .
  define a2 where "a2 = (if ?b < p then obj_update ?b (set_order (k + 1) \<circ> mark_free) a1
               else obj_update p (set_order (k + 1)) a1)"
  have q: "?q < obj_count a" using D(9) by simp
  have q1: "\<not> link (objs a1 ! ?q)" "state (objs a1 ! ?q) = Free"
    using bn len D(6,8) by (auto simp: a1(6) min_def nth_list_update)
  define g where "g = (if ?b < p then set_order (k + 1) \<circ> mark_free else set_order (k + 1))"
  have a2: "a2 = obj_update ?q g a1" by (simp add: a2_def g_def)
  have g: "\<not> link (g f) \<longleftrightarrow> \<not> link f" "order (g f) = Suc k" "number (g f) = number f"
    "state f = Free \<Longrightarrow> state (g f) = Free" for f
    by (simp_all add: g_def frame_op_defs)
  have inv2: "lists_inv elems a2" unfolding a2
    using lists_inv_obj_update [OF a1(2), of ?q g] q q1 a1(4) g by simp
  have nth: "objs a2 ! x = objs a ! x" if "x \<notin> {p, ?b}" for x
    using that by (auto simp: a2 a1(6) min_def)
  have oq: "objs a2 ! ?q = g (objs a1 ! ?q)" using q a1(4,6) len by (simp add: a2)
  have shape: "same_shape a a2"
  proof (rule same_shape_trans)
    show "same_shape a a1" using a1(4,5) by (simp add: same_shape_def a1(6) map_number_update)
    show "same_shape a1 a2" unfolding a2 by (rule same_shape_obj_update) (simp add: g)
  qed
  have disj: "?F \<inter> U = {}" using free_used_disjoint [OF D(1,2)] .
  have "pending elems a2 U ?q (Suc k)" if sk: "Suc k < MAX_ORDER"
  proof -
    let ?B = "?F - {(?b, k)} \<union> U"
    have "insert (p, k) (insert (?b, k) ?B) = insert (p, k) (?F \<union> U)" using b by auto
    then have t: "tiling (obj_count a) (insert (p, k) (insert (?b, k) ?B))" using D(3) by simp
    have "tiling (obj_count a) (insert (?q, Suc k) ?B)" "(?q, Suc k) \<notin> ?B"
      using tiling_merge [OF t _ _ sk] D(4,5) b disj by auto
    moreover have "used_inv a2 U"
      unfolding used_inv_def
    proof clarify
      fix x j assume xj: "(x, j) \<in> U"
      have "state (objs a ! x) = Used" using D(2) xj by (auto simp: used_inv_def)
      then have "x \<notin> {p, ?b}" using D(8) bn(3) by auto
      with nth [of x] D(2) xj show "order (objs a2 ! x) = j \<and> state (objs a2 ! x) = Used"
        by (auto simp: used_inv_def)
    qed
    ultimately show ?thesis
      using inv2 oq q1 g a1(3,4) by (simp add: pending_def a2)
  qed
  then show thesis
    using that [OF l'(1) a1(1) a2_def] oq g(2) shape inv2 nth a1(3) by (simp add: a2)
qed

text \<open>A merge only moves cells to larger blocks.\<close>

lemma merge_large:
  assumes "2 ^ k dvd p"
  shows "cells (large r (insert (p, k) F)) \<subseteq> cells (large r (insert (min p (buddy_of p k), Suc k) (F - {(buddy_of p k, k)})))"
proof
  fix x assume "x \<in> cells (large r (insert (p, k) F))"
  then obtain y j where y: "(y, j) \<in> insert (p, k) F" "r \<le> j" "x \<in> block (y, j)" by (auto simp: cells_def large_def)
  let ?G = "insert (min p (buddy_of p k), Suc k) (F - {(buddy_of p k, k)})"
  have "\<exists>b \<in> ?G. r \<le> snd b \<and> x \<in> block b"
  proof (cases "(y, j) \<in> {(p, k), (buddy_of p k, k)}")
    case True
    then have "x \<in> block (min p (buddy_of p k), Suc k)" "r \<le> Suc k" using y(2,3) merged_block [OF assms] by auto
    then show ?thesis by simp
  next
    case False
    then show ?thesis using y by (intro bexI [of _ "(y, j)"]) auto
  qed
  then show "x \<in> cells (large r ?G)" unfolding cells_def large_def by blast
qed


lemma free_merge_ok:
  assumes "pending elems a U p k" and "merge_safe a p [k..<MAX_ORDER]"
  shows "\<exists>q j a'. free_merge L p [k..<MAX_ORDER] a = Inr (q, a') \<and> pending elems a' U q j \<and> same_shape a a'
     \<and> (\<forall>r. cells (large r (insert (p, k) (free_blocks elems a))) \<subseteq> cells (large r (insert (q, j) (free_blocks elems a'))))"
  using assms
proof (induction "MAX_ORDER - k" arbitrary: k p a)
  case 0
  then show ?case by simp
next
  case (Suc d)
  then have k: "k < MAX_ORDER" and d: "d = MAX_ORDER - Suc k"
    and up: "[k..<MAX_ORDER] = k # [Suc k..<MAX_ORDER]"
    by (simp_all add: upt_conv_Cons)
  note D = pendingD [OF Suc.prems(1)]
  let ?b = "buddy_of p k"
  have bd: "buddy a p k = Inr (if ?b < obj_count a then Some ?b else None)"
    using buddy_eq [OF D(9) k] .
  show ?case
  proof (cases "?b < obj_count a \<and> \<not> is_used (objs a ! ?b)")
    case False
    then have "free_merge L p [k..<MAX_ORDER] a = Inr (p, a)" using up bd by auto
    with Suc.prems(1) same_shape_refl show ?thesis by blast
  next
    case True
    with Suc.prems(2) up have safe: "order (objs a ! ?b) = k" "merge_safe a (min p ?b) [Suc k..<MAX_ORDER]"
      by auto
    have b: "(?b, k) \<in> free_blocks elems a"
      using pending_free_buddy [OF Suc.prems(1)] True safe(1) by simp
    have sk: "Suc k < MAX_ORDER" using safe(2) by (cases "Suc k < MAX_ORDER") auto
    obtain l' a1 a2 where st: "ll_unlink L (free_lists a ! k) ?b = Some (?b, l')"
        "count_decr k (obj_update ?b (\<lambda>f. f\<lparr>link := False\<rparr>)
           (a\<lparr>free_lists := (free_lists a)[k := l']\<rparr>)) = Inr a1"
        "a2 = (if ?b < p then obj_update ?b (set_order (k + 1) \<circ> mark_free) a1
               else obj_update p (set_order (k + 1)) a1)"
        "pending elems a2 U (min p ?b) (Suc k)" "same_shape a a2"
        "\<And>x. x \<notin> {p, ?b} \<Longrightarrow> objs a2 ! x = objs a ! x" "free_blocks elems a2 = free_blocks elems a - {(?b, k)}"
      using merge_step [OF Suc.prems(1) b] sk by metis
    have "k < length (free_lists a)" using k lists_invD(1) [OF D(1)] by simp
    then have run: "free_merge L p [k..<MAX_ORDER] a = free_merge L (min p ?b) [Suc k..<MAX_ORDER] a2"
      using True up bd st(1,2) by (auto simp: st(3) min_def)
    have "merge_safe a2 (min p ?b) [Suc k..<MAX_ORDER]"
    proof (subst merge_safe_cong)
      show "2 ^ Suc k dvd min p ?b" using buddy_merge(1) [OF D(11)] .
      show "obj_count a2 = obj_count a" using same_shape_count [OF st(5)] .
      have "{p, ?b} \<subseteq> block (min p ?b, Suc k)"
        using merged_block [OF D(11)] block_nonempty(1) [of "(p, k)"] block_nonempty(1) [of "(?b, k)"]
        by auto
      then show "objs a2 ! x = objs a ! x" if "x \<notin> block (min p ?b, Suc k)" for x
        using st(6) that by blast
    qed (rule safe(2))
    from Suc.hyps(1) [OF d st(4) this] obtain q j a' where
        IH: "free_merge L (min p ?b) [Suc k..<MAX_ORDER] a2 = Inr (q, a')" "pending elems a' U q j" "same_shape a2 a'"
        "\<forall>r. cells (large r (insert (min p ?b, Suc k) (free_blocks elems a2))) \<subseteq> cells (large r (insert (q, j) (free_blocks elems a')))"
      by blast
    have "\<forall>r. cells (large r (insert (p, k) (free_blocks elems a))) \<subseteq> cells (large r (insert (q, j) (free_blocks elems a')))"
      using merge_large [OF D(11)] IH(4) unfolding st(7) by (meson order_trans)
    then show ?thesis using run IH same_shape_trans [OF st(5)] by metis
  qed
qed

end

end
