(* ===== verification/Buddy_Props.thy ===== *)
theory Buddy_Props
  imports Buddy_Ops
begin

text \<open>
  Correctness of the buddy allocator: construction, allocation, release, the counter of
  free objects, and the \<open>frame_allocator\<close> interface the page tables use.
\<close>

section \<open>Construction\<close>

definition building :: "('l \<Rightarrow> nat list) \<Rightarrow> nat \<Rightarrow> 'l BuddyAllocator \<Rightarrow> nat \<Rightarrow> bool" where
  "building elems count a index \<longleftrightarrow> lists_inv elems a \<and> obj_count a = count \<and> index \<le> count
     \<and> tiling index (free_blocks elems a)"

context linked_list
begin

lemma new_while_step:
  assumes B: "building elems count a index" and k: "k < MAX_ORDER" and "2 ^ k dvd index"
    and room: "2 ^ k \<le> count - index"
  shows "\<exists>a1. push_free L k index (obj_update index (mark_free \<circ> set_order k) a) = Inr a1
     \<and> building elems count a1 (index + 2 ^ k) \<and> same_shape a a1
     \<and> free_blocks elems a1 = insert (index, k) (free_blocks elems a)"
proof -
  have li: "lists_inv elems a" and oc: "obj_count a = count" and t: "tiling index (free_blocks elems a)"
    using B by (auto simp: building_def)
  have "0 < (2 :: nat) ^ k" by simp
  with room have i: "index < obj_count a" "index + 2 ^ k \<le> count" using oc by linarith+
  have len: "length (objs a) = obj_count a" using lists_invD(3) [OF li] .
  have nl: "\<not> link (objs a ! index)"
    using lists_invD(10) [OF li i(1)] tiling_block_bound(2) [OF t] by force
  let ?a0 = "obj_update index (mark_free \<circ> set_order k) a"
  have inv0: "lists_inv elems ?a0"
    using lists_inv_obj_update [OF li i(1) nl] nl by (simp add: frame_op_defs)
  obtain a1 where a1: "push_free L k index ?a0 = Inr a1" "lists_inv elems a1"
      "free_blocks elems a1 = insert (index, k) (free_blocks elems ?a0)"
      "obj_count a1 = obj_count ?a0" "base_addr a1 = base_addr ?a0"
      "objs a1 = (objs ?a0)[index := (objs ?a0 ! index)\<lparr>link := True\<rparr>]"
    using push_free_ok [OF inv0 k, of index] i nl len by (auto simp: frame_op_defs)
  moreover have "tiling (index + 2 ^ k) (free_blocks elems a1)"
    using tiling_extend [OF t k assms(3)] a1(3) by simp
  moreover have "same_shape a a1"
    using a1(4,5,6) i(1) len by (simp add: same_shape_def map_number_update frame_op_defs)
  ultimately show ?thesis using oc i(2) by (simp add: building_def)
qed

lemma new_while_ok:
  assumes "building elems count a index" and "k < MAX_ORDER" and "2 ^ k dvd index"
  shows "\<exists>i' a'. new_while L count k index a = Inr (i', a') \<and> building elems count a' i'
     \<and> 2 ^ k dvd i' \<and> count - i' < 2 ^ k \<and> same_shape a a'"
  using assms
proof (induction "count - index" arbitrary: index a rule: less_induct)
  case less
  have sub: "usub count index = Inr (count - index)" using less.prems(1) by (simp add: building_def)
  show ?case
  proof (cases "2 ^ k \<le> count - index")
    case True
    obtain a1 where a1: "push_free L k index (obj_update index (mark_free \<circ> set_order k) a) = Inr a1"
        "building elems count a1 (index + 2 ^ k)" "same_shape a a1"
      using new_while_step [OF less.prems True] by blast
    have "0 < (2 :: nat) ^ k" by simp
    with True have "count - (index + 2 ^ k) < count - index" by linarith
    from less.hyps [OF this a1(2) less.prems(2)] less.prems(3)
    obtain i' a' where "new_while L count k (index + 2 ^ k) a1 = Inr (i', a')"
        "building elems count a' i'" "2 ^ k dvd i'" "count - i' < 2 ^ k" "same_shape a1 a'"
      by auto
    with True a1 sub show ?thesis
      by (auto simp: new_while.simps [of L count k index a] intro: same_shape_trans)
  next
    case False
    with less.prems sub show ?thesis by (simp add: new_while.simps [of L count k index a])
  qed
qed

lemma new_orders_ok:
  assumes "building elems count a index" and "m \<le> MAX_ORDER" and "2 ^ m dvd index"
    and "m < MAX_ORDER \<longrightarrow> count - index < 2 ^ m"
  shows "\<exists>a'. new_orders L count (rev [0..<m]) index a = Inr (count, a')
     \<and> building elems count a' count \<and> same_shape a a'"
  using assms
proof (induction m arbitrary: index a)
  case 0
  then have "index = count" by (auto simp: building_def MAX_ORDER_def)
  with 0 show ?case by simp
next
  case (Suc m)
  have dvd: "2 ^ m dvd index" using Suc.prems(3) by (rule pow2_dvd_mono [rotated]) simp
  obtain i' a1 where "new_while L count m index a = Inr (i', a1)" "building elems count a1 i'"
      "2 ^ m dvd i'" "count - i' < 2 ^ m" "same_shape a a1"
    using new_while_ok [OF Suc.prems(1) _ dvd] Suc.prems(2) by auto
  with Suc.IH [of a1 i'] Suc.prems(2) show ?case by (auto intro: same_shape_trans)
qed

lemma buddy_new_ok:
  assumes "length os = count" and "count < 2 ^ 63"
  shows "\<exists>a. buddy_new L base os count = Inr a \<and> buddy_inv elems a {} \<and> obj_count a = count
     \<and> base_addr a = base \<and> map number (objs a) = map number os"
proof -
  let ?a0 = "\<lparr>base_addr = base, obj_count = count, free_lists = replicate MAX_ORDER (ll_new L),
        free_counts = replicate MAX_ORDER 0, objs = map reset_link os\<rparr>"
  have fb: "free_blocks elems ?a0 = {}" by (auto simp: free_blocks_def elems_new)
  have "building elems count ?a0 0"
    using assms tiling_empty
    by (auto simp: building_def lists_inv_def fb elems_new reset_link_def)
  then obtain a where "new_orders L count (rev [0..<MAX_ORDER]) 0 ?a0 = Inr (count, a)"
      "building elems count a count" "same_shape ?a0 a"
    using new_orders_ok [of count ?a0 0 MAX_ORDER] by auto
  moreover have "map number (map reset_link os) = map number os" by (simp add: reset_link_def)
  ultimately show ?thesis
    by (auto simp: buddy_new_def building_def buddy_inv_def used_inv_def same_shape_def)
qed

section \<open>Release\<close>

lemma pending_push:
  assumes P: "pending elems a U q j"
  shows "\<exists>a'. push_free L (order (objs a ! q)) q a = Inr a' \<and> buddy_inv elems a' U \<and> same_shape a a'
     \<and> free_blocks elems a' = insert (q, j) (free_blocks elems a)"
proof -
  note D = pendingD [OF P]
  obtain a' where a': "push_free L j q a = Inr a'" "lists_inv elems a'"
      "free_blocks elems a' = insert (q, j) (free_blocks elems a)"
      "obj_count a' = obj_count a" "base_addr a' = base_addr a"
      "objs a' = (objs a)[q := (objs a ! q)\<lparr>link := True\<rparr>]"
    using push_free_ok [OF D(1,10,9,6,7,8)] by blast
  have "used_inv a' U"
    unfolding used_inv_def
  proof clarify
    fix x i assume x: "(x, i) \<in> U"
    then have "order (objs a ! x) = i \<and> state (objs a ! x) = Used" using D(2) by (auto simp: used_inv_def)
    then show "order (objs a' ! x) = i \<and> state (objs a' ! x) = Used"
      using D(8) by (cases "x = q") (auto simp: a'(6))
  qed
  moreover have "tiling (obj_count a') (free_blocks elems a' \<union> U)" using D(3) a'(3,4) by simp
  moreover have "same_shape a a'" using a'(4,5,6) by (simp add: same_shape_def map_number_update)
  ultimately show ?thesis using a'(1-3) D(7) by (auto simp: buddy_inv_def)
qed

lemma free_start:
  assumes inv: "buddy_inv elems a U" and pk: "(p, k) \<in> U"
  shows "pending elems (obj_update p mark_free a) (U - {(p, k)}) p k"
    and "is_managed_obj a (int p) = Inr True" and "order (objs a ! p) = k"
    and "merge_safe (obj_update p mark_free a) p [k..<m] = merge_safe a p [k..<m]"
proof -
  have li: "lists_inv elems a" and used: "used_inv a U" and t: "tiling (obj_count a) (free_blocks elems a \<union> U)"
    using inv by (auto simp: buddy_inv_def)
  note tb = tiling_block_bound [OF t, of p k]
  have p: "p < obj_count a" "2 ^ k dvd p" using tb pk by auto
  have ord: "order (objs a ! p) = k" "state (objs a ! p) = Used" using used pk by (auto simp: used_inv_def)
  then show "order (objs a ! p) = k" by simp
  show "is_managed_obj a (int p) = Inr True" using p by (auto simp: is_managed_obj_def)
  have len: "length (objs a) = obj_count a" using lists_invD(3) [OF li] .
  have notf: "(p, j) \<notin> free_blocks elems a" for j using lists_invD(9) [OF li] ord(2) by force
  then have nl: "\<not> link (objs a ! p)" using lists_invD(10) [OF li p(1)] by force
  have head: "x \<noteq> p" if "(x, j) \<in> U - {(p, k)}" for x j
    using that used ord(1) by (fastforce simp: used_inv_def)
  have "used_inv (obj_update p mark_free a) (U - {(p, k)})"
    unfolding used_inv_def
  proof (rule ballI)
    fix y assume y: "y \<in> U - {(p, k)}"
    obtain x j where [simp]: "y = (x, j)" by fastforce
    have "order (objs a ! x) = j \<and> state (objs a ! x) = Used" "x \<noteq> p"
      using y used head [of x j] by (fastforce simp: used_inv_def)+
    then show "case y of (x, j) \<Rightarrow> order (objs (obj_update p mark_free a) ! x) = j
        \<and> state (objs (obj_update p mark_free a) ! x) = Used"
      by simp
  qed
  moreover have "insert (p, k) (free_blocks elems a \<union> (U - {(p, k)})) = free_blocks elems a \<union> U"
    using pk by auto
  ultimately show "pending elems (obj_update p mark_free a) (U - {(p, k)}) p k"
    using lists_inv_obj_update [OF li p(1) nl, of mark_free] t nl notf ord p len
    by (simp add: pending_def frame_op_defs)
  show "merge_safe (obj_update p mark_free a) p [k..<m] = merge_safe a p [k..<m]"
  proof (rule merge_safe_cong [OF p(2)])
    show "objs (obj_update p mark_free a) ! x = objs a ! x" if "x \<notin> block (p, k)" for x
      using that block_nonempty(1) [of "(p, k)"] by (cases "x = p") auto
  qed simp
qed

lemma buddy_free_ok:
  assumes inv: "buddy_inv elems a U" and pk: "(p, k) \<in> U" and safe: "merge_safe a p [k..<MAX_ORDER]"
  shows "\<exists>a'. buddy_free L a p = Inr a' \<and> buddy_inv elems a' (U - {(p, k)}) \<and> same_shape a a'
     \<and> (\<forall>r. cells (large r (free_blocks elems a)) \<subseteq> cells (large r (free_blocks elems a')))"
proof -
  let ?a0 = "obj_update p mark_free a"
  note S = free_start [OF inv pk]
  obtain q j a1 where a1: "free_merge L p [k..<MAX_ORDER] ?a0 = Inr (q, a1)"
      "pending elems a1 (U - {(p, k)}) q j" "same_shape ?a0 a1"
      "\<forall>r. cells (large r (insert (p, k) (free_blocks elems ?a0))) \<subseteq> cells (large r (insert (q, j) (free_blocks elems a1)))"
    using free_merge_ok [OF S(1)] safe S(4) by blast
  obtain a' where a': "push_free L (order (objs a1 ! q)) q a1 = Inr a'"
      "buddy_inv elems a' (U - {(p, k)})" "same_shape a1 a'" "free_blocks elems a' = insert (q, j) (free_blocks elems a1)"
    using pending_push [OF a1(2)] by blast
  have "cells (large r (free_blocks elems a)) \<subseteq> cells (large r (free_blocks elems a'))" for r
  proof -
    have "cells (large r (free_blocks elems a)) \<subseteq> cells (large r (insert (p, k) (free_blocks elems ?a0)))"
      by (auto simp: cells_def large_def)
    then show ?thesis using a1(4) a'(4) by auto
  qed
  moreover have "order (objs ?a0 ! p) = k"
    using pendingD(7) [OF S(1)] by simp
  then have "buddy_free L a p = Inr a'" using a1(1) a'(1) S(2) by (simp add: buddy_free_def)
  moreover have "same_shape a ?a0" by (rule same_shape_obj_update) (simp add: mark_free_def)
  then have "same_shape a a'" using a1(3) a'(3) by (blast intro: same_shape_trans)
  ultimately show ?thesis using a'(2) by blast
qed

end

end
