(* ===== verification/Buddy_Spec.thy ===== *)
theory Buddy_Spec
  imports Buddy_Props
begin

text \<open>
  The contract of the buddy allocator over runs of its operations.  The abstract state is
  the set of free cells; \<open>buddy_step\<close> is one call by a client that releases only blocks it
  holds.  The counter of free objects is exact, and for the sequential reference lists
  \<open>buddy_free\<close> returns exactly when its merges are safe.
\<close>

section \<open>The counter of free objects\<close>

lemma ushl_1: "k < 64 \<Longrightarrow> ushl (Suc 0) k = Inr (2 ^ k)"
proof -
  assume "k < 64"
  then have "(2 :: nat) ^ k < 2 ^ 64" by (intro power_strict_increasing) auto
  with \<open>k < 64\<close> show ?thesis by (simp add: ushl_def take_bit_nat_eq_self_iff push_bit_eq_mult)
qed

lemma count_free_fold_eq:
  assumes "k + length cs \<le> 64" and "acc + (\<Sum>i < length cs. cs ! i * 2 ^ (k + i)) < 2 ^ 64"
  shows "count_free_fold acc k cs = Inr (acc + (\<Sum>i < length cs. cs ! i * 2 ^ (k + i)))"
  using assms
proof (induction cs arbitrary: acc k)
  case Nil
  then show ?case by simp
next
  case (Cons c cs)
  let ?rest = "\<Sum>i < length cs. cs ! i * 2 ^ (Suc k + i)"
  have sum: "(\<Sum>i < length (c # cs). (c # cs) ! i * 2 ^ (k + i)) = c * 2 ^ k + ?rest"
    by (simp add: sum.lessThan_Suc_shift del: sum.lessThan_Suc)
  have "acc + c * 2 ^ k + ?rest < 2 ^ 64"
    using Cons.prems(2) by (simp only: sum add.assoc)
  moreover from this have "acc + c * 2 ^ k < 2 ^ 64" "c * 2 ^ k < 2 ^ 64" by linarith+
  moreover from this have "count_free_fold acc k (c # cs) = count_free_fold (acc + c * 2 ^ k) (Suc k) cs"
    using Cons.prems(1) by (simp add: ushl_1)
  ultimately show ?case
    using Cons.IH [of "Suc k" "acc + c * 2 ^ k"] Cons.prems(1) unfolding sum by simp
qed

lemma free_blocks_sum:
  assumes "lists_inv elems a"
  shows "(\<Sum>b \<in> free_blocks elems a. 2 ^ snd b) = (\<Sum>k < MAX_ORDER. free_counts a ! k * 2 ^ k)"
proof -
  let ?S = "SIGMA k:{..<MAX_ORDER}. set (elems (free_lists a ! k))"
  have fb: "free_blocks elems a = prod.swap ` ?S" by (force simp: free_blocks_def)
  have "(\<Sum>b \<in> free_blocks elems a. (2 :: nat) ^ snd b) = (\<Sum>(k, p) \<in> ?S. 2 ^ k)"
    unfolding fb by (subst sum.reindex) (auto simp: inj_on_def intro: sum.cong)
  also have "\<dots> = (\<Sum>k < MAX_ORDER. \<Sum>p \<in> set (elems (free_lists a ! k)). 2 ^ k)"
    by (rule sum.Sigma [symmetric]) auto
  also have "\<dots> = (\<Sum>k < MAX_ORDER. free_counts a ! k * 2 ^ k)"
    by (rule sum.cong) (auto simp: lists_invD(5,6) [OF assms] distinct_card)
  finally show ?thesis .
qed

lemma good_blocks_subset: "good_blocks B \<Longrightarrow> A \<subseteq> B \<Longrightarrow> good_blocks A"
  unfolding good_blocks_def by (meson subsetD)

lemma buddy_inv_cells:
  assumes "buddy_inv elems a U"
  shows "cells (free_blocks elems a) = {..<obj_count a} - cells U"
    and "cells U \<subseteq> {..<obj_count a}"
proof -
  have li: "lists_inv elems a" and used: "used_inv a U" and t: "tiling (obj_count a) (free_blocks elems a \<union> U)"
    using assms by (auto simp: buddy_inv_def)
  have dis: "cells (free_blocks elems a) \<inter> cells U = {}"
  proof (rule ccontr)
    assume "cells (free_blocks elems a) \<inter> cells U \<noteq> {}"
    then obtain x b c where "b \<in> free_blocks elems a" "c \<in> U" "x \<in> block b" "x \<in> block c"
      by (auto simp: cells_def)
    with tiling_disjoint [OF t, of b c x] free_used_disjoint [OF li used] show False by auto
  qed
  have un: "cells (free_blocks elems a) \<union> cells U = {..<obj_count a}"
    using t by (simp add: tiling_def cells_Un)
  from dis un show "cells (free_blocks elems a) = {..<obj_count a} - cells U" by blast
  from un show "cells U \<subseteq> {..<obj_count a}" by blast
qed

lemma count_free_objs_eq:
  assumes inv: "buddy_inv elems a U"
  shows "count_free_objs a = Inr (obj_count a - card (cells U))"
proof -
  have li: "lists_inv elems a" and t: "tiling (obj_count a) (free_blocks elems a \<union> U)"
    using inv by (auto simp: buddy_inv_def)
  have fin: "finite (free_blocks elems a)" using tiling_finite [OF t] by simp
  have good: "good_blocks (free_blocks elems a)"
    using t good_blocks_subset by (auto simp: tiling_def)
  have "(\<Sum>k < MAX_ORDER. free_counts a ! k * 2 ^ k) = card (cells (free_blocks elems a))"
    using card_cells [OF good fin] free_blocks_sum [OF li] by simp
  also have "\<dots> = obj_count a - card (cells U)"
    using buddy_inv_cells [OF inv] by (simp add: card_Diff_subset finite_subset)
  finally have sum: "(\<Sum>k < MAX_ORDER. free_counts a ! k * 2 ^ k) = obj_count a - card (cells U)" .
  have "obj_count a - card (cells U) < 2 ^ 64" using lists_invD(4) [OF li] by simp
  then show ?thesis
    unfolding count_free_objs_def
    using count_free_fold_eq [of 0 "free_counts a" 0] lists_invD(2) [OF li] sum
    by (simp add: MAX_ORDER_def)
qed

section \<open>Runs of a client\<close>

inductive buddy_step ::
  "'l linked_list_api \<Rightarrow> 'l BuddyAllocator \<times> (nat \<times> nat) set \<Rightarrow> 'l BuddyAllocator \<times> (nat \<times> nat) set \<Rightarrow> bool"
  for L :: "'l linked_list_api" where
  step_alloc: "allocate L a r = Inr (Some p, a') \<Longrightarrow> buddy_step L (a, U) (a', insert (p, r) U)"
| step_empty: "allocate L a r = Inr (None, a') \<Longrightarrow> buddy_step L (a, U) (a', U)"
| step_free: "(p, k) \<in> U \<Longrightarrow> merge_safe a p [k..<MAX_ORDER] \<Longrightarrow> buddy_free L a p = Inr a' \<Longrightarrow>
     buddy_step L (a, U) (a', U - {(p, k)})"

inductive buddy_run ::
  "'l linked_list_api \<Rightarrow> 'l BuddyAllocator \<Rightarrow> 'l BuddyAllocator \<times> (nat \<times> nat) set \<Rightarrow> bool"
  for L :: "'l linked_list_api" and a0 :: "'l BuddyAllocator" where
  run_start: "buddy_run L a0 (a0, {})"
| run_step: "buddy_run L a0 s \<Longrightarrow> buddy_step L s s' \<Longrightarrow> buddy_run L a0 s'"

inductive_cases buddy_stepE: "buddy_step L (a, U) s'"

context linked_list
begin

lemma allocate_ok:
  assumes inv: "buddy_inv elems a U"
  shows "(\<exists>p a'. allocate L a r = Inr (Some p, a') \<and> r < MAX_ORDER
          \<and> block (p, r) \<subseteq> cells (free_blocks elems a)
          \<and> buddy_inv elems a' (insert (p, r) U) \<and> same_shape a a')
     \<or> allocate L a r = Inr (None, a)
          \<and> (MAX_ORDER \<le> r \<or> (\<forall>(p, m) \<in> free_blocks elems a. m < r))"
proof (cases "MAX_ORDER \<le> r")
  case True
  then show ?thesis by (simp add: allocate_def)
next
  case False
  have "block (p, r) \<subseteq> cells (free_blocks elems a)" if "(p, m) \<in> free_blocks elems a" "r \<le> m" for p m
  proof -
    have "block (p, r) \<subseteq> block (p, m)" using that(2) by (auto simp: block_def intro: less_le_trans)
    with block_subset_cells [OF that(1)] show ?thesis by blast
  qed
  with False allocate_search_ok [OF inv, of r r] show ?thesis
    by (fastforce simp: allocate_def)
qed

lemma buddy_step_inv:
  assumes "buddy_step L s s'" and "buddy_inv elems (fst s) (snd s)"
  shows "buddy_inv elems (fst s') (snd s') \<and> same_shape (fst s) (fst s')"
  using assms
proof (induction rule: buddy_step.induct)
  case (step_alloc a r p a' U)
  with allocate_ok [of a U r] show ?case by auto
next
  case (step_empty a r a' U)
  with allocate_ok [of a U r] show ?case by auto
next
  case (step_free p k U a a')
  with buddy_free_ok [of a U p k] show ?case by auto
qed

lemma buddy_run_inv:
  assumes "buddy_run L a0 s" and "buddy_inv elems a0 {}"
  shows "buddy_inv elems (fst s) (snd s) \<and> same_shape a0 (fst s)"
  using assms
proof (induction rule: buddy_run.induct)
  case run_start
  then show ?case by simp
next
  case (run_step s s')
  then show ?case using buddy_step_inv same_shape_trans by blast
qed

end

section \<open>When free returns\<close>

lemma free_merge_unsafe:
  assumes "pending (\<lambda>l. l) a U p k" and "\<not> merge_safe a p [k..<MAX_ORDER]"
  shows "free_merge seq_list p [k..<MAX_ORDER] a = Inl UnwrapNone
     \<or> (\<exists>q a'. free_merge seq_list p [k..<MAX_ORDER] a = Inr (q, a')
          \<and> order (objs a' ! q) = MAX_ORDER \<and> length (free_lists a') = MAX_ORDER)"
  using assms
proof (induction "MAX_ORDER - k" arbitrary: k p a)
  case 0
  then show ?case using pendingD(10) [OF 0(2)] by simp
next
  case (Suc d)
  then have k: "k < MAX_ORDER" and d: "d = MAX_ORDER - Suc k"
    and up: "[k..<MAX_ORDER] = k # [Suc k..<MAX_ORDER]"
    by (simp_all add: upt_conv_Cons)
  note D = pendingD [OF Suc.prems(1)]
  let ?b = "buddy_of p k"
  have bd: "buddy a p k = Inr (if ?b < obj_count a then Some ?b else None)"
    using buddy_eq [OF D(9) k] .
  have b: "?b < obj_count a" "\<not> is_used (objs a ! ?b)"
    using Suc.prems(2) up by auto
  have kl: "k < length (free_lists a)" using k lists_invD(1) [OF D(1)] by simp
  show ?case
  proof (cases "order (objs a ! ?b) = k")
    case False
    then have "?b \<notin> set (free_lists a ! k)"
      using lists_invD(8) [OF D(1), of ?b k] k by (auto simp: free_blocks_def)
    then show ?thesis using up bd b kl by (simp add: seq_list_def)
  next
    case True
    have bk: "(?b, k) \<in> free_blocks (\<lambda>l. l) a"
      using pending_free_buddy [OF Suc.prems(1) b] True by simp
    obtain l' a1 a2 where st: "ll_unlink seq_list (free_lists a ! k) ?b = Some (?b, l')"
        "count_decr k (obj_update ?b (\<lambda>f. f\<lparr>link := False\<rparr>)
           (a\<lparr>free_lists := (free_lists a)[k := l']\<rparr>)) = Inr a1"
        "a2 = (if ?b < p then obj_update ?b (set_order (k + 1) \<circ> mark_free) a1
               else obj_update p (set_order (k + 1)) a1)"
        "Suc k < MAX_ORDER \<Longrightarrow> pending (\<lambda>l. l) a2 U (min p ?b) (Suc k)"
        "order (objs a2 ! min p ?b) = Suc k" "same_shape a a2" "lists_inv (\<lambda>l. l) a2"
        "\<And>x. x \<notin> {p, ?b} \<Longrightarrow> objs a2 ! x = objs a ! x"
      using seq.merge_step [OF Suc.prems(1) bk] by metis
    have run: "free_merge seq_list p [k..<MAX_ORDER] a = free_merge seq_list (min p ?b) [Suc k..<MAX_ORDER] a2"
      using b up bd st(1,2) kl by (auto simp: st(3) min_def)
    have unsafe: "\<not> merge_safe a (min p ?b) [Suc k..<MAX_ORDER]"
      using Suc.prems(2) up b True by auto
    show ?thesis
    proof (cases "Suc k < MAX_ORDER")
      case False
      then have "Suc k = MAX_ORDER" using k by simp
      with run st(5,7) show ?thesis by (auto dest: lists_invD(1))
    next
      case True
      have sub: "{p, ?b} \<subseteq> block (min p ?b, Suc k)"
        using merged_block [OF D(11)] block_nonempty(1) [of "(p, k)"] block_nonempty(1) [of "(?b, k)"]
        by auto
      have "\<not> merge_safe a2 (min p ?b) [Suc k..<MAX_ORDER]"
        using unsafe merge_safe_cong [OF buddy_merge(1) [OF D(11)] same_shape_count [OF st(6)]] st(8) sub
        by blast
      with Suc.hyps(1) [OF d st(4) [OF True]] run show ?thesis by metis
    qed
  qed
qed

end
