(* ===== verification/Buddy_Theorems.thy ===== *)
theory Buddy_Theorems
  imports Buddy_Spec
begin

text \<open>
  The properties of the buddy allocator and its implementation of the trait
  \<^verbatim>\<open>FrameAllocator\<close>.
\<close>

section \<open>The frame allocator interface is implemented\<close>

text \<open>Blocks by frame number instead of by offset into the managed array.\<close>

definition to_frames :: "nat \<Rightarrow> (nat \<times> nat) set \<Rightarrow> (nat \<times> nat) set" where
  "to_frames base U = (\<lambda>(p, k). (base + p, k)) ` U"

definition buddy_fa_inv :: "('l \<Rightarrow> nat list) \<Rightarrow> 'l BuddyAllocator \<Rightarrow> (nat \<times> nat) set \<Rightarrow> bool" where
  "buddy_fa_inv elems a V \<longleftrightarrow>
     (\<exists>U. buddy_inv elems a U \<and> V = to_frames (base_addr a div SIZE) U)
     \<and> (\<forall>i < obj_count a. number (objs a ! i) = base_addr a div SIZE + i)
     \<and> base_addr a div SIZE + obj_count a \<le> 2 ^ 36"

definition buddy_managed :: "'l BuddyAllocator \<Rightarrow> nat set" where
  "buddy_managed a = {base_addr a div SIZE..<base_addr a div SIZE + obj_count a}"

definition buddy_can_free :: "'l BuddyAllocator \<Rightarrow> Frame \<Rightarrow> bool" where
  "buddy_can_free a f \<longleftrightarrow> merge_safe a (number f - base_addr a div SIZE) [0..<MAX_ORDER]"

lemma cells_to_frames: "x + base \<in> cells (to_frames base U) \<longleftrightarrow> x \<in> cells U"
  by (simp add: cells_def to_frames_def block_def case_prod_unfold)

lemma to_frames_insert: "to_frames base (insert (p, k) U) = insert (base + p, k) (to_frames base U)"
  and to_frames_mem: "(base + p, k) \<in> to_frames base U \<longleftrightarrow> (p, k) \<in> U"
  and to_frames_remove: "to_frames base (U - {(p, k)}) = to_frames base U - {(base + p, k)}"
  by (auto simp: to_frames_def)

lemma same_shape_numbers:
  assumes "same_shape a a'" and "length (objs a) = obj_count a"
    and "\<forall>i < obj_count a. number (objs a ! i) = b + i"
  shows "\<forall>i < obj_count a'. number (objs a' ! i) = b + i"
proof (intro allI impI)
  fix i assume i: "i < obj_count a'"
  have m: "map number (objs a') = map number (objs a)" and c: "obj_count a' = obj_count a"
    using assms(1) by (auto simp: same_shape_def)
  have l: "length (objs a') = length (objs a)" using m by (metis length_map)
  have "map number (objs a') ! i = map number (objs a) ! i" by (simp only: m)
  then show "number (objs a' ! i) = b + i" using i c l assms(2,3) by simp
qed

lemma same_shape_managed: "same_shape a a' \<Longrightarrow> buddy_managed a' = buddy_managed a"
  by (simp add: buddy_managed_def same_shape_def)

lemma buddy_fa_inv_shape:
  assumes "buddy_fa_inv elems a V" and "same_shape a a'" and "buddy_inv elems a' U'"
  shows "buddy_fa_inv elems a' (to_frames (base_addr a div SIZE) U')"
proof -
  from assms(1) obtain U where U: "buddy_inv elems a U" by (auto simp: buddy_fa_inv_def)
  then have "length (objs a) = obj_count a" by (simp add: buddy_inv_def lists_inv_def)
  then show ?thesis
    using assms same_shape_numbers [OF assms(2)] by (auto simp: buddy_fa_inv_def same_shape_def)
qed

context linked_list
begin

lemma buddy_alloc_one:
  assumes F: "buddy_fa_inv elems a V"
  shows "(\<exists>f a'. alloc_one L a = Inr (Some f, a') \<and> number f \<in> buddy_managed a - cells V \<and> number f < 2 ^ 36
           \<and> buddy_fa_inv elems a' (insert (number f, 0) V) \<and> buddy_managed a' = buddy_managed a)
     \<or> alloc_one L a = Inr (None, a) \<and> buddy_managed a \<subseteq> cells V"
proof -
  let ?b = "base_addr a div SIZE"
  obtain U where U: "buddy_inv elems a U" "V = to_frames ?b U"
    and num: "\<forall>i < obj_count a. number (objs a ! i) = ?b + i" and top: "?b + obj_count a \<le> 2 ^ 36"
    using F by (auto simp: buddy_fa_inv_def)
  have len: "length (objs a) = obj_count a" using U(1) by (simp add: buddy_inv_def lists_inv_def)
  consider p a' where "allocate L a 0 = Inr (Some p, a')" "block (p, 0) \<subseteq> cells (free_blocks elems a)"
      "buddy_inv elems a' (insert (p, 0) U)" "same_shape a a'"
    | "allocate L a 0 = Inr (None, a)" "free_blocks elems a = {}"
    using allocate_ok [OF U(1), of 0] by (force simp: MAX_ORDER_def)
  then show ?thesis
  proof cases
    case (1 p a')
    have "p \<in> cells (free_blocks elems a)" using 1(2) block_nonempty(1) [of "(p, 0)"] by auto
    then have p: "p < obj_count a" "p \<notin> cells U" using buddy_inv_cells [OF U(1)] by auto
    have np: "number (objs a' ! p) = ?b + p"
      using same_shape_numbers [OF 1(4) len num] same_shape_count [OF 1(4)] p(1) by simp
    have "?b + p \<notin> cells V" using p(2) cells_to_frames [of p ?b U] U(2) by (simp add: add.commute)
    moreover have "buddy_fa_inv elems a' (insert (?b + p, 0) V)"
      using buddy_fa_inv_shape [OF F 1(4,3)] U(2) by (simp add: to_frames_insert)
    moreover have "?b + p \<in> buddy_managed a" using p(1) by (simp add: buddy_managed_def)
    ultimately show ?thesis
      using 1(1) p(1) np top same_shape_managed [OF 1(4)] by (simp add: alloc_one_def frame_clone_def)
  next
    case 2
    have "{..<obj_count a} \<subseteq> cells U" using buddy_inv_cells(1) [OF U(1)] 2(2) by (simp add: cells_def)
    then have "x \<in> cells V" if "x \<in> buddy_managed a" for x
      using that cells_to_frames [of "x - ?b" ?b U] U(2) by (auto simp: buddy_managed_def)
    then show ?thesis using 2(1) by (auto simp: alloc_one_def)
  qed
qed

lemma buddy_free_one:
  assumes F: "buddy_fa_inv elems a V" and f: "(number f, 0) \<in> V" and "buddy_can_free a f"
  shows "\<exists>a'. free_frame L a f = Inr a' \<and> buddy_fa_inv elems a' (V - {(number f, 0)})
     \<and> buddy_managed a' = buddy_managed a"
proof -
  let ?b = "base_addr a div SIZE"
  obtain U where U: "buddy_inv elems a U" "V = to_frames ?b U"
    using F by (auto simp: buddy_fa_inv_def)
  with f obtain p where p: "number f = ?b + p" "(p, 0) \<in> U" by (auto simp: to_frames_def)
  with assms(3) buddy_free_ok [OF U(1) p(2)] obtain a' where
    "buddy_free L a p = Inr a'" "buddy_inv elems a' (U - {(p, 0)})" "same_shape a a'"
    by (auto simp: buddy_can_free_def)
  with buddy_fa_inv_shape [OF F, of a' "U - {(p, 0)}"] same_shape_managed p U(2) show ?thesis
    by (simp add: free_frame_def to_frames_remove)
qed

lemma is_frame_allocator:
  "frame_allocator (alloc_one L) (free_frame L) (buddy_fa_inv elems) buddy_managed buddy_can_free"
proof
  show "\<exists>r a'. alloc_one L a = Inr (r, a')" if "buddy_fa_inv elems a U" for a U
    using buddy_alloc_one [OF that] by blast
  show "number f \<in> buddy_managed a - cells U \<and> number f < 2 ^ 36
      \<and> buddy_fa_inv elems a' (insert (number f, 0) U) \<and> buddy_managed a' = buddy_managed a"
    if "buddy_fa_inv elems a U" "alloc_one L a = Inr (Some f, a')" for a U f a'
    using buddy_alloc_one [OF that(1)] that(2) by auto
  show "buddy_fa_inv elems a' U \<and> buddy_managed a' = buddy_managed a \<and> buddy_managed a \<subseteq> cells U"
    if "buddy_fa_inv elems a U" "alloc_one L a = Inr (None, a')" for a U a'
    using buddy_alloc_one [OF that(1)] that by auto
  show "finite (buddy_managed a)" for a :: "'a BuddyAllocator" by (simp add: buddy_managed_def)
  show "\<exists>a'. free_frame L a f = Inr a' \<and> buddy_fa_inv elems a' (U - {(number f, 0)})
      \<and> buddy_managed a' = buddy_managed a"
    if "buddy_fa_inv elems a U" "(number f, 0) \<in> U" "buddy_can_free a f" for a U f
    using buddy_free_one [OF that] .
qed

end

sublocale linked_list \<subseteq> fa: frame_allocator "alloc_one L" "free_frame L" "buddy_fa_inv elems" buddy_managed buddy_can_free
  by (rule is_frame_allocator)

section \<open>Properties\<close>

text \<open>
  C7. \<^verbatim>\<open>BuddyAllocator::new\<close> over any number of objects (that fits an \<^verbatim>\<open>isize\<close>) succeeds
  and establishes the invariant with nothing handed out; \<^verbatim>\<open>count_free_objs\<close> then reports
  all objects as free.
\<close>

theorem buddy_new_correct:
  assumes "linked_list L elems" and "length os = count" and "count < 2 ^ 63"
  shows "\<exists>a. buddy_new L base os count = Inr a \<and> buddy_inv elems a {} \<and> count_free_objs a = Inr count"
proof -
  obtain a where a: "buddy_new L base os count = Inr a" "buddy_inv elems a {}" "obj_count a = count"
    using linked_list.buddy_new_ok [OF assms, of base] by auto
  with count_free_objs_eq [OF a(2)] show ?thesis by simp
qed

theorem buddy_new_correct_witness:
  "\<exists>a. buddy_new seq_list 0 (replicate 6 (frame_from_address 0)) 6 = Inr a
     \<and> buddy_inv (\<lambda>l. l) a {} \<and> count_free_objs a = Inr 6"
  by (rule buddy_new_correct [OF seq.linked_list_axioms]) simp_all

text \<open>
  C6. \<^verbatim>\<open>allocate\<close> never panics in a state that satisfies the invariant.  A block it returns
  has the requested order, is aligned to its size, lies inside the managed range, is
  disjoint from every block handed out before, and exactly its cells leave the free
  memory; the invariant is kept.  It returns \<^verbatim>\<open>None\<close> only for an order that is too large
  or when no free block is large enough, and then nothing changes.
\<close>

theorem allocate_correct:
  assumes "linked_list L elems" and inv: "buddy_inv elems a U"
  shows "(\<exists>p a'. allocate L a r = Inr (Some p, a') \<and> r < MAX_ORDER \<and> 2 ^ r dvd p
          \<and> p + 2 ^ r \<le> obj_count a \<and> block (p, r) \<inter> cells U = {}
          \<and> cells (free_blocks elems a') = cells (free_blocks elems a) - block (p, r)
          \<and> buddy_inv elems a' (insert (p, r) U))
     \<or> allocate L a r = Inr (None, a)
          \<and> (MAX_ORDER \<le> r \<or> (\<forall>(p, m) \<in> free_blocks elems a. m < r))"
proof -
  have "2 ^ r dvd p \<and> p + 2 ^ r \<le> obj_count a \<and> block (p, r) \<inter> cells U = {}
      \<and> cells (free_blocks elems a') = cells (free_blocks elems a) - block (p, r)"
    if "block (p, r) \<subseteq> cells (free_blocks elems a)" "buddy_inv elems a' (insert (p, r) U)" "same_shape a a'"
    for p a'
    using buddy_inv_cells [OF inv] buddy_inv_cells [OF that(2)] same_shape_count [OF that(3)] that
      tiling_block_bound [of "obj_count a'" "free_blocks elems a' \<union> insert (p, r) U" p r]
    by (auto simp: buddy_inv_def)
  with linked_list.allocate_ok [OF assms, of r] show ?thesis by metis
qed

theorem allocate_correct_witness:
  "\<exists>a p a'. buddy_new seq_list 0 (replicate 4 (frame_from_address 0)) 4 = Inr a
     \<and> allocate seq_list a 0 = Inr (Some p, a') \<and> p + 2 ^ 0 \<le> 4"
proof -
  obtain a where a: "buddy_new seq_list 0 (replicate 4 (frame_from_address 0)) 4 = Inr a"
      "buddy_inv (\<lambda>l. l) a {}" "obj_count a = 4"
    using seq.buddy_new_ok [of "replicate 4 (frame_from_address 0)" 4 0] by auto
  have "cells (free_blocks (\<lambda>l. l) a) = {..<4}"
    using buddy_inv_cells(1) [OF a(2)] a(3) by (simp add: cells_def)
  then have "0 \<in> cells (free_blocks (\<lambda>l. l) a)" by simp
  then have "free_blocks (\<lambda>l. l) a \<noteq> {}" by (auto simp: cells_def)
  with allocate_correct [OF seq.linked_list_axioms a(2), of 0] a(1,3) show ?thesis
    by (auto simp: MAX_ORDER_def)
qed

lemma merge_safe_last: "k < MAX_ORDER \<Longrightarrow> obj_count a \<le> buddy_of p k \<Longrightarrow> merge_safe a p [k..<MAX_ORDER]"
  by (simp add: upt_conv_Cons)

text \<open>
  C12. Releasing a block that is held, when the merges are safe (every buddy the loop finds
  unused is free as a block of the order at hand, and merging stops below the largest
  order), never panics, keeps the invariant, and makes exactly the cells of the block
  free again.
\<close>

theorem buddy_free_correct:
  assumes "linked_list L elems" and inv: "buddy_inv elems a U" and "(p, k) \<in> U"
    and "merge_safe a p [k..<MAX_ORDER]"
  shows "\<exists>a'. buddy_free L a p = Inr a' \<and> buddy_inv elems a' (U - {(p, k)})
     \<and> cells (free_blocks elems a') = cells (free_blocks elems a) \<union> block (p, k)"
proof -
  obtain a' where a': "buddy_free L a p = Inr a'" "buddy_inv elems a' (U - {(p, k)})" "same_shape a a'"
    using linked_list.buddy_free_ok [OF assms] by blast
  have t: "tiling (obj_count a) (free_blocks elems a \<union> U)" using inv by (simp add: buddy_inv_def)
  have "block (p, k) \<inter> cells (U - {(p, k)}) = {}"
    using tiling_disjoint [OF t, of "(p, k)"] assms(3) by (fastforce simp: cells_def)
  moreover have "cells U = block (p, k) \<union> cells (U - {(p, k)})"
    using assms(3) cells_insert [of "(p, k)" "U - {(p, k)}"] by (simp add: insert_absorb)
  ultimately show ?thesis
    using a' buddy_inv_cells [OF inv] buddy_inv_cells [OF a'(2)] same_shape_count [OF a'(3)] by auto
qed

text \<open>Runs on three objects, for every implementation of the lists.\<close>

definition three_objs :: "Frame list" where
  "three_objs = [\<lparr>link = False, number = 0, order = 0, state = Free\<rparr>,
                 \<lparr>link = False, number = 1, order = 0, state = Free\<rparr>,
                 \<lparr>link = False, number = 2, order = 0, state = Free\<rparr>]"

lemmas buddy_eval = MAX_ORDER_def new_while.simps upt_rec push_free_def list_push_back_def
  count_incr_def count_decr_def obj_update_def frame_op_defs vec_get_def uadd_def usub_def

definition three_start :: "'l linked_list_api \<Rightarrow> 'l BuddyAllocator" where
  "three_start L =
   \<lparr>base_addr = 0, obj_count = 3,
    free_lists = (replicate 15 (ll_new L))[1 := ll_push_back L (ll_new L) 0, 0 := ll_push_back L (ll_new L) 2],
    free_counts = (replicate 15 0)[1 := 1, 0 := 1],
    objs = [\<lparr>link = True, number = 0, order = 1, state = Free\<rparr>,
            \<lparr>link = False, number = 1, order = 0, state = Free\<rparr>,
            \<lparr>link = True, number = 2, order = 0, state = Free\<rparr>]\<rparr>"

lemma new_three: "buddy_new L 0 three_objs 3 = Inr (three_start L)"
  unfolding buddy_new_def three_start_def three_objs_def
  by (simp add: buddy_eval numeral_3_eq_3 cong: res_bind_weak_cong) (simp add: numeral_2_eq_2)

lemma allocate_three:
  assumes "ll_pop_front L (ll_push_back L (ll_new L) 0) = Some (0, l')"
  shows "allocate L (three_start L) 1 = Inr (Some 0, (three_start L)
     \<lparr>free_lists := (free_lists (three_start L))[1 := l'], free_counts := (free_counts (three_start L))[1 := 0],
      objs := (objs (three_start L))[0 := \<lparr>link = False, number = 0, order = 1, state = Used\<rparr>]\<rparr>)"
  by (simp add: allocate_def three_start_def assms buddy_eval cong: res_bind_weak_cong)

lemma buddy_free_three:
  assumes "a' = (three_start L)
     \<lparr>free_lists := ls, free_counts := (free_counts (three_start L))[1 := 0],
      objs := (objs (three_start L))[0 := \<lparr>link = False, number = 0, order = 1, state = Used\<rparr>]\<rparr>"
    and "length ls = 15"
  shows "buddy_free L a' 0 = Inl UnwrapNone \<or> buddy_free L a' 0 = Inl Overflow"
  using assms(2)
  by (cases "ll_unlink L (ls ! Suc 0) 2")
    (auto simp: assms(1) buddy_free_def is_managed_obj_def three_start_def buddy_def Let_def buddy_eval
      cong: res_bind_weak_cong)




text \<open>
  C9. Runs.  Whatever a client does from a fresh allocator with blocks it holds (releasing
  only where the merges are safe), the blocks it holds are pairwise disjoint and inside
  the managed range, each aligned to its size, and \<^verbatim>\<open>count_free_objs\<close> is exactly the
  number of objects that are in none of them.
\<close>

theorem buddy_run_exclusive:
  assumes "linked_list L elems" and "length os = count" and "count < 2 ^ 63"
    and new: "buddy_new L base os count = Inr a0" and run: "buddy_run L a0 (a, U)"
  shows "(\<forall>b \<in> U. \<forall>c \<in> U. b \<noteq> c \<longrightarrow> block b \<inter> block c = {})
     \<and> (\<forall>(p, k) \<in> U. 2 ^ k dvd p \<and> p + 2 ^ k \<le> count)
     \<and> count_free_objs a = Inr (count - (\<Sum>b \<in> U. 2 ^ snd b))"
proof -
  have "buddy_inv elems a0 {}" "obj_count a0 = count"
    using linked_list.buddy_new_ok [OF assms(1-3), of base] new by auto
  with linked_list.buddy_run_inv [OF assms(1) run] have inv: "buddy_inv elems a U" and c: "obj_count a = count"
    by (auto dest: same_shape_count)
  then have t: "tiling count (free_blocks elems a \<union> U)" by (simp add: buddy_inv_def)
  then have good: "good_blocks U" and fin: "finite U"
    using good_blocks_subset tiling_finite by (auto simp: tiling_def)
  have "block b \<inter> block d = {}" if "b \<in> U" "d \<in> U" "b \<noteq> d" for b d
    using tiling_disjoint [OF t, of b d] that by auto
  moreover have "2 ^ k dvd p \<and> p + 2 ^ k \<le> count" if "(p, k) \<in> U" for p k
    using tiling_block_bound [OF t, of p k] that by auto
  moreover have "count_free_objs a = Inr (count - (\<Sum>b \<in> U. 2 ^ snd b))"
    using count_free_objs_eq [OF inv] card_cells [OF good fin] c by simp
  ultimately show ?thesis by blast
qed

lemma three_run:
  defines "a \<equiv> three_start seq_list"
  obtains a' where "allocate seq_list a 0 = Inr (Some 2, a')"
    "buddy_inv (\<lambda>l. l) a' {(2, 0)}" "obj_count a' = 3" "buddy_run seq_list a (a', {(2, 0)})"
proof -
  have "buddy_inv (\<lambda>l. l) a {}" "obj_count a = 3"
    using seq.buddy_new_ok [of three_objs 3 0] new_three [of seq_list] by (auto simp: three_objs_def a_def)
  moreover obtain a' where a': "allocate seq_list a 0 = Inr (Some 2, a')"
    by (simp add: a_def allocate_def three_start_def seq_list_def buddy_eval cong: res_bind_weak_cong)
  ultimately have "buddy_inv (\<lambda>l. l) a' {(2, 0)}" "obj_count a' = 3"
    using seq.allocate_ok [of a "{}" 0] by (auto dest: same_shape_count)
  moreover have "buddy_run seq_list a (a', {(2, 0)})"
    using run_step [OF run_start [of seq_list a] step_alloc [OF a', of "{}"]] by simp
  ultimately show ?thesis using that a' by blast
qed

theorem buddy_run_exclusive_witness:
  "\<exists>a. buddy_run seq_list (three_start seq_list) (a, {(2, 0)}) \<and> count_free_objs a = Inr 2"
proof -
  obtain a where "buddy_run seq_list (three_start seq_list) (a, {(2, 0)})" by (rule three_run)
  with buddy_run_exclusive [OF seq.linked_list_axioms _ _ new_three this] show ?thesis
    by (auto simp: three_objs_def)
qed

theorem buddy_free_correct_witness:
  "\<exists>a a'. buddy_inv (\<lambda>l. l) a {(2, 0)} \<and> buddy_free seq_list a 2 = Inr a'
     \<and> cells (free_blocks (\<lambda>l. l) a') = cells (free_blocks (\<lambda>l. l) a) \<union> block (2, 0)"
proof -
  obtain a where a: "buddy_inv (\<lambda>l. l) a {(2, 0)}" "obj_count a = 3" by (rule three_run)
  then have "merge_safe a 2 [0..<MAX_ORDER]" by (intro merge_safe_last) (simp_all add: MAX_ORDER_def buddy_of_def)
  with buddy_free_correct [OF seq.linked_list_axioms a(1), of 2 0] a(1) show ?thesis by blast
qed

text \<open>
  C13. The buddy allocator over frames refines the interface \<open>frame_allocator\<close> that the page
  tables call, for every list implementation that keeps the contract of the crate: every
  frame it hands out is new, and a frame it takes back is available again.
\<close>

theorem buddy_refines_frame_allocator:
  assumes "linked_list L elems"
  shows "frame_allocator (alloc_one L) (free_frame L) (buddy_fa_inv elems) buddy_managed buddy_can_free"
  by (rule linked_list.is_frame_allocator [OF assms])

theorem buddy_refines_frame_allocator_witness:
  "frame_allocator (alloc_one seq_list) (free_frame seq_list) (buddy_fa_inv (\<lambda>l. l)) buddy_managed buddy_can_free"
  by (rule buddy_refines_frame_allocator [OF seq.linked_list_axioms])

lemma buddy_free_unsafe:
  assumes inv: "buddy_inv (\<lambda>l. l) a U" and pk: "(p, k) \<in> U" and "\<not> merge_safe a p [k..<MAX_ORDER]"
  shows "\<exists>e. buddy_free seq_list a p = Inl e"
proof -
  note S = seq.free_start [OF inv pk]
  have "free_merge seq_list p [k..<MAX_ORDER] (obj_update p mark_free a) = Inl UnwrapNone
     \<or> (\<exists>q a'. free_merge seq_list p [k..<MAX_ORDER] (obj_update p mark_free a) = Inr (q, a')
        \<and> order (objs a' ! q) = MAX_ORDER \<and> length (free_lists a') = MAX_ORDER)"
    using assms(3) S(4) free_merge_unsafe [OF S(1)] by blast
  moreover have "order (objs (obj_update p mark_free a) ! p) = k" using pendingD(7) [OF S(1)] .
  ultimately show ?thesis
    using S(2) by (auto simp: buddy_free_def push_free_def list_push_back_def vec_get_def)
qed



end
