(* ===== verification/Heap_Theorems.thy ===== *)
theory Heap_Theorems
  imports Heap Buddy_Theorems
begin

text \<open>
  The properties of the kernel heap, and of the hand-over from the early allocator to the
  buddy allocator.
\<close>

section \<open>Runs of the heap\<close>

text \<open>Successive requests; the result lists address and size of the successful ones.\<close>

fun heap_requests :: "Layout list \<Rightarrow> HeapAllocator \<Rightarrow> ((usize \<times> usize) list \<times> HeapAllocator) res" where
  "heap_requests [] h = Inr ([], h)"
| "heap_requests (l # ls) h =
     res_bind (heap_alloc l h) (\<lambda>(r, h1).
     res_bind (heap_requests ls h1) (\<lambda>(as, h2).
     Inr (case r of None \<Rightarrow> as | Some p \<Rightarrow> (p, layout_size l) # as, h2)))"

lemma heap_alloc_Inr:
  assumes "heap_alloc l h = Inr (r, h')"
  shows "r = None \<and> h' = h \<or>
     r = Some (heap_begin h) \<and> h' = h\<lparr>heap_begin := heap_begin h + layout_size l\<rparr> \<and> heap_begin h + layout_size l < heap_end h"
  using assms by (auto simp: heap_alloc_def res_bind_eq_Inr res_simps Let_def split: if_splits)

lemma heap_requests_ok:
  assumes "heap_requests ls h = Inr (as, h')"
  shows "(\<forall>(p, s) \<in> set as. heap_begin h \<le> p \<and> p + s \<le> heap_begin h' \<and> p + s < heap_end h)
     \<and> sorted_wrt (\<lambda>(p, s) (q, t). p + s \<le> q) as \<and> heap_begin h \<le> heap_begin h' \<and> heap_end h' = heap_end h"
  using assms
proof (induction ls arbitrary: h as)
  case Nil
  then show ?case by simp
next
  case (Cons l ls)
  obtain r h1 as1 where st: "heap_alloc l h = Inr (r, h1)" "heap_requests ls h1 = Inr (as1, h')"
      "as = (case r of None \<Rightarrow> as1 | Some p \<Rightarrow> (p, layout_size l) # as1)"
    using Cons.prems by (auto simp: res_bind_eq_Inr)
  note IH = Cons.IH [OF st(2)]
  show ?case
  proof (cases r)
    case None
    then show ?thesis using IH st(3) heap_alloc_Inr [OF st(1)] by auto
  next
    case (Some p)
    then have "p = heap_begin h" "h1 = h\<lparr>heap_begin := heap_begin h + layout_size l\<rparr>"
        "heap_begin h + layout_size l < heap_end h" "as = (p, layout_size l) # as1"
      using heap_alloc_Inr [OF st(1)] st(3) by auto
    then show ?thesis using IH by fastforce
  qed
qed

section \<open>Numbering the frames\<close>

lemma set_numbers_ok:
  "base + i + length fs < 2 ^ 64 \<Longrightarrow>
     \<exists>os. set_numbers base i fs = Inr os \<and> length os = length fs \<and> (\<forall>k < length fs. number (os ! k) = base + i + k)"
proof (induction fs arbitrary: i)
  case Nil
  then show ?case by simp
next
  case (Cons f fs)
  then obtain os where os: "set_numbers base (i + 1) fs = Inr os" "length os = length fs"
      "\<forall>k < length fs. number (os ! k) = base + (i + 1) + k"
    using Cons.IH [of "i + 1"] by auto
  have "\<forall>k < length (f # fs). number ((set_number (base + i) f # os) ! k) = base + i + k"
    using os(3) by (auto simp: nth_Cons set_number_def split: nat.split)
  then show ?case using os Cons.prems by simp
qed

lemma frames_handover_ok:
  assumes "linked_list L elems" and "length raw = n" and "base div SIZE + n \<le> 2 ^ 36"
  shows "\<exists>os a. set_numbers (base div SIZE) 0 raw = Inr os \<and> buddy_new L base os n = Inr a
     \<and> buddy_fa_inv elems a {} \<and> buddy_managed a = {base div SIZE..<base div SIZE + n}
     \<and> count_free_objs a = Inr n"
proof -
  have "base div SIZE + 0 + length raw < 2 ^ 64" using assms(2,3) by simp
  from set_numbers_ok [OF this] obtain os where os: "set_numbers (base div SIZE) 0 raw = Inr os" "length os = n"
      "\<forall>k < n. number (os ! k) = base div SIZE + k" using assms(2) by auto
  have "n < 2 ^ 63" using assms(3) by simp
  then obtain a where a: "buddy_new L base os n = Inr a" "buddy_inv elems a {}" "obj_count a = n"
      "base_addr a = base" "map number (objs a) = map number os"
    using linked_list.buddy_new_ok [OF assms(1) os(2), of base] by auto
  have "length (objs a) = n" using a(2,3) by (simp add: buddy_inv_def lists_inv_def)
  then have "\<forall>i < n. number (objs a ! i) = base div SIZE + i"
    using a(5) os(2,3) by (metis length_map nth_map)
  then have "buddy_fa_inv elems a {}" using a assms(3) by (auto simp: buddy_fa_inv_def to_frames_def)
  then show ?thesis using os(1) a count_free_objs_eq [OF a(2)] by (auto simp: buddy_managed_def cells_def)
qed

section \<open>Properties\<close>

text \<open>
  C27. Whatever sequence of requests the heap answers, the areas it hands out are disjoint,
  in ascending order and strictly inside the range it was given; a request that does not
  fit is refused and leaves the heap as it is.
\<close>

theorem heap_allocations_disjoint:
  assumes "heap_requests ls h = Inr (as, h')"
  shows "sorted_wrt (\<lambda>(p, s) (q, t). p + s \<le> q) as
     \<and> (\<forall>(p, s) \<in> set as. heap_begin h \<le> p \<and> p + s < heap_end h)"
  using heap_requests_ok [OF assms] by auto

theorem heap_allocations_disjoint_witness:
  "\<exists>as h'. heap_requests [\<lparr>layout_size = 4, layout_align = 4\<rparr>, \<lparr>layout_size = 0x2000, layout_align = 8\<rparr>, \<lparr>layout_size = 8, layout_align = 1\<rparr>]
      \<lparr>heap_begin = 0x1000, heap_end = 0x2000\<rparr> = Inr (as, h') \<and> sorted_wrt (\<lambda>(p, s) (q, t). p + s \<le> q) as"
proof -
  have "heap_requests [\<lparr>layout_size = 4, layout_align = 4\<rparr>, \<lparr>layout_size = 0x2000, layout_align = 8\<rparr>, \<lparr>layout_size = 8, layout_align = 1\<rparr>]
      \<lparr>heap_begin = 0x1000, heap_end = 0x2000\<rparr> = Inr ([(0x1000, 4), (0x1004, 8)], \<lparr>heap_begin = 0x100C, heap_end = 0x2000\<rparr>)"
    by (simp add: heap_alloc_def align_up_pow2 [of _ 2, simplified] align_up_pow2 [of _ 3, simplified]
        align_up_pow2 [of _ 0, simplified])
  from this heap_allocations_disjoint [OF this] show ?thesis by blast
qed

text \<open>
  C37. A defect of \<^verbatim>\<open>HeapAllocator::alloc\<close>: the aligned address is computed and dropped.  Every
  request that is answered gets the current start of the heap, so that one successful
  request of an odd size makes the next one misaligned for every alignment above 1.
\<close>

theorem heap_alloc_ignores_alignment:
  assumes "heap_alloc l h = Inr (Some p, h1)" and "heap_alloc l' h1 = Inr (Some q, h2)"
    and "2 dvd heap_begin h" and "odd (layout_size l)" and "2 dvd layout_align l'"
  shows "\<not> layout_align l' dvd q"
proof -
  have "q = heap_begin h + layout_size l" using heap_alloc_Inr [OF assms(1)] heap_alloc_Inr [OF assms(2)] by auto
  then have "odd q" using assms(3,4) by simp
  then show ?thesis using assms(5) dvd_trans by blast
qed

theorem heap_alloc_ignores_alignment_witness:
  "\<exists>h1 h2. heap_alloc \<lparr>layout_size = 1, layout_align = 1\<rparr> \<lparr>heap_begin = 0x1000, heap_end = 0x2000\<rparr> = Inr (Some 0x1000, h1)
     \<and> heap_alloc \<lparr>layout_size = 8, layout_align = 8\<rparr> h1 = Inr (Some 0x1001, h2) \<and> \<not> (8 :: nat) dvd 0x1001"
proof -
  have a: "heap_alloc \<lparr>layout_size = 1, layout_align = 1\<rparr> \<lparr>heap_begin = 0x1000, heap_end = 0x2000\<rparr>
      = Inr (Some 0x1000, \<lparr>heap_begin = 0x1001, heap_end = 0x2000\<rparr>)"
    by (simp add: heap_alloc_def align_up_pow2 [of _ 0, simplified])
  have b: "heap_alloc \<lparr>layout_size = 8, layout_align = 8\<rparr> \<lparr>heap_begin = 0x1001, heap_end = 0x2000\<rparr>
      = Inr (Some 0x1001, \<lparr>heap_begin = 0x1009, heap_end = 0x2000\<rparr>)"
    by (simp add: heap_alloc_def align_up_pow2 [of _ 3, simplified])
  from a b heap_alloc_ignores_alignment [OF a b] show ?thesis by auto
qed

text \<open>
  The hand-over in \<^verbatim>\<open>memory::init\<close>: numbering the frame objects from the base address and
  giving them to \<^verbatim>\<open>BuddyAllocator::new\<close> succeeds, whatever the memory of the objects held
  before, and establishes the invariant of the frame allocator with no frame handed out;
  the managed frames are exactly those from the base address on.
\<close>

theorem frames_handover_correct:
  assumes "linked_list L elems" and "length raw = n" and "base div SIZE + n \<le> 2 ^ 36"
  shows "\<exists>os a. set_numbers (base div SIZE) 0 raw = Inr os \<and> buddy_new L base os n = Inr a
     \<and> buddy_fa_inv elems a {} \<and> buddy_managed a = {base div SIZE..<base div SIZE + n}
     \<and> count_free_objs a = Inr n"
  by (rule frames_handover_ok [OF assms])

theorem frames_handover_correct_witness:
  "\<exists>os a. set_numbers (0x300000 div SIZE) 0 (replicate 5 (frame_from_address 0x9000)) = Inr os
     \<and> buddy_new seq_list 0x300000 os 5 = Inr a \<and> buddy_fa_inv (\<lambda>l. l) a {}"
  using frames_handover_correct [OF seq.linked_list_axioms, of "replicate 5 (frame_from_address 0x9000)" 5 "0x300000"]
  by (auto simp: SIZE_def)

end
