(* ===== verification/Paging_Inv.thy ===== *)
theory Paging_Inv
  imports Paging_Table
begin

text \<open>
  The structure of the page tables, and what creating a table and writing an entry do to it.

  \<open>tree_inv m G lv\<close>: the tables reachable from the root table \<open>G\<close> through entries below 511
  form a tree; \<open>lv\<close> gives the level (4 to 1) of the frame of every table.  Entries that are
  not present are zero.  The last entry of a table is the recursive one and is not part of
  the tree.
\<close>

section \<open>The tree of tables\<close>

definition tree_inv :: "machine \<Rightarrow> nat \<Rightarrow> (nat \<rightharpoonup> nat) \<Rightarrow> bool" where
  "tree_inv m G lv \<longleftrightarrow> lv G = Some 4
     \<and> (\<forall>t \<in> dom lv. \<forall>i < 511. phys m t i < 2 ^ 48 \<and> (\<not> present (phys m t i) \<longrightarrow> phys m t i = 0))
     \<and> (\<forall>t i f l. lv t = Some (Suc (Suc l)) \<and> i < 511 \<and> links_to m t i f \<longrightarrow> lv f = Some (Suc l))
     \<and> (\<forall>t i t' i' f l l'. lv t = Some (Suc (Suc l)) \<and> lv t' = Some (Suc (Suc l')) \<and> i < 511 \<and> i' < 511
          \<and> links_to m t i f \<and> links_to m t' i' f \<longrightarrow> t = t' \<and> i = i')"


lemma tree_invD:
  assumes "tree_inv m G lv"
  shows "lv G = Some 4"
    "lv t = Some l \<Longrightarrow> i < 511 \<Longrightarrow> phys m t i < 2 ^ 48"
    "lv t = Some l \<Longrightarrow> i < 511 \<Longrightarrow> \<not> present (phys m t i) \<Longrightarrow> phys m t i = 0"
    "lv t = Some (Suc (Suc l)) \<Longrightarrow> i < 511 \<Longrightarrow> links_to m t i f \<Longrightarrow> lv f = Some (Suc l)"
    "lv t = Some (Suc (Suc l)) \<Longrightarrow> lv t' = Some (Suc (Suc l')) \<Longrightarrow> i < 511 \<Longrightarrow> i' < 511 \<Longrightarrow>
       links_to m t i f \<Longrightarrow> links_to m t' i' f \<Longrightarrow> t = t' \<and> i = i'"
  using assms unfolding tree_inv_def by (blast dest: domI)+

lemma four_levels:
  "n \<le> 3 \<Longrightarrow> \<exists>k. 4 = n + Suc k" "n \<le> 2 \<Longrightarrow> \<exists>k. 4 = n + Suc (Suc k)"
  by presburger+

lemma walk_level:
  assumes T: "tree_inv m G lv" and "walk m u is = Some t" and "lv u = Some (length is + Suc k)"
    and "\<forall>i \<in> set is. i < 511"
  shows "lv t = Some (Suc k)"
  using assms(2-4)
proof (induction "is" arbitrary: u)
  case Nil
  then show ?case by simp
next
  case (Cons i "is")
  then have l: "links_to m u i (entry_frame (phys m u i))" and w: "walk m (entry_frame (phys m u i)) is = Some t"
    by (auto simp: links_to_def split: if_splits)
  from tree_invD(4) [OF T, of u "length is + k" i] Cons.prems l
  have "lv (entry_frame (phys m u i)) = Some (length is + Suc k)" by simp
  with Cons w show ?case by simp
qed

lemma walk_snoc: "walk m u (is @ [i]) = Some t \<longleftrightarrow> (\<exists>v. walk m u is = Some v \<and> links_to m v i t)"
  by (auto simp: walk_append links_to_def bind_eq_Some_conv split: if_splits)

lemma walk_inj:
  assumes T: "tree_inv m G lv" and "walk m G is = Some t" and "walk m G js = Some t"
    and "length is = length js" and "length is \<le> 3" and "\<forall>i \<in> set is \<union> set js. i < 511"
  shows "is = js"
  using assms(2-6)
proof (induction "is" arbitrary: js t rule: rev_induct)
  case Nil
  then show ?case by simp
next
  case (snoc i "is")
  then obtain j js' where js: "js = js' @ [j]"
    by (metis length_0_conv list.size(3) rev_exhaust snoc_eq_iff_butlast)
  obtain v v' where v: "walk m G is = Some v" "links_to m v i t" and v': "walk m G js' = Some v'" "links_to m v' j t"
    using snoc.prems(1,2) by (auto simp: js walk_snoc)
  have len: "length is = length js'" "length is \<le> 2" using snoc.prems(3,4) js by auto
  then obtain k where k: "4 = length is + Suc (Suc k)" using four_levels(2) by blast
  have G: "lv G = Some (length is + Suc (Suc k))" using tree_invD(1) [OF T] k by simp
  have "lv v = Some (Suc (Suc k))" "lv v' = Some (Suc (Suc k))"
    using walk_level [OF T v(1), of "Suc k"] walk_level [OF T v'(1), of "Suc k"] G len snoc.prems(5) js by auto
  from tree_invD(5) [OF T this _ _ v(2) v'(2)] have "v = v'" "i = j" using snoc.prems(5) js by auto
  moreover have "is = js'" using snoc.IH [OF v(1), of js'] v'(1) \<open>v = v'\<close> len snoc.prems(5) js by auto
  ultimately show ?case by (simp add: js)
qed

section \<open>Adding a table\<close>

text \<open>Memory after \<^verbatim>\<open>next_level_table_create_mut\<close> has put a new table in frame \<open>F\<close>.\<close>

definition new_table :: "nat \<Rightarrow> nat \<Rightarrow> nat \<Rightarrow> machine \<Rightarrow> machine" where
  "new_table t i F m =
     m\<lparr>phys := (phys m)(t := (phys m t)(i := frame_entry F (phys m t i)),
        F := (\<lambda>j. if j = 511 then frame_entry F 0 OR 2 else if j < 512 then 0 else phys m F j))\<rparr>"

lemma cr3_new_table [simp]: "cr3 (new_table t i F m) = cr3 m"
  by (simp add: new_table_def)

lemma phys_new_table:
  "phys (new_table t i F m) u j =
     (if u = F then (if j = 511 then frame_entry F 0 OR 2 else if j < 512 then 0 else phys m F j)
      else if u = t \<and> j = i then frame_entry F (phys m t i) else phys m u j)"
  by (simp add: new_table_def)

lemma links_new_table:
  assumes "F < 2 ^ 36" and "phys m t i = 0" and "u \<noteq> F"
  shows "links_to (new_table t i F m) u j f \<longleftrightarrow> (if u = t \<and> j = i then f = F else links_to m u j f)"
  using assms(2,3) frame_entry_simps [OF assms(1), of 0] by (auto simp: links_to_def phys_new_table)

lemma tree_new_table:
  assumes T: "tree_inv m G lv" and F: "F < 2 ^ 36" "F \<notin> dom lv" and t: "lv t = Some (Suc (Suc l))"
    and i: "i < 511" "phys m t i = 0"
  shows "tree_inv (new_table t i F m) G (lv(F \<mapsto> Suc l))"
proof -
  let ?m = "new_table t i F m" and ?lv = "lv(F \<mapsto> Suc l)"
  note D = tree_invD [OF T]
  have nF: "u \<noteq> F" if "lv u = Some k" for u k using that F(2) by auto
  have fe: "present (frame_entry F 0)" "\<not> huge (frame_entry F 0)" "entry_frame (frame_entry F 0) = F"
    "frame_entry F 0 < 2 ^ 48"
    using frame_entry_simps [OF F(1), of 0] by simp_all
  have noF: "\<not> links_to ?m F j f" if "j < 511" for j f using that by (simp add: links_to_def phys_new_table)
  have old: "links_to ?m u j f \<longleftrightarrow> (if u = t \<and> j = i then f = F else links_to m u j f)" if "u \<noteq> F" for u j f
    using links_new_table [OF F(1) i(2) that] .
  have lF: "f \<noteq> F" if "lv u = Some (Suc (Suc k))" "j < 511" "links_to m u j f" for u k j f
    using D(4) [OF that] F(2) by auto
  show ?thesis
    unfolding tree_inv_def
  proof (intro conjI allI ballI impI)
    show "?lv G = Some 4" using D(1) F(2) by auto
  next
    fix u j assume u: "u \<in> dom ?lv" and j: "j < (511 :: nat)"
    show "phys ?m u j < 2 ^ 48"
      using u j D(2) [of u _ j] fe(4) i(2) by (cases "u = F") (auto simp: phys_new_table)
    show "phys ?m u j = 0" if "\<not> present (phys ?m u j)"
      using that u j D(3) [of u _ j] fe(1) i(2) by (cases "u = F") (auto simp: phys_new_table split: if_splits)
  next
    fix u j f k assume A: "?lv u = Some (Suc (Suc k)) \<and> j < 511 \<and> links_to ?m u j f"
    then have u: "u \<noteq> F" using noF by auto
    then have lu: "lv u = Some (Suc (Suc k))" using A by simp
    show "?lv f = Some (Suc k)"
    proof (cases "u = t \<and> j = i")
      case True
      then show ?thesis using A old [OF u] t lu by simp
    next
      case False
      then have l: "links_to m u j f" using A old [OF u] by simp
      with D(4) [OF lu, of j f] lF [OF lu _ l] A show ?thesis by simp
    qed
  next
    fix u j u' j' f k k'
    assume A: "?lv u = Some (Suc (Suc k)) \<and> ?lv u' = Some (Suc (Suc k')) \<and> j < 511 \<and> j' < 511
      \<and> links_to ?m u j f \<and> links_to ?m u' j' f"
    then have u: "u \<noteq> F" "u' \<noteq> F" using noF by auto
    then have lu: "lv u = Some (Suc (Suc k))" "lv u' = Some (Suc (Suc k'))" using A by auto
    have "u = u' \<and> j = j'"
      using A old [OF u(1)] old [OF u(2)] D(5) [OF lu, of j j' f] lF [OF lu(1), of j f] lF [OF lu(2), of j' f]
      by (auto split: if_splits)
    then show "u = u'" "j = j'" by auto
  qed
qed

lemma look_new_table:
  assumes T: "tree_inv m G lv" and F: "F < 2 ^ 36" "F \<notin> dom lv" and t: "lv t = Some (Suc (Suc l))"
    and i: "phys m t i = 0"
    and "lv u = Some (length js)" and "\<forall>j \<in> set js. j < 511"
  shows "look (new_table t i F m) u js = look m u js"
  using assms(6,7)
proof (induction js arbitrary: u)
  case Nil
  then show ?case by simp
next
  case (Cons j js)
  let ?m = "new_table t i F m"
  have u: "u \<noteq> F" using Cons.prems(1) F(2) by auto
  show ?case
  proof (cases "u = t \<and> j = i")
    case True
    then obtain k ks where js: "js = k # ks" using t Cons.prems(1) by (cases js) auto
    have "k < 511" using Cons.prems(2) js by simp
    then have "look ?m F js = None" by (simp add: js phys_new_table)
    then show ?thesis
      using True i u js frame_entry_simps [OF F(1), of 0] by (auto simp: phys_new_table)
  next
    case False
    then have e: "phys ?m u j = phys m u j" using u by (auto simp: phys_new_table)
    show ?thesis
    proof (cases "present (phys m u j) \<and> \<not> huge (phys m u j) \<and> js \<noteq> []")
      case True
      then obtain k where k: "length js = Suc k" by (cases js) auto
      have "lv (entry_frame (phys m u j)) = Some (length js)"
        using tree_invD(4) [OF T, of u k j] Cons.prems True k by (simp add: links_to_def)
      with Cons.IH [OF this] Cons.prems True e show ?thesis by simp
    qed (use e in auto)
  qed
qed


section \<open>Writing an entry of a level-1 table\<close>

lemma tree_leaf_set:
  assumes T: "tree_inv m G lv" and t: "lv t = Some (Suc 0)" and v: "v < 2 ^ 48" "\<not> present v \<longrightarrow> v = 0"
  shows "tree_inv (mset t i v m) G lv"
proof -
  have "links_to (mset t i v m) u j f = links_to m u j f" if "lv u = Some (Suc (Suc l))" for u j f l
    using that t by (auto simp: links_to_def)
  note same = this
  note D = tree_invD [OF T]
  show ?thesis
    unfolding tree_inv_def
  proof (intro conjI allI ballI impI)
    show "lv G = Some 4" by (rule D(1))
    fix u j assume "u \<in> dom lv" "j < (511 :: nat)"
    then show "phys (mset t i v m) u j < 2 ^ 48" using v(1) D(2) [of u _ j] by auto
    show "phys (mset t i v m) u j = 0" if "\<not> present (phys (mset t i v m) u j)"
      using that v(2) D(3) [of u _ j] \<open>u \<in> dom lv\<close> \<open>j < 511\<close> by (auto split: if_splits)
  qed (use same D(4,5) in blast)+
qed

lemma look_leaf_set:
  assumes T: "tree_inv m G lv" and t: "lv t = Some (Suc 0)"
    and "lv u = Some (length js)" and "\<forall>j \<in> set js. j < 511" and "js \<noteq> []"
  shows "look (mset t i v m) u js =
     (if walk m u (butlast js) = Some t \<and> last js = i
      then (if present v then Some (entry_frame v, []) else None) else look m u js)"
  using assms(3-5)
proof (induction js arbitrary: u)
  case Nil
  then show ?case by simp
next
  case (Cons j js)
  show ?case
  proof (cases js)
    case Nil
    then show ?thesis by auto
  next
    case (Cons k ks)
    then have u: "u \<noteq> t" using Cons.prems(1) t by auto
    show ?thesis
    proof (cases "present (phys m u j) \<and> \<not> huge (phys m u j)")
      case False
      then show ?thesis using u Cons by auto
    next
      case True
      have "lv (entry_frame (phys m u j)) = Some (length js)"
        using tree_invD(4) [OF T, of u "length ks" j] Cons.prems True Cons by (simp add: links_to_def)
      with Cons.IH [OF this] Cons.prems True u Cons show ?thesis by simp
    qed
  qed
qed

section \<open>The invariant of the page tables\<close>

definition pt_inv ::
  "('a \<Rightarrow> (nat \<times> nat) set \<Rightarrow> bool) \<Rightarrow> ('a \<Rightarrow> nat set) \<Rightarrow> nat \<Rightarrow> 'a pstate \<Rightarrow> (nat \<times> nat) set \<Rightarrow> (nat \<rightharpoonup> nat) \<Rightarrow> bool" where
  "pt_inv fa_inv managed G st U lv \<longleftrightarrow> tree_inv (fst st) G lv \<and> rec_root (fst st) G \<and> fa_inv (snd st) U
     \<and> insert (cr3 (fst st)) (dom lv) \<inter> managed (snd st) \<subseteq> cells U"

text \<open>
  \<open>pt_grow\<close>: the tree has grown by tables in freshly allocated frames; memory outside the
  tables and every entry that was present are as before.  \<open>pt_ext\<close>: besides, every
  translation is as before.
\<close>

definition pt_grow ::
  "('a \<Rightarrow> nat set) \<Rightarrow> 'a pstate \<Rightarrow> (nat \<times> nat) set \<Rightarrow> (nat \<rightharpoonup> nat) \<Rightarrow>
     'a pstate \<Rightarrow> (nat \<times> nat) set \<Rightarrow> (nat \<rightharpoonup> nat) \<Rightarrow> bool" where
  "pt_grow managed st U lv st' U' lv' \<longleftrightarrow>
     lv \<subseteq>\<^sub>m lv' \<and> dom lv' - dom lv \<subseteq> managed (snd st) - cells U
     \<and> U' = U \<union> (\<lambda>f. (f, 0)) ` (dom lv' - dom lv)
     \<and> managed (snd st') = managed (snd st) \<and> cr3 (fst st') = cr3 (fst st)
     \<and> (\<forall>t. t \<notin> dom lv' \<longrightarrow> phys (fst st') t = phys (fst st) t)
     \<and> (\<forall>t i. t \<in> dom lv \<and> present (phys (fst st) t i) \<longrightarrow> phys (fst st') t i = phys (fst st) t i)"

definition pt_ext ::
  "('a \<Rightarrow> nat set) \<Rightarrow> nat \<Rightarrow> 'a pstate \<Rightarrow> (nat \<times> nat) set \<Rightarrow> (nat \<rightharpoonup> nat) \<Rightarrow>
     'a pstate \<Rightarrow> (nat \<times> nat) set \<Rightarrow> (nat \<rightharpoonup> nat) \<Rightarrow> bool" where
  "pt_ext managed G st U lv st' U' lv' \<longleftrightarrow> pt_grow managed st U lv st' U' lv'
     \<and> (\<forall>js. length js = 4 \<and> (\<forall>j \<in> set js. j < 511) \<longrightarrow> look (fst st') G js = look (fst st) G js)"

lemma pt_grow_refl [simp]: "pt_grow managed st U lv st U lv"
  by (simp add: pt_grow_def)

lemma pt_ext_refl [simp]: "pt_ext managed G st U lv st U lv"
  by (simp add: pt_ext_def)

lemma pt_ext_same_machine:
  "managed a' = managed a \<Longrightarrow> pt_ext managed G (m, a) U lv (m, a') U lv"
  by (simp add: pt_ext_def pt_grow_def)

lemma cells_Un_singletons: "cells (U \<union> (\<lambda>f. (f, 0)) ` A) = cells U \<union> A"
  by (auto simp: cells_def block_def)

lemma pt_grow_trans:
  assumes 1: "pt_grow managed st U lv st1 U1 lv1" and 2: "pt_grow managed st1 U1 lv1 st2 U2 lv2"
  shows "pt_grow managed st U lv st2 U2 lv2"
proof -
  note A = 1 [unfolded pt_grow_def] and B = 2 [unfolded pt_grow_def]
  have d: "dom lv \<subseteq> dom lv1" "dom lv1 \<subseteq> dom lv2"
    using A B by (auto dest: map_le_implies_dom_le)
  then have "dom lv2 - dom lv = (dom lv2 - dom lv1) \<union> (dom lv1 - dom lv)" by blast
  moreover from A have "cells U \<subseteq> cells U1" by (simp add: cells_Un_singletons)
  moreover have "phys (fst st2) t = phys (fst st) t" if "t \<notin> dom lv2" for t
    using that A B d(2) by (metis subsetD)
  moreover have "phys (fst st2) t i = phys (fst st) t i" if "t \<in> dom lv" "present (phys (fst st) t i)" for t i
    using that A B d(1) by (metis subsetD)
  moreover have "lv \<subseteq>\<^sub>m lv2" using A B map_le_trans by blast
  ultimately show ?thesis
    unfolding pt_grow_def using A B by (simp add: image_Un Un_ac) blast
qed

lemma pt_ext_trans:
  assumes 1: "pt_ext managed G st U lv st1 U1 lv1" and 2: "pt_ext managed G st1 U1 lv1 st2 U2 lv2"
  shows "pt_ext managed G st U lv st2 U2 lv2"
proof -
  have "pt_grow managed st U lv st2 U2 lv2"
    using 1 2 unfolding pt_ext_def by (elim conjE) (rule pt_grow_trans)
  with 1 2 show ?thesis by (simp add: pt_ext_def)
qed

lemma slots_dom:
  assumes T: "tree_inv m G lv" and "walk m u is = Some t" and "lv u = Some (length is + Suc k)"
    and "\<forall>i \<in> set is. i < 511" and "(v, j) \<in> slots m u is"
  shows "v \<in> dom lv"
  using assms(2-5)
proof (induction "is" arbitrary: u)
  case Nil
  then show ?case by simp
next
  case (Cons i "is")
  then have "lv (entry_frame (phys m u i)) = Some (length is + Suc k)"
    using tree_invD(4) [OF T, of u "length is + k" i] by (simp add: links_to_def split: if_splits)
  with Cons show ?case by (auto split: if_splits)
qed

lemma walk_slots:
  assumes T: "tree_inv m G lv" and w: "walk m G is = Some t" and "length is \<le> 3" and "\<forall>i \<in> set is. i < 511"
    and "(v, j) \<in> slots m G is"
  shows "v \<in> dom lv" "present (phys m v j)"
proof -
  obtain k where "4 = length is + Suc k" using four_levels(1) [OF assms(3)] by blast
  then show "v \<in> dom lv" using slots_dom [OF T w _ assms(4,5)] tree_invD(1) [OF T] by simp
  show "present (phys m v j)" using walk_slots_present [OF w assms(5)] by simp
qed

lemma pt_grow_walk:
  assumes "tree_inv m G lv" and "pt_grow managed (m, a) U lv (m', a') U' lv'"
    and "walk m G is = Some t" and "length is \<le> 3" and "\<forall>i \<in> set is. i < 511"
  shows "walk m' G is = Some t"
proof -
  have "phys m' v j = phys m v j" if "(v, j) \<in> slots m G is" for v j
    using walk_slots [OF assms(1,3-5) that] assms(2) by (auto simp: pt_grow_def)
  from slots_cong(1) [OF this] assms(3) show ?thesis by simp
qed

lemma pt_extD:
  assumes "pt_ext managed G (m, a) U lv (m', a') U' lv'"
  shows "pt_grow managed (m, a) U lv (m', a') U' lv'"
    "length js = 4 \<Longrightarrow> \<forall>j \<in> set js. j < 511 \<Longrightarrow> look m' G js = look m G js"
  using assms by (simp_all add: pt_ext_def)

end
