(* ===== verification/Paging_Ops.thy ===== *)
theory Paging_Ops
  imports Paging_Inv
begin

text \<open>
  The operations on the page tables over the interfaces they use: the frame allocator and
  the generated methods of the flags.
\<close>

locale paging = bitflags "pe_flags E" + frame_allocator "pe_alloc E" "pe_free E" fa_inv managed can_free
  for E :: "'a paging_env"
    and fa_inv :: "'a \<Rightarrow> (nat \<times> nat) set \<Rightarrow> bool"
    and managed :: "'a \<Rightarrow> nat set"
    and can_free :: "'a \<Rightarrow> Frame \<Rightarrow> bool"

section \<open>Access through a virtual address\<close>

lemma machine_eqI:
  fixes m m' :: machine
  shows "cr3 m = cr3 m' \<Longrightarrow> (\<And>u j. phys m u j = phys m' u j) \<Longrightarrow> m = m'"
  by (intro machine.equality ext) simp_all

text \<open>The address \<open>va\<close> shows frame \<open>F\<close>, and writes to \<open>F\<close> do not change that.\<close>

definition stable_table :: "machine \<Rightarrow> usize \<Rightarrow> nat \<Rightarrow> bool" where
  "stable_table m va F \<longleftrightarrow>
     (\<forall>m'. cr3 m' = cr3 m \<and> (\<forall>u. u \<noteq> F \<longrightarrow> phys m' u = phys m u) \<longrightarrow> shows_table m' va F)"

lemma stable_table_shows: "stable_table m va F \<Longrightarrow> shows_table m va F"
  by (simp add: stable_table_def)

lemma stable_table_mset: "stable_table m va F \<Longrightarrow> stable_table (mset F i v m) va F"
  by (simp add: stable_table_def mset_def)

lemma entry_update_ok:
  "shows_table m t f \<Longrightarrow> i < 512 \<Longrightarrow> g (phys m f i) = Inr e \<Longrightarrow> entry_update t i g m = Inr (mset f i e m)"
  by (simp add: entry_update_def entry_access)

lemma clear_entries_ok:
  assumes "stable_table m va F" and "\<forall>i \<in> set is. i < 512"
  shows "clear_entries va is m = Inr (m\<lparr>phys := (phys m)(F := (\<lambda>j. if j \<in> set is then 0 else phys m F j))\<rparr>)"
  using assms
proof (induction "is" arbitrary: m)
  case Nil
  then show ?case by simp
next
  case (Cons i "is")
  have "entry_update va i (\<lambda>e. Inr (clear_all e)) m = Inr (mset F i 0 m)"
    using Cons.prems by (intro entry_update_ok stable_table_shows) (simp_all add: clear_all_def)
  then have "clear_entries va (i # is) m = clear_entries va is (mset F i 0 m)" by simp
  also have "\<dots> = Inr ((mset F i 0 m)\<lparr>phys := (phys (mset F i 0 m))(F := (\<lambda>j. if j \<in> set is then 0 else phys (mset F i 0 m) F j))\<rparr>)"
    using Cons.prems by (intro Cons.IH stable_table_mset) auto
  also have "\<dots> = Inr (m\<lparr>phys := (phys m)(F := (\<lambda>j. if j \<in> set (i # is) then 0 else phys m F j))\<rparr>)"
    by (intro arg_cong [where f = Inr] machine_eqI) auto
  finally show ?case .
qed

lemma rec_root_cong:
  assumes "rec_root m G" and "cr3 m' = cr3 m" and "phys m' (cr3 m) 511 = phys m (cr3 m) 511"
    and "phys m' G 511 = phys m G 511"
  shows "rec_root m' G"
  using assms by (simp add: rec_root_def links_to_def)

lemma stable_table_walk:
  assumes R: "rec_root m G" and w: "walk m G is = Some F"
    and "length is \<le> 3" and "\<forall>i \<in> set is. i < 511"
    and "F \<noteq> cr3 m" and "F \<noteq> G" and "\<And>u j. (u, j) \<in> slots m G is \<Longrightarrow> u \<noteq> F"
  shows "stable_table m (table_va is) F"
  unfolding stable_table_def
proof (intro allI impI)
  fix m' :: machine
  assume m': "cr3 m' = cr3 m \<and> (\<forall>u. u \<noteq> F \<longrightarrow> phys m' u = phys m u)"
  have "rec_root m' G" by (rule rec_root_cong [OF R]) (use m' assms(5,6) in auto)
  moreover have "walk m' G is = Some F"
    using slots_cong(1) [of m G "is" m'] m' assms(7) w by auto
  ultimately show "shows_table m' (table_va is) F"
    using assms(3,4) by (intro rec_root_shows) auto
qed

definition empty_table :: "nat \<Rightarrow> machine \<Rightarrow> machine" where
  "empty_table F m =
     m\<lparr>phys := (phys m)(F := (\<lambda>j. if j = 511 then frame_entry F 0 OR 2 else if j < 512 then 0 else phys m F j))\<rparr>"

lemma ushl_ok: "k < 64 \<Longrightarrow> ushl x k = Inr (take_bit 64 (push_bit k x))"
  by (simp add: ushl_def)

lemma table_va_next:
  assumes "length is \<le> 2" and "\<forall>i \<in> set is. i < 512" and "i < 512"
  shows "take_bit 64 (push_bit 9 (table_va is)) OR take_bit 64 (push_bit 12 i) = table_va (is @ [i])"
proof -
  consider "is = []" | a where "is = [a]" | a b where "is = [a, b]"
    using assms(1) by (auto simp: length_Suc_conv le_Suc_eq numeral_2_eq_2)
  then show ?thesis
    using assms(2,3) next_va [of _ _ i] by cases auto
qed

text \<open>
  \<open>budget M n failed U U'\<close>: from \<open>U\<close> to \<open>U'\<close> at most \<open>n\<close> of the frames \<open>M\<close> were taken, and a
  failure means that none is left.
\<close>

definition budget :: "nat set \<Rightarrow> nat \<Rightarrow> bool \<Rightarrow> (nat \<times> nat) set \<Rightarrow> (nat \<times> nat) set \<Rightarrow> bool" where
  "budget M n failed U U' \<longleftrightarrow> avail M U \<le> avail M U' + n \<and> (failed \<longrightarrow> avail M U' = 0)"

lemma budget_same [simp]: "budget M n False U U"
  by (simp add: budget_def)

lemma budget_trans: "budget M n False U U1 \<Longrightarrow> budget M k failed U1 U2 \<Longrightarrow> budget M (n + k) failed U U2"
  by (auto simp: budget_def)

lemma budget_mono: "budget M n failed U U' \<Longrightarrow> n \<le> k \<Longrightarrow> budget M k failed U U'"
  by (auto simp: budget_def)

lemma budget_insert: "budget M 1 False U (insert (f, 0) U)"
  using avail_insert [of M U f] by (simp add: budget_def)

lemma budget_full: "M \<subseteq> cells U \<Longrightarrow> budget M n True U U"
  by (simp add: budget_def avail_full)

lemma budget_failed: "budget M n True U U' \<Longrightarrow> avail M U \<le> n"
  by (simp add: budget_def)

context paging
begin

abbreviation "pinv \<equiv> pt_inv fa_inv managed"
abbreviation "pext \<equiv> pt_ext managed"

lemma next_level_ok:
  assumes "shows_table m (table_va is) t" and "length is \<le> 2" and "\<forall>i \<in> set is. i < 512" and "i < 512"
  shows "next_level_table_mut (pe_flags E) m (table_va is) i =
     Inr (if present (phys m t i) \<and> \<not> huge (phys m t i) then Some (table_va (is @ [i])) else None)"
  using table_va_next [OF assms(2-4)]
  by (simp add: next_level_table_mut_def next_level_table_address_def entry_access [OF assms(1,4)]
      Let_def contains_PRESENT contains_HUGE_PAGE ushl_ok)

lemma frame_address_ok: "number f < 2 ^ 36 \<Longrightarrow> frame_address f = Inr (number f * 4096)"
  by (simp add: frame_address_def SIZE_def)

lemma pinvD:
  assumes "pinv G (m, a) U lv"
  shows "tree_inv m G lv" "rec_root m G" "fa_inv a U" "insert (cr3 m) (dom lv) \<inter> managed a \<subseteq> cells U"
  using assms by (simp_all add: pt_inv_def)

text \<open>The initialisation of a new table: all entries cleared, the last one leading to itself.\<close>

lemma init_table_run:
  assumes st: "stable_table m va F" and F: "F < 2 ^ 36"
  shows "\<exists>m2 m3. clear_all_entries va m = Inr m2
     \<and> entry_update va 511 (set_frame_addr (pe_flags E) (F * 4096)) m2 = Inr m3
     \<and> entry_update va 511 (\<lambda>e. Inr (set_flags (pe_flags E) WRITABLE e)) m3 = Inr (empty_table F m)"
proof (intro exI conjI)
  define m2 where "m2 = m\<lparr>phys := (phys m)(F := (\<lambda>j. if j < 512 then 0 else phys m F j))\<rparr>"
  show "clear_all_entries va m = Inr m2"
    using clear_entries_ok [OF st, of "[0..<512]"] by (simp add: clear_all_entries_def MAX_ENTRY_COUNT_def m2_def)
  have st2: "stable_table m2 va F" using st by (simp add: stable_table_def m2_def)
  show "entry_update va 511 (set_frame_addr (pe_flags E) (F * 4096)) m2 = Inr (mset F 511 (frame_entry F 0) m2)"
    by (intro entry_update_ok [OF stable_table_shows [OF st2]]) (simp_all add: m2_def set_frame_addr_ok [OF F])
  have "mset F 511 (frame_entry F 0 OR 2) (mset F 511 (frame_entry F 0) m2) = empty_table F m"
    by (rule machine_eqI) (auto simp: m2_def empty_table_def)
  then show "entry_update va 511 (\<lambda>e. Inr (set_flags (pe_flags E) WRITABLE e)) (mset F 511 (frame_entry F 0) m2)
      = Inr (empty_table F m)"
    using entry_update_ok [OF stable_table_shows [OF stable_table_mset [OF st2]], of 511]
    by (simp add: set_flags_WRITABLE)
qed

text \<open>Creating a table in a fresh frame.\<close>

text \<open>One frame from the allocator: none is left, or the new frame is outside the tree and everything in use.\<close>

lemma alloc_frame_cases:
  assumes "pinv G (m, a) U lv"
  obtains (none) a' where "pe_alloc E a = Inr (None, a')" "pinv G (m, a') U lv" "managed a' = managed a"
      "avail (managed a) U = 0"
  | (frame) fr a' where "pe_alloc E a = Inr (Some fr, a')" "pinv G (m, a') (insert (number fr, 0) U) lv"
      "managed a' = managed a" "number fr < 2 ^ 36" "number fr \<in> managed a - cells U" "number fr \<notin> dom lv"
      "number fr \<noteq> G" "cells (insert (number fr, 0) U) = insert (number fr) (cells U)"
proof -
  note I = pinvD [OF assms]
  obtain fo a' where al: "pe_alloc E a = Inr (fo, a')" using alloc_one_total [OF I(3)] by blast
  show ?thesis
  proof (cases fo)
    case None
    then show ?thesis using none alloc_one_None [OF I(3)] al I by (simp add: pt_inv_def avail_full)
  next
    case (Some fr)
    have c: "cells (insert (number fr, 0) U) = insert (number fr) (cells U)" by (auto simp: cells_def block_def)
    have A: "number fr \<in> managed a - cells U" "number fr < 2 ^ 36" "fa_inv a' (insert (number fr, 0) U)" "managed a' = managed a"
      using alloc_one_Some [OF I(3)] al Some by auto
    then have d: "number fr \<notin> dom lv" "number fr \<noteq> G" using I(4) tree_invD(1) [OF I(1)] by auto
    have p: "pinv G (m, a') (insert (number fr, 0) U) lv" using I A c by (auto simp: pt_inv_def)
    show ?thesis by (rule frame [OF _ p A(4,2,1) d c]) (use al Some in simp)
  qed
qed

lemma create_run:
  assumes inv: "pinv G (m, a) U lv" and w: "walk m G is = Some t" and len: "length is \<le> 2"
    and ix: "\<forall>j \<in> set is. j < 511" "i < 511" and e0: "phys m t i = 0"
    and al: "pe_alloc E a = Inr (Some fr, a')"
  shows "next_level_table_create_mut E (table_va is) i (m, a) =
     Inr (Some (table_va (is @ [i])), (new_table t i (number fr) m, a'))"
proof -
  let ?F = "number fr" and ?B = "pe_flags E" and ?va = "table_va (is @ [i])"
  note I = pinvD [OF inv]
  have F: "?F \<in> managed a - cells U" "?F < 2 ^ 36" using alloc_one_Some [OF I(3) al] by auto
  then have nF: "?F \<notin> dom lv" "?F \<noteq> cr3 m" "?F \<noteq> G" using I(4) tree_invD(1) [OF I(1)] by auto
  have fa: "frame_address fr = Inr (?F * 4096)" using F(2) by (rule frame_address_ok)
  have ix': "\<forall>j \<in> set is. j < 512" "i < 512" using ix by auto
  have sh: "shows_table m (table_va is) t" by (rule rec_root_shows [OF I(2) w _ ix'(1)]) (use len in simp)
  define m1 where "m1 = mset t i (frame_entry ?F 0) m"
  have up1: "entry_update (table_va is) i (set_frame_addr ?B (?F * 4096)) m = Inr m1"
    unfolding m1_def using ix(2) by (intro entry_update_ok [OF sh]) (simp_all add: e0 set_frame_addr_ok [OF F(2)])
  have slot: "u \<noteq> ?F" "phys m1 u j = phys m u j" if "(u, j) \<in> slots m G is" for u j
    using walk_slots [OF I(1) w _ ix(1) that] len nF e0 by (auto simp: m1_def)
  have w1: "walk m1 G is = Some t" "slots m1 G is = slots m G is"
    using slots_cong [of m G "is" m1] slot(2) w by auto
  have link: "links_to m1 t i ?F" using frame_entry_simps [OF F(2), of 0] by (simp add: links_to_def m1_def)
  then have w2: "walk m1 G (is @ [i]) = Some ?F" using w1 by (auto simp: walk_snoc)
  have R1: "rec_root m1 G" by (rule rec_root_cong [OF I(2)]) (use ix(2) in \<open>auto simp: m1_def\<close>)
  have sh1: "shows_table m1 (table_va is) t" by (rule rec_root_shows [OF R1 w1(1) _ ix'(1)]) (use len in simp)
  have tF: "t \<noteq> ?F"
  proof -
    obtain k where "4 = length is + Suc (Suc k)" using four_levels(2) [OF len] by blast
    then have "t \<in> dom lv" using walk_level [OF I(1) w, of "Suc k"] tree_invD(1) [OF I(1)] ix(1) by auto
    then show ?thesis using nF by auto
  qed
  have slots1: "slots m1 G (is @ [i]) = insert (t, i) (slots m1 G is)"
    using w1(1) by (induction "is" arbitrary: G) (auto split: if_splits)
  have st: "stable_table m1 ?va ?F"
    by (rule stable_table_walk [OF R1 w2]) (use len ix nF slots1 w1(2) tF in \<open>auto simp: m1_def dest: slot(1)\<close>)
  obtain m2 m3 where init: "clear_all_entries ?va m1 = Inr m2"
      "entry_update ?va 511 (set_frame_addr ?B (?F * 4096)) m2 = Inr m3"
      "entry_update ?va 511 (\<lambda>e. Inr (set_flags ?B WRITABLE e)) m3 = Inr (empty_table ?F m1)"
    using init_table_run [OF st F(2)] by blast
  have eq: "empty_table ?F m1 = new_table t i ?F m"
    by (rule machine_eqI) (use tF in \<open>auto simp: empty_table_def m1_def phys_new_table e0\<close>)
  have n0: "next_level_table_mut ?B m (table_va is) i = Inr None"
    using next_level_ok [OF sh len ix'] e0 by simp
  have n1: "next_level_table_mut ?B m1 (table_va is) i = Inr (Some ?va)"
    using next_level_ok [OF sh1 len ix'] link by (simp add: links_to_def)
  show ?thesis
    unfolding next_level_table_create_mut_def Let_def
    by (simp add: n0 al fa up1 n1 init eq)
qed

lemma create_ext:
  assumes inv: "pinv G (m, a) U lv" and t: "lv t = Some (Suc (Suc l))" and i: "i < 511" "phys m t i = 0"
    and al: "pe_alloc E a = Inr (Some fr, a')"
  defines "lv' \<equiv> lv(number fr \<mapsto> Suc l)"
  shows "pinv G (new_table t i (number fr) m, a') (insert (number fr, 0) U) lv'"
    and "pext G (m, a) U lv (new_table t i (number fr) m, a') (insert (number fr, 0) U) lv'"
    and "links_to (new_table t i (number fr) m) t i (number fr)"
proof -
  let ?F = "number fr" and ?m = "new_table t i (number fr) m"
  note I = pinvD [OF inv]
  have A: "?F \<in> managed a - cells U" "?F < 2 ^ 36" "fa_inv a' (insert (?F, 0) U)" "managed a' = managed a"
    using alloc_one_Some [OF I(3) al] by auto
  then have nF: "?F \<notin> dom lv" "?F \<noteq> cr3 m" "?F \<noteq> G" "?F \<noteq> t" using I(4) tree_invD(1) [OF I(1)] t by auto
  have cellsF: "cells (insert (?F, 0) U) = insert ?F (cells U)" by (auto simp: cells_def block_def)
  have "rec_root ?m G"
    by (rule rec_root_cong [OF I(2)]) (use nF i(1) in \<open>auto simp: phys_new_table\<close>)
  with tree_new_table [OF I(1) A(2) nF(1) t i] A(3,4) I(4) cellsF
  show "pinv G (?m, a') (insert (?F, 0) U) lv'" by (auto simp: pt_inv_def lv'_def)
  have d: "dom lv' - dom lv = {?F}" "lv \<subseteq>\<^sub>m lv'" using nF(1) by (auto simp: lv'_def map_le_def)
  have "present (phys m u j) \<longrightarrow> phys ?m u j = phys m u j" if "u \<in> dom lv" for u j
    using that nF(1) i(2) by (auto simp: phys_new_table)
  moreover have "phys ?m u = phys m u" if "u \<notin> dom lv'" for u
    using that t by (intro ext) (auto simp: phys_new_table lv'_def)
  moreover have "look ?m G js = look m G js" if "length js = 4" "\<forall>j \<in> set js. j < 511" for js
    using look_new_table [OF I(1) A(2) nF(1) t i(2), of G js] tree_invD(1) [OF I(1)] that by simp
  ultimately show "pext G (m, a) U lv (?m, a') (insert (?F, 0) U) lv'"
    using A d by (auto simp: pt_ext_def pt_grow_def)
  show "links_to ?m t i ?F"
    using links_new_table [OF A(2) i(2) nF(4) [symmetric], of i ?F] by simp
qed

text \<open>
  \<^verbatim>\<open>next_level_table_create_mut\<close> returns the table below entry \<open>i\<close>, or nothing if a new
  table was needed and the allocator had no frame; no translation changes.
\<close>

lemma create_ok:
  assumes inv: "pinv G (m, a) U lv" and w: "walk m G is = Some t" and len: "length is \<le> 2"
    and ix: "\<forall>j \<in> set is. j < 511" "i < 511"
    and nh: "\<not> (present (phys m t i) \<and> huge (phys m t i))"
  obtains r m' a' U' lv' where "next_level_table_create_mut E (table_va is) i (m, a) = Inr (r, (m', a'))"
    "pinv G (m', a') U' lv'" "pext G (m, a) U lv (m', a') U' lv'"
    "r = None \<and> \<not> present (phys m t i) \<and> m' = m
      \<or> r = Some (table_va (is @ [i])) \<and> (\<exists>f. walk m' G (is @ [i]) = Some f
          \<and> (\<not> present (phys m t i) \<longrightarrow> (\<forall>j < 511. phys m' f j = 0)))"
    "\<forall>j. is \<noteq> [] \<or> j \<noteq> i \<longrightarrow> phys m' G j = phys m G j" "budget (managed a) 1 (r = None) U U'"
proof -
  note I = pinvD [OF inv]
  obtain k where k: "4 = length is + Suc (Suc k)" using four_levels(2) [OF len] by blast
  then have t: "lv t = Some (Suc (Suc k))" using walk_level [OF I(1) w, of "Suc k"] tree_invD(1) [OF I(1)] ix(1) by simp
  have ix': "\<forall>j \<in> set is. j < 512" "i < 512" using ix by auto
  have sh: "shows_table m (table_va is) t" by (rule rec_root_shows [OF I(2) w _ ix'(1)]) (use len in simp)
  note nl = next_level_ok [OF sh len ix']
  show ?thesis
  proof (cases "present (phys m t i)")
    case True
    then have "links_to m t i (entry_frame (phys m t i))" using nh by (simp add: links_to_def)
    then have "walk m G (is @ [i]) = Some (entry_frame (phys m t i))" using w by (auto simp: walk_snoc)
    moreover have "next_level_table_create_mut E (table_va is) i (m, a) = Inr (Some (table_va (is @ [i])), (m, a))"
      using nl True nh by (simp add: next_level_table_create_mut_def)
    ultimately show ?thesis using that [of _ m a U lv] inv True by simp
  next
    case False
    then have e0: "phys m t i = 0" using tree_invD(3) [OF I(1) t ix(2)] by blast
    obtain fo a' where al: "pe_alloc E a = Inr (fo, a')" using alloc_one_total [OF I(3)] by blast
    show ?thesis
    proof (cases fo)
      case None
      then have "next_level_table_create_mut E (table_va is) i (m, a) = Inr (None, (m, a'))"
        using nl False al by (simp add: next_level_table_create_mut_def)
      moreover have "pinv G (m, a') U lv" "pext G (m, a) U lv (m, a') U lv" "budget (managed a) 1 True U U"
        using alloc_one_None [OF I(3)] al None I by (simp_all add: pt_inv_def pt_ext_same_machine budget_full)
      ultimately show ?thesis using that [of None m a' U lv] False by simp
    next
      case (Some fr)
      note al = al [unfolded Some]
      note run = create_run [OF inv w len ix e0 al] and ext = create_ext [OF inv t ix(2) e0 al]
      have "walk (new_table t i (number fr) m) G is = Some t"
        using pt_grow_walk [OF I(1) pt_extD(1) [OF ext(2)] w] len ix(1) by simp
      with ext(3) have "walk (new_table t i (number fr) m) G (is @ [i]) = Some (number fr)" by (auto simp: walk_snoc)
      moreover have "\<forall>j < 511. phys (new_table t i (number fr) m) (number fr) j = 0" by (simp add: phys_new_table)
      moreover have "phys (new_table t i (number fr) m) G j = phys m G j" if "is \<noteq> [] \<or> j \<noteq> i" for j
      proof -
        have "number fr \<noteq> G" using alloc_one_Some [OF I(3) al] I(4) tree_invD(1) [OF I(1)] by auto
        moreover have "is = []" if "G = t" using that t tree_invD(1) [OF I(1)] k by simp
        ultimately show ?thesis using that by (auto simp: phys_new_table)
      qed
      ultimately show ?thesis using that [OF run ext(1,2)] budget_insert by auto
    qed
  qed
qed

end

end
