(* ===== verification/Paging_Map.thy ===== *)
theory Paging_Map
  imports Paging_Ops
begin

text \<open>
  Mapping and unmapping a page: \<^verbatim>\<open>ActivePageTable::map\<close>, \<^verbatim>\<open>map_fitting\<close> and \<^verbatim>\<open>unmap\<close>.  The
  abstract content of the tables is the function \<open>look m G\<close> from the four indices of a page
  to the frame it is mapped to.
\<close>

text \<open>No entry on the way to the page maps a huge page.\<close>

definition no_huge :: "machine \<Rightarrow> nat \<Rightarrow> nat list \<Rightarrow> bool" where
  "no_huge m G js \<longleftrightarrow> (\<forall>f rest. look m G js = Some (f, rest) \<longrightarrow> rest = [])"

definition plain :: "nat list \<Rightarrow> bool" where
  "plain js \<longleftrightarrow> length js = 4 \<and> (\<forall>j \<in> set js. j < 511)"

lemma no_huge_entry:
  assumes "no_huge m G (is @ i # rest)" and "walk m G is = Some t" and "rest \<noteq> []"
  shows "\<not> (present (phys m t i) \<and> huge (phys m t i))"
proof
  assume "present (phys m t i) \<and> huge (phys m t i)"
  then have "look m G (is @ i # rest) = Some (entry_frame (phys m t i), rest)"
    using look_append [OF assms(2), of "i # rest"] by simp
  with assms(1,3) show False unfolding no_huge_def by blast
qed

lemma look_absent:
  assumes "walk m G is = Some t" and "\<not> present (phys m t i)"
  shows "look m G (is @ i # rest) = None"
  using look_append [OF assms(1), of "i # rest"] assms(2) by simp

lemma plain4: "plain [a, b, c, d] \<longleftrightarrow> a < 511 \<and> b < 511 \<and> c < 511 \<and> d < 511"
  by (simp add: plain_def)

lemma indices_page_number:
  assumes "indices x = indices y"
  shows "x div 4096 mod 2 ^ 36 = y div 4096 mod 2 ^ 36"
proof -
  have *: "p mod 2 ^ 36 = 512 * (512 * (512 * (p div 512 div 512 div 512 mod 512) + p div 512 div 512 mod 512)
      + p div 512 mod 512) + p mod 512" for p :: nat
  proof -
    have "p mod 2 ^ 36 = 512 * (p div 512 mod 2 ^ 27) + p mod 512"
      using mod_mult2_eq [of p 512 "2 ^ 27"] by simp
    moreover have "p div 512 mod 2 ^ 27 = 512 * (p div 512 div 512 mod 2 ^ 18) + p div 512 mod 512"
      using mod_mult2_eq [of "p div 512" 512 "2 ^ 18"] by simp
    moreover have "p div 512 div 512 mod 2 ^ 18 = 512 * (p div 512 div 512 div 512 mod 512) + p div 512 div 512 mod 512"
      using mod_mult2_eq [of "p div 512 div 512" 512 512] by simp
    ultimately show ?thesis by simp
  qed
  have e: "level4_index z = z div 4096 div 512 div 512 div 512 mod 512" "level3_index z = z div 4096 div 512 div 512 mod 512"
    "level2_index z = z div 4096 div 512 mod 512" "level1_index z = z div 4096 mod 512" for z
    by (simp_all add: index_eqs div_mult2_eq [symmetric])
  have "x div 4096 div 512 div 512 div 512 mod 512 = y div 4096 div 512 div 512 div 512 mod 512"
    "x div 4096 div 512 div 512 mod 512 = y div 4096 div 512 div 512 mod 512"
    "x div 4096 div 512 mod 512 = y div 4096 div 512 mod 512" "x div 4096 mod 512 = y div 4096 mod 512"
    using assms unfolding indices_def e by blast+
  then show ?thesis by (simp only: *)
qed

text \<open>The indices of the page with a given number.\<close>

definition page_indices :: "nat \<Rightarrow> nat list" where
  "page_indices n = indices (4096 * n)"

lemma page_indices_inj:
  assumes "page_indices p = page_indices q" and "p \<le> q" and "q < p + 2 ^ 36"
  shows "p = q"
proof -
  have "p mod 2 ^ 36 = q mod 2 ^ 36" using indices_page_number [OF assms(1) [unfolded page_indices_def]] by simp
  then have "2 ^ 36 dvd q - p" using assms(2) by (metis mod_eq_dvd_iff_nat)
  moreover have "q - p < 2 ^ 36" using assms(2,3) by linarith
  ultimately have "q - p = 0" using nat_dvd_not_less by blast
  with assms(2) show ?thesis by simp
qed

context paging
begin

lemma pext_plain: "pext G (m, a) U lv (m', a') U' lv' \<Longrightarrow> plain js \<Longrightarrow> look m' G js = look m G js"
  by (simp add: pt_ext_def plain_def)

text \<open>
  Progress on the way to the page \<open>js\<close>: the table at the end of the walk \<open>is\<close> is reached, or
  the page is not mapped and a frame for a table was missing.
\<close>

definition reached where
  "reached G js st0 U0 lv0 is res \<longleftrightarrow> (\<exists>r m a U lv. res = Inr (r, (m, a)) \<and> pinv G (m, a) U lv
     \<and> pext G st0 U0 lv0 (m, a) U lv
     \<and> (r = None \<and> look (fst st0) G js = None \<and> walk (fst st0) G (butlast js) = None
        \<or> r = Some (table_va is) \<and> (\<exists>f. walk m G is = Some f))
     \<and> (\<forall>j. j \<noteq> hd js \<longrightarrow> phys m G j = phys (fst st0) G j)
     \<and> budget (managed (snd st0)) (length is) (r = None) U0 U)"

lemma reached_step:
  assumes T0: "tree_inv m0 G lv0" and R: "reached G js (m0, a0) U0 lv0 is res" and js: "js = is @ i # rest" "rest \<noteq> []" "length is \<le> 2"
    and pl: "plain js" and nh: "no_huge m0 G js"
  shows "reached G js (m0, a0) U0 lv0 (is @ [i]) (and_then res (\<lambda>t. next_level_table_create_mut E t i))"
proof -
  from R obtain r m a U lv where res: "res = Inr (r, (m, a))" and p: "pinv G (m, a) U lv"
    and x: "pext G (m0, a0) U0 lv0 (m, a) U lv"
    and r: "r = None \<and> look m0 G js = None \<and> walk m0 G (butlast js) = None
      \<or> r = Some (table_va is) \<and> (\<exists>f. walk m G is = Some f)"
    and o: "\<forall>j. j \<noteq> hd js \<longrightarrow> phys m G j = phys m0 G j" and b: "budget (managed a0) (length is) (r = None) U0 U"
    by (auto simp: reached_def)
  show ?thesis
  proof (cases r)
    case None
    then show ?thesis using res p x r o budget_mono [OF b, of "Suc (length is)"] by (auto simp: reached_def and_then_def)
  next
    case (Some va)
    then obtain t where va: "va = table_va is" and w: "walk m G is = Some t" using r by auto
    have ix: "\<forall>j \<in> set is. j < 511" "i < 511" using pl js(1) by (auto simp: plain_def)
    have nh': "no_huge m G (is @ i # rest)" using nh pext_plain [OF x pl] js(1) by (simp add: no_huge_def)
    obtain r' m' a' U' lv' where c: "next_level_table_create_mut E (table_va is) i (m, a) = Inr (r', (m', a'))"
      and p': "pinv G (m', a') U' lv'" and x': "pext G (m, a) U lv (m', a') U' lv'"
      and r': "r' = None \<and> \<not> present (phys m t i) \<and> m' = m
        \<or> r' = Some (table_va (is @ [i])) \<and> (\<exists>f. walk m' G (is @ [i]) = Some f)"
      and o': "\<forall>j. is \<noteq> [] \<or> j \<noteq> i \<longrightarrow> phys m' G j = phys m G j" and b': "budget (managed a) 1 (r' = None) U U'"
      by (rule create_ok [OF p w js(3) ix no_huge_entry [OF nh' w js(2)]]) blast
    have "look m0 G js = None \<and> walk m0 G (butlast js) = None" if "r' = None"
    proof
      have np: "\<not> present (phys m t i)" using that r' by auto
      then show "look m0 G js = None" using look_absent [OF w, of i rest] pext_plain [OF x pl] js(1) by simp
      have "walk m G (butlast js) = None" using np w js(1,2) by (simp add: butlast_append walk_append)
      moreover have "\<forall>j \<in> set (butlast js). j < 511" "length (butlast js) \<le> 3"
        using pl by (auto simp: plain_def dest: in_set_butlastD)
      ultimately show "walk m0 G (butlast js) = None"
        using pt_grow_walk [OF T0 pt_extD(1) [OF x], of "butlast js"] by force
    qed
    moreover have "and_then res (\<lambda>t. next_level_table_create_mut E t i) = Inr (r', (m', a'))"
      using res Some va c by (simp add: and_then_def)
    moreover have "\<forall>j. j \<noteq> hd js \<longrightarrow> phys m' G j = phys m0 G j"
      using o o' js(1) by (cases "is") auto
    moreover have "managed a = managed a0" using x by (simp add: pt_ext_def pt_grow_def)
    then have "budget (managed a0) (length (is @ [i])) (r' = None) U0 U'"
      using budget_trans [of "managed a0" "length is" U0 U 1] b b' Some by simp
    ultimately show ?thesis
      unfolding reached_def using p' pt_ext_trans [OF x x'] r' by auto
  qed
qed

text \<open>The three tables on the way to a page.\<close>

lemma tables_ok:
  assumes inv: "pinv G (m, a) U lv" and pl: "plain [i4, i3, i2, i1]" and nh: "no_huge m G [i4, i3, i2, i1]"
  obtains r m' a' U' lv' where
    "and_then (and_then (next_level_table_create_mut E (table_va []) i4 (m, a))
        (\<lambda>t. next_level_table_create_mut E t i3)) (\<lambda>t. next_level_table_create_mut E t i2) = Inr (r, (m', a'))"
    "pinv G (m', a') U' lv'" "pext G (m, a) U lv (m', a') U' lv'"
    "r = None \<and> look m G [i4, i3, i2, i1] = None \<and> walk m G [i4, i3, i2] = None
      \<or> r = Some (table_va [i4, i3, i2]) \<and> (\<exists>f. walk m' G [i4, i3, i2] = Some f)"
    "\<forall>j. j \<noteq> i4 \<longrightarrow> phys m' G j = phys m G j" "budget (managed a) 3 (r = None) U U'"
proof -
  let ?js = "[i4, i3, i2, i1]"
  have "reached G ?js (m, a) U lv [] (Inr (Some (table_va []), (m, a)))"
    unfolding reached_def using inv by (intro exI conjI) auto
  from reached_step [OF pinvD(1) [OF inv] this _ _ _ pl nh, where i = i4]
  have "reached G ?js (m, a) U lv [i4] (next_level_table_create_mut E (table_va []) i4 (m, a))"
    by (simp add: and_then_def)
  from reached_step [OF pinvD(1) [OF inv] this _ _ _ pl nh, where i = i3]
  have "reached G ?js (m, a) U lv [i4, i3] (and_then (next_level_table_create_mut E (table_va []) i4 (m, a))
      (\<lambda>t. next_level_table_create_mut E t i3))" by simp
  from reached_step [OF pinvD(1) [OF inv] this _ _ _ pl nh, where i = i2]
  have "reached G ?js (m, a) U lv [i4, i3, i2] (and_then (and_then (next_level_table_create_mut E (table_va []) i4 (m, a))
      (\<lambda>t. next_level_table_create_mut E t i3)) (\<lambda>t. next_level_table_create_mut E t i2))" by simp
  moreover have "butlast ?js = [i4, i3, i2]" by simp
  moreover have "length [i4, i3, i2] = 3" by simp
  ultimately show ?thesis unfolding reached_def fst_conv snd_conv list.sel by (elim exE conjE) (rule that, simp_all only:)
qed

section \<open>Mapping one page\<close>

lemma leaf_ok:
  assumes inv: "pinv G (m, a) U lv" and w: "walk m G [i4, i3, i2] = Some t" and pl: "plain [i4, i3, i2, i1]"
    and v: "v < 2 ^ 48" "\<not> present v \<longrightarrow> v = 0"
  shows "shows_table m (table_va [i4, i3, i2]) t" "lv t = Some (Suc 0)"
    "pinv G (mset t i1 v m, a) U lv"
    "plain js \<Longrightarrow> look (mset t i1 v m) G js =
       (if js = [i4, i3, i2, i1] then (if present v then Some (entry_frame v, []) else None) else look m G js)"
    "look m G [i4, i3, i2, i1] = (if present (phys m t i1) then Some (entry_frame (phys m t i1), []) else None)"
proof -
  note I = pinvD [OF inv]
  have ix: "\<forall>i \<in> set [i4, i3, i2]. i < 511" "i1 < 511" using pl by (auto simp: plain4)
  show "shows_table m (table_va [i4, i3, i2]) t"
    by (rule rec_root_shows [OF I(2) w]) (use ix(1) in auto)
  show t: "lv t = Some (Suc 0)" using walk_level [OF I(1) w, of 0] tree_invD(1) [OF I(1)] ix by simp
  have "rec_root (mset t i1 v m) G" by (rule rec_root_cong [OF I(2)]) (use ix(2) in auto)
  then show "pinv G (mset t i1 v m, a) U lv"
    using tree_leaf_set [OF I(1) t v] I by (simp add: pt_inv_def)
  show "look m G [i4, i3, i2, i1] = (if present (phys m t i1) then Some (entry_frame (phys m t i1), []) else None)"
    using look_append [OF w, of "[i1]"] by simp
  assume pj: "plain js"
  have eq: "walk m G (butlast js) = Some t \<and> last js = i1 \<longleftrightarrow> js = [i4, i3, i2, i1]"
  proof
    assume A: "walk m G (butlast js) = Some t \<and> last js = i1"
    have "\<forall>j \<in> set (butlast js). j < 511" using pj by (auto simp: plain_def dest: in_set_butlastD)
    then have "butlast js = [i4, i3, i2]"
      using walk_inj [OF I(1) _ w, of "butlast js"] A ix pj by (auto simp: plain_def)
    moreover have "js \<noteq> []" using pj by (auto simp: plain_def)
    ultimately show "js = [i4, i3, i2, i1]" using A append_butlast_last_id [of js] by auto
  qed (use w in auto)
  have "lv G = Some (length js)" "\<forall>j \<in> set js. j < 511" "js \<noteq> []"
    using pj tree_invD(1) [OF I(1)] by (auto simp: plain_def)
  from look_leaf_set [OF I(1) t this, of i1 v] show "look (mset t i1 v m) G js =
      (if js = [i4, i3, i2, i1] then (if present v then Some (entry_frame v, []) else None) else look m G js)"
    unfolding eq .
qed

lemma map_ok:
  assumes inv: "pinv G (m, a) U lv" and pa: "page_address page = Inr pg" and n: "number fr < 2 ^ 36"
    and pl: "plain (indices pg)" and nh: "no_huge m G (indices pg)"
  obtains r m' a' U' lv' where "map_page E page fr (m, a) = Inr (r, (m', a'))"
    "pinv G (m', a') U' lv'" "pt_grow managed (m, a) U lv (m', a') U' lv'"
    "r = Inr () \<and> look m G (indices pg) = None
        \<and> (\<forall>js. plain js \<longrightarrow> look m' G js = (if js = indices pg then Some (number fr, []) else look m G js))
     \<or> r = Inl AlreadyMapped \<and> look m G (indices pg) \<noteq> None \<and> (\<forall>js. plain js \<longrightarrow> look m' G js = look m G js)
     \<or> r = Inl NoPageTable \<and> look m G (indices pg) = None \<and> walk m G (butlast (indices pg)) = None \<and> (\<forall>js. plain js \<longrightarrow> look m' G js = look m G js)"
    "\<forall>j. j \<noteq> level4_index pg \<longrightarrow> phys m' G j = phys m G j" "budget (managed a) 3 (r = Inl NoPageTable) U U'"
proof -
  let ?i4 = "level4_index pg" and ?i3 = "level3_index pg" and ?i2 = "level2_index pg" and ?i1 = "level1_index pg"
  have js: "indices pg = [?i4, ?i3, ?i2, ?i1]" by (simp add: indices_def)
  have fa: "frame_address fr = Inr (number fr * 4096)" using n by (rule frame_address_ok)
  have L4: "LEVEL4_PAGE_TABLE = table_va []" by (simp add: LEVEL4_PAGE_TABLE_def level4_table_va)
  obtain r m1 a1 U1 lv1 where tb: "and_then (and_then (next_level_table_create_mut E (table_va []) ?i4 (m, a))
        (\<lambda>t. next_level_table_create_mut E t ?i3)) (\<lambda>t. next_level_table_create_mut E t ?i2) = Inr (r, (m1, a1))"
    and p1: "pinv G (m1, a1) U1 lv1" and x1: "pext G (m, a) U lv (m1, a1) U1 lv1"
    and r: "r = None \<and> look m G (indices pg) = None \<and> walk m G (butlast (indices pg)) = None
      \<or> r = Some (table_va [?i4, ?i3, ?i2]) \<and> (\<exists>f. walk m1 G [?i4, ?i3, ?i2] = Some f)"
    and o1: "\<forall>j. j \<noteq> ?i4 \<longrightarrow> phys m1 G j = phys m G j" and b1: "budget (managed a) 3 (r = None) U U1"
    by (rule tables_ok [OF inv pl [unfolded js] nh [unfolded js]]) (simp add: js del: look.simps walk.simps table_va.simps)
  note look1 = pext_plain [OF x1] and g1 = pt_extD(1) [OF x1]
  show ?thesis
  proof (cases r)
    case None
    then have "map_page E page fr (m, a) = Inr (Inl NoPageTable, (m1, a1))"
      unfolding map_page_def L4 pa fa res_bind_simps tb by simp
    then show ?thesis using that [OF _ p1 g1 _ o1] r None look1 b1 by simp
  next
    case (Some va)
    then obtain t where va: "va = table_va [?i4, ?i3, ?i2]" and w: "walk m1 G [?i4, ?i3, ?i2] = Some t" using r by auto
    note leaf = leaf_ok [OF p1 w pl [unfolded js]]
    have sh: "shows_table m1 va t" and lk: "look m G (indices pg) =
        (if present (phys m1 t ?i1) then Some (entry_frame (phys m1 t ?i1), []) else None)"
      using leaf(1,5) [of 0] va look1 [OF pl] by (simp_all add: js)
    have lt: "lv1 t = Some (Suc 0)" using leaf(2) [of 0] by simp
    show ?thesis
    proof (cases "present (phys m1 t ?i1)")
      case True
      then have "map_page E page fr (m, a) = Inr (Inl AlreadyMapped, (m1, a1))"
        unfolding map_page_def L4 pa fa res_bind_simps tb using Some
        by (simp add: entry_access [OF sh] contains_PRESENT)
      then show ?thesis using that [OF _ p1 g1 _ o1] True lk look1 b1 Some by simp
    next
      case False
      have "?i1 < 511" using pl js by (simp add: plain4)
      then have e0: "phys m1 t ?i1 = 0" using tree_invD(3) [OF pinvD(1) [OF p1] lt] False by blast
      let ?v = "frame_entry (number fr) 0"
      have v: "?v < 2 ^ 48" "present ?v" "entry_frame ?v = number fr" using frame_entry_simps [OF n, of 0] by simp_all
      have "entry_update va ?i1 (set_frame_addr (pe_flags E) (number fr * 4096)) m1 = Inr (mset t ?i1 ?v m1)"
        by (intro entry_update_ok [OF sh]) (simp_all add: e0 set_frame_addr_ok [OF n])
      then have run: "map_page E page fr (m, a) = Inr (Inr (), (mset t ?i1 ?v m1, a1))"
        unfolding map_page_def L4 pa fa res_bind_simps tb using Some False
        by (simp add: entry_access [OF sh] contains_PRESENT)
      have "pt_grow managed (m1, a1) U1 lv1 (mset t ?i1 ?v m1, a1) U1 lv1"
        using lt False by (auto simp: pt_grow_def fun_eq_iff)
      moreover have "t \<noteq> G" using lt tree_invD(1) [OF pinvD(1) [OF p1]] by auto
      then have "\<forall>j. j \<noteq> ?i4 \<longrightarrow> phys (mset t ?i1 ?v m1) G j = phys m G j" using o1 by simp
      ultimately show ?thesis
        using that [OF run leaf(3) [OF v(1)] pt_grow_trans [OF g1]] leaf(4) [OF v(1)] v lk False look1 js b1 Some by simp
    qed
  qed
qed

section \<open>Unmapping a page\<close>

lemma peek_step:
  assumes R: "rec_root m G" and len: "length is \<le> 2" and ix: "\<forall>j \<in> set is. j < 512" "i < 512"
  shows "and_then (Inr (map_option (\<lambda>_. table_va is) (walk m G is), ()))
      (\<lambda>t _. res_bind (next_level_table_mut (pe_flags E) m t i) (\<lambda>r. Inr (r, ())))
    = Inr (map_option (\<lambda>_. table_va (is @ [i])) (walk m G (is @ [i])), ())"
proof (cases "walk m G is")
  case None
  then show ?thesis by (simp add: and_then_def walk_append)
next
  case (Some t)
  have sh: "shows_table m (table_va is) t" by (rule rec_root_shows [OF R Some _ ix(1)]) (use len in simp)
  show ?thesis using Some next_level_ok [OF sh len ix] by (simp add: and_then_def walk_append)
qed

lemma unmap_tables:
  assumes R: "rec_root m G" and ix: "i4 < 512" "i3 < 512" "i2 < 512"
  defines "nxt \<equiv> \<lambda>t i. res_bind (next_level_table_mut (pe_flags E) m t i) (\<lambda>r. Inr (r, ()))"
  shows "and_then (and_then (nxt (table_va []) i4) (\<lambda>t _. nxt t i3)) (\<lambda>t _. nxt t i2)
    = Inr (map_option (\<lambda>_. table_va [i4, i3, i2]) (walk m G [i4, i3, i2]), ())"
proof -
  have "nxt (table_va []) i4 = Inr (map_option (\<lambda>_. table_va [i4]) (walk m G [i4]), ())"
    using peek_step [OF R, of "[]" i4] ix(1) by (simp add: and_then_def nxt_def)
  moreover have "and_then (Inr (map_option (\<lambda>_. table_va [i4]) (walk m G [i4]), ())) (\<lambda>t _. nxt t i3)
      = Inr (map_option (\<lambda>_. table_va [i4, i3]) (walk m G [i4, i3]), ())"
    using peek_step [OF R, of "[i4]" i3] ix by (simp add: nxt_def del: walk.simps table_va.simps)
  moreover have "and_then (Inr (map_option (\<lambda>_. table_va [i4, i3]) (walk m G [i4, i3]), ())) (\<lambda>t _. nxt t i2)
      = Inr (map_option (\<lambda>_. table_va [i4, i3, i2]) (walk m G [i4, i3, i2]), ())"
    using peek_step [OF R, of "[i4, i3]" i2] ix by (simp add: nxt_def del: walk.simps table_va.simps)
  ultimately show ?thesis by simp
qed

lemma unmap_ok:
  assumes inv: "pinv G (m, a) U lv" and pa: "page_address page = Inr pg" and pl: "plain (indices pg)"
    and lk: "look m G (indices pg) = Some (n, [])"
    and n: "(n, 0) \<in> U" "n \<notin> dom lv" "n \<noteq> cr3 m" "can_free a (frame_from_address (n * 4096))"
  obtains m' a' where "unmap E page (m, a) = Inr (Inr (), (m', a'))" "pinv G (m', a') (U - {(n, 0)}) lv"
    "\<forall>js. plain js \<longrightarrow> look m' G js = (if js = indices pg then None else look m G js)"
    "managed a' = managed a" "cr3 m' = cr3 m" "phys m' G = phys m G" "pe_free E a (frame_from_address (n * 4096)) = Inr a'"
proof -
  let ?i4 = "level4_index pg" and ?i3 = "level3_index pg" and ?i2 = "level2_index pg" and ?i1 = "level1_index pg"
  note I = pinvD [OF inv]
  have js: "indices pg = [?i4, ?i3, ?i2, ?i1]" by (simp add: indices_def)
  have L4: "LEVEL4_PAGE_TABLE = table_va []" by (simp add: LEVEL4_PAGE_TABLE_def level4_table_va)
  obtain t where w: "walk m G [?i4, ?i3, ?i2] = Some t"
    using lk by (auto simp: js split: if_splits)
  note leaf = leaf_ok [OF inv w pl [unfolded js], of 0]
  have sh: "shows_table m (table_va [?i4, ?i3, ?i2]) t" and lt: "lv t = Some (Suc 0)" using leaf(1,2) by simp_all
  have e: "present (phys m t ?i1)" "entry_frame (phys m t ?i1) = n"
    using leaf(5) lk js by (auto split: if_splits)
  have "?i1 < 511" using pl js by (simp add: plain4)
  then have g: "get_frame_addr (pe_flags E) (phys m t ?i1) = Some (n * 4096)"
    using get_frame_addr_eq [OF tree_invD(2) [OF I(1) lt]] e by simp
  have nf: "number (frame_from_address (n * 4096)) = n" by (simp add: frame_from_address_def SIZE_def)
  obtain a' where a': "pe_free E a (frame_from_address (n * 4096)) = Inr a'" "fa_inv a' (U - {(n, 0)})" "managed a' = managed a"
    using free_one_ok [OF I(3), of "frame_from_address (n * 4096)"] n(1,4) nf by auto
  have up: "entry_update (table_va [?i4, ?i3, ?i2]) ?i1 (\<lambda>e. Inr (clear_all e)) m = Inr (mset t ?i1 0 m)"
    by (intro entry_update_ok [OF sh]) (simp_all add: clear_all_def)
  have "unmap E page (m, a) = Inr (Inr (), (mset t ?i1 0 m, a'))"
    unfolding unmap_def Let_def L4 pa
    using unmap_tables [OF I(2), of ?i4 ?i3 ?i2] w sh g a'(1) up
    by (simp add: entry_access [OF sh] del: walk.simps table_va.simps)
  moreover have "cells U \<subseteq> insert n (cells (U - {(n, 0)}))" by (auto simp: cells_def block_def)
  then have "pinv G (mset t ?i1 0 m, a') (U - {(n, 0)}) lv"
    using leaf(3) I(4) n(2,3) a' by (auto simp: pt_inv_def)
  moreover have "\<forall>js. plain js \<longrightarrow> look (mset t ?i1 0 m) G js = (if js = indices pg then None else look m G js)"
    using leaf(4) js by simp
  moreover have "t \<noteq> G" using lt tree_invD(1) [OF I(1)] by auto
  then have "phys (mset t ?i1 0 m) G = phys m G" by (simp add: fun_eq_iff)
  ultimately show ?thesis using that a'(1,3) by simp
qed

lemma unmap_absent:
  assumes inv: "pinv G (m, a) U lv" and pa: "page_address page = Inr pg" and pl: "plain (indices pg)"
    and lk: "look m G (indices pg) = None"
  shows "unmap E page (m, a) = Inr (Inl NoEntry, (m, a))"
proof -
  let ?i4 = "level4_index pg" and ?i3 = "level3_index pg" and ?i2 = "level2_index pg" and ?i1 = "level1_index pg"
  note I = pinvD [OF inv]
  have js: "indices pg = [?i4, ?i3, ?i2, ?i1]" by (simp add: indices_def)
  have L4: "LEVEL4_PAGE_TABLE = table_va []" by (simp add: LEVEL4_PAGE_TABLE_def level4_table_va)
  note tb = unmap_tables [OF I(2), of ?i4 ?i3 ?i2]
  show ?thesis
  proof (cases "walk m G [?i4, ?i3, ?i2]")
    case None
    then show ?thesis unfolding unmap_def Let_def L4 pa using tb by (simp del: walk.simps table_va.simps)
  next
    case (Some t)
    note leaf = leaf_ok [OF inv Some pl [unfolded js], of 0]
    have sh: "shows_table m (table_va [?i4, ?i3, ?i2]) t" using leaf(1) by simp
    have "\<not> present (phys m t ?i1)" using leaf(5) lk js by (auto split: if_splits)
    then show ?thesis
      unfolding unmap_def Let_def L4 pa using tb Some
      by (simp add: entry_access [OF sh] get_frame_addr_def contains_PRESENT del: walk.simps table_va.simps)
  qed
qed

section \<open>Mapping a range\<close>

text \<open>
  A range of \<open>n\<close> pages from page number \<open>v\<close> on, to the frames from \<open>p\<close> on.  \<open>mapped_upto\<close>:
  the first \<open>j\<close> of them are mapped and every other page is as before.
\<close>

definition mapped_upto where
  "mapped_upto G v p j m m' \<longleftrightarrow>
     (\<forall>k < j. look m' G (page_indices (v + k)) = Some (p + k, []))
     \<and> (\<forall>js. plain js \<and> (\<forall>k < j. js \<noteq> page_indices (v + k)) \<longrightarrow> look m' G js = look m G js)"

lemma mapped_step:
  assumes lk1: "\<And>js. plain js \<Longrightarrow> look m1 G js = (if js = page_indices v then Some (p, []) else look m G js)"
    and pl: "plain (page_indices v)"
  shows "0 < k \<Longrightarrow> k < 2 ^ 36 \<Longrightarrow> plain (page_indices (v + k)) \<Longrightarrow>
      look m1 G (page_indices (v + k)) = look m G (page_indices (v + k))"
    and "j < 2 ^ 36 \<Longrightarrow> mapped_upto G (Suc v) (Suc p) j m1 m' \<Longrightarrow> mapped_upto G v p (Suc j) m m'"
proof -
  have ne: "page_indices (v + k) \<noteq> page_indices v" if "0 < k" "k < 2 ^ 36" for k
    using page_indices_inj [of v "v + k"] that by auto
  then show "look m1 G (page_indices (v + k)) = look m G (page_indices (v + k))"
    if "0 < k" "k < 2 ^ 36" "plain (page_indices (v + k))" using that lk1 by simp
  assume j: "j < 2 ^ 36" and M: "mapped_upto G (Suc v) (Suc p) j m1 m'"
  show "mapped_upto G v p (Suc j) m m'"
    unfolding mapped_upto_def
  proof (intro conjI allI impI)
    fix k assume k: "k < Suc j"
    show "look m' G (page_indices (v + k)) = Some (p + k, [])"
    proof (cases k)
      case 0
      have "\<forall>i < j. page_indices v \<noteq> page_indices (Suc v + i)"
      proof (intro allI impI)
        fix i assume "i < j"
        then show "page_indices v \<noteq> page_indices (Suc v + i)" using ne [of "Suc i"] j by simp
      qed
      then show ?thesis using M lk1 [OF pl] pl 0 by (simp add: mapped_upto_def)
    next
      case (Suc k')
      then show ?thesis using M k by (simp add: mapped_upto_def)
    qed
  next
    fix js assume A: "plain js \<and> (\<forall>k < Suc j. js \<noteq> page_indices (v + k))"
    then have "js \<noteq> page_indices v" by (metis add_0_right zero_less_Suc)
    moreover have "\<forall>k < j. js \<noteq> page_indices (Suc v + k)" using A by (metis Suc_less_eq add_Suc_right add_Suc)
    ultimately show "look m' G js = look m G js" using M lk1 [of js] A by (simp add: mapped_upto_def)
  qed
qed

lemma map_fitting_loop_ok:
  assumes "pinv G (m, a) U lv" and "4096 * (v + o4 + n) < 2 ^ 64" and "p + o4 + n \<le> 2 ^ 36"
    and "\<forall>k < n. plain (page_indices (v + o4 + k)) \<and> look m G (page_indices (v + o4 + k)) = None"
    and "n < 2 ^ 36"
  shows "\<exists>r m' a' U' lv' j. map_fitting_loop E (4096 * v) (4096 * p) n (4096 * o4) (m, a) = Inr (r, (m', a'))
     \<and> pinv G (m', a') U' lv' \<and> pt_grow managed (m, a) U lv (m', a') U' lv'
     \<and> mapped_upto G (v + o4) (p + o4) j m m' \<and> (r = Inr () \<and> j = n \<or> r = Inl NoPageTable \<and> j < n)"
  using assms
proof (induction n arbitrary: m a U lv o4)
  case 0
  then show ?case using pt_grow_refl by (force simp: mapped_upto_def)
next
  case (Suc n)
  let ?va = "4096 * (v + o4)" and ?pg = "page_from_address (4096 * (v + o4))"
    and ?fr = "frame_from_address (4096 * (p + o4))"
  have ad: "uadd (4096 * v) (4096 * o4) = Inr ?va" "uadd (4096 * p) (4096 * o4) = Inr (4096 * (p + o4))"
    "uadd (4096 * o4) 4096 = Inr (4096 * Suc o4)"
    using Suc.prems(2,3) by (simp_all add: algebra_simps)
  have pa: "page_address ?pg = Inr ?va"
    using Suc.prems(2) by (simp add: page_address_def page_from_address_def PAGE_SIZE_def)
  have nf: "number ?fr = p + o4" "number ?fr < 2 ^ 36"
    using Suc.prems(3) by (simp_all add: frame_from_address_def SIZE_def)
  have ix: "indices ?va = page_indices (v + o4)" by (simp add: page_indices_def)
  have pl: "plain (page_indices (v + o4))" and lk: "look m G (page_indices (v + o4)) = None" using Suc.prems(4) by (metis add_0_right zero_less_Suc)+
  have nh: "no_huge m G (page_indices (v + o4))" using lk by (simp add: no_huge_def)
  obtain r m1 a1 U1 lv1 where mp: "map_page E ?pg ?fr (m, a) = Inr (r, (m1, a1))"
    and p1: "pinv G (m1, a1) U1 lv1" and g1: "pt_grow managed (m, a) U lv (m1, a1) U1 lv1"
    and res: "r = Inr () \<and> (\<forall>js. plain js \<longrightarrow> look m1 G js = (if js = page_indices (v + o4) then Some (p + o4, []) else look m G js))
       \<or> r = Inl NoPageTable \<and> (\<forall>js. plain js \<longrightarrow> look m1 G js = look m G js)"
    by (rule map_ok [OF Suc.prems(1) pa nf(2) pl [folded ix] nh [folded ix]]) (use lk nf(1) ix in auto)
  show ?case
  proof (cases "r = Inr ()")
    case False
    then have r: "r = Inl NoPageTable" "\<forall>js. plain js \<longrightarrow> look m1 G js = look m G js" using res by auto
    have "map_fitting_loop E (4096 * v) (4096 * p) (Suc n) (4096 * o4) (m, a) = Inr (Inl NoPageTable, (m1, a1))"
      using ad mp r by simp
    moreover have "mapped_upto G (v + o4) (p + o4) 0 m m1" using r by (simp add: mapped_upto_def)
    ultimately show ?thesis using p1 g1 by blast
  next
    case True
    then have lk1: "look m1 G js = (if js = page_indices (v + o4) then Some (p + o4, []) else look m G js)" if "plain js" for js
      using res that by auto
    note step = mapped_step [of m1 G "v + o4" "p + o4" m, OF lk1 pl]
    have rest: "\<forall>k < n. plain (page_indices (v + Suc o4 + k)) \<and> look m1 G (page_indices (v + Suc o4 + k)) = None"
    proof (intro allI impI)
      fix k assume k: "k < n"
      have s: "v + Suc o4 + k = v + o4 + Suc k" by simp
      have P: "plain (page_indices (v + o4 + Suc k)) \<and> look m G (page_indices (v + o4 + Suc k)) = None"
        using Suc.prems(4) k by blast
      have "Suc k < 2 ^ 36" using Suc.prems(5) k by linarith
      with P step(1) [of "Suc k"] show "plain (page_indices (v + Suc o4 + k)) \<and> look m1 G (page_indices (v + Suc o4 + k)) = None"
        unfolding s by simp
    qed
    obtain r' m' a' U' lv' j where IH: "map_fitting_loop E (4096 * v) (4096 * p) n (4096 * Suc o4) (m1, a1) = Inr (r', (m', a'))"
      "pinv G (m', a') U' lv'" "pt_grow managed (m1, a1) U1 lv1 (m', a') U' lv'"
      "mapped_upto G (v + Suc o4) (p + Suc o4) j m1 m'" "r' = Inr () \<and> j = n \<or> r' = Inl NoPageTable \<and> j < n"
      using Suc.IH [OF p1 _ _ rest] Suc.prems by auto
    have "mapped_upto G (v + o4) (p + o4) (Suc j) m m'"
      using step(2) [of j m'] IH(4,5) Suc.prems(5) by auto
    moreover have "map_fitting_loop E (4096 * v) (4096 * p) (Suc n) (4096 * o4) (m, a) = Inr (r', (m', a'))"
      using ad mp True IH(1) by simp
    ultimately show ?thesis using IH(2,5) pt_grow_trans [OF g1 IH(3)] by blast
  qed
qed

end

end
