(* ===== verification/Paging_Find.thy ===== *)
theory Paging_Find
  imports Paging_Map
begin

text \<open>
  The search for unused pages: \<^verbatim>\<open>find_free_entry_index_with\<close>, \<^verbatim>\<open>find_empty_pages\<close> and the
  mapping of a block of frames to them, \<^verbatim>\<open>auto_continuous_map\<close>.
\<close>

section \<open>Free entries of one table\<close>

context paging
begin

lemma find_free_one:
  assumes "shows_table m va t" and "\<forall>i \<in> set is. i < 512"
  shows "find_free_loop (pe_flags E) 1 m va is None 1 = Inr (find (\<lambda>i. \<not> present (phys m t i)) is)"
  using assms(2)
proof (induction "is")
  case (Cons i "is")
  then show ?case by (simp add: entry_access(1) [OF assms(1)] contains_PRESENT usub_def)
qed simp

lemma find_free_first:
  assumes "shows_table m va t" and "\<forall>i \<in> set is. i < 512" and "1 \<le> c" and "c \<le> length is"
    and "\<forall>k < c. \<not> present (phys m t (is ! k))"
  shows "find_free_loop (pe_flags E) count m va is index c = Inr (if index = None then Some (hd is) else index)"
  using assms(2-5)
proof (induction "is" arbitrary: c index)
  case Nil
  then show ?case by simp
next
  case (Cons i "is")
  have np: "\<not> present (phys m t i)" using Cons.prems by force
  obtain d where d: "c = Suc d" using Cons.prems(2) by (cases c) auto
  show ?case
  proof (cases "d = 0")
    case True
    then show ?thesis using np d Cons.prems(1) by (simp add: entry_access(1) [OF assms(1)] contains_PRESENT usub_def)
  next
    case False
    have "\<forall>k < d. \<not> present (phys m t (is ! k))" using Cons.prems(4) d by auto
    with Cons.IH [of d "if index = None then Some i else index"] Cons.prems False np d
    show ?thesis by (simp add: entry_access(1) [OF assms(1)] contains_PRESENT usub_def)
  qed
qed

lemma find_free_fresh:
  assumes "shows_table m va t" and "\<forall>j < 511. phys m t j = 0" and "1 \<le> c" and "c \<le> 510"
  shows "find_free_entry_index_with (pe_flags E) c m va = Inr (Some 1)"
proof -
  have "\<forall>k < c. \<not> present (phys m t ([1..<512] ! k))" using assms(2,4) by auto
  moreover have "hd [1..<512] = (1 :: nat)" by (simp add: upt_conv_Cons)
  ultimately show ?thesis
    using find_free_first [OF assms(1), of "[1..<512]" c c None] assms(3,4)
    by (simp add: find_free_entry_index_with_def)
qed

lemma find_free_eq:
  assumes "shows_table m va t"
  shows "find_free_entry_index (pe_flags E) m va = Inr (find (\<lambda>i. \<not> present (phys m t i)) [1..<512])"
  using find_free_one [OF assms, of "[1..<512]"]
  by (simp add: find_free_entry_index_def find_free_entry_index_with_def)

section \<open>Free pages\<close>

lemma walk_shows:
  assumes "pinv G (m, a) U lv" and "walk m G is = Some t" and "length is \<le> 3" and "\<forall>i \<in> set is. i < 511"
  shows "shows_table m (table_va is) t"
  by (rule rec_root_shows [OF pinvD(2) [OF assms(1)] assms(2,3)]) (use assms(4) in auto)

text \<open>One level of the search: below an unused entry, a new table whose first free entry is 1.\<close>

lemma find_level:
  assumes inv: "pinv G (m, a) U lv" and w: "walk m G is = Some t" and len: "length is \<le> 2"
    and ix: "\<forall>j \<in> set is. j < 511" "i < 511" and np: "\<not> present (phys m t i)"
  obtains (none) m' a' U' lv' where "next_level_table_create_mut E (table_va is) i (m, a) = Inr (None, (m', a'))"
      "pinv G (m', a') U' lv'" "pext G (m, a) U lv (m', a') U' lv'" "budget (managed a) 1 True U U'"
  | (table) m' a' U' lv' f where
      "next_level_table_create_mut E (table_va is) i (m, a) = Inr (Some (table_va (is @ [i])), (m', a'))"
      "pinv G (m', a') U' lv'" "pext G (m, a) U lv (m', a') U' lv'" "walk m' G (is @ [i]) = Some f"
      "\<forall>j < 511. phys m' f j = 0"
      "\<And>c. 1 \<le> c \<Longrightarrow> c \<le> 510 \<Longrightarrow> find_free_entry_index_with (pe_flags E) c m' (table_va (is @ [i])) = Inr (Some 1)"
      "\<forall>j. is \<noteq> [] \<or> j \<noteq> i \<longrightarrow> phys m' G j = phys m G j" "budget (managed a) 1 False U U'"
proof -
  obtain r m' a' U' lv' where c: "next_level_table_create_mut E (table_va is) i (m, a) = Inr (r, (m', a'))"
    and p: "pinv G (m', a') U' lv'" and x: "pext G (m, a) U lv (m', a') U' lv'"
    and r: "r = None \<or> r = Some (table_va (is @ [i])) \<and> (\<exists>f. walk m' G (is @ [i]) = Some f \<and> (\<forall>j < 511. phys m' f j = 0))"
    and root: "\<forall>j. is \<noteq> [] \<or> j \<noteq> i \<longrightarrow> phys m' G j = phys m G j" and b: "budget (managed a) 1 (r = None) U U'"
    by (rule create_ok [OF inv w len ix]) (use np in auto)
  show ?thesis
  proof (cases r)
    case None
    then show ?thesis using none c p x b by simp
  next
    case (Some va)
    then obtain f where f: "va = table_va (is @ [i])" "walk m' G (is @ [i]) = Some f" "\<forall>j < 511. phys m' f j = 0"
      using r by auto
    have "shows_table m' (table_va (is @ [i])) f" by (rule walk_shows [OF p f(2)]) (use len ix in auto)
    from table [OF _ p x f(2,3) find_free_fresh [OF this f(3)] root] c Some f(1) b show ?thesis by simp
  qed
qed

lemma find_empty_pages_ok:
  assumes inv: "pinv G (m, a) U lv" and c: "1 \<le> count" "count \<le> 510"
  obtains (none) st' U' lv' where "find_empty_pages E count (m, a) = Inr (None, st')"
      "pinv G st' U' lv'" "pext G (m, a) U lv st' U' lv'"
      "find (\<lambda>i. \<not> present (phys m G i)) [1..<512] = None \<or> budget (managed a) 3 True U U'"
  | (page) m' a' U' lv' i4 t where
      "find_empty_pages E count (m, a) = Inr (Some \<lparr>page_number = i4 * 512 ^ 3 + 512 ^ 2 + 512 + 1\<rparr>, (m', a'))"
      "pinv G (m', a') U' lv'" "pext G (m, a) U lv (m', a') U' lv'"
      "find (\<lambda>i. \<not> present (phys m G i)) [1..<512] = Some i4" "1 \<le> i4" "i4 < 511"
      "walk m' G [i4, 1, 1] = Some t" "\<forall>j < 511. phys m' t j = 0"
      "\<forall>j. j \<noteq> i4 \<longrightarrow> phys m' G j = phys m G j" "budget (managed a) 3 False U U'"
proof -
  let ?B = "pe_flags E"
  have L4: "LEVEL4_PAGE_TABLE = table_va []" by (simp add: LEVEL4_PAGE_TABLE_def level4_table_va)
  have w0: "walk m G [] = Some G" by simp
  have sh: "shows_table m (table_va []) G" by (rule walk_shows [OF inv w0]) simp_all
  note f4 = find_free_eq [OF sh]
  have one: "find_free_entry_index ?B mm va = find_free_entry_index_with ?B 1 mm va" for mm va
    by (simp add: find_free_entry_index_def)
  note defs = find_empty_pages_def Let_def L4 and_then_def page_from_number_def
  show ?thesis
  proof (cases "find (\<lambda>i. \<not> present (phys m G i)) [1..<512]")
    case None
    then show ?thesis using none [of "(m, a)" U lv] inv f4 by (simp add: defs del: table_va.simps)
  next
    case (Some i4)
    then have i4: "i4 \<in> {1..<512}" "\<not> present (phys m G i4)" by (auto simp: find_Some_iff)
    moreover have "present (phys m G 511)" using pinvD(2) [OF inv] by (simp add: rec_root_def links_to_def)
    ultimately have i4': "1 \<le> i4" "i4 < 511" by (auto simp: nat_less_le)
    show ?thesis
    proof (cases rule: find_level [OF inv w0 _ _ i4'(2) i4(2)])
      case (3 m' a' U' lv')
      then show ?thesis using none f4 Some budget_mono [OF 3(4), of 3] by (simp add: defs del: table_va.simps)
    next
      case (4 m3 a3 U3 lv3 f3)
      note c3 = 4(1) and p3 = 4(2) and x3 = 4(3) and ff3 = 4(6) [of 1] and root3 = 4(7) and b3 = 4(8)
      have n3: "managed a3 = managed a" using x3 by (simp add: pt_ext_def pt_grow_def)
      have w3: "walk m3 G [i4] = Some f3" using 4(4) by simp
      have np3: "\<not> present (phys m3 f3 1)" using 4(5) by simp
      show ?thesis
      proof (cases rule: find_level [OF p3 w3 _ _ _ np3])
        case (4 m' a' U' lv')
        then show ?thesis
          using none [OF _ 4(2) pt_ext_trans [OF x3 4(3)]] budget_mono [OF budget_trans [OF b3 4(4) [unfolded n3]], of 3]
            f4 Some c3 ff3 by (simp add: defs one del: table_va.simps)
      next
        case (5 m2 a2 U2 lv2 f2)
        note c2 = 5(1) and p2 = 5(2) and x2 = pt_ext_trans [OF x3 5(3)] and ff2 = 5(6) [of 1] and root2 = 5(7)
          and b2 = budget_trans [OF b3 5(8) [unfolded n3]]
        have n2: "managed a2 = managed a" using x2 by (simp add: pt_ext_def pt_grow_def)
        have w2: "walk m2 G [i4, 1] = Some f2" using 5(4) by simp
        have np2: "\<not> present (phys m2 f2 1)" using 5(5) by simp
        show ?thesis
        proof (cases rule: find_level [OF p2 w2 _ _ _ np2])
          case (4 m' a' U' lv')
          then show ?thesis
            using none [OF _ 4(2) pt_ext_trans [OF x2 4(3)]] budget_mono [OF budget_trans [OF b2 4(4) [unfolded n2]], of 3] f4 Some c3 ff3 c2 ff2
            by (simp add: defs one del: table_va.simps)
        next
          case (5 m1 a1 U1 lv1 f1)
          have "find_empty_pages E count (m, a) = Inr (Some \<lparr>page_number = i4 * 512 ^ 3 + 512 ^ 2 + 512 + 1\<rparr>, (m1, a1))"
            using f4 Some c3 ff3 c2 ff2 5(1) 5(6) [OF c] by (simp add: defs one del: table_va.simps)
          from page [OF this 5(2) pt_ext_trans [OF x2 5(3)] Some i4'] 5(4,5,7) root2 root3
            budget_mono [OF budget_trans [OF b2 5(8) [unfolded n2]], of 3]
          show ?thesis by simp
        qed (use i4' in auto)
      qed (use i4' in auto)
    qed auto
  qed
qed

section \<open>Mapping a block of frames\<close>

lemma auto_map_loop_ok:
  assumes "pinv G (m, a) U lv" and "4096 * (v + n) < 2 ^ 64" and "number fr + n \<le> 2 ^ 36"
    and "\<forall>i \<in> {k..<n}. plain (page_indices (v + i)) \<and> look m G (page_indices (v + i)) = None
       \<and> walk m G (butlast (page_indices (v + i))) \<noteq> None"
    and "n < 2 ^ 36" and "k \<le> n"
  shows "\<exists>m' a' U' lv'. auto_map_loop E \<lparr>page_number = v\<rparr> fr [k..<n] (m, a) = Inr (m', a')
     \<and> pinv G (m', a') U' lv' \<and> pt_grow managed (m, a) U lv (m', a') U' lv'
     \<and> mapped_upto G (v + k) (number fr + k) (n - k) m m'"
  using assms
proof (induction "n - k" arbitrary: m a U lv k)
  case 0
  then show ?case using pt_grow_refl by (force simp: mapped_upto_def)
next
  case (Suc d)
  then have k: "k < n" and up: "[k..<n] = k # [Suc k..<n]" by (simp_all add: upt_conv_Cons)
  let ?pg = "page_from_address (4096 * (v + k))" and ?fr = "frame_from_address (4096 * (number fr + k))"
  have ar: "frame_address fr = Inr (number fr * 4096)" "umul k SIZE = Inr (k * 4096)"
    "uadd (number fr * 4096) (k * 4096) = Inr (4096 * (number fr + k))"
    "page_address \<lparr>page_number = v\<rparr> = Inr (v * 4096)" "umul k PAGE_SIZE = Inr (k * 4096)"
    "uadd (v * 4096) (k * 4096) = Inr (4096 * (v + k))"
    using Suc.prems(2,3) k by (simp_all add: frame_address_def page_address_def SIZE_def PAGE_SIZE_def algebra_simps)
  have pa: "page_address ?pg = Inr (4096 * (v + k))"
    using Suc.prems(2) k by (simp add: page_address_def page_from_address_def PAGE_SIZE_def)
  have nf: "number ?fr = number fr + k" "number ?fr < 2 ^ 36"
    using Suc.prems(3) k by (simp_all add: frame_from_address_def SIZE_def)
  have ix: "indices (4096 * (v + k)) = page_indices (v + k)" by (simp add: page_indices_def)
  have pl: "plain (page_indices (v + k))" and lk: "look m G (page_indices (v + k)) = None"
    and wk: "walk m G (butlast (page_indices (v + k))) \<noteq> None"
    using Suc.prems(4) k by auto
  have nh: "no_huge m G (page_indices (v + k))" using lk by (simp add: no_huge_def)
  obtain m1 a1 U1 lv1 where mp: "map_page E ?pg ?fr (m, a) = Inr (Inr (), (m1, a1))"
    and p1: "pinv G (m1, a1) U1 lv1" and g1: "pt_grow managed (m, a) U lv (m1, a1) U1 lv1"
    and lk1: "\<And>js. plain js \<Longrightarrow> look m1 G js = (if js = page_indices (v + k) then Some (number fr + k, []) else look m G js)"
    by (rule map_ok [OF Suc.prems(1) pa nf(2) pl [folded ix] nh [folded ix]]) (use lk wk nf(1) ix in auto)
  note step = mapped_step [of m1 G "v + k" "number fr + k" m, OF lk1 pl]
  have rest: "\<forall>i \<in> {Suc k..<n}. plain (page_indices (v + i)) \<and> look m1 G (page_indices (v + i)) = None
      \<and> walk m1 G (butlast (page_indices (v + i))) \<noteq> None"
  proof
    fix i assume i: "i \<in> {Suc k..<n}"
    then have pi: "plain (page_indices (v + i))" and li: "look m G (page_indices (v + i)) = None"
      and wi: "walk m G (butlast (page_indices (v + i))) \<noteq> None" using Suc.prems(4) by auto
    have "look m1 G (page_indices (v + i)) = None"
    proof -
      have "0 < i - k" "i - k < 2 ^ 36" "v + k + (i - k) = v + i" using i Suc.prems(5) by auto
      with step(1) [of "i - k"] pi li show ?thesis by metis
    qed
    moreover have "\<forall>j \<in> set (butlast (page_indices (v + i))). j < 511" "length (butlast (page_indices (v + i))) \<le> 3"
      using pi by (auto simp: plain_def dest: in_set_butlastD)
    then have "walk m1 G (butlast (page_indices (v + i))) \<noteq> None"
      using wi pt_grow_walk [OF pinvD(1) [OF Suc.prems(1)] g1, of "butlast (page_indices (v + i))"] by auto
    ultimately show "plain (page_indices (v + i)) \<and> look m1 G (page_indices (v + i)) = None
      \<and> walk m1 G (butlast (page_indices (v + i))) \<noteq> None" using pi by blast
  qed
  obtain m' a' U' lv' where IH: "auto_map_loop E \<lparr>page_number = v\<rparr> fr [Suc k..<n] (m1, a1) = Inr (m', a')"
      "pinv G (m', a') U' lv'" "pt_grow managed (m1, a1) U1 lv1 (m', a') U' lv'"
      "mapped_upto G (v + Suc k) (number fr + Suc k) (n - Suc k) m1 m'"
    using Suc.hyps(1) [OF _ p1 _ _ rest] Suc.prems Suc.hyps(2) k by force
  have "auto_map_loop E \<lparr>page_number = v\<rparr> fr [k..<n] (m, a) = Inr (m', a')"
    using ar mp IH(1) by (simp add: up)
  moreover have "mapped_upto G (v + k) (number fr + k) (Suc (n - Suc k)) m m'"
    using step(2) [of "n - Suc k" m'] IH(4) Suc.prems(5) by simp
  then have "mapped_upto G (v + k) (number fr + k) (n - k) m m'" using k by (simp add: Suc_diff_Suc)
  ultimately show ?case using IH(2) pt_grow_trans [OF g1 IH(3)] by blast
qed

lemma found_page_indices:
  assumes "i4 < 511" and "k < 510"
  shows "page_indices (i4 * 512 ^ 3 + 512 ^ 2 + 512 + 1 + k) = [i4, 1, 1, Suc k]"
    and "plain (page_indices (i4 * 512 ^ 3 + 512 ^ 2 + 512 + 1 + k))"
proof -
  show ix: "page_indices (i4 * 512 ^ 3 + 512 ^ 2 + 512 + 1 + k) = [i4, 1, 1, Suc k]"
    unfolding page_indices_def by (rule indices_radix(1) [of _ _ _ _ 0 _ 0]) (use assms in simp_all)
  show "plain (page_indices (i4 * 512 ^ 3 + 512 ^ 2 + 512 + 1 + k))" unfolding ix using assms by (simp add: plain4)
qed

text \<open>
  The result of \<^verbatim>\<open>auto_continuous_map\<close>: either nothing (no free entry or no frame for a
  table) with every translation kept, or a range that was unmapped and now shows the
  frames of the block in order.
\<close>

lemma auto_continuous_map_ok:
  assumes inv: "pinv G (m, a) U lv" and o: "2 ^ order fr \<le> (510 :: nat)" and n: "number fr + 2 ^ order fr \<le> 2 ^ 36"
  obtains (none) st' U' lv' where "auto_continuous_map E fr (m, a) = Inr (None, st')"
      "pinv G st' U' lv'" "pext G (m, a) U lv st' U' lv'"
      "find (\<lambda>i. \<not> present (phys m G i)) [1..<512] = None \<or> budget (managed a) 3 True U U'"
  | (mapped) m' a' U' lv' i4 where
      "auto_continuous_map E fr (m, a) = Inr (Some (4096 * (i4 * 512 ^ 3 + 512 ^ 2 + 512 + 1),
          4096 * (i4 * 512 ^ 3 + 512 ^ 2 + 512 + 1) + 2 ^ order fr * 4096), (m', a'))"
      "pinv G (m', a') U' lv'" "pt_grow managed (m, a) U lv (m', a') U' lv'"
      "find (\<lambda>i. \<not> present (phys m G i)) [1..<512] = Some i4" "1 \<le> i4" "i4 < 511"
      "mapped_upto G (i4 * 512 ^ 3 + 512 ^ 2 + 512 + 1) (number fr) (2 ^ order fr) m m'"
proof -
  let ?n = "2 ^ order fr :: nat"
  have n1: "1 \<le> ?n" by simp
  have "order fr < 64"
  proof (rule ccontr)
    assume "\<not> order fr < 64"
    then have "(2 :: nat) ^ 64 \<le> 2 ^ order fr" by (intro power_increasing) simp_all
    with o show False by simp
  qed
  then have sh: "ushl 1 (order fr) = Inr ?n" using o by (simp add: ushl_def take_bit_nat_eq_self push_bit_eq_mult)
  have ml: "umul ?n SIZE = Inr (?n * 4096)" using o by (simp add: SIZE_def)
  show ?thesis
  proof (cases rule: find_empty_pages_ok [OF inv n1 o])
    case (1 st' U' lv')
    then show ?thesis using none sh ml by (simp add: auto_continuous_map_def and_then_def)
  next
    case (2 m1 a1 U1 lv1 i4 t)
    let ?v = "i4 * 512 ^ 3 + 512 ^ 2 + 512 + 1"
    note ix = found_page_indices [OF 2(6)]
    have i1: "look m1 G (page_indices (?v + k)) = None \<and> walk m1 G (butlast (page_indices (?v + k))) \<noteq> None"
      if "k < 510" for k
      unfolding ix(1) [OF that] using look_append [OF 2(7), of "[Suc k]"] 2(7,8) that by (simp del: walk.simps)
    have pages: "\<forall>i \<in> {0..<?n}. plain (page_indices (?v + i)) \<and> look m1 G (page_indices (?v + i)) = None
        \<and> walk m1 G (butlast (page_indices (?v + i))) \<noteq> None"
    proof
      fix i assume "i \<in> {0..<?n}"
      then have "i < 510" using o by simp
      with ix(2) i1 show "plain (page_indices (?v + i)) \<and> look m1 G (page_indices (?v + i)) = None
        \<and> walk m1 G (butlast (page_indices (?v + i))) \<noteq> None" by blast
    qed
    have "4096 * (?v + ?n) < 2 ^ 64" "?n < 2 ^ 36" using o 2(6) by simp_all
    then obtain m' a' U' lv' where lp: "auto_map_loop E \<lparr>page_number = ?v\<rparr> fr [0..<?n] (m1, a1) = Inr (m', a')"
      "pinv G (m', a') U' lv'" "pt_grow managed (m1, a1) U1 lv1 (m', a') U' lv'"
      "mapped_upto G (?v + 0) (number fr + 0) (?n - 0) m1 m'"
      using auto_map_loop_ok [OF 2(2) _ n pages] by blast
    have pa: "page_address \<lparr>page_number = ?v\<rparr> = Inr (4096 * ?v)" "uadd (4096 * ?v) (?n * 4096) = Inr (4096 * ?v + ?n * 4096)"
      using o 2(6) by (simp_all add: page_address_def PAGE_SIZE_def)
    have run: "auto_continuous_map E fr (m, a) = Inr (Some (4096 * ?v, 4096 * ?v + ?n * 4096), (m', a'))"
      unfolding auto_continuous_map_def sh res_bind_simps ml 2(1) and_then_def prod.case option.case lp(1) pa ..
    have "mapped_upto G ?v (number fr) ?n m m'"
      using lp(4) pext_plain [OF 2(3)] unfolding mapped_upto_def by simp
    from mapped [OF run lp(2) pt_grow_trans [OF pt_extD(1) [OF 2(3)] lp(3)] 2(4-6) this] show ?thesis .
  qed
qed

end

end
