(* ===== verification/Paging_Theorems.thy ===== *)
theory Paging_Theorems
  imports Paging_Find Buddy_Theorems
begin

text \<open>
  The properties of the page tables.  The operations run over the buddy allocator: the
  interface \<open>paging\<close> is interpreted on it.
\<close>

section \<open>The page tables over the buddy allocator\<close>

definition buddy_env :: "'l linked_list_api \<Rightarrow> bitflags_api \<Rightarrow> 'l BuddyAllocator paging_env" where
  "buddy_env L B = \<lparr>pe_flags = B, pe_alloc = alloc_one L, pe_free = free_frame L\<rparr>"

lemma paging_over_buddy:
  assumes "linked_list L elems" and "bitflags B"
  shows "paging (buddy_env L B) (buddy_fa_inv elems) buddy_managed buddy_can_free"
  using assms(2) linked_list.is_frame_allocator [OF assms(1)] by (simp add: paging_def buddy_env_def)

interpretation bp: paging "buddy_env seq_list bit_flags" "buddy_fa_inv (\<lambda>l. l)" buddy_managed buddy_can_free
  by (rule paging_over_buddy [OF seq.linked_list_axioms bit_flags.bitflags_axioms])

text \<open>
  A machine as \<^verbatim>\<open>boot.asm\<close> leaves it, but for the kernel's own huge page: a root table with
  nothing but its recursive entry.
\<close>

definition bare_machine :: machine where
  "bare_machine = \<lparr>cr3 = 8, phys = (\<lambda>t i. if t = 8 \<and> i = 511 then 8 * 4096 + 3 else 0)\<rparr>"

lemma bare_entry: "present (8 * 4096 + 3)" "\<not> huge (8 * 4096 + 3)" "entry_frame (8 * 4096 + 3) = 8"
  by (simp_all add: bit_nat_def entry_frame_def drop_bit_eq_div take_bit_eq_mod)

lemma bare_tree: "tree_inv bare_machine 8 [8 \<mapsto> 4]" "rec_root bare_machine 8"
  using bare_entry by (simp_all add: tree_inv_def rec_root_def links_to_def bare_machine_def)

lemma bare_look: "plain js \<Longrightarrow> look bare_machine 8 js = None"
  by (cases js) (auto simp: plain_def bare_machine_def)

lemma three_fa_inv: "buddy_fa_inv (\<lambda>l. l) (three_start seq_list) {}"
proof -
  have "buddy_inv (\<lambda>l. l) (three_start seq_list) {}"
    using seq.buddy_new_ok [of three_objs 3 0] new_three [of seq_list] by (auto simp: three_objs_def)
  moreover have "number (objs (three_start seq_list) ! i) = i" if "i < 3" for i
    using that by (auto simp: three_start_def less_Suc_eq numeral_3_eq_3)
  ultimately show ?thesis by (simp add: buddy_fa_inv_def to_frames_def) (simp add: three_start_def)
qed

lemma bare_inv:
  "pt_inv (buddy_fa_inv (\<lambda>l. l)) buddy_managed 8 (bare_machine, three_start seq_list) {} [8 \<mapsto> 4]"
  using bare_tree three_fa_inv
  by (auto simp: pt_inv_def buddy_managed_def) (simp_all add: three_start_def bare_machine_def)

section \<open>Properties\<close>



text \<open>
  C14. The recursive mapping.  If the last entry of the active level-4 table leads to a root
  table whose last entry leads to itself, then the address computed by
  \<^verbatim>\<open>next_level_table_address\<close> step by step from \<^verbatim>\<open>LEVEL4_PAGE_TABLE\<close> shows exactly the table
  that a walk from the root over the same indices reaches.
\<close>

theorem recursive_mapping_correct:
  assumes "bitflags B" and "rec_root m G" and "walk m G is = Some t" and "length is \<le> 2"
    and "\<forall>j \<in> set is. j < 512" and "i < 512" and "links_to m t i f"
  shows "next_level_table_mut B m (table_va is) i = Inr (Some (table_va (is @ [i])))
     \<and> (\<forall>j < 512. entry_read m (table_va (is @ [i])) j = Inr (phys m f j))
     \<and> table_va [] = LEVEL4_PAGE_TABLE"
proof -
  have sh: "shows_table m (table_va is) t" by (rule rec_root_shows [OF assms(2,3) _ assms(5)]) (use assms(4) in simp)
  have w: "walk m G (is @ [i]) = Some f" using assms(3,7) by (auto simp: walk_snoc)
  have "shows_table m (table_va (is @ [i])) f" by (rule rec_root_shows [OF assms(2) w]) (use assms(4-6) in auto)
  then have "\<forall>j < 512. entry_read m (table_va (is @ [i])) j = Inr (phys m f j)"
    by (simp add: entry_access(1))
  moreover have "next_level_table_mut B m (table_va is) i = Inr (Some (table_va (is @ [i])))"
    using table_va_next [OF assms(4-6)] assms(7)
    by (simp add: next_level_table_mut_def next_level_table_address_def entry_access [OF sh assms(6)] Let_def
        bitflags.contains_PRESENT [OF assms(1)] bitflags.contains_HUGE_PAGE [OF assms(1)] ushl_ok links_to_def)
  ultimately show ?thesis by (simp add: LEVEL4_PAGE_TABLE_def level4_table_va)
qed

theorem recursive_mapping_correct_witness:
  "next_level_table_mut bit_flags bare_machine LEVEL4_PAGE_TABLE 511 = Inr (Some LEVEL4_PAGE_TABLE)"
proof -
  have "links_to bare_machine 8 511 8" using bare_tree(2) by (simp add: rec_root_def)
  with recursive_mapping_correct [OF bit_flags.bitflags_axioms bare_tree(2), of "[]" 8 511 8]
  show ?thesis by (auto simp: level4_table_va LEVEL4_PAGE_TABLE_def)
qed



lemma indices_2mb: "indices 0x200000 = [0, 0, 1, 0]"
  by (simp add: indices_def index_eqs)




text \<open>A machine whose tables for the page at 2 MB exist.\<close>

definition warm_machine :: machine where
  "warm_machine = \<lparr>cr3 = 8, phys = (\<lambda>t i.
     if t = 8 \<and> i = 511 then 8 * 4096 + 3 else if t = 8 \<and> i = 0 then 9 * 4096 + 1
     else if t = 9 \<and> i = 0 then 10 * 4096 + 1 else if t = 10 \<and> i = 1 then 11 * 4096 + 1 else 0)\<rparr>"

definition warm_levels :: "nat \<rightharpoonup> nat" where
  "warm_levels = [8 \<mapsto> 4, 9 \<mapsto> 3, 10 \<mapsto> 2, 11 \<mapsto> 1]"

lemma warm_links:
  "i < 511 \<Longrightarrow> links_to warm_machine t i f \<longleftrightarrow> (t, i, f) \<in> {(8, 0, 9), (9, 0, 10), (10, 1, 11)}"
  by (auto simp: links_to_def warm_machine_def bit_nat_def entry_frame_def drop_bit_eq_div take_bit_eq_mod)

lemma warm_tree: "tree_inv warm_machine 8 warm_levels" "rec_root warm_machine 8"
proof -
  show "rec_root warm_machine 8"
    using bare_entry by (simp add: rec_root_def links_to_def warm_machine_def)
  have "phys warm_machine t i < 2 ^ 48 \<and> (\<not> present (phys warm_machine t i) \<longrightarrow> phys warm_machine t i = 0)" for t i
    by (simp add: warm_machine_def bit_nat_def)
  moreover have "warm_levels f = Some (Suc l)"
    if "warm_levels t = Some (Suc (Suc l))" "i < 511" "links_to warm_machine t i f" for t i f l
    using that by (auto simp: warm_links warm_levels_def)
  moreover have "t = t' \<and> i = i'"
    if "i < 511" "i' < 511" "links_to warm_machine t i f" "links_to warm_machine t' i' f" for t i t' i' f
    using that by (auto simp: warm_links)
  moreover have "warm_levels 8 = Some 4" by (simp add: warm_levels_def)
  ultimately show "tree_inv warm_machine 8 warm_levels"
    unfolding tree_inv_def by blast
qed

lemma warm_inv:
  "pt_inv (buddy_fa_inv (\<lambda>l. l)) buddy_managed 8 (warm_machine, three_start seq_list) {} warm_levels"
  using warm_tree three_fa_inv
  by (auto simp: pt_inv_def buddy_managed_def warm_levels_def) (simp_all add: three_start_def warm_machine_def)

lemma warm_look: "look warm_machine 8 [0, 0, 1, 0] = None" "walk warm_machine 8 [0, 0, 1] = Some 11"
  by (simp_all add: warm_machine_def bit_nat_def entry_frame_def drop_bit_eq_div take_bit_eq_mod)

lemma warm_map:
  obtains m' a' where "map_page (buddy_env seq_list bit_flags) (page_from_address 0x200000) (frame_from_address 0x7000)
      (warm_machine, three_start seq_list) = Inr (Inr (), (m', a'))"
proof (rule bp.map_ok [OF warm_inv])
  show "page_address (page_from_address 0x200000) = Inr 0x200000"
    by (simp add: page_address_def page_from_address_def PAGE_SIZE_def)
  show "number (frame_from_address 0x7000) < 2 ^ 36" by (simp add: frame_from_address_def SIZE_def)
  show "plain (indices 0x200000)" by (simp add: indices_2mb plain4)
  show "no_huge warm_machine 8 (indices 0x200000)" using warm_look(1) by (simp add: indices_2mb no_huge_def)
qed (use that warm_look in \<open>auto simp: indices_2mb simp del: look.simps walk.simps\<close>)



lemma warm_alloc:
  obtains a where "allocate seq_list (three_start seq_list) 0 = Inr (Some 2, a)" "number (objs a ! 2) = 2"
    "pt_inv (buddy_fa_inv (\<lambda>l. l)) buddy_managed 8 (warm_machine, a) {(2, 0)} warm_levels"
    "buddy_can_free a (frame_from_address (2 * 4096))"
proof -
  obtain a where a: "allocate seq_list (three_start seq_list) 0 = Inr (Some 2, a)" "buddy_inv (\<lambda>l. l) a {(2, 0)}"
      "obj_count a = 3" "buddy_run seq_list (three_start seq_list) (a, {(2, 0)})" by (rule three_run)
  have "buddy_inv (\<lambda>l. l) (three_start seq_list) {}"
    using three_fa_inv by (auto simp: buddy_fa_inv_def to_frames_def)
  with seq.buddy_run_inv [OF a(4)] have sh: "same_shape (three_start seq_list) a" by simp
  have base: "base_addr a = 0" using sh by (simp add: same_shape_def three_start_def)
  have fa: "buddy_fa_inv (\<lambda>l. l) a {(2, 0)}"
    using buddy_fa_inv_shape [OF three_fa_inv sh a(2)] by (simp add: to_frames_def three_start_def)
  then have nr: "number (objs a ! 2) = 2" using a(3) base by (simp add: buddy_fa_inv_def)
  have "merge_safe a 2 [0..<MAX_ORDER]" using a(3) by (intro merge_safe_last) (simp_all add: MAX_ORDER_def buddy_of_def)
  then have cf: "buddy_can_free a (frame_from_address (2 * 4096))"
    by (simp add: buddy_can_free_def base frame_from_address_def SIZE_def)
  have "pt_inv (buddy_fa_inv (\<lambda>l. l)) buddy_managed 8 (warm_machine, a) {(2, 0)} warm_levels"
    using warm_tree fa base a(3) by (auto simp: pt_inv_def buddy_managed_def warm_levels_def) (simp_all add: warm_machine_def)
  then show ?thesis by (rule that [OF a(1) nr _ cf])
qed

lemma mapped_inv:
  obtains a where "pt_inv (buddy_fa_inv (\<lambda>l. l)) buddy_managed 8 (mset 11 0 (2 * 4096 + 1) warm_machine, a) {(2, 0)} warm_levels"
    "buddy_can_free a (frame_from_address (2 * 4096))" "look (mset 11 0 (2 * 4096 + 1) warm_machine) 8 [0, 0, 1, 0] = Some (2, [])"
proof -
  obtain a where a: "pt_inv (buddy_fa_inv (\<lambda>l. l)) buddy_managed 8 (warm_machine, a) {(2, 0)} warm_levels"
    "buddy_can_free a (frame_from_address (2 * 4096))" by (rule warm_alloc)
  note leaf = bp.leaf_ok [OF a(1) warm_look(2), of 0 "2 * 4096 + 1"]
  show ?thesis
    by (rule that [OF _ a(2)]) (use leaf(3) leaf(4) [of "[0, 0, 1, 0]"] in
        \<open>simp_all add: plain4 bit_nat_def entry_frame_def drop_bit_eq_div take_bit_eq_mod del: look.simps\<close>)
qed





text \<open>
  C15. \<^verbatim>\<open>auto_continuous_map\<close> of a block of up to 256 frames: it returns; a range it returns was
  unmapped, is as long as the block, does not start at address 0, and each of its pages
  shows the frame at the same distance.  The range lies below the first free entry of the
  level-4 table.  When it returns nothing, no mapping has changed.
\<close>

theorem auto_continuous_map_correct:
  assumes P: "paging E fa_inv managed can_free" and inv: "pt_inv fa_inv managed G (m, a) U lv"
    and "order fr \<le> 8" and "number fr + 2 ^ order fr \<le> 2 ^ 36"
  shows "(\<exists>st' U' lv'. auto_continuous_map E fr (m, a) = Inr (None, st') \<and> pt_inv fa_inv managed G st' U' lv'
        \<and> (\<forall>js. plain js \<longrightarrow> look (fst st') G js = look m G js))
   \<or> (\<exists>v i4 m' a' U' lv'.
        auto_continuous_map E fr (m, a) = Inr (Some (4096 * v, 4096 * v + 2 ^ order fr * 4096), (m', a'))
        \<and> pt_inv fa_inv managed G (m', a') U' lv' \<and> 0 < v
        \<and> \<not> present (phys m G i4) \<and> v div 512 ^ 3 = i4
        \<and> (\<forall>k < 2 ^ order fr. look m' G (page_indices (v + k)) = Some (number fr + k, []))
        \<and> (\<forall>js. plain js \<and> (\<forall>k < 2 ^ order fr. js \<noteq> page_indices (v + k)) \<longrightarrow> look m' G js = look m G js))"
proof -
  have "(2 :: nat) ^ order fr \<le> 2 ^ 8" using assms(3) by (intro power_increasing) simp_all
  then have o: "2 ^ order fr \<le> (510 :: nat)" by simp
  show ?thesis
  proof (cases rule: paging.auto_continuous_map_ok [OF P inv o assms(4)])
    case (1 st' U' lv')
    then show ?thesis by (auto simp: pt_ext_def plain_def)
  next
    case (2 m' a' U' lv' i4)
    define v where "v = i4 * 512 ^ 3 + 512 ^ 2 + 512 + 1"
    have "\<not> present (phys m G i4)" using 2(4) by (auto simp: find_Some_iff)
    moreover have "v div 512 ^ 3 = i4" "0 < v" by (simp_all add: v_def)
    ultimately show ?thesis
      using 2(1,2,7) [folded v_def] unfolding paging.mapped_upto_def [OF P] by blast
  qed
qed

theorem auto_continuous_map_correct_witness:
  "\<exists>r st'. auto_continuous_map (buddy_env seq_list bit_flags) (frame_from_address 0x7000) (bare_machine, three_start seq_list)
     = Inr (r, st') \<and> (\<forall>v w. r = Some (v, w) \<longrightarrow> w = v + 4096)"
proof -
  have "order (frame_from_address 0x7000) = 0" by (simp add: frame_from_address_def)
  with auto_continuous_map_correct [OF bp.paging_axioms bare_inv, of "frame_from_address 0x7000"] show ?thesis
    by (auto simp: frame_from_address_def SIZE_def)
qed

text \<open>
  C36. A defect of \<^verbatim>\<open>find_free_entry_index_with\<close>: the start index is not reset when a used entry
  interrupts the run.  In a table whose entry 2 is used and whose other entries are free,
  the search for two free entries answers 1, although entry 2 is present.
\<close>

theorem find_free_entry_index_with_defect:
  assumes "shows_table m va t" and "bitflags B" and "\<not> present (phys m t 1)" and "present (phys m t 2)"
    and "\<not> present (phys m t 3)" and "\<not> present (phys m t 4)"
  shows "find_free_entry_index_with B 2 m va = Inr (Some 1)"
proof -
  have app: "[1..<5 + 507] = [1..<5] @ [5..<5 + (507 :: nat)]" by (rule upt_add_eq_append) simp
  have sum: "(5 :: nat) + 507 = 512" by simp
  have four: "[1..<5] = [1, 2, 3, 4 :: nat]" by (simp add: upt_rec)
  show ?thesis
    unfolding find_free_entry_index_with_def app [unfolded sum four]
    by (simp add: entry_access(1) [OF assms(1)] assms(3-6) assms(3) [simplified]
        bitflags.contains_PRESENT [OF assms(2)] usub_def)
qed

theorem find_free_entry_index_with_defect_witness:
  "find_free_entry_index_with bit_flags 2 (mset 8 2 1 bare_machine) LEVEL4_PAGE_TABLE = Inr (Some 1)"
proof (rule find_free_entry_index_with_defect [OF _ bit_flags.bitflags_axioms])
  have "rec_root (mset 8 2 1 bare_machine) 8" using bare_tree(2) by (simp add: rec_root_def links_to_def)
  from rec_root_shows [OF this, of "[]" 8] show "shows_table (mset 8 2 1 bare_machine) LEVEL4_PAGE_TABLE 8"
    by (simp add: LEVEL4_PAGE_TABLE_def level4_table_va)
qed (simp_all add: bare_machine_def bit_Suc_0_iff)

end
