(* ===== verification/Paging_State.thy ===== *)
theory Paging_State
  imports Paging_Boot
begin

text \<open>
  Predicates on states that the paging code keeps, whatever the tables hold.  The locale
  \<open>paging_state\<close> names what a predicate on the machine and one on the allocator have to satisfy:
  the machine's is kept by writes of suitable words, the allocator's by taking a frame.  Then every
  operation keeps them.  It is used for the width of words (theory \<open>Paging_Typed\<close>) and for what
  the operations do to the allocator (theory \<open>Memory_Init\<close>).
\<close>

section \<open>Outcomes that satisfy a predicate\<close>

definition valid :: "'a res \<Rightarrow> ('a \<Rightarrow> bool) \<Rightarrow> bool" where
  "valid r P \<longleftrightarrow> (\<forall>x. r = Inr x \<longrightarrow> P x)"

lemma valid_Inr [simp]: "valid (Inr x) P \<longleftrightarrow> P x"
  and valid_Inl [simp]: "valid (Inl e) P"
  by (simp_all add: valid_def)

lemma valid_bind: "valid r Q \<Longrightarrow> (\<And>a. Q a \<Longrightarrow> valid (f a) P) \<Longrightarrow> valid (res_bind r f) P"
  by (cases r) (simp_all add: valid_def)

lemma valid_true: "valid r (\<lambda>_. True)"
  by (simp add: valid_def)

lemma valid_weaken: "valid r Q \<Longrightarrow> (\<And>a. Q a \<Longrightarrow> P a) \<Longrightarrow> valid r P"
  by (simp add: valid_def)

lemma validD: "valid r P \<Longrightarrow> r = Inr x \<Longrightarrow> P x"
  by (simp add: valid_def)

text \<open>
  One rule per operation that may come first in a sequence.  The steps that only compute a value
  need no condition on their result.
\<close>

lemma valid_then: "(\<And>a. valid (f a) P) \<Longrightarrow> valid (res_bind r f) P"
  by (cases r) (simp_all add: valid_def)

lemmas pure_steps =
  valid_then [where r = "next_level_table_mut B m t i" for B m t i]
  valid_then [where r = "page_address p" for p]
  valid_then [where r = "entry_read m t i" for m t i]
  valid_then [where r = "find_free_entry_index B m t" for B m t]
  valid_then [where r = "find_free_entry_index_with B n m t" for B n m t]
  valid_then [where r = "uadd x y" for x y]
  valid_then [where r = "usub x y" for x y]
  valid_then [where r = "umul x y" for x y]
  valid_then [where r = "ushl x y" for x y]
  valid_then [where r = "debug_assert b" for b]
  valid_then [where r = "to_virtual_addr K x" for K x]
  valid_then [where r = "kernel_addr_end_virtual K x" for K x]

section \<open>The contract\<close>

locale paging_state =
  fixes E :: "'a paging_env" and W :: "nat \<Rightarrow> bool" and M :: "machine \<Rightarrow> bool" and P :: "'a \<Rightarrow> bool"
  assumes read_word: "M m \<Longrightarrow> entry_read m t i = Inr e \<Longrightarrow> W e"
    and write_word: "M m \<Longrightarrow> W v \<Longrightarrow> entry_write t i v m = Inr m' \<Longrightarrow> M m'"
    and root: "M m \<Longrightarrow> W (cr3 m * SIZE)"
    and load_root: "M m \<Longrightarrow> x < 2 ^ 52 \<Longrightarrow> M (m\<lparr>cr3 := x div SIZE\<rparr>)"
    and zero: "W 0" and pattern: "W 0x0000000100000001"
    and address: "frame_address f = Inr x \<Longrightarrow> W x"
    and frame_word: "W x \<Longrightarrow> W e \<Longrightarrow> set_frame_addr (pe_flags E) x e = Inr e' \<Longrightarrow> W e'"
    and flag_word: "W e \<Longrightarrow> W (set_flags (pe_flags E) WRITABLE e)"
    and alloc: "P a \<Longrightarrow> pe_alloc E a = Inr (fo, a') \<Longrightarrow> P a'"
begin

abbreviation keeps :: "('r \<times> 'a pstate) res \<Rightarrow> bool" where
  "keeps r \<equiv> valid r (\<lambda>x. M (fst (snd x)) \<and> P (snd (snd x)))"

section \<open>Entries\<close>

lemma address_valid: "valid (frame_address f) W"
  using address by (simp add: valid_def)

lemma alloc_valid: "P a \<Longrightarrow> valid (pe_alloc E a) (\<lambda>(fo, a'). P a')"
  using alloc by (auto simp: valid_def)

lemma write_valid: "M m \<Longrightarrow> W v \<Longrightarrow> valid (entry_write t i v m) M"
  using write_word by (auto simp: valid_def)

lemma update_valid:
  assumes "M m" and "\<And>e e'. W e \<Longrightarrow> g e = Inr e' \<Longrightarrow> W e'"
  shows "valid (entry_update t i g m) M"
  unfolding valid_def entry_update_def res_bind_eq_Inr
  using read_word [OF assms(1)] write_word [OF assms(1)] assms(2) by blast

lemma frame_entry_valid: "M m \<Longrightarrow> W x \<Longrightarrow> valid (entry_update t i (set_frame_addr (pe_flags E) x) m) M"
  by (erule update_valid) (rule frame_word)

lemma writable_entry_valid: "M m \<Longrightarrow> valid (entry_update t i (\<lambda>e. Inr (set_flags (pe_flags E) WRITABLE e)) m) M"
  by (erule update_valid) (auto intro: flag_word)

lemma cleared_entry_valid: "M m \<Longrightarrow> valid (entry_update t i (\<lambda>e. Inr (clear_all e)) m) M"
  by (erule update_valid) (auto simp: clear_all_def zero)

lemma clear_entries_valid: "M m \<Longrightarrow> valid (clear_entries t is m) M"
  by (induction "is" arbitrary: m) (auto intro!: valid_bind [OF cleared_entry_valid])

lemma clear_all_entries_valid: "M m \<Longrightarrow> valid (clear_all_entries t m) M"
  by (simp add: clear_all_entries_def clear_entries_valid)

lemma fill_words_valid: "M m \<Longrightarrow> valid (fill_words va is m) M"
  by (induction "is" arbitrary: m) (auto intro!: valid_bind [OF write_valid] simp: pattern)

section \<open>Tables\<close>

lemmas state_steps = pure_steps
  valid_bind [OF alloc_valid]
  valid_bind [OF address_valid]
  valid_bind [OF frame_entry_valid]
  valid_bind [OF writable_entry_valid]
  valid_bind [OF clear_all_entries_valid]
  valid_bind [OF cleared_entry_valid]
  valid_bind [OF fill_words_valid]

lemma and_then_keeps:
  assumes "keeps r" and "\<And>x st. M (fst st) \<Longrightarrow> P (snd st) \<Longrightarrow> keeps (f x st)"
  shows "keeps (and_then r f)"
  unfolding and_then_def by (rule valid_bind [OF assms(1)]) (auto intro!: assms(2) split: option.split)

lemma create_keeps: "M (fst st) \<Longrightarrow> P (snd st) \<Longrightarrow> keeps (next_level_table_create_mut E t index st)"
  unfolding next_level_table_create_mut_def Let_def
  by (cases st) (auto intro!: state_steps split: option.split)

lemma map_page_keeps:
  assumes "M (fst st)" and "P (snd st)"
  shows "keeps (map_page E page frame st)"
  unfolding map_page_def
  by (intro pure_steps valid_bind [OF address_valid] valid_bind [OF and_then_keeps] and_then_keeps create_keeps assms)
     (auto intro!: state_steps split: option.split)

lemma find_empty_pages_keeps:
  assumes "M (fst st)" and "P (snd st)"
  shows "keeps (find_empty_pages E count st)"
  unfolding find_empty_pages_def Let_def
  by (intro and_then_keeps create_keeps pure_steps) (simp_all add: assms)

lemma find_empty_page_keeps: "M (fst st) \<Longrightarrow> P (snd st) \<Longrightarrow> keeps (find_empty_page E st)"
  by (simp add: find_empty_page_def find_empty_pages_keeps)

lemmas map_steps = state_steps valid_bind [OF map_page_keeps] valid_bind [OF find_empty_page_keeps]

lemma map_fitting_loop_keeps: "M (fst st) \<Longrightarrow> P (snd st) \<Longrightarrow> keeps (map_fitting_loop E v p n ofs st)"
  by (induction n arbitrary: ofs st) (auto intro!: map_steps split: sum.split)

lemma map_fitting_keeps: "M (fst st) \<Longrightarrow> P (snd st) \<Longrightarrow> keeps (map_fitting E vr pr st)"
  unfolding map_fitting_def Let_def
  by (auto intro!: pure_steps map_fitting_loop_keeps split: prod.split)

lemma auto_map_loop_keeps:
  "M (fst st) \<Longrightarrow> P (snd st) \<Longrightarrow> valid (auto_map_loop E page frame is st) (\<lambda>st'. M (fst st') \<and> P (snd st'))"
  by (induction "is" arbitrary: st) (auto intro!: map_steps split: sum.split)

lemma auto_continuous_map_keeps:
  assumes "M (fst st)" and "P (snd st)"
  shows "keeps (auto_continuous_map E frame st)"
  unfolding auto_continuous_map_def
  by (intro pure_steps and_then_keeps find_empty_pages_keeps assms valid_bind [OF auto_map_loop_keeps]) simp_all

section \<open>Building and activating a table\<close>

lemma inactive_new_keeps: "M (fst st) \<Longrightarrow> P (snd st) \<Longrightarrow> keeps (inactive_new E st)"
  unfolding inactive_new_def Let_def
  by (cases st) (auto intro!: map_steps split: option.split sum.split)

lemma with_table_keeps:
  assumes "M (fst st)" and "P (snd st)" and "\<And>st. M (fst st) \<Longrightarrow> P (snd st) \<Longrightarrow> keeps (f st)"
  shows "keeps (with_table E ia f st)"
  using assms(1,2) root [OF assms(1)] unfolding with_table_def Let_def
  by (cases st) (auto intro!: map_steps valid_bind [OF assms(3)] split: option.split sum.split)

lemma switch_keeps: "M m \<Longrightarrow> valid (switch ia m) (\<lambda>(old, m'). M m')"
  unfolding switch_def Let_def by (auto intro!: pure_steps valid_bind [OF address_valid] load_root)

lemma remap_pages_keeps: "M (fst st) \<Longrightarrow> P (snd st) \<Longrightarrow> keeps (remap_pages E K b is st)"
  by (induction "is" arbitrary: st) (auto intro!: map_steps split: sum.split)

lemma remap_requests_keeps: "M (fst st) \<Longrightarrow> P (snd st) \<Longrightarrow> keeps (remap_requests_loop E K rs st)"
  by (induction rs arbitrary: st) (auto intro!: valid_bind [OF remap_pages_keeps] split: sum.split)

end

text \<open>What the operations do to the allocator is to take frames from it.\<close>

definition takes_frame :: "'a paging_env \<Rightarrow> 'a \<Rightarrow> 'a \<Rightarrow> bool" where
  "takes_frame E a a' \<longleftrightarrow> (\<exists>fo. pe_alloc E a = Inr (fo, a'))"

lemma frames_state: "paging_state E (\<lambda>_. True) (\<lambda>_. True) ((takes_frame E)\<^sup>*\<^sup>* a)"
  by unfold_locales (auto simp: takes_frame_def intro: rtranclp.rtrancl_into_rtrancl)

text \<open>With an allocator predicate that giving a frame back keeps as well, all operations are covered.\<close>

locale paging_state_free = paging_state +
  assumes free: "P a \<Longrightarrow> pe_free E a f = Inr a' \<Longrightarrow> P a'"
begin

lemma free_valid: "P a \<Longrightarrow> valid (pe_free E a f) P"
  using free by (auto simp: valid_def)

lemma unmap_keeps: "M (fst st) \<Longrightarrow> P (snd st) \<Longrightarrow> keeps (unmap E page st)"
  unfolding unmap_def Let_def
  by (cases st) (auto intro!: state_steps valid_bind [OF free_valid] valid_then [where r = "and_then r f" for r f] split: option.split)

lemma runtime_test_keeps: "M (fst st) \<Longrightarrow> P (snd st) \<Longrightarrow> keeps (runtime_test E st)"
  unfolding runtime_test_def Let_def
  by (cases st) (auto intro!: map_steps valid_bind [OF unmap_keeps] split: option.split sum.split)

lemma paging_init_keeps:
  assumes "M (fst st)" and "P (snd st)"
  shows "valid (paging_init E K out rs g st) (\<lambda>(r, g', st'). M (fst st') \<and> P (snd st'))"
  using assms unfolding paging_init_def Let_def
  by (cases st; cases g) (auto intro!: pure_steps valid_bind [OF runtime_test_keeps] valid_bind [OF inactive_new_keeps]
      valid_then [where r = "out s c" for s c] valid_bind [OF with_table_keeps] valid_bind [OF remap_requests_keeps]
      valid_bind [OF switch_keeps] map_fitting_keeps split: option.split sum.split prod.split)

end

section \<open>Runs\<close>

text \<open>
  A run of the page table's interface: any sequence of its operations, each of which returned, with
  success or with an error.  The closure of \<^verbatim>\<open>with\<close> runs operations of the interface.
\<close>

inductive paging_run :: "'a paging_env \<Rightarrow> 'a pstate \<Rightarrow> 'a pstate \<Rightarrow> bool" for E where
  run_refl: "paging_run E st st"
| run_map: "paging_run E st0 st \<Longrightarrow> map_page E page frame st = Inr (r, st') \<Longrightarrow> paging_run E st0 st'"
| run_unmap: "paging_run E st0 st \<Longrightarrow> unmap E page st = Inr (r, st') \<Longrightarrow> paging_run E st0 st'"
| run_map_fitting: "paging_run E st0 st \<Longrightarrow> map_fitting E v p st = Inr (r, st') \<Longrightarrow> paging_run E st0 st'"
| run_find: "paging_run E st0 st \<Longrightarrow> find_empty_pages E count st = Inr (po, st') \<Longrightarrow> paging_run E st0 st'"
| run_auto_map: "paging_run E st0 st \<Longrightarrow> auto_continuous_map E frame st = Inr (ro, st') \<Longrightarrow> paging_run E st0 st'"
| run_inactive: "paging_run E st0 st \<Longrightarrow> inactive_new E st = Inr (io, st') \<Longrightarrow> paging_run E st0 st'"
| run_with: "paging_run E st0 st \<Longrightarrow> (\<And>s q s'. f s = Inr (q, s') \<Longrightarrow> paging_run E s s') \<Longrightarrow>
    with_table E ia f st = Inr (r, st') \<Longrightarrow> paging_run E st0 st'"
| run_switch: "paging_run E st0 (m, a) \<Longrightarrow> switch ia m = Inr (old, m') \<Longrightarrow> paging_run E st0 (m', a)"

context paging_state_free
begin

lemma keepsD: "keeps x \<Longrightarrow> x = Inr (r, st') \<Longrightarrow> M (fst st') \<and> P (snd st')"
  by (auto simp: valid_def)

lemmas keeps_steps = map_page_keeps [THEN keepsD] unmap_keeps [THEN keepsD] map_fitting_keeps [THEN keepsD]
  find_empty_pages_keeps [THEN keepsD] auto_continuous_map_keeps [THEN keepsD] inactive_new_keeps [THEN keepsD]

lemma run_keeps: "paging_run E st0 st \<Longrightarrow> M (fst st0) \<Longrightarrow> P (snd st0) \<Longrightarrow> M (fst st) \<and> P (snd st)"
proof (induction rule: paging_run.induct)
  case (run_with st0 st f ia r st')
  have "keeps (f s)" if "M (fst s)" "P (snd s)" for s using run_with.IH(2) that by (auto simp: valid_def)
  then have "keeps (with_table E ia f st)" using run_with.IH(1) run_with.prems by (intro with_table_keeps) auto
  then show ?case using run_with.hyps(3) by (rule keepsD)
next
  case (run_switch st0 m a ia old m')
  then have "M m \<and> P a" by simp
  then show ?case using validD [OF switch_keeps run_switch.hyps(2)] by simp
qed (simp | erule keeps_steps [rotated 2], simp, simp)+

end

end
