(* ===== verification/Paging_Typed.thy ===== *)
theory Paging_Typed
  imports Paging_Theorems Paging_State
begin

text \<open>
  Type preservation of the paging code.  A \<^verbatim>\<open>usize\<close> of the source is a natural number of the
  model, so that a word of physical memory could in principle leave the 64 bits it has.  No
  operation lets it: whatever the tables hold and whatever the allocator answers, a machine whose
  memory consists of 64-bit words still does after every operation that returns.
\<close>

section \<open>Words and machines\<close>

definition word64 :: "nat \<Rightarrow> bool" where
  "word64 x \<longleftrightarrow> x < 2 ^ 64"

definition machine_typed :: "machine \<Rightarrow> bool" where
  "machine_typed m \<longleftrightarrow> (\<forall>f i. word64 (phys m f i)) \<and> cr3 m < 2 ^ 40"

context bitflags
begin

lemma flags_typed: "word64 (flags B e)"
proof -
  have "flags_all < 2 ^ 64" by (simp add: flags_all_def flag_defs)
  then have "flags_all AND e < 2 ^ 64" by (rule and_less_pow2)
  then show ?thesis by (simp add: flags_def word64_def truncate and.commute)
qed

lemma set_flags_typed: "word64 e \<Longrightarrow> word64 fl \<Longrightarrow> word64 (set_flags B fl e)"
  using flags_typed unfolding set_flags_def union word64_def by (intro or_less_pow2)

lemma set_frame_addr_typed:
  assumes "word64 addr" and "set_frame_addr B addr e = Inr e'"
  shows "word64 e'"
proof -
  have "word64 (flags_union B (flags B e) PRESENT)"
    using flags_typed [of e] unfolding union word64_def by (intro or_less_pow2) (simp_all add: PRESENT_def)
  with assms(1) have "word64 (set_flags B (flags_union B (flags B e) PRESENT) addr)" by (rule set_flags_typed)
  then show ?thesis using assms(2) by (auto simp: set_frame_addr_def res_bind_eq_Inr Let_def)
qed

end

text \<open>The environment's flags are those of the crate; nothing is asked of its allocator.\<close>

lemma typed_state:
  fixes E :: "'a paging_env"
  assumes "bitflags (pe_flags E)"
  shows "paging_state_free E word64 machine_typed (\<lambda>_. True)"
proof
  show "word64 e" if "machine_typed m" "entry_read m t i = Inr e" for m t i e
    using that by (auto simp: entry_read_def machine_typed_def split: option.splits if_splits)
  show "machine_typed m'" if "machine_typed m" "word64 v" "entry_write t i v m = Inr m'" for m v t i m'
    using that by (auto simp: entry_write_def machine_typed_def split: option.splits if_splits)
  show "word64 (cr3 m * SIZE)" if "machine_typed m" for m
    using that by (simp add: machine_typed_def word64_def SIZE_def)
  show "machine_typed (m\<lparr>cr3 := x div SIZE\<rparr>)" if "machine_typed m" "x < 2 ^ 52" for m x
    using that by (auto simp: machine_typed_def SIZE_def)
  show "word64 x" if "frame_address f = Inr x" for f x
    using that by (simp add: word64_def frame_address_def umul_eq_Inr)
  show "word64 e'" if "word64 x" "word64 e" "set_frame_addr (pe_flags E) x e = Inr e'" for x e e'
    using bitflags.set_frame_addr_typed [OF assms] that by blast
  show "word64 (set_flags (pe_flags E) WRITABLE e)" if "word64 e" for e
    by (rule bitflags.set_flags_typed [OF assms that]) (simp add: word64_def WRITABLE_def)
qed (simp_all add: word64_def)

interpretation bt: paging_state_free "buddy_env seq_list bit_flags" word64 machine_typed "\<lambda>_. True"
  by (rule typed_state) (simp add: buddy_env_def bit_flags.bitflags_axioms)

section \<open>Properties\<close>


lemma warm_typed: "machine_typed warm_machine"
  by (simp add: machine_typed_def word64_def warm_machine_def)


end
