(* ===== verification/Graphic.thy ===== *)
theory Graphic
  imports Address
begin

text \<open>
  \<^verbatim>\<open>src/graphic.rs\<close>: the text console \<^verbatim>\<open>CharacterDisplay\<close> and the frame buffer
  \<^verbatim>\<open>GraphicalDisplay\<close>.

  A Rust \<^verbatim>\<open>char\<close> is its code point.  The slice \<^verbatim>\<open>vram\<close> is the list of its cells; the frame
  buffer is written through raw pointers, so there memory is a function from addresses to
  bytes and a 32-bit store writes four of them.
\<close>

section \<open>Positions and colours\<close>

type_synonym Position = "usize \<times> usize"
type_synonym rust_char = "32 word"

definition area_from_origin :: "Position \<Rightarrow> usize res" where
  "area_from_origin p = umul (fst p) (snd p)"

datatype Color =
    Rgb "8 word" "8 word" "8 word"
  | Code u32
  | Black | Blue | Green | Cyan | Red | Magenta | Brown | LightGray
  | DarkGray | LightBlue | LightGreen | LightCyan | LightRed | LightMagenta | Yellow | White

section \<open>The text console\<close>

record CharacterDisplay =
  vram_addr :: usize
  vram :: "u16 list"
  current_position :: Position
  max_position :: Position
  color_background :: Color
  color_foreground :: Color

definition display_default :: CharacterDisplay where
  "display_default =
     \<lparr>vram_addr = 0, vram = [], current_position = (0, 0), max_position = (0, 0),
      color_background = Black, color_foreground = LightRed\<rparr>"

text \<open>The content of the video memory before is the parameter \<open>raw\<close>, a list of that length.\<close>

definition display_new :: "(usize \<Rightarrow> u16 list) \<Rightarrow> usize \<Rightarrow> Position \<Rightarrow> CharacterDisplay res" where
  "display_new raw addr max_p =
     res_bind (area_from_origin max_p) (\<lambda>max_texts_num.
     Inr (display_default\<lparr>vram_addr := addr, vram := raw max_texts_num, max_position := max_p\<rparr>))"

definition set_current_position :: "Position \<Rightarrow> CharacterDisplay \<Rightarrow> CharacterDisplay" where
  "set_current_position pos d = d\<lparr>current_position := pos\<rparr>"

definition set_color_background :: "Color \<Rightarrow> CharacterDisplay \<Rightarrow> CharacterDisplay" where
  "set_color_background bg d = d\<lparr>color_background := bg\<rparr>"

definition set_color_foreground :: "Color \<Rightarrow> CharacterDisplay \<Rightarrow> CharacterDisplay" where
  "set_color_foreground fg d = d\<lparr>color_foreground := fg\<rparr>"

fun char_color :: "Color \<Rightarrow> u8 res" where
  "char_color Black = Inr 0x0"
| "char_color Blue = Inr 0x1"
| "char_color Green = Inr 0x2"
| "char_color Cyan = Inr 0x3"
| "char_color Red = Inr 0x4"
| "char_color Magenta = Inr 0x5"
| "char_color Brown = Inr 0x6"
| "char_color LightGray = Inr 0x7"
| "char_color DarkGray = Inr 0x8"
| "char_color LightBlue = Inr 0x9"
| "char_color LightGreen = Inr 0xA"
| "char_color LightCyan = Inr 0xB"
| "char_color LightRed = Inr 0xC"
| "char_color LightMagenta = Inr 0xD"
| "char_color Yellow = Inr 0xE"
| "char_color White = Inr 0xF"
| "char_color (Rgb r g b) = Inl (ExplicitPanic ''Should NOT use Rgb in CharacterDisplay.'')"
| "char_color (Code c) = Inl (ExplicitPanic ''Should NOT use Rgb in CharacterDisplay.'')"

definition gen_pixel :: "CharacterDisplay \<Rightarrow> rust_char \<Rightarrow> u16 res" where
  "gen_pixel d c =
     res_bind (char_color (color_background d)) (\<lambda>b.
     res_bind (char_color (color_foreground d)) (\<lambda>f.
     let bg = ucast b :: u16; fg = ucast f :: u16
     in Inr (push_bit 12 bg OR push_bit 8 fg OR ucast c)))"

fun fill_cells :: "u16 \<Rightarrow> usize list \<Rightarrow> u16 list \<Rightarrow> u16 list res" where
  "fill_cells v [] cells = Inr cells"
| "fill_cells v (i # is) cells = res_bind (vec_set cells i v) (\<lambda>cells'. fill_cells v is cells')"

definition clear_screen :: "CharacterDisplay \<Rightarrow> CharacterDisplay res" where
  "clear_screen d =
     res_bind (gen_pixel d 0x20) (\<lambda>space.
     res_bind (area_from_origin (max_position d)) (\<lambda>n.
     res_bind (fill_cells space [0..<n] (vram d)) (\<lambda>v. Inr (d\<lparr>vram := v\<rparr>))))"

text \<open>The loop \<^verbatim>\<open>self.vram[i - width] = self.vram[i]\<close> of the scrolling.\<close>

fun scroll_cells :: "usize \<Rightarrow> usize list \<Rightarrow> u16 list \<Rightarrow> u16 list res" where
  "scroll_cells width [] cells = Inr cells"
| "scroll_cells width (i # is) cells =
     res_bind (vec_get cells i) (\<lambda>v.
     res_bind (usub i width) (\<lambda>j.
     res_bind (vec_set cells j v) (\<lambda>cells'. scroll_cells width is cells')))"

text \<open>
  One iteration of the loop of \<^verbatim>\<open>print\<close> in its three stages: the character or line break, the
  wrap-around at the end of a line, and the scrolling at the end of the screen.
\<close>

definition print_put :: "rust_char \<Rightarrow> CharacterDisplay \<Rightarrow> CharacterDisplay res" where
  "print_put c d =
     (let width = fst (max_position d) in
      if c \<noteq> 0x0A then
        res_bind (gen_pixel d c) (\<lambda>code.
        let (x, y) = current_position d in
        res_bind (umul y width) (\<lambda>row.
        res_bind (uadd x row) (\<lambda>i.
        res_bind (vec_set (vram d) i code) (\<lambda>v.
        res_bind (uadd x 1) (\<lambda>x'.
        Inr (d\<lparr>vram := v, current_position := (x', y)\<rparr>))))))
      else
        res_bind (uadd (snd (current_position d)) 1) (\<lambda>y'.
        Inr (d\<lparr>current_position := (0, y')\<rparr>)))"

definition print_wrap :: "CharacterDisplay \<Rightarrow> CharacterDisplay res" where
  "print_wrap d =
     (let (x, y) = current_position d in
      if fst (max_position d) \<le> x
      then res_bind (uadd y 1) (\<lambda>y'. Inr (d\<lparr>current_position := (0, y')\<rparr>))
      else Inr d)"

definition print_scroll :: "u16 \<Rightarrow> CharacterDisplay \<Rightarrow> CharacterDisplay res" where
  "print_scroll space d =
     (let (width, height) = max_position d; (x, y) = current_position d in
      if height \<le> y then
        res_bind (area_from_origin (max_position d)) (\<lambda>n.
        res_bind (scroll_cells width [width..<n] (vram d)) (\<lambda>v1.
        res_bind (usub height 1) (\<lambda>h1.
        res_bind (umul width h1) (\<lambda>last_line.
        res_bind (fill_cells space [last_line..<n] v1) (\<lambda>v2.
        res_bind (usub y 1) (\<lambda>y'.
        Inr (d\<lparr>vram := v2, current_position := (x, y')\<rparr>)))))))
      else Inr d)"

definition print_char :: "rust_char \<Rightarrow> CharacterDisplay \<Rightarrow> CharacterDisplay res" where
  "print_char c d =
     res_bind (print_put c d) (\<lambda>d1.
     res_bind (gen_pixel d1 0x20) (\<lambda>space.
     res_bind (print_wrap d1) (\<lambda>d2. print_scroll space d2)))"

fun print :: "rust_char list \<Rightarrow> CharacterDisplay \<Rightarrow> CharacterDisplay res" where
  "print [] d = Inr d"
| "print (c # cs) d = res_bind (print_char c d) (\<lambda>d'. print cs d')"

definition println :: "rust_char list \<Rightarrow> CharacterDisplay \<Rightarrow> CharacterDisplay res" where
  "println s d = res_bind (print s d) (\<lambda>d'. print [0x0A] d')"

definition write_str :: "rust_char list \<Rightarrow> CharacterDisplay \<Rightarrow> CharacterDisplay res" where
  "write_str s d = print s d"

section \<open>The frame buffer\<close>

record ColorBitInfo =
  size_r :: nat
  size_g :: nat
  size_b :: nat
  size_rsvd :: nat
  pos_r :: nat
  pos_g :: nat
  pos_b :: nat
  pos_rsvd :: nat

record GraphicalDisplay =
  g_vram_addr :: usize
  g_max_position :: Position
  bit_info :: ColorBitInfo
  byte_per_pixel :: usize

text \<open>Addition and left shift in \<^verbatim>\<open>u8\<close> and \<^verbatim>\<open>u32\<close>, with the checks of the debug profile.\<close>

definition u8_add :: "nat \<Rightarrow> nat \<Rightarrow> nat res" where
  "u8_add a b = (if a + b < 256 then Inr (a + b) else Inl Overflow)"

definition u32_shl :: "u32 \<Rightarrow> nat \<Rightarrow> u32 res" where
  "u32_shl a k = (if k < 32 then Inr (push_bit k a) else Inl Overflow)"

definition graphical_new :: "usize \<Rightarrow> Position \<Rightarrow> ColorBitInfo \<Rightarrow> GraphicalDisplay res" where
  "graphical_new addr max_p info =
     res_bind (u8_add (size_r info) (size_g info)) (\<lambda>s1.
     res_bind (u8_add s1 (size_b info)) (\<lambda>s2.
     res_bind (u8_add s2 (size_rsvd info)) (\<lambda>s3.
     Inr \<lparr>g_vram_addr = addr, g_max_position = max_p, bit_info = info, byte_per_pixel = s3 div 8\<rparr>)))"

definition compose_color :: "ColorBitInfo \<Rightarrow> u32 \<Rightarrow> u32 \<Rightarrow> u32 \<Rightarrow> u32 res" where
  "compose_color info r g b =
     res_bind (u32_shl 0 (pos_rsvd info)) (\<lambda>w0.
     res_bind (u32_shl r (pos_r info)) (\<lambda>w1.
     res_bind (u32_shl g (pos_g info)) (\<lambda>w2.
     res_bind (u32_shl b (pos_b info)) (\<lambda>w3.
     Inr (w0 OR w1 OR w2 OR w3)))))"

fun graphic_color :: "GraphicalDisplay \<Rightarrow> Color \<Rightarrow> u32 res" where
  "graphic_color d Black = Inr 0x0"
| "graphic_color d Blue = Inr 0x1"
| "graphic_color d Green = Inr 0x2"
| "graphic_color d Cyan = Inr 0x3"
| "graphic_color d Red = Inr 0x4"
| "graphic_color d Magenta = Inr 0x5"
| "graphic_color d Brown = Inr 0x6"
| "graphic_color d LightGray = Inr 0x7"
| "graphic_color d DarkGray = Inr 0x8"
| "graphic_color d LightBlue = Inr 0x9"
| "graphic_color d LightGreen = Inr 0xA"
| "graphic_color d LightCyan = Inr 0xB"
| "graphic_color d LightRed = Inr 0xC"
| "graphic_color d LightMagenta = Inr 0xD"
| "graphic_color d Yellow = Inr 0xE"
| "graphic_color d White = Inr 0xF"
| "graphic_color d (Code rgb) =
     (let r = ucast (drop_bit 16 rgb) :: u8; g = ucast (drop_bit 8 rgb) :: u8; b = ucast (rgb AND 0xFF) :: u8
      in compose_color (bit_info d) (ucast r) (ucast g) (ucast b))"
| "graphic_color d (Rgb r g b) = compose_color (bit_info d) (scast r) (scast g) (scast b)"

text \<open>A 32-bit store, least significant byte first.\<close>

definition write32 :: "usize \<Rightarrow> u32 \<Rightarrow> bytes_mem \<Rightarrow> bytes_mem" where
  "write32 a w m = m(a := ucast w, a + 1 := ucast (drop_bit 8 w), a + 2 := ucast (drop_bit 16 w),
     a + 3 := ucast (drop_bit 24 w))"

fun fill_display_loop :: "usize \<Rightarrow> u32 \<Rightarrow> usize list \<Rightarrow> bytes_mem \<Rightarrow> bytes_mem res" where
  "fill_display_loop base w [] m = Inr m"
| "fill_display_loop base w (i # is) m =
     res_bind (umul i 4) (\<lambda>o4.
     res_bind (uadd base o4) (\<lambda>addr. fill_display_loop base w is (write32 addr w m)))"

definition fill_display :: "GraphicalDisplay \<Rightarrow> Color \<Rightarrow> bytes_mem \<Rightarrow> bytes_mem res" where
  "fill_display d c m =
     (let (x, y) = g_max_position d in
      res_bind (graphic_color d c) (\<lambda>color_bit.
      res_bind (umul x y) (\<lambda>n. fill_display_loop (g_vram_addr d) color_bit [0..<n] m)))"

text \<open>
  The two \<^verbatim>\<open>loop\<close>s of \<^verbatim>\<open>fill_area\<close>.  A loop that never ends has the result \<open>None\<close>.
\<close>

partial_function (option) fill_row ::
  "usize \<Rightarrow> usize \<Rightarrow> u32 \<Rightarrow> usize \<Rightarrow> bytes_mem \<Rightarrow> bytes_mem res option" where
  "fill_row bpp ve w v m =
     (if \<not> v < ve then Some (Inr m)
      else if v + bpp < 2 ^ 64 then fill_row bpp ve w (v + bpp) (write32 v w m)
      else Some (Inl Overflow))"

partial_function (option) fill_rows ::
  "usize \<Rightarrow> usize \<Rightarrow> usize \<Rightarrow> usize \<Rightarrow> usize \<Rightarrow> u32 \<Rightarrow> usize \<Rightarrow> bytes_mem \<Rightarrow> bytes_mem res option" where
  "fill_rows bpp dy begin_x end_x vy_e w vy m =
     (if \<not> vy < vy_e then Some (Inr m)
      else if 2 ^ 64 \<le> vy + end_x \<or> 2 ^ 64 \<le> vy + begin_x then Some (Inl Overflow)
      else Option.bind (fill_row bpp (vy + end_x) w (vy + begin_x) m) (\<lambda>r.
        if isl r then Some r
        else if vy + dy < 2 ^ 64 then fill_rows bpp dy begin_x end_x vy_e w (vy + dy) (projr r)
        else Some (Inl Overflow)))"

definition fill_area ::
  "GraphicalDisplay \<Rightarrow> Position \<Rightarrow> Position \<Rightarrow> Color \<Rightarrow> bytes_mem \<Rightarrow> bytes_mem res option" where
  "fill_area d begin_p end_p c m =
     (let size_x = fst (g_max_position d); bpp = byte_per_pixel d;
          args =
            res_bind (umul (fst begin_p) bpp) (\<lambda>begin_x.
            res_bind (umul (snd begin_p) bpp) (\<lambda>b1.
            res_bind (umul b1 size_x) (\<lambda>begin_y.
            res_bind (umul (fst end_p) bpp) (\<lambda>end_x.
            res_bind (umul (snd end_p) bpp) (\<lambda>e1.
            res_bind (umul e1 size_x) (\<lambda>end_y.
            res_bind (umul size_x bpp) (\<lambda>dy.
            res_bind (graphic_color d c) (\<lambda>ccode.
            res_bind (uadd (g_vram_addr d) end_y) (\<lambda>vy_e.
            res_bind (uadd (g_vram_addr d) begin_y) (\<lambda>vy.
            Inr (begin_x, end_x, dy, ccode, vy_e, vy)))))))))))
      in case args of
           Inl e \<Rightarrow> Some (Inl e)
         | Inr (begin_x, end_x, dy, ccode, vy_e, vy) \<Rightarrow> fill_rows bpp dy begin_x end_x vy_e ccode vy m)"

definition fill_area_by_size ::
  "GraphicalDisplay \<Rightarrow> Position \<Rightarrow> Position \<Rightarrow> Color \<Rightarrow> bytes_mem \<Rightarrow> bytes_mem res option" where
  "fill_area_by_size d origin_p size_p c m =
     (case res_bind (uadd (fst origin_p) (fst size_p)) (\<lambda>x.
           res_bind (uadd (snd origin_p) (snd size_p)) (\<lambda>y. Inr (x, y))) of
        Inl e \<Rightarrow> Some (Inl e)
      | Inr end_p \<Rightarrow> fill_area d origin_p end_p c m)"

end
