(* ===== verification/Interrupt.thy ===== *)
theory Interrupt
  imports Address Format
begin

text \<open>
  \<^verbatim>\<open>src/arch/x86_64/interrupt.rs\<close> and its modules (\<^verbatim>\<open>descriptor\<close>, \<^verbatim>\<open>handler\<close>, \<^verbatim>\<open>table\<close>, \<^verbatim>\<open>pic\<close>,
  \<^verbatim>\<open>pit\<close>), \<^verbatim>\<open>thread.rs\<close> and \<^verbatim>\<open>src/process.rs\<close>: the interrupt descriptor table, the interrupt
  controllers and the timer, and the context switch on a timer tick.

  Port output is a trace of pairs of port and byte, in the order of the writes.  The methods
  of the crate \<^verbatim>\<open>bitfield\<close> are a parameter \<open>F\<close>; the locale \<open>bitfield\<close> states what they do.
  Printing goes through a parameter \<open>out\<close>, see the locale \<open>console\<close>.
\<close>

section \<open>Bit fields\<close>

record 'w bitfield_api =
  set_bit_range :: "nat \<Rightarrow> nat \<Rightarrow> 'w \<Rightarrow> 'w \<Rightarrow> 'w"
  set_one_bit :: "nat \<Rightarrow> bool \<Rightarrow> 'w \<Rightarrow> 'w"
  get_bit_range :: "nat \<Rightarrow> nat \<Rightarrow> 'w \<Rightarrow> 'w"
  get_one_bit :: "nat \<Rightarrow> 'w \<Rightarrow> bool"

locale bitfield =
  fixes F :: "'a::len word bitfield_api"
  assumes bit_set_bit_range: "n < LENGTH('a) \<Longrightarrow>
      bit (set_bit_range F msb lsb v x) n \<longleftrightarrow> (if lsb \<le> n \<and> n \<le> msb then bit v (n - lsb) else bit x n)"
    and bit_set_one_bit: "n < LENGTH('a) \<Longrightarrow> bit (set_one_bit F i b x) n \<longleftrightarrow> (if n = i then b else bit x n)"
    and bit_get_bit_range: "n < LENGTH('a) \<Longrightarrow> bit (get_bit_range F msb lsb x) n \<longleftrightarrow> lsb + n \<le> msb \<and> bit x (lsb + n)"
    and get_one_bit_bit: "get_one_bit F i x \<longleftrightarrow> bit x i"

definition word_fields :: "'a::len word bitfield_api" where
  "word_fields =
     \<lparr>set_bit_range = (\<lambda>msb lsb v x.
        (x AND NOT (push_bit lsb (mask (Suc msb - lsb)))) OR push_bit lsb (take_bit (Suc msb - lsb) v)),
      set_one_bit = (\<lambda>i b x. if b then Bit_Operations.set_bit i x else unset_bit i x),
      get_bit_range = (\<lambda>msb lsb x. take_bit (Suc msb - lsb) (drop_bit lsb x)),
      get_one_bit = (\<lambda>i x. bit x i)\<rparr>"

interpretation word_fields: bitfield word_fields
  by unfold_locales (auto simp: word_fields_def bit_simps)

section \<open>Descriptors\<close>

type_synonym Flags = u16

definition interrupt_stack_table :: "u16 bitfield_api \<Rightarrow> Flags \<Rightarrow> u16" where
  "interrupt_stack_table F fl = get_bit_range F 2 0 fl"

definition set_interrupt_stack_table :: "u16 bitfield_api \<Rightarrow> u16 \<Rightarrow> Flags \<Rightarrow> Flags" where
  "set_interrupt_stack_table F v fl = set_bit_range F 2 0 v fl"

definition flags_reserved1 :: "u16 bitfield_api \<Rightarrow> Flags \<Rightarrow> u16" where
  "flags_reserved1 F fl = get_bit_range F 7 2 fl"

definition descriptor_type :: "u16 bitfield_api \<Rightarrow> Flags \<Rightarrow> u16" where
  "descriptor_type F fl = get_bit_range F 11 8 fl"

definition set_descriptor_type :: "u16 bitfield_api \<Rightarrow> u16 \<Rightarrow> Flags \<Rightarrow> Flags" where
  "set_descriptor_type F v fl = set_bit_range F 11 8 v fl"

definition flags_reserved2 :: "u16 bitfield_api \<Rightarrow> Flags \<Rightarrow> u16" where
  "flags_reserved2 F fl = get_bit_range F 13 12 fl"

definition privilege_level :: "u16 bitfield_api \<Rightarrow> Flags \<Rightarrow> u16" where
  "privilege_level F fl = get_bit_range F 14 13 fl"

definition set_privilege_level :: "u16 bitfield_api \<Rightarrow> u16 \<Rightarrow> Flags \<Rightarrow> Flags" where
  "set_privilege_level F v fl = set_bit_range F 14 13 v fl"

definition flags_present :: "u16 bitfield_api \<Rightarrow> Flags \<Rightarrow> bool" where
  "flags_present F fl = get_one_bit F 15 fl"

definition set_present :: "u16 bitfield_api \<Rightarrow> bool \<Rightarrow> Flags \<Rightarrow> Flags" where
  "set_present F b fl = set_one_bit F 15 b fl"

lemmas gate_flag_defs = interrupt_stack_table_def set_interrupt_stack_table_def flags_reserved1_def descriptor_type_def
  set_descriptor_type_def flags_reserved2_def privilege_level_def set_privilege_level_def flags_present_def set_present_def

definition TRAP_GATE :: u16 where
  "TRAP_GATE = 0xF"

record Descriptor =
  offset_low :: u16
  segment_selector :: u16
  d_flags :: Flags
  offset_middle :: u16
  offset_high :: u32
  d_reserved :: u32

definition parse_addr :: "u64 \<Rightarrow> u16 \<times> u16 \<times> u32" where
  "parse_addr addr =
     (ucast (addr AND 0xFFFF), ucast (drop_bit 16 addr AND 0xFFFF), ucast (drop_bit 32 addr AND 0xFFFFFFFF))"

text \<open>The code segment selector is read from the processor: the parameter \<open>cs\<close>.\<close>

definition descriptor_new :: "u16 bitfield_api \<Rightarrow> u16 \<Rightarrow> u64 \<Rightarrow> Descriptor" where
  "descriptor_new F cs handler_address =
     (let (low, middle, high) = parse_addr handler_address;
          fl0 = 0;
          fl1 = set_present F True fl0;
          fl2 = set_descriptor_type F TRAP_GATE fl1
      in \<lparr>offset_low = low, segment_selector = cs, d_flags = fl2, offset_middle = middle,
          offset_high = high, d_reserved = 0\<rparr>)"

definition with_handler :: "u16 bitfield_api \<Rightarrow> u16 \<Rightarrow> u64 \<Rightarrow> Descriptor" where
  "with_handler F cs h = descriptor_new F cs h"

definition with_handler_with_error_code :: "u16 bitfield_api \<Rightarrow> u16 \<Rightarrow> u64 \<Rightarrow> Descriptor" where
  "with_handler_with_error_code F cs h = descriptor_new F cs h"

section \<open>The interrupt descriptor table\<close>

record InterruptDescriptorTable =
  divide_error_exception :: Descriptor
  debug :: Descriptor
  nonmaskable :: Descriptor
  breakpoint :: Descriptor
  overflow :: Descriptor
  bound_range_exceeded :: Descriptor
  invalid_opcode :: Descriptor
  device_not_available :: Descriptor
  double_fault :: Descriptor
  coprocessor_segment_overrun :: Descriptor
  invalid_tss :: Descriptor
  segment_not_present :: Descriptor
  stack_segment_not_present :: Descriptor
  general_protection :: Descriptor
  page_fault :: Descriptor
  reserved_15 :: Descriptor
  x87_pfu_floting_point_error :: Descriptor
  alignment_check_exception :: Descriptor
  machine_check_exception :: Descriptor
  simd_floating_point_exception :: Descriptor
  virtualization_exception :: Descriptor
  reserveds :: "Descriptor list"
  user_defined_interrupts :: "Descriptor list"

text \<open>The addresses of the handlers are chosen by the linker.\<close>

record handler_addrs =
  default_handler :: u64
  default_handler_with_error_code :: u64
  timer_handler :: u64

definition IRQ_OFFSET_MASTER :: nat where
  "IRQ_OFFSET_MASTER = 0x20"

definition IRQ_OFFSET_SLAVE :: nat where
  "IRQ_OFFSET_SLAVE = IRQ_OFFSET_MASTER + 8"

definition IRQ_NUMBER_TIMER :: nat where
  "IRQ_NUMBER_TIMER = IRQ_OFFSET_MASTER"

text \<open>\<^verbatim>\<open>irq_number\<close> is a \<^verbatim>\<open>u8\<close>, here a natural number below 256.\<close>

definition set_handler ::
  "u16 bitfield_api \<Rightarrow> u16 \<Rightarrow> nat \<Rightarrow> u64 \<Rightarrow> InterruptDescriptorTable \<Rightarrow> InterruptDescriptorTable res" where
  "set_handler F cs irq_number f idt =
     res_bind (debug_assert (0x20 \<le> irq_number)) (\<lambda>_.
     res_bind (usub irq_number 0x20) (\<lambda>i.
     res_bind (vec_set (user_defined_interrupts idt) i (with_handler F cs f)) (\<lambda>ds.
     Inr (idt\<lparr>user_defined_interrupts := ds\<rparr>))))"

definition set_handlers ::
  "u16 bitfield_api \<Rightarrow> u16 \<Rightarrow> handler_addrs \<Rightarrow> InterruptDescriptorTable \<Rightarrow> InterruptDescriptorTable res" where
  "set_handlers F cs A idt = set_handler F cs IRQ_NUMBER_TIMER (timer_handler A) idt"

definition idt_init ::
  "u16 bitfield_api \<Rightarrow> u16 \<Rightarrow> handler_addrs \<Rightarrow> InterruptDescriptorTable \<Rightarrow> InterruptDescriptorTable res" where
  "idt_init F cs A idt =
     (let d = with_handler F cs (default_handler A);
          e = with_handler_with_error_code F cs (default_handler_with_error_code A)
      in set_handlers F cs A
        (idt\<lparr>divide_error_exception := d, debug := d, nonmaskable := d, breakpoint := d, overflow := d,
             bound_range_exceeded := d, invalid_opcode := d, device_not_available := d, double_fault := e,
             coprocessor_segment_overrun := d, invalid_tss := e, segment_not_present := e,
             stack_segment_not_present := e, general_protection := e, page_fault := e, reserved_15 := d,
             x87_pfu_floting_point_error := d, alignment_check_exception := e, machine_check_exception := d,
             simd_floating_point_exception := d, virtualization_exception := d,
             reserveds := map (\<lambda>_. d) (reserveds idt),
             user_defined_interrupts := map (\<lambda>_. d) (user_defined_interrupts idt)\<rparr>))"

text \<open>The table as the processor reads it: \<^verbatim>\<open>#[repr(C)]\<close> keeps the order of the fields.\<close>

definition idt_vectors :: "InterruptDescriptorTable \<Rightarrow> Descriptor list" where
  "idt_vectors t =
     [divide_error_exception t, debug t, nonmaskable t, breakpoint t, overflow t, bound_range_exceeded t,
      invalid_opcode t, device_not_available t, double_fault t, coprocessor_segment_overrun t, invalid_tss t,
      segment_not_present t, stack_segment_not_present t, general_protection t, page_fault t, reserved_15 t,
      x87_pfu_floting_point_error t, alignment_check_exception t, machine_check_exception t,
      simd_floating_point_exception t, virtualization_exception t]
     @ reserveds t @ user_defined_interrupts t"

record InterruptDescriptorTableRegister =
  limit :: u16
  base :: usize

definition idt_load :: "usize \<Rightarrow> InterruptDescriptorTableRegister" where
  "idt_load self = \<lparr>limit = of_nat (16 * 256) - 1, base = self\<rparr>"

text \<open>The address the processor reads from a descriptor.\<close>

definition descriptor_handler :: "Descriptor \<Rightarrow> u64" where
  "descriptor_handler d =
     ucast (offset_low d) OR push_bit 16 (ucast (offset_middle d)) OR push_bit 32 (ucast (offset_high d))"

section \<open>The interrupt controllers\<close>

type_synonym port_write = "nat \<times> u8"

definition MASTER_COMMAND_PORT :: nat where "MASTER_COMMAND_PORT = 0x20"
definition MASTER_DATA_PORT :: nat where "MASTER_DATA_PORT = 0x21"
definition SLAVE_COMMAND_PORT :: nat where "SLAVE_COMMAND_PORT = 0xA0"
definition SLAVE_DATA_PORT :: nat where "SLAVE_DATA_PORT = 0xA1"

definition END_OF_INTERRUPT :: u8 where "END_OF_INTERRUPT = 0x20"
definition ICW1_INIT :: u8 where "ICW1_INIT = 0x10"
definition ICW1_ICW4_REQUIRED :: u8 where "ICW1_ICW4_REQUIRED = 0x01"
definition ICW4_8086_MODE :: u8 where "ICW4_8086_MODE = 0x01"

lemmas port_defs = MASTER_COMMAND_PORT_def MASTER_DATA_PORT_def SLAVE_COMMAND_PORT_def SLAVE_DATA_PORT_def

definition io_wait :: "port_write list" where
  "io_wait = [(0x80, 0)]"

definition pic_init :: "port_write list" where
  "pic_init =
     [(MASTER_COMMAND_PORT, ICW1_INIT OR ICW1_ICW4_REQUIRED)] @ io_wait
     @ [(MASTER_COMMAND_PORT, ICW1_INIT OR ICW1_ICW4_REQUIRED)] @ io_wait
     @ [(MASTER_DATA_PORT, of_nat IRQ_OFFSET_MASTER)] @ io_wait
     @ [(SLAVE_DATA_PORT, of_nat IRQ_OFFSET_SLAVE)] @ io_wait
     @ [(MASTER_DATA_PORT, 4)] @ io_wait
     @ [(SLAVE_DATA_PORT, 2)] @ io_wait
     @ [(MASTER_DATA_PORT, ICW4_8086_MODE)] @ io_wait
     @ [(SLAVE_DATA_PORT, ICW4_8086_MODE)] @ io_wait
     @ [(MASTER_DATA_PORT, 0xFF), (SLAVE_DATA_PORT, 0xFF)]"

definition send_end_of_interrupt :: "nat \<Rightarrow> port_write list" where
  "send_end_of_interrupt irq =
     (if IRQ_OFFSET_SLAVE \<le> irq then [(SLAVE_COMMAND_PORT, END_OF_INTERRUPT)] else [])
     @ [(MASTER_COMMAND_PORT, END_OF_INTERRUPT)]"

definition enable_timer_interrupt :: "port_write list" where
  "enable_timer_interrupt = [(MASTER_DATA_PORT, 0xFE)]"

section \<open>The timer\<close>

definition CHANNEL0 :: nat where "CHANNEL0 = 0x40"
definition MODE_COMMAND_REGISTER :: nat where "MODE_COMMAND_REGISTER = 0x43"

definition make_asymptotic_counter_value :: "nat \<Rightarrow> (u8 \<times> u8) res" where
  "make_asymptotic_counter_value timer_frequency_hz =
     res_bind (debug_assert (18 \<le> timer_frequency_hz)) (\<lambda>_.
     res_bind (debug_assert (timer_frequency_hz < 1193181)) (\<lambda>_.
     let c = of_nat (3579545 div 3 div timer_frequency_hz) :: u16
     in Inr (ucast (drop_bit 8 c), ucast (c AND 0xFF))))"

text \<open>The fields of \<^verbatim>\<open>ModeCommandRegister\<close>.\<close>

definition bcd_binary_mode :: "u8 bitfield_api \<Rightarrow> u8 \<Rightarrow> u8" where
  "bcd_binary_mode F r = get_bit_range F 1 0 r"

definition set_bcd_binary_mode :: "u8 bitfield_api \<Rightarrow> u8 \<Rightarrow> u8 \<Rightarrow> u8" where
  "set_bcd_binary_mode F v r = set_bit_range F 1 0 v r"

definition operating_mode :: "u8 bitfield_api \<Rightarrow> u8 \<Rightarrow> u8" where
  "operating_mode F r = get_bit_range F 3 1 r"

definition set_operating_mode :: "u8 bitfield_api \<Rightarrow> u8 \<Rightarrow> u8 \<Rightarrow> u8" where
  "set_operating_mode F v r = set_bit_range F 3 1 v r"

definition access_mode :: "u8 bitfield_api \<Rightarrow> u8 \<Rightarrow> u8" where
  "access_mode F r = get_bit_range F 5 4 r"

definition set_access_mode :: "u8 bitfield_api \<Rightarrow> u8 \<Rightarrow> u8 \<Rightarrow> u8" where
  "set_access_mode F v r = set_bit_range F 5 4 v r"

definition select_channel :: "u8 bitfield_api \<Rightarrow> u8 \<Rightarrow> u8" where
  "select_channel F r = get_bit_range F 7 6 r"

definition set_select_channnel :: "u8 bitfield_api \<Rightarrow> u8 \<Rightarrow> u8 \<Rightarrow> u8" where
  "set_select_channnel F v r = set_bit_range F 7 6 v r"

lemmas mode_defs = bcd_binary_mode_def set_bcd_binary_mode_def operating_mode_def set_operating_mode_def
  access_mode_def set_access_mode_def select_channel_def set_select_channnel_def

text \<open>The result is the trace of writes and the console; the last instruction is \<^verbatim>\<open>sti\<close>.\<close>

definition pit_init :: "u8 bitfield_api \<Rightarrow> 'c printer \<Rightarrow> 'c \<Rightarrow> (port_write list \<times> 'c) res" where
  "pit_init F out con =
     res_bind (out ''init pit'' con) (\<lambda>con1.
     let r = set_access_mode F 0x3 (set_operating_mode F 0x2 0) in
     res_bind (make_asymptotic_counter_value 100) (\<lambda>(h, l).
     Inr ([(MODE_COMMAND_REGISTER, r), (CHANNEL0, l), (CHANNEL0, h)] @ enable_timer_interrupt, con1)))"

section \<open>Processes and the context switch\<close>

record InterruptFrame =
  ip :: usize
  cs :: usize
  if_flags :: usize
  sp :: usize
  ss :: usize

datatype Thread = Thread

record Process =
  thread :: Thread

definition MAX_PROCESS_COUNT :: usize where
  "MAX_PROCESS_COUNT = 16"

record ProcessManager =
  processes :: "Process option list"

definition process_manager_new :: ProcessManager where
  "process_manager_new = \<lparr>processes = replicate MAX_PROCESS_COUNT None\<rparr>"

text \<open>
  \<^verbatim>\<open>process::switch_context\<close>: the closure gets the threads of the first two processes and acts
  on the state \<open>s\<close> it captured.
\<close>

definition process_switch_context ::
  "(Thread \<times> Thread \<times> 's \<Rightarrow> Thread \<times> Thread \<times> 's) \<Rightarrow> ProcessManager \<times> 's \<Rightarrow> (ProcessManager \<times> 's) res" where
  "process_switch_context switch_thread st =
     (let (manager, s) = st in
      res_bind (vec_get (take 1 (processes manager)) 0) (\<lambda>p0.
      case p0 of
        None \<Rightarrow> Inr (manager, s)
      | Some current \<Rightarrow>
          res_bind (vec_get (drop 1 (processes manager)) 0) (\<lambda>p1.
          case p1 of
            None \<Rightarrow> Inr (manager, s)
          | Some nxt \<Rightarrow>
              let (c', n', s') = switch_thread (thread current, thread nxt, s) in
              Inr (manager\<lparr>processes := (processes manager)[0 := Some (current\<lparr>thread := c'\<rparr>),
                     1 := Some (nxt\<lparr>thread := n'\<rparr>)]\<rparr>, s'))))"

text \<open>
  \<^verbatim>\<open>thread::switch_context\<close>; the assembly loads the new stack selector into the data segment
  registers, the second component of the closure's state.
\<close>

definition thread_switch_context ::
  "ProcessManager \<times> InterruptFrame \<times> u16 \<Rightarrow> (ProcessManager \<times> InterruptFrame \<times> u16) res" where
  "thread_switch_context st =
     (let (manager, frame, ds) = st in
      process_switch_context (\<lambda>(c, n, frame, ds).
        let frame' = frame\<lparr>cs := 8 * 3 + 3, ss := 8 * 4 + 3\<rparr>
        in (c, n, frame', of_nat (ss frame'))) (manager, (frame, ds)))"

definition run_timer_handler ::
  "ProcessManager \<times> InterruptFrame \<times> u16 \<Rightarrow> ((ProcessManager \<times> InterruptFrame \<times> u16) \<times> port_write list) res" where
  "run_timer_handler st =
     res_bind (thread_switch_context st) (\<lambda>st'. Inr (st', send_end_of_interrupt IRQ_NUMBER_TIMER))"

section \<open>The default handlers\<close>

text \<open>The error code some exceptions push, and its fields.\<close>

type_synonym ErrorCode = u64

definition external_event :: "u64 bitfield_api \<Rightarrow> ErrorCode \<Rightarrow> bool" where
  "external_event F e = get_one_bit F 0 e"

definition descriptor_location :: "u64 bitfield_api \<Rightarrow> ErrorCode \<Rightarrow> bool" where
  "descriptor_location F e = get_one_bit F 1 e"

definition ti :: "u64 bitfield_api \<Rightarrow> ErrorCode \<Rightarrow> bool" where
  "ti F e = get_one_bit F 2 e"

definition segment_selector_index :: "u64 bitfield_api \<Rightarrow> ErrorCode \<Rightarrow> u64" where
  "segment_selector_index F e = get_bit_range F 13 3 e"

definition error_reserved :: "u64 bitfield_api \<Rightarrow> ErrorCode \<Rightarrow> u64" where
  "error_reserved F e = get_bit_range F 31 14 e"

lemmas error_code_defs = external_event_def descriptor_location_def ti_def segment_selector_index_def error_reserved_def

definition interrupt_frame_debug :: "InterruptFrame \<Rightarrow> string" where
  "interrupt_frame_debug f =
     ''InterruptFrame { cs:ip = 0x'' @ fmt_hex (cs f) @ '':0x'' @ fmt_hex (ip f) @ '', ss:sp = 0x'' @ fmt_hex (ss f)
       @ '':0x'' @ fmt_hex (sp f) @ '', flags = 0x'' @ fmt_hex (if_flags f) @ ''}''"

definition run_default_handler :: "'c printer \<Rightarrow> InterruptFrame \<Rightarrow> 'c \<Rightarrow> 'c res" where
  "run_default_handler out interrupt_frame con =
     res_bind (out ''Got interrupt'' con) (out (''  '' @ interrupt_frame_debug interrupt_frame))"

definition run_default_handler_with_error_code :: "'c printer \<Rightarrow> InterruptFrame \<Rightarrow> ErrorCode \<Rightarrow> 'c \<Rightarrow> 'c res" where
  "run_default_handler_with_error_code out interrupt_frame error con =
     res_bind (out ''Got interrupt'' con) (\<lambda>con1.
     res_bind (out (''  '' @ interrupt_frame_debug interrupt_frame) con1)
       (out (''  '' @ fmt_hex (unat error))))"

section \<open>The processor's side\<close>

text \<open>
  What interrupts act on besides the console: the processes, the data segment registers, the
  port writes so far and the interrupt flag.  The processor delivers an interrupt by calling the
  code at the address in the vector's descriptor, here by comparing it with the addresses the
  linker gave the three handlers; any other address is not code of the kernel.
\<close>

record irq_state =
  irq_manager :: ProcessManager
  irq_ds :: u16
  irq_ports :: "port_write list"
  irq_enabled :: bool

definition deliver_interrupt ::
  "handler_addrs \<Rightarrow> 'c printer \<Rightarrow> InterruptDescriptorTable \<Rightarrow> u8 \<Rightarrow> InterruptFrame \<Rightarrow> ErrorCode \<Rightarrow> irq_state \<times> 'c
   \<Rightarrow> (InterruptFrame \<times> irq_state \<times> 'c) res" where
  "deliver_interrupt A out idt vector frame error sc =
     (let (s, con) = sc in
      res_bind (vec_get (idt_vectors idt) (unat vector)) (\<lambda>d.
      let h = descriptor_handler d in
      if h = default_handler A then
        res_bind (run_default_handler out frame con) (\<lambda>con'. Inr (frame, s, con'))
      else if h = default_handler_with_error_code A then
        res_bind (run_default_handler_with_error_code out frame error con) (\<lambda>con'. Inr (frame, s, con'))
      else if h = timer_handler A then
        res_bind (run_timer_handler (irq_manager s, frame, irq_ds s)) (\<lambda>((m, frame', ds), w).
        Inr (frame', s\<lparr>irq_manager := m, irq_ds := ds, irq_ports := irq_ports s @ w\<rparr>, con))
      else Inl PageFault))"

section \<open>Initialisation\<close>

definition TABLE_ADDRESS :: PhysicalAddress where
  "TABLE_ADDRESS = 0x6E000"

text \<open>
  \<^verbatim>\<open>interrupt::init\<close>: the table is placed over whatever memory is at the image of
  \<^verbatim>\<open>TABLE_ADDRESS\<close> (the parameter \<open>idt\<close>), filled and loaded, tried out with the interrupt \<^verbatim>\<open>0xFA\<close>
  (for which the processor pushes \<open>frame\<close>, and no error code), and the controllers and the timer
  are programmed.  The result is the table, the register \<^verbatim>\<open>lidt\<close> loads and the new states.
\<close>

definition interrupt_init ::
  "u16 bitfield_api \<Rightarrow> u8 bitfield_api \<Rightarrow> u16 \<Rightarrow> handler_addrs \<Rightarrow> kernel_symbols \<Rightarrow> 'c printer \<Rightarrow> InterruptFrame
   \<Rightarrow> InterruptDescriptorTable \<Rightarrow> irq_state \<times> 'c
   \<Rightarrow> ((InterruptDescriptorTable \<times> InterruptDescriptorTableRegister) \<times> irq_state \<times> 'c) res" where
  "interrupt_init F G sel A K out frame idt sc =
     (let (s, con) = sc in
      res_bind (out ''Initialize IDT'' con) (\<lambda>con1.
      res_bind (to_virtual_addr K TABLE_ADDRESS) (\<lambda>table.
      res_bind (idt_init F sel A idt) (\<lambda>idt'.
      let idtr = idt_load table in
      res_bind (deliver_interrupt A out idt' 0xFA frame 0 (s, con1)) (\<lambda>(_, s1, con2).
      res_bind (out ''Return from interrupt'' con2) (\<lambda>con3.
      let s2 = s1\<lparr>irq_ports := irq_ports s1 @ pic_init\<rparr> in
      res_bind (pit_init G out con3) (\<lambda>(w, con4).
      Inr ((idt', idtr), s2\<lparr>irq_ports := irq_ports s2 @ w, irq_enabled := True\<rparr>, con4))))))))"

end
