(* ===== verification/Boot.thy ===== *)
theory Boot
  imports Heap Graphic Interrupt
begin

text \<open>
  Start-up: \<^verbatim>\<open>main\<close> of \<^verbatim>\<open>src/kernel.rs\<close>, the architecture layer \<^verbatim>\<open>src/arch/mod.rs\<close> and
  \<^verbatim>\<open>src/arch/x86_64/mod.rs\<close>, the global console of \<^verbatim>\<open>src/context.rs\<close> with the macros of
  \<^verbatim>\<open>src/log.rs\<close>, and the 32-bit \<^verbatim>\<open>src/arch/x86_32/mod.rs\<close>.

  What comes from outside the sources is the record \<open>boot_env\<close>: the crates' operations, the
  linker's symbols, the parse of the boot loader's memory map, sizes of types and the content
  of memory nobody has written yet.
\<close>

section \<open>Types\<close>

datatype arch_error = NoMemoryMap | MemoryInitializationFailed memory_error

fun arch_error_display :: "arch_error \<Rightarrow> string" where
  "arch_error_display NoMemoryMap = ''No memory map is in multiboot_info''"
| "arch_error_display (MemoryInitializationFailed e) = ''Memory initialization faild: '' @ memory_error_display e"

record 'l boot_env =
  be_list :: "'l linked_list_api"
  be_flags :: bitflags_api
  be_fields16 :: "u16 bitfield_api"
  be_fields8 :: "u8 bitfield_api"
  be_memset :: "usize \<Rightarrow> 32 word \<Rightarrow> usize \<Rightarrow> bytes_mem \<Rightarrow> bytes_mem"
  be_symbols :: kernel_symbols
  be_handlers :: handler_addrs
  be_cs :: u16
  be_test_frame :: InterruptFrame
  be_frame_size :: usize
  be_frame_align :: usize
  be_raw_frames :: "usize \<Rightarrow> Frame list"
  be_raw_vram :: "usize \<Rightarrow> u16 list"
  be_raw_idt :: InterruptDescriptorTable
  be_memory_map :: "usize \<Rightarrow> (usize \<times> usize) list option"
  be_panic_location :: "(string \<times> nat) option"

text \<open>
  \<^verbatim>\<open>GLOBAL_CONTEXT\<close> is initialised at its first use: \<open>None\<close> before, then the console, if the
  architecture has one.
\<close>

type_synonym Context = "CharacterDisplay option option"

record kernel =
  k_bytes :: bytes_mem
  k_context :: Context
  k_memory :: kernel_state
  k_interrupts :: "(InterruptDescriptorTable \<times> InterruptDescriptorTableRegister) option"
  k_irq :: irq_state

section \<open>The console\<close>

definition VRAM_ADDR :: PhysicalAddress where
  "VRAM_ADDR = 0xB8000"

definition obtain_kernel_console :: "'l boot_env \<Rightarrow> CharacterDisplay option res" where
  "obtain_kernel_console V =
     res_bind (to_virtual_addr (be_symbols V) VRAM_ADDR) (\<lambda>vram_addr.
     res_bind (display_new (be_raw_vram V) vram_addr (80, 25)) (\<lambda>display.
     res_bind (clear_screen display) (\<lambda>display'. Inr (Some display'))))"

definition global_context :: "'l boot_env \<Rightarrow> Context \<Rightarrow> CharacterDisplay option res" where
  "global_context V con = (case con of Some c \<Rightarrow> Inr c | None \<Rightarrow> obtain_kernel_console V)"

text \<open>\<^verbatim>\<open>print!\<close> and \<^verbatim>\<open>println!\<close>, for the text their arguments format to.\<close>

definition log_print :: "'l boot_env \<Rightarrow> rust_char list \<Rightarrow> Context \<Rightarrow> Context res" where
  "log_print V s con =
     res_bind (global_context V con) (\<lambda>default_output.
     case default_output of
       None \<Rightarrow> Inr (Some None)
     | Some d \<Rightarrow> res_bind (write_str s d) (\<lambda>d'. Inr (Some (Some d'))))"

definition text_of :: "string \<Rightarrow> rust_char list" where
  "text_of s = map (\<lambda>c. of_nat (of_char c)) s"

definition log_println :: "'l boot_env \<Rightarrow> Context printer" where
  "log_println V s con = log_print V (text_of s @ [0x0A]) con"

section \<open>The end of the kernel\<close>

text \<open>
  The panic handler and \<^verbatim>\<open>abort\<close> print and loop forever; the result is the console with which
  the endless loop is entered.  A panic has a message and a location, if the compiler gave it
  them.
\<close>

definition panic_impl :: "'l boot_env \<Rightarrow> string option \<Rightarrow> (string \<times> nat) option \<Rightarrow> Context \<Rightarrow> Context res" where
  "panic_impl V message location con =
     res_bind (log_println V ''Panic !'' con) (\<lambda>con1.
     res_bind (case message of
         Some msg \<Rightarrow> log_println V (''  msg: '' @ msg) con1
       | None \<Rightarrow> Inr con1) (\<lambda>con2.
     case location of
       Some (file, line) \<Rightarrow>
         log_println V (''panic occurred in file '' @ [CHR 0x27] @ file @ [CHR 0x27] @ '' at line '' @ fmt_dec line) con2
     | None \<Rightarrow> log_println V (''panic occurred but can'' @ [CHR 0x27] @ ''t get location information...'') con2))"

definition abort :: "'l boot_env \<Rightarrow> Context \<Rightarrow> Context res" where
  "abort V con = log_println V ''abort'' con"

section \<open>Start-up on x86_64\<close>

definition into_arch_error :: "memory_error \<Rightarrow> arch_error" where
  "into_arch_error e = MemoryInitializationFailed e"

definition x86_64_init :: "'l boot_env \<Rightarrow> usize list \<Rightarrow> kernel \<Rightarrow> ((arch_error + unit) \<times> kernel) res" where
  "x86_64_init V argv k =
     res_bind (vec_get argv 1) (\<lambda>stack.
     res_bind (vec_get argv 2) (\<lambda>stack_pages.
     let rs = [(stack, stack_pages), (VRAM_ADDR, 1), (TABLE_ADDRESS, 1)] in
     res_bind (vec_get argv 0) (\<lambda>info.
     case be_memory_map V info of
       None \<Rightarrow> Inr (Inl NoMemoryMap, k)
     | Some areas \<Rightarrow>
         res_bind (memory_init (be_list V) (be_flags V) (be_symbols V) (log_println V) (be_frame_size V) (be_frame_align V)
                     (be_raw_frames V) areas rs (k_memory k, k_context k)) (\<lambda>(r, (ks, con)).
         case r of
           Inl e \<Rightarrow> Inr (Inl (into_arch_error e), k\<lparr>k_memory := ks, k_context := con\<rparr>)
         | Inr _ \<Rightarrow>
             res_bind (interrupt_init (be_fields16 V) (be_fields8 V) (be_cs V) (be_handlers V) (be_symbols V) (log_println V)
                         (be_test_frame V) (be_raw_idt V) (k_irq k, con)) (\<lambda>(tables, irq, con').
             Inr (Inr (), k\<lparr>k_memory := ks, k_context := con', k_interrupts := Some tables, k_irq := irq\<rparr>))))))"

text \<open>
  \<^verbatim>\<open>main\<close> returns to the boot code, which halts, or it ends in the panic handler.  A panic
  further down is a left value of the result.
\<close>

datatype boot_end = Returned | Panicked

definition kernel_main :: "'l boot_env \<Rightarrow> usize list \<Rightarrow> kernel \<Rightarrow> (boot_end \<times> kernel) res" where
  "kernel_main V argv k =
     (let k0 = k\<lparr>k_bytes := clean_bss_section (be_memset V) (be_symbols V) (k_bytes k)\<rparr> in
      res_bind (log_println V ''Start Axel'' (k_context k0)) (\<lambda>con1.
      res_bind (x86_64_init V argv (k0\<lparr>k_context := con1\<rparr>)) (\<lambda>(r, k2).
      case r of
        Inl e \<Rightarrow>
          res_bind (panic_impl V (Some (''arch::init fails: '' @ arch_error_display e)) (be_panic_location V) (k_context k2))
            (\<lambda>con3. Inr (Panicked, k2\<lparr>k_context := con3\<rparr>))
      | Inr _ \<Rightarrow>
          res_bind (log_println V ''Startup complete'' (k_context k2)) (\<lambda>con3. Inr (Returned, k2\<lparr>k_context := con3\<rparr>)))))"

section \<open>Start-up on x86_32\<close>

text \<open>
  The drawing of \<^verbatim>\<open>init\<close>, and its end: \<^verbatim>\<open>Multiboot::new\<close> (the parameter \<open>mboot\<close> says whether it
  finds the information, reading memory through \<^verbatim>\<open>paddr_to_slice\<close>) and the endless loop of \<^verbatim>\<open>hlt\<close>;
  the result is the memory with which that loop is entered.
\<close>

definition x86_32_display :: "GraphicalDisplay res" where
  "x86_32_display =
     graphical_new 0xFD000000 (640, 480)
       \<lparr>size_r = 8, size_g = 8, size_b = 8, size_rsvd = 8, pos_r = 16, pos_g = 8, pos_b = 0, pos_rsvd = 24\<rparr>"

fun fill_areas :: "GraphicalDisplay \<Rightarrow> (Position \<times> Position \<times> Color) list \<Rightarrow> bytes_mem \<Rightarrow> bytes_mem res option" where
  "fill_areas d [] m = Some (Inr m)"
| "fill_areas d ((origin_p, size_p, c) # as) m =
     Option.bind (fill_area_by_size d origin_p size_p c m) (\<lambda>r.
     case r of Inl e \<Rightarrow> Some (Inl e) | Inr m' \<Rightarrow> fill_areas d as m')"

definition x86_32_areas :: "(Position \<times> Position \<times> Color) list" where
  "x86_32_areas =
     (let base_y = 480 - 27 in
      [((0, base_y), (640, 480), Code 0xC6C6C6),
       ((3, 3 + base_y), (60, 1), Code 0xFFFFFF),
       ((3, 23 + base_y), (60, 2), Code 0x848484),
       ((3, 3 + base_y), (1, 20), Code 0xFFFFFF),
       ((61, 4 + base_y), (1, 20), Code 0x848484),
       ((62, 4 + base_y), (1, 20), Code 0x000001)])"

definition paddr_to_slice :: "bytes_mem \<Rightarrow> usize \<Rightarrow> usize \<Rightarrow> u8 list option" where
  "paddr_to_slice m ptr_addr sz = Some (map (\<lambda>i. m (ptr_addr + i)) [0..<sz])"

definition x86_32_init ::
  "(usize \<Rightarrow> (usize \<Rightarrow> usize \<Rightarrow> u8 list option) \<Rightarrow> bool) \<Rightarrow> usize list \<Rightarrow> bytes_mem \<Rightarrow> bytes_mem res option" where
  "x86_32_init mboot argv m =
     (case res_bind x86_32_display (\<lambda>display.
           res_bind (fill_display display (Code 0xD7003A) m) (\<lambda>m1. Inr (display, m1))) of
        Inl e \<Rightarrow> Some (Inl e)
      | Inr (display, m1) \<Rightarrow>
          Option.bind (fill_areas display x86_32_areas m1) (\<lambda>r.
          Some (res_bind r (\<lambda>m2.
            res_bind (vec_get argv 0) (\<lambda>info.
            if mboot info (paddr_to_slice m2) then Inr m2 else Inl (ExplicitPanic ''No multiboot info.''))))))"

end
