(* ===== verification/Graphic_Theorems.thy ===== *)
theory Graphic_Theorems
  imports Graphic
begin

text \<open>
  The properties of the displays.  The console is compared with a reference terminal that
  updates one cell, moves the cursor, and scrolls by dropping the first line and appending
  a blank one.
\<close>

section \<open>The loops over the cells\<close>

lemma fill_cells_append: "fill_cells v (is @ js) cells = res_bind (fill_cells v is cells) (fill_cells v js)"
  by (induction "is" arbitrary: cells) (auto simp: res_bind_def split: sum.split)

lemma scroll_cells_append:
  "scroll_cells w (is @ js) cells = res_bind (scroll_cells w is cells) (scroll_cells w js)"
  by (induction "is" arbitrary: cells) (auto simp: res_bind_def split: sum.split)

lemma fill_cells_range:
  assumes "i \<le> k" and "k \<le> length cells"
  shows "fill_cells v [i..<k] cells = Inr (take i cells @ replicate (k - i) v @ drop k cells)"
  using assms
proof (induction k rule: dec_induct)
  case base
  then show ?case by simp
next
  case (step k)
  have up: "[i..<Suc k] = [i..<k] @ [k]" using step by simp
  let ?c = "take i cells @ replicate (k - i) v @ drop k cells"
  have "?c[k := v] = take i cells @ replicate (Suc k - i) v @ drop (Suc k) cells"
  proof (rule nth_equalityI)
    show "length (?c[k := v]) = length (take i cells @ replicate (Suc k - i) v @ drop (Suc k) cells)"
      using step by simp
    fix j assume "j < length (?c[k := v])"
    then show "?c[k := v] ! j = (take i cells @ replicate (Suc k - i) v @ drop (Suc k) cells) ! j"
      using step by (auto simp: nth_append nth_list_update)
  qed
  with step show ?case unfolding up fill_cells_append by simp
qed

lemma scroll_cells_range:
  assumes "w \<le> k" and "k \<le> length cells" and "0 < w"
  shows "scroll_cells w [w..<k] cells = Inr (take (k - w) (drop w cells) @ drop (k - w) cells)"
  using assms(1,2)
proof (induction k rule: dec_induct)
  case base
  then show ?case by simp
next
  case (step k)
  have up: "[w..<Suc k] = [w..<k] @ [k]" using step by simp
  let ?c = "take (k - w) (drop w cells) @ drop (k - w) cells"
  have get: "?c ! k = cells ! k" using step.prems step.hyps(1) assms(3) by (auto simp: nth_append)
  have "?c[k - w := cells ! k] = take (Suc k - w) (drop w cells) @ drop (Suc k - w) cells"
  proof (rule nth_equalityI)
    show "length (?c[k - w := cells ! k]) = length (take (Suc k - w) (drop w cells) @ drop (Suc k - w) cells)"
      using step by simp
    fix j assume "j < length (?c[k - w := cells ! k])"
    then show "?c[k - w := cells ! k] ! j = (take (Suc k - w) (drop w cells) @ drop (Suc k - w) cells) ! j"
      using step by (auto simp: nth_append nth_list_update Suc_diff_le)
  qed
  with step get show ?case unfolding up scroll_cells_append by simp
qed

section \<open>The reference terminal\<close>

definition palette :: "Color \<Rightarrow> bool" where
  "palette c \<longleftrightarrow> \<not> isl (char_color c)"

definition disp_inv :: "CharacterDisplay \<Rightarrow> bool" where
  "disp_inv d \<longleftrightarrow> (let (w, h) = max_position d; (x, y) = current_position d in
     0 < w \<and> 0 < h \<and> w * h < 2 ^ 64 \<and> length (vram d) = w * h \<and> x < w \<and> y < h
     \<and> palette (color_background d) \<and> palette (color_foreground d))"

definition pixel :: "CharacterDisplay \<Rightarrow> rust_char \<Rightarrow> u16" where
  "pixel d c = projr (gen_pixel d c)"

definition put_char :: "rust_char \<Rightarrow> CharacterDisplay \<Rightarrow> CharacterDisplay" where
  "put_char c d =
     (let (w, h) = max_position d; (x, y) = current_position d;
          v1 = (if c = 0x0A then vram d else (vram d)[x + y * w := pixel d c]);
          (x1, y1) = (if c = 0x0A then (0, y + 1) else if x + 1 = w then (0, y + 1) else (x + 1, y))
      in if y1 = h
         then d\<lparr>vram := drop w v1 @ replicate w (pixel d 0x20), current_position := (x1, h - 1)\<rparr>
         else d\<lparr>vram := v1, current_position := (x1, y1)\<rparr>)"

lemma gen_pixel_palette:
  assumes "palette (color_background d)" and "palette (color_foreground d)"
  shows "gen_pixel d c = Inr (pixel d c)"
  using assms by (cases "char_color (color_background d)"; cases "char_color (color_foreground d)")
    (simp_all add: palette_def pixel_def gen_pixel_def)

lemma gen_pixel_update [simp]:
  "gen_pixel (d\<lparr>current_position := p\<rparr>) c = gen_pixel d c" "gen_pixel (d\<lparr>vram := v\<rparr>) c = gen_pixel d c"
  by (simp_all add: gen_pixel_def)

lemma last_line_scroll:
  assumes "length v = w * h" and "0 < w" and "0 < h"
  shows "res_bind (scroll_cells w [w..<w * h] v) (\<lambda>v1. fill_cells s [w * (h - 1)..<w * h] v1)
     = Inr (drop w v @ replicate w s)"
proof -
  have le: "w \<le> w * h" using assms(3) by simp
  have n: "w * (h - 1) = w * h - w" by (simp add: diff_mult_distrib2)
  have "scroll_cells w [w..<w * h] v = Inr (drop w v @ drop (w * h - w) v)"
    using scroll_cells_range [OF le _ assms(2)] assms(1) by simp
  moreover have "fill_cells s [w * h - w..<w * h] (drop w v @ drop (w * h - w) v)
      = Inr (take (w * h - w) (drop w v @ drop (w * h - w) v) @ replicate w s)"
    using fill_cells_range [of "w * h - w" "w * h" "drop w v @ drop (w * h - w) v" s] assms(1) le by simp
  ultimately show ?thesis unfolding n using assms(1) le by simp
qed

lemma print_scroll_ok:
  assumes "max_position d = (w, h)" and "current_position d = (x, y)" and "0 < w" "0 < h" "w * h < 2 ^ 64"
    and "length (vram d) = w * h"
  shows "print_scroll s d = Inr (if h \<le> y then d\<lparr>vram := drop w (vram d) @ replicate w s, current_position := (x, y - 1)\<rparr> else d)"
proof (cases "h \<le> y")
  case True
  have "w * (h - 1) < 2 ^ 64" using assms(5) by (simp add: diff_mult_distrib2)
  then have ar: "area_from_origin (w, h) = Inr (w * h)" "usub h 1 = Inr (h - 1)" "umul w (h - 1) = Inr (w * (h - 1))"
    "usub y 1 = Inr (y - 1)"
    using assms(4,5) True unfolding area_from_origin_def usub_def umul_def by simp_all
  show ?thesis
    using last_line_scroll [OF assms(6,3,4), of s] True
    by (cases "scroll_cells w [w..<w * h] (vram d)") (simp_all add: print_scroll_def assms(1,2) ar [simplified])
qed (simp add: print_scroll_def assms)

lemma print_wrap_ok:
  assumes "current_position d = (x, y)" and "y + 1 < 2 ^ 64"
  shows "print_wrap d = Inr (if fst (max_position d) \<le> x then d\<lparr>current_position := (0, y + 1)\<rparr> else d)"
  using assms unfolding print_wrap_def uadd_def by simp

lemma print_put_ok:
  assumes "max_position d = (w, h)" and "current_position d = (x, y)" and "x < w" and "y < h" and "w * h < 2 ^ 64"
    and "length (vram d) = w * h" and "palette (color_background d)" "palette (color_foreground d)"
  shows "print_put c d = Inr (if c = 0x0A then d\<lparr>current_position := (0, y + 1)\<rparr>
      else d\<lparr>vram := (vram d)[x + y * w := pixel d c], current_position := (x + 1, y)\<rparr>)" and "y + 2 \<le> 2 ^ 64"
proof -
  have "x + y * w < Suc y * w" using assms(3) by simp
  also have "\<dots> \<le> h * w" using assms(4) by (intro mult_le_mono1) simp
  finally have ix: "x + y * w < w * h" by (simp add: mult.commute)
  have "h \<le> w * h" using assms(3) by simp
  then show y2: "y + 2 \<le> 2 ^ 64" using assms(4,5) by linarith
  have "w \<le> w * h" using assms(4) by simp
  then have "x + 1 < 2 ^ 64" using assms(3,5) by linarith
  then show "print_put c d = Inr (if c = 0x0A then d\<lparr>current_position := (0, y + 1)\<rparr>
      else d\<lparr>vram := (vram d)[x + y * w := pixel d c], current_position := (x + 1, y)\<rparr>)"
    using ix y2 assms gen_pixel_palette [OF assms(7,8), of c]
    unfolding print_put_def uadd_def umul_def vec_set_def by simp
qed

lemma print_char_ok:
  assumes "disp_inv d"
  shows "print_char c d = Inr (put_char c d)" and "disp_inv (put_char c d)"
proof -
  obtain w h x y where p: "max_position d = (w, h)" "current_position d = (x, y)" by fastforce
  have I: "0 < w" "0 < h" "w * h < 2 ^ 64" "length (vram d) = w * h" "x < w" "y < h"
    and pal: "palette (color_background d)" "palette (color_foreground d)"
    using assms by (auto simp: disp_inv_def p)
  note put = print_put_ok(1) [OF p I(5,6,3,4) pal, of c] print_put_ok(2) [OF p I(5,6,3,4) pal]
  have le: "w \<le> w * h" using I(2) by simp
  define d1 where "d1 = (if c = 0x0A then d\<lparr>current_position := (0, y + 1)\<rparr>
      else d\<lparr>vram := (vram d)[x + y * w := pixel d c], current_position := (x + 1, y)\<rparr>)"
  define y1 where "y1 = (if c = 0x0A \<or> x + 1 = w then y + 1 else y)"
  define d2 where "d2 = (if w \<le> fst (current_position d1) then d1\<lparr>current_position := (0, snd (current_position d1) + 1)\<rparr> else d1)"
  have c1: "snd (current_position d1) + 1 < 2 ^ 64 \<or> c = 0x0A" using put(2) by (simp add: d1_def p)
  have w1: "print_wrap d1 = Inr d2"
    using put(2) I(1) unfolding print_wrap_def d2_def uadd_def by (auto simp: d1_def p)
  have d2: "max_position d2 = (w, h)" "length (vram d2) = w * h" "snd (current_position d2) = y1"
    using I by (auto simp: d2_def d1_def p y1_def)
  have "gen_pixel d1 0x20 = Inr (pixel d 0x20)" using gen_pixel_palette [OF pal] by (auto simp: d1_def)
  then have run: "print_char c d = print_scroll (pixel d 0x20) d2"
    unfolding print_char_def put(1) d1_def [symmetric] by (simp add: w1)
  obtain x2 where p2: "current_position d2 = (x2, y1)" using d2(3) by (cases "current_position d2") auto
  have "print_char c d = Inr (if h \<le> y1 then d2\<lparr>vram := drop w (vram d2) @ replicate w (pixel d 0x20), current_position := (x2, y1 - 1)\<rparr> else d2)"
    unfolding run by (rule print_scroll_ok [OF d2(1) p2 I(1,2,3) d2(2)])
  also have "\<dots> = Inr (put_char c d)"
    using p2 I by (auto simp: put_char_def p d2_def d1_def y1_def Let_def)
  finally show "print_char c d = Inr (put_char c d)" .
  show "disp_inv (put_char c d)"
    using I pal le by (auto simp: put_char_def disp_inv_def p Let_def)
qed

lemma print_ok: "disp_inv d \<Longrightarrow> print s d = Inr (fold put_char s d) \<and> disp_inv (fold put_char s d)"
  by (induction s arbitrary: d) (simp_all add: print_char_ok)


section \<open>Properties\<close>

text \<open>
  C8. The console refines the reference terminal: on a console that satisfies the invariant
  (the video memory has width times height cells, the cursor is inside, the colours are
  palette colours) \<^verbatim>\<open>print\<close> of any text never panics, never leaves the video memory, keeps
  the invariant, and has the effect of the reference terminal character by character, with
  line breaks, wrap-around and scrolling.
\<close>

theorem print_refines_terminal:
  assumes "disp_inv d"
  shows "print s d = Inr (fold put_char s d) \<and> disp_inv (fold put_char s d)"
  by (rule print_ok [OF assms])

theorem print_refines_terminal_witness:
  "let d = display_default\<lparr>vram := replicate 2 0, max_position := (2, 1)\<rparr> in
     print [0x41, 0x0A] d = Inr (fold put_char [0x41, 0x0A] d)"
  using print_refines_terminal [of "display_default\<lparr>vram := replicate 2 0, max_position := (2, 1)\<rparr>" "[0x41, 0x0A]"]
  by (simp add: disp_inv_def display_default_def palette_def)

lemma char_color_bound: "char_color c = Inr v \<Longrightarrow> v < 16"
  by (cases c) auto

lemma nibbles:
  fixes b f ch :: u16
  assumes "b < 16" and "f < 16" and "ch < 256"
  shows "(push_bit 12 b OR push_bit 8 f OR ch) AND 0xFF = ch"
    and "drop_bit 8 (push_bit 12 b OR push_bit 8 f OR ch) AND 0xF = f"
    and "drop_bit 12 (push_bit 12 b OR push_bit 8 f OR ch) = b"
proof -
  have bits: "bit b n \<Longrightarrow> n < 4" "bit f n \<Longrightarrow> n < 4" "bit ch n \<Longrightarrow> n < 8" for n
    using assms nat_bit_bound [of "unat b" 4 n] nat_bit_bound [of "unat f" 4 n] nat_bit_bound [of "unat ch" 8 n]
    by (simp_all add: word_less_nat_alt bit_unsigned_iff)
  have m: "(0xFF :: u16) = mask 8" "(0xF :: u16) = mask 4" by (simp_all add: mask_eq_exp_minus_1)
  show "(push_bit 12 b OR push_bit 8 f OR ch) AND 0xFF = ch"
    unfolding m by (rule bit_word_eqI) (auto simp: bit_simps dest: bits)
  show "drop_bit 8 (push_bit 12 b OR push_bit 8 f OR ch) AND 0xF = f"
    unfolding m by (rule bit_word_eqI) (auto simp: bit_simps dest: bits)
  show "drop_bit 12 (push_bit 12 b OR push_bit 8 f OR ch) = b"
    by (rule bit_word_eqI) (auto simp: bit_simps dest: bits)
qed


text \<open>
  A character below 256 can be read back from its cell: the low byte is the character,
  the next four bits the foreground colour and the highest four the background colour.
\<close>
theorem gen_pixel_readback:
  assumes "gen_pixel d c = Inr p" and "c < 256"
  shows "p AND 0xFF = ucast c \<and> char_color (color_foreground d) = Inr (ucast (drop_bit 8 p AND 0xF))
     \<and> char_color (color_background d) = Inr (ucast (drop_bit 12 p))"
proof -
  obtain b f where bf: "char_color (color_background d) = Inr b" "char_color (color_foreground d) = Inr f"
    and p: "p = push_bit 12 (ucast b) OR push_bit 8 (ucast f) OR ucast c"
    using assms(1) by (auto simp: gen_pixel_def res_bind_eq_Inr)
  have up: "(ucast x :: u16) < 16" if "x < 16" for x :: u8
    using that by (simp add: word_less_nat_alt unsigned_ucast_eq take_bit_nat_eq_self)
  have "(ucast c :: u16) < 256"
    using assms(2) by (simp add: word_less_nat_alt unsigned_ucast_eq take_bit_nat_eq_self)
  note N = nibbles [OF up [OF char_color_bound [OF bf(1)]] up [OF char_color_bound [OF bf(2)]] this]
  have down: "ucast (ucast x :: u16) = x" for x :: u8 by (rule bit_word_eqI) (simp add: bit_simps)
  show ?thesis unfolding p N bf down by simp
qed

theorem gen_pixel_readback_witness:
  "\<exists>p. gen_pixel display_default 0x41 = Inr p \<and> p AND 0xFF = 0x41"
proof -
  have "gen_pixel display_default 0x41 = Inr (pixel display_default 0x41)"
    by (rule gen_pixel_palette) (simp_all add: display_default_def palette_def)
  from this gen_pixel_readback [OF this] show ?thesis by auto
qed

text \<open>
  A character from U+0100 on spills into the colours: printing U+2500 in light red on
  black gives the cell of a zero character in light magenta on green.
\<close>

theorem gen_pixel_wide_char_defect:
  "gen_pixel display_default 0x2500 = Inr 0x2D00"
  by (simp add: gen_pixel_def display_default_def)

section \<open>Filling an area of the frame buffer\<close>

definition pixel_x :: "nat \<Rightarrow> nat \<Rightarrow> usize \<Rightarrow> nat" where
  "pixel_x base sx a = (a - base) div 4 mod sx"

definition pixel_y :: "nat \<Rightarrow> nat \<Rightarrow> usize \<Rightarrow> nat" where
  "pixel_y base sx a = (a - base) div 4 div sx"

definition color_byte :: "nat \<Rightarrow> u32 \<Rightarrow> usize \<Rightarrow> u8" where
  "color_byte base w a = ucast (drop_bit (8 * ((a - base) mod 4)) w)"

lemma write32_eq:
  assumes "base \<le> v" and "4 dvd v - base"
  shows "write32 v w m = (\<lambda>a. if v \<le> a \<and> a < v + 4 then color_byte base w a else m a)"
proof
  fix a
  obtain k where k: "v = base + 4 * k" using assms by (metis dvdE le_add_diff_inverse)
  have "color_byte base w (v + j) = ucast (drop_bit (8 * j) w)" if "j < 4" for j
    using that by (simp add: color_byte_def k)
  from this [of 0] this [of 1] this [of 2] this [of 3] show "write32 v w m a = (if v \<le> a \<and> a < v + 4 then color_byte base w a else m a)"
    by (auto simp: write32_def less_Suc_eq numeral_eq_Suc)
qed

lemma fill_row_ok:
  assumes "base \<le> v" and "4 dvd v - base" and "v + 4 * k < 2 ^ 64"
  shows "fill_row 4 (v + 4 * k) w v m = Some (Inr (\<lambda>a. if v \<le> a \<and> a < v + 4 * k then color_byte base w a else m a))"
  using assms
proof (induction k arbitrary: v m)
  case 0
  then show ?case by (subst fill_row.simps) (auto simp: fun_eq_iff)
next
  case (Suc k)
  have e: "v + 4 * Suc k = (v + 4) + 4 * k" by simp
  have "v + 4 - base = (v - base) + 4" using Suc.prems(1) by linarith
  then have d: "4 dvd v + 4 - base" using Suc.prems(2) by (simp only: dvd_add_triv_right_iff)
  have "fill_row 4 (v + 4 * Suc k) w v m = fill_row 4 ((v + 4) + 4 * k) w (v + 4) (write32 v w m)"
    using Suc.prems(3) by (subst fill_row.simps) (simp add: add.assoc)
  also have "\<dots> = Some (Inr (\<lambda>a. if v + 4 \<le> a \<and> a < (v + 4) + 4 * k then color_byte base w a else write32 v w m a))"
    using Suc.prems d by (intro Suc.IH) simp_all
  also have "(\<lambda>a. if v + 4 \<le> a \<and> a < (v + 4) + 4 * k then color_byte base w a else write32 v w m a)
      = (\<lambda>a. if v \<le> a \<and> a < v + 4 * Suc k then color_byte base w a else m a)"
    unfolding write32_eq [OF Suc.prems(1,2)] by auto
  finally show ?case .
qed

lemma umul_eqI: "a * b = c \<Longrightarrow> c < 2 ^ 64 \<Longrightarrow> umul a b = Inr c"
  by (simp add: umul_def)

lemma row_region:
  assumes "0 < sx" and "ex \<le> sx"
  shows "base + 4 * (sx * y) + 4 * bx \<le> a \<and> a < base + 4 * (sx * y) + 4 * ex
     \<longleftrightarrow> base \<le> a \<and> pixel_y base sx a = y \<and> bx \<le> pixel_x base sx a \<and> pixel_x base sx a < ex"
proof (cases "base \<le> a")
  case True
  define q where "q = (a - base) div 4"
  have q: "4 * q \<le> a - base" "a - base < 4 * q + 4" by (simp_all add: q_def)
  have "base + 4 * (sx * y) + 4 * bx \<le> a \<and> a < base + 4 * (sx * y) + 4 * ex \<longleftrightarrow> sx * y + bx \<le> q \<and> q < sx * y + ex"
    using True q by linarith
  also have "\<dots> \<longleftrightarrow> q div sx = y \<and> bx \<le> q mod sx \<and> q mod sx < ex"
  proof
    assume A: "sx * y + bx \<le> q \<and> q < sx * y + ex"
    then obtain r where r: "q = sx * y + r" "bx \<le> r" "r < ex" by (metis add_less_cancel_left add_le_cancel_left le_add1 le_iff_add le_trans)
    then show "q div sx = y \<and> bx \<le> q mod sx \<and> q mod sx < ex" using assms by simp
  next
    assume A: "q div sx = y \<and> bx \<le> q mod sx \<and> q mod sx < ex"
    moreover have "q = sx * (q div sx) + q mod sx" by simp
    ultimately show "sx * y + bx \<le> q \<and> q < sx * y + ex" by (metis add_le_cancel_left add_less_cancel_left)
  qed
  finally show ?thesis using True by (simp add: pixel_x_def pixel_y_def q_def)
qed auto

definition in_area :: "nat \<Rightarrow> nat \<Rightarrow> Position \<Rightarrow> Position \<Rightarrow> usize \<Rightarrow> bool" where
  "in_area base sx b e a \<longleftrightarrow> base \<le> a \<and> fst b \<le> pixel_x base sx a \<and> pixel_x base sx a < fst e
     \<and> snd b \<le> pixel_y base sx a \<and> pixel_y base sx a < snd e"

lemma fill_rows_ok:
  assumes sx: "0 < sx" "ex \<le> sx" "bx \<le> ex" and top: "base + 4 * (sx * y1) < 2 ^ 64" and "y0 \<le> y1"
  shows "fill_rows 4 (4 * sx) (4 * bx) (4 * ex) (base + 4 * (sx * y1)) w (base + 4 * (sx * y0)) m
     = Some (Inr (\<lambda>a. if in_area base sx (bx, y0) (ex, y1) a then color_byte base w a else m a))"
  using assms(5)
proof (induction "y1 - y0" arbitrary: y0 m)
  case 0
  then show ?case by (subst fill_rows.simps) (auto simp: in_area_def fun_eq_iff)
next
  case (Suc n)
  then have lt: "y0 < y1" by simp
  let ?v = "base + 4 * (sx * y0)"
  have next_row: "?v + 4 * sx = base + 4 * (sx * Suc y0)" by (simp add: algebra_simps)
  have le: "sx * Suc y0 \<le> sx * y1" using lt by (intro mult_le_mono2) simp
  have bound: "?v + 4 * sx < 2 ^ 64" using le top unfolding next_row by linarith
  then have b: "?v + 4 * ex < 2 ^ 64" "?v + 4 * bx < 2 ^ 64" using sx by linarith+
  have vlt: "?v < base + 4 * (sx * y1)" using sx(1) lt by simp
  define m1 where "m1 = (\<lambda>a. if ?v + 4 * bx \<le> a \<and> a < ?v + 4 * ex then color_byte base w a else m a)"
  have row: "fill_row 4 (?v + 4 * ex) w (?v + 4 * bx) m = Some (Inr m1)"
  proof -
    have e: "?v + 4 * bx + 4 * (ex - bx) = ?v + 4 * ex" using sx(3) by simp
    show ?thesis using fill_row_ok [of base "?v + 4 * bx" "ex - bx" w m] b unfolding e m1_def by simp
  qed
  have "fill_rows 4 (4 * sx) (4 * bx) (4 * ex) (base + 4 * (sx * y1)) w ?v m
      = fill_rows 4 (4 * sx) (4 * bx) (4 * ex) (base + 4 * (sx * y1)) w (base + 4 * (sx * Suc y0)) m1"
    using vlt b bound row by (subst fill_rows.simps) (simp add: next_row)
  also have "\<dots> = Some (Inr (\<lambda>a. if in_area base sx (bx, Suc y0) (ex, y1) a then color_byte base w a else m1 a))"
    using Suc.hyps lt by (intro Suc.hyps(1)) simp_all
  also have "(\<lambda>a. if in_area base sx (bx, Suc y0) (ex, y1) a then color_byte base w a else m1 a)
      = (\<lambda>a. if in_area base sx (bx, y0) (ex, y1) a then color_byte base w a else m a)"
    using row_region [OF sx(1,2), of base y0 bx] lt by (auto simp: m1_def in_area_def fun_eq_iff Suc_le_eq le_less)
  finally show ?case .
qed


lemma fill_area_ok:
  assumes "g_max_position d = (sx, sy)" and "byte_per_pixel d = 4" and "0 < sx"
    and "fst b \<le> fst e" and "fst e \<le> sx" and "snd b \<le> snd e"
    and "g_vram_addr d + 4 * (sx * snd e) < 2 ^ 64" and "4 * sx < 2 ^ 64" and "graphic_color d c = Inr w"
  shows "fill_area d b e c m =
     Some (Inr (\<lambda>a. if in_area (g_vram_addr d) sx b e a then color_byte (g_vram_addr d) w a else m a))"
proof -
  obtain bx y0 ex y1 where be: "b = (bx, y0)" "e = (ex, y1)" by fastforce
  let ?v = "g_vram_addr d"
  have I: "bx \<le> ex" "ex \<le> sx" "y0 \<le> y1" using assms(4-6) be by auto
  have m0: "sx * y0 \<le> sx * y1" using I(3) by simp
  have y: "y0 \<le> sx * y0" "y1 \<le> sx * y1" using assms(3) by simp_all
  have top: "?v + 4 * (sx * y1) < 2 ^ 64" using assms(7) be by simp
  have lt: "4 * bx < 2 ^ 64" "4 * ex < 2 ^ 64" "4 * y0 < 2 ^ 64" "4 * y1 < 2 ^ 64" "4 * (sx * y0) < 2 ^ 64"
    "4 * (sx * y1) < 2 ^ 64" "?v + 4 * (sx * y0) < 2 ^ 64"
    using I assms(8) top m0 y by linarith+
  note ar = umul_eqI [of bx 4, OF _ lt(1)] umul_eqI [of ex 4, OF _ lt(2)] umul_eqI [of y0 4, OF _ lt(3)]
    umul_eqI [of y1 4, OF _ lt(4)] umul_eqI [of "4 * y0" sx, OF _ lt(5)] umul_eqI [of "4 * y1" sx, OF _ lt(6)]
    umul_eqI [of sx 4, OF _ assms(8)]
  have ad: "uadd ?v (4 * (sx * y1)) = Inr (?v + 4 * (sx * y1))" "uadd ?v (4 * (sx * y0)) = Inr (?v + 4 * (sx * y0))"
    using top lt(7) by (simp_all only: uadd_def if_True)
  show ?thesis
    using fill_rows_ok [OF assms(3) I(2,1) top I(3), of w m] assms(9)
    unfolding fill_area_def Let_def be fst_conv snd_conv assms(1,2) by (simp add: ar ad)
qed



end
