(* ===== verification/Boot_Theorems.thy ===== *)
theory Boot_Theorems
  imports Boot Graphic_Theorems
begin

text \<open>
  What start-up does to the console and to the frame buffer.
\<close>

section \<open>Start-up on x86_32\<close>

lemma fill_display_loop_returns:
  "(\<forall>i \<in> set is. bs + 4 * i < 2 ^ 64) \<Longrightarrow> \<exists>m'. fill_display_loop bs w is m = Inr m'"
  by (induction "is" arbitrary: m) (auto simp: umul_def uadd_def mult.commute)

definition x86_32_screen :: GraphicalDisplay where
  "x86_32_screen = \<lparr>g_vram_addr = 0xFD000000, g_max_position = (640, 480),
     bit_info = \<lparr>size_r = 8, size_g = 8, size_b = 8, size_rsvd = 8, pos_r = 16, pos_g = 8, pos_b = 0, pos_rsvd = 24\<rparr>,
     byte_per_pixel = 4\<rparr>"

lemma x86_32_screen_simps:
  "g_vram_addr x86_32_screen = 0xFD000000" "g_max_position x86_32_screen = (640, 480)" "byte_per_pixel x86_32_screen = 4"
  by (simp_all add: x86_32_screen_def)

lemma x86_32_display_eq: "x86_32_display = Inr x86_32_screen"
  by (simp add: x86_32_display_def graphical_new_def u8_add_def x86_32_screen_def)

lemma fill_area_by_size_ok:
  assumes "x + w \<le> 640" "y + h \<le> 2000" "graphic_color x86_32_screen c = Inr v"
  shows "fill_area_by_size x86_32_screen (x, y) (w, h) c m =
    Some (Inr (\<lambda>a. if in_area 0xFD000000 640 (x, y) (x + w, y + h) a then color_byte 0xFD000000 v a else m a))"
  using assms fill_area_ok[of x86_32_screen 640 480 "(x, y)" "(x + w, y + h)" c v m]
  by (simp add: fill_area_by_size_def uadd_def x86_32_screen_simps cong: if_cong)

lemma fill_display_returns:
  assumes "graphic_color x86_32_screen c = Inr v"
  shows "\<exists>m'. fill_display x86_32_screen c m = Inr m'"
proof -
  have "\<exists>m'. fill_display_loop 0xFD000000 v [0..<307200] m = Inr m'"
    by (rule fill_display_loop_returns) auto
  then show ?thesis using assms by (simp add: fill_display_def x86_32_screen_def umul_def)
qed

lemma code_color: "\<exists>v. graphic_color x86_32_screen (Code rgb) = Inr v"
  by (simp add: Let_def compose_color_def u32_shl_def x86_32_screen_def)

text \<open>
  C40. Start-up on x86_32 draws past the end of the frame buffer: its first rectangle is 480 rows
  high and starts at row 453, so for every memory the first byte behind the 640 by 480 pixels
  is overwritten with the rectangle's grey when the machine halts.
\<close>
theorem x86_32_init_overruns:
  assumes "argv \<noteq> []" and "\<forall>m. mboot (hd argv) (paddr_to_slice m)"
  shows "\<exists>m'. x86_32_init mboot argv m = Some (Inr m') \<and> m' (0xFD000000 + 4 * (640 * 480)) = 0xC6"
proof -
  obtain m1 where m1: "fill_display x86_32_screen (Code 0xD7003A) m = Inr m1"
    using code_color fill_display_returns by blast
  have g: "graphic_color x86_32_screen (Code 0xC6C6C6) = Inr 0xC6C6C6"
    by (simp add: Let_def compose_color_def u32_shl_def x86_32_screen_def)
  have "\<exists>m'. fill_areas x86_32_screen x86_32_areas m1 = Some (Inr m') \<and> m' (0xFD000000 + 4 * (640 * 480)) = 0xC6"
  proof -
    obtain v1 v2 v3 where v: "graphic_color x86_32_screen (Code 0xFFFFFF) = Inr v1"
      "graphic_color x86_32_screen (Code 0x848484) = Inr v2" "graphic_color x86_32_screen (Code 0x000001) = Inr v3"
      using code_color by meson
    have o: "\<not> in_area 0xFD000000 640 (x, y) (x + w, y + h) (0xFD000000 + 4 * (640 * 480))" if "0 < x" for x y w h
      using that by (simp add: in_area_def pixel_x_def)
    have i: "in_area 0xFD000000 640 (0, 453) (640, 933) (0xFD000000 + 4 * (640 * 480))"
      by (simp add: in_area_def pixel_x_def pixel_y_def)
    show ?thesis
      using o[of 3 456 60 1] o[of 3 476 60 2] o[of 3 456 1 20] o[of 61 457 1 20] o[of 62 457 1 20] i
      by (simp add: x86_32_areas_def fill_area_by_size_ok[OF _ _ g] fill_area_by_size_ok[OF _ _ v(1)]
          fill_area_by_size_ok[OF _ _ v(2)] fill_area_by_size_ok[OF _ _ v(3)] color_byte_def)
  qed
  then show ?thesis
    using assms m1 by (cases argv) (auto simp: x86_32_init_def x86_32_display_eq vec_get_def)
qed

theorem x86_32_init_overruns_witness:
  "\<exists>m'. x86_32_init (\<lambda>_ _. True) [0x1000] (\<lambda>_. 0) = Some (Inr m') \<and> m' (0xFD000000 + 4 * (640 * 480)) = 0xC6"
  using x86_32_init_overruns[of "[0x1000]" "\<lambda>_ _. True" "\<lambda>_. 0"] by simp

section \<open>The log\<close>

definition blank_console :: "'l boot_env \<Rightarrow> CharacterDisplay" where
  "blank_console V = display_default\<lparr>vram_addr := 0xB8000 + KERNEL_ADDR_VIRTUAL_OFFSET (be_symbols V),
     vram := replicate (80 * 25) (pixel display_default 0x20), max_position := (80, 25)\<rparr>"

lemma default_palette: "palette (color_background display_default)" "palette (color_foreground display_default)"
  by (simp_all add: display_default_def palette_def)

lemma blank_console_inv: "disp_inv (blank_console V)"
  using default_palette by (simp add: disp_inv_def blank_console_def) (simp add: display_default_def)

lemma obtain_kernel_console_ok:
  assumes "\<And>n. length (be_raw_vram V n) = n" and "0xB8000 + KERNEL_ADDR_VIRTUAL_OFFSET (be_symbols V) < 2 ^ 64"
  shows "obtain_kernel_console V = Inr (Some (blank_console V))"
proof -
  let ?d = "display_default\<lparr>vram_addr := 0xB8000 + KERNEL_ADDR_VIRTUAL_OFFSET (be_symbols V),
     vram := be_raw_vram V 2000, max_position := (80, 25)\<rparr>"
  have a: "area_from_origin (80, 25) = Inr 2000" by (simp add: area_from_origin_def umul_def)
  have g: "gen_pixel ?d c = Inr (pixel display_default c)" for c
    using gen_pixel_palette [OF default_palette, of c] by (simp add: gen_pixel_def)
  have "fill_cells (pixel display_default 0x20) [0..<2000] (vram ?d) = Inr (replicate 2000 (pixel display_default 0x20))"
    using fill_cells_range [of 0 2000 "vram ?d"] assms(1) [of 2000] by simp
  then show ?thesis
    using assms(2) a g by (simp add: obtain_kernel_console_def VRAM_ADDR_def to_virtual_addr_def display_new_def
        clear_screen_def blank_console_def)
qed

text \<open>
  The console as the users of \<^verbatim>\<open>println!\<close> see it: a well-formed display, or none before the first
  line.  A line appears on the reference terminal, which the first one clears.
\<close>

definition console_ready :: "'l boot_env \<Rightarrow> bool" where
  "console_ready V \<longleftrightarrow> (\<forall>n. length (be_raw_vram V n) = n) \<and> 0xB8000 + KERNEL_ADDR_VIRTUAL_OFFSET (be_symbols V) < 2 ^ 64"

definition context_inv :: "Context \<Rightarrow> bool" where
  "context_inv con \<longleftrightarrow> (case con of None \<Rightarrow> True | Some None \<Rightarrow> False | Some (Some d) \<Rightarrow> disp_inv d)"

definition context_display :: "'l boot_env \<Rightarrow> Context \<Rightarrow> CharacterDisplay" where
  "context_display V con = (case con of Some (Some d) \<Rightarrow> d | _ \<Rightarrow> blank_console V)"

definition log_shown :: "'l boot_env \<Rightarrow> string \<Rightarrow> Context \<Rightarrow> Context" where
  "log_shown V s con = Some (Some (fold put_char (text_of s @ [0x0A]) (context_display V con)))"

lemma context_display_inv: "context_inv con \<Longrightarrow> disp_inv (context_display V con)"
  using blank_console_inv by (auto simp: context_inv_def context_display_def split: option.splits)

lemma log_console:
  assumes "console_ready V"
  shows "console (log_println V) context_inv (log_shown V)"
proof
  fix con s assume i: "context_inv con"
  note p = print_ok [OF context_display_inv [OF i, of V], of "text_of s @ [0x0A]"]
  have "global_context V con = Inr (Some (context_display V con))"
    using i assms obtain_kernel_console_ok [of V]
    by (auto simp: global_context_def context_inv_def context_display_def console_ready_def split: option.splits)
  then show "log_println V s con = Inr (log_shown V s con)"
    using p by (simp add: log_println_def log_print_def write_str_def log_shown_def)
  show "context_inv (log_shown V s con)" using p by (simp add: context_inv_def log_shown_def)
qed

lemma log_shown_fold:
  assumes "lines \<noteq> []"
  shows "fold (log_shown V) lines con
     = Some (Some (fold put_char (concat (map (\<lambda>s. text_of s @ [0x0A]) lines)) (context_display V con)))"
  using assms
proof (induction lines arbitrary: con)
  case (Cons s lines)
  then show ?case by (cases "lines = []") (simp_all add: log_shown_def context_display_def)
qed simp

text \<open>
  C23. The log from the first line on: \<^verbatim>\<open>println!\<close> never panics, the first use of the global context
  clears an 80 by 25 console behind the kernel's offset, and after any number of lines the
  console is the reference terminal after all their characters.
\<close>

theorem log_lines_refine_terminal:
  assumes "\<forall>n. length (be_raw_vram V n) = n" and "0xB8000 + KERNEL_ADDR_VIRTUAL_OFFSET (be_symbols V) < 2 ^ 64"
    and "lines \<noteq> []"
  shows "print_lines (log_println V) lines None
     = Inr (Some (Some (fold put_char (concat (map (\<lambda>s. text_of s @ [0x0A]) lines)) (blank_console V))))"
proof -
  have r: "console_ready V" using assms(1,2) by (simp add: console_ready_def)
  have "context_inv None" by (simp add: context_inv_def)
  from console.print_lines_ok [OF log_console [OF r] this] log_shown_fold [OF assms(3), of V None]
  show ?thesis by (simp add: context_display_def)
qed

theorem log_lines_refine_terminal_witness:
  "\<exists>V :: nat list boot_env. print_lines (log_println V) [''H'', ''i''] None
     = Inr (Some (Some (fold put_char [0x48, 0x0A, 0x69, 0x0A] (blank_console V))))"
proof -
  obtain V :: "nat list boot_env" where V: "be_raw_vram V = (\<lambda>n. replicate n 0)" "KERNEL_ADDR_VIRTUAL_OFFSET (be_symbols V) = 0x40000000"
    by (rule that [of "undefined\<lparr>be_raw_vram := (\<lambda>n. replicate n 0), be_symbols := undefined\<lparr>KERNEL_ADDR_VIRTUAL_OFFSET := 0x40000000\<rparr>\<rparr>"]) simp_all
  have "print_lines (log_println V) [''H'', ''i''] None
     = Inr (Some (Some (fold put_char (concat (map (\<lambda>s. text_of s @ [0x0A]) [''H'', ''i''])) (blank_console V))))"
    by (rule log_lines_refine_terminal) (use V in simp_all)
  then show ?thesis by (intro exI [of _ V]) (simp add: text_of_def)
qed

end
