(* ===== verification/Paging_Switch.thy ===== *)
theory Paging_Switch
  imports Paging_Find Paging_Boot
begin

text \<open>
  Building a second page table and switching to it: a scratch page that shows a table which is
  not part of the active tree, \<^verbatim>\<open>InActivePageTable::new\<close>, \<^verbatim>\<open>ActivePageTable::with\<close> and
  \<^verbatim>\<open>switch\<close>.
\<close>

section \<open>Trees that are not touched\<close>

text \<open>The structure of a tree depends only on the entries below 511 of its own tables.\<close>

definition same_tree :: "(nat \<rightharpoonup> nat) \<Rightarrow> machine \<Rightarrow> machine \<Rightarrow> bool" where
  "same_tree lv m m' \<longleftrightarrow> (\<forall>t \<in> dom lv. \<forall>i < 511. phys m' t i = phys m t i)"

lemma stable_table_outside:
  assumes "F \<notin> dom lv" and "\<And>m'. cr3 m' = cr3 m \<Longrightarrow> same_tree lv m m' \<Longrightarrow> shows_table m' va F"
  shows "stable_table m va F"
  unfolding stable_table_def
proof (intro allI impI)
  fix m' :: machine assume m': "cr3 m' = cr3 m \<and> (\<forall>u. u \<noteq> F \<longrightarrow> phys m' u = phys m u)"
  then have "same_tree lv m m'" using assms(1) unfolding same_tree_def by metis
  with m' show "shows_table m' va F" by (intro assms(2)) simp_all
qed

lemma same_tree_refl [simp]: "same_tree lv m m"
  by (simp add: same_tree_def)

lemma same_tree_trans: "same_tree lv m m' \<Longrightarrow> same_tree lv m' m'' \<Longrightarrow> same_tree lv m m''"
  by (simp add: same_tree_def)

lemma tree_inv_cong:
  assumes "tree_inv m G lv" and "same_tree lv m m'"
  shows "tree_inv m' G lv"
proof -
  have e: "phys m' t i = phys m t i" if "lv t = Some l" "i < 511" for t l i
    using that assms(2) by (auto simp: same_tree_def)
  then have l: "links_to m' t i f \<longleftrightarrow> links_to m t i f" if "lv t = Some l" "i < 511" for t l i f
    using that by (simp add: links_to_def)
  note D = tree_invD [OF assms(1)]
  show ?thesis
    unfolding tree_inv_def
  proof (intro conjI allI ballI impI)
    show "lv G = Some 4" by (rule D(1))
  next
    fix t i assume "t \<in> dom lv" "i < (511 :: nat)"
    then show "phys m' t i < 2 ^ 48" "\<not> present (phys m' t i) \<Longrightarrow> phys m' t i = 0"
      using e D(2,3) by auto
  next
    fix t i f k assume "lv t = Some (Suc (Suc k)) \<and> i < 511 \<and> links_to m' t i f"
    then show "lv f = Some (Suc k)" using l D(4) by blast
  next
    fix t i t' i' f k k'
    assume "lv t = Some (Suc (Suc k)) \<and> lv t' = Some (Suc (Suc k')) \<and> i < 511 \<and> i' < 511
      \<and> links_to m' t i f \<and> links_to m' t' i' f"
    then show "t = t'" "i = i'" using l D(5) [of t k t' k' i i' f] by blast+
  qed
qed

lemma look_cong_tree:
  assumes T: "tree_inv m G lv" and S: "same_tree lv m m'"
    and "lv u = Some (length js)" and "\<forall>j \<in> set js. j < 511"
  shows "look m' u js = look m u js"
  using assms(3,4)
proof (induction js arbitrary: u)
  case (Cons j js)
  then have e: "phys m' u j = phys m u j" using S by (auto simp: same_tree_def)
  show ?case
  proof (cases "present (phys m u j) \<and> \<not> huge (phys m u j) \<and> js \<noteq> []")
    case True
    then obtain k where k: "length js = Suc k" by (cases js) auto
    have "lv (entry_frame (phys m u j)) = Some (length js)"
      using tree_invD(4) [OF T, of u k j] Cons.prems True k by (simp add: links_to_def)
    with Cons.IH [OF this] Cons.prems True e show ?thesis by simp
  qed (use e in auto)
qed simp

lemma look_same_tree:
  assumes "tree_inv m G lv" and "same_tree lv m m'" and "plain js"
  shows "look m' G js = look m G js"
  using look_cong_tree [OF assms(1,2), of G js] tree_invD(1) [OF assms(1)] assms(3) by (simp add: plain_def)

lemma first_free:
  assumes "find P [1..<512] = Some i" and "\<exists>j. 1 \<le> j \<and> j < k \<and> P j" and "k \<le> 512"
  shows "i < k" and "P i" and "1 \<le> i"
proof -
  obtain n where n: "n < 511" "i = Suc n" "P i" "\<And>l. l < n \<Longrightarrow> \<not> P (Suc l)"
    using assms(1) by (auto simp: find_Some_iff nth_upt)
  show "P i" "1 \<le> i" using n by simp_all
  obtain j where j: "1 \<le> j" "j < k" "P j" using assms(2) by blast
  then have "\<not> j - 1 < n" using n(4) [of "j - 1"] by auto
  then show "i < k" using j n(2) by linarith
qed

lemma scratch_address:
  assumes "i4 < 256"
  shows "page_address \<lparr>page_number = i4 * 512 ^ 3 + 512 ^ 2 + 512 + 1\<rparr> = Inr (mk_va i4 1 1 1 0)"
  using assms by (simp add: page_address_def PAGE_SIZE_def umul_def mk_va_def)

context paging
begin

lemma create_existing:
  assumes inv: "pinv G (m, a) U lv" and w: "walk m G (is @ [i]) = Some f" and len: "length is \<le> 2"
    and ix: "\<forall>j \<in> set (is @ [i]). j < 511"
  shows "next_level_table_create_mut E (table_va is) i (m, a) = Inr (Some (table_va (is @ [i])), (m, a))"
proof -
  obtain t where t: "walk m G is = Some t" "links_to m t i f" using w by (auto simp: walk_snoc)
  have sh: "shows_table m (table_va is) t" by (rule walk_shows [OF inv t(1)]) (use len ix in auto)
  have "next_level_table_mut (pe_flags E) m (table_va is) i = Inr (Some (table_va (is @ [i])))"
    using next_level_ok [OF sh len, of i] ix t(2) by (force simp: links_to_def)
  then show ?thesis by (simp add: next_level_table_create_mut_def)
qed

lemma map_existing:
  assumes inv: "pinv G (m, a) U lv" and w: "walk m G [i4, i3, i2] = Some t" and pl: "plain [i4, i3, i2, i1]"
    and e0: "phys m t i1 = 0" and pa: "page_address page = Inr pg" and ix: "indices pg = [i4, i3, i2, i1]"
    and n: "number fr < 2 ^ 36"
  shows "map_page E page fr (m, a) = Inr (Inr (), (mset t i1 (frame_entry (number fr) 0) m, a))"
proof -
  have L4: "LEVEL4_PAGE_TABLE = table_va []" by (simp add: LEVEL4_PAGE_TABLE_def level4_table_va)
  have lt: "i4 < 511" "i3 < 511" "i2 < 511" "i1 < 511" using pl by (simp_all add: plain4)
  have idx: "level4_index pg = i4" "level3_index pg = i3" "level2_index pg = i2" "level1_index pg = i1"
    using ix by (simp_all add: indices_def)
  obtain f3 f2 where f: "walk m G [i4] = Some f3" "walk m G [i4, i3] = Some f2"
    using w walk_snoc [of m G "[i4, i3]" i2 t] walk_snoc [of m G "[i4]" i3] by (auto simp del: walk.simps)
  have c: "next_level_table_create_mut E (table_va []) i4 (m, a) = Inr (Some (table_va [i4]), (m, a))"
    "next_level_table_create_mut E (table_va [i4]) i3 (m, a) = Inr (Some (table_va [i4, i3]), (m, a))"
    "next_level_table_create_mut E (table_va [i4, i3]) i2 (m, a) = Inr (Some (table_va [i4, i3, i2]), (m, a))"
    using create_existing [OF inv, of "[]" i4 f3] create_existing [OF inv, of "[i4]" i3 f2]
      create_existing [OF inv, of "[i4, i3]" i2 t] f w lt by (simp_all del: walk.simps table_va.simps)
  have sh: "shows_table m (table_va [i4, i3, i2]) t" by (rule walk_shows [OF inv w]) (use lt in auto)
  have "entry_update (table_va [i4, i3, i2]) i1 (set_frame_addr (pe_flags E) (number fr * 4096)) m
      = Inr (mset t i1 (frame_entry (number fr) 0) m)"
    using lt by (intro entry_update_ok [OF sh]) (simp_all add: e0 set_frame_addr_ok [OF n])
  then show ?thesis
    unfolding map_page_def L4 pa frame_address_ok [OF n] res_bind_simps idx
    using lt by (simp add: c and_then_def entry_access [OF sh] contains_PRESENT e0 del: table_va.simps)
qed

section \<open>A scratch page\<close>

text \<open>
  \<^verbatim>\<open>find_empty_page\<close> and \<^verbatim>\<open>map\<close> of the page it returns: the page shows the frame as long as the
  tables of the tree stay as they are.
\<close>

lemma scratch_ok:
  assumes inv: "pinv G (m, a) U lv" and G: "cr3 m = G"
    and free: "\<exists>i. 1 \<le> i \<and> i < 256 \<and> \<not> present (phys m G i)" and n: "number fr < 2 ^ 36"
  obtains (none) st' U' lv' where "find_empty_page E (m, a) = Inr (None, st')"
      "pinv G st' U' lv'" "pext G (m, a) U lv st' U' lv'" "budget (managed a) 3 True U U'"
  | (page) page va m1 m' a' U' lv' i4 where
      "find_empty_page E (m, a) = Inr (Some page, (m1, a'))"
      "map_page E page fr (m1, a') = Inr (Inr (), (m', a'))" "page_address page = Inr va"
      "pinv G (m', a') U' lv'" "pt_grow managed (m, a) U lv (m', a') U' lv'"
      "\<forall>js. plain js \<and> look m G js \<noteq> None \<longrightarrow> look m' G js = look m G js"
      "\<forall>j. j \<noteq> i4 \<longrightarrow> phys m' G j = phys m G j" "1 \<le> i4" "i4 < 256" "\<not> present (phys m G i4)"
      "\<And>m''. cr3 m'' = G \<Longrightarrow> same_tree lv' m' m'' \<Longrightarrow> shows_table m'' va (number fr)"
      "budget (managed a) 3 False U U'"
proof (cases rule: find_empty_pages_ok [OF inv, of 1])
  case (3 st' U' lv')
  obtain i where "i \<in> set [1..<512]" "\<not> present (phys m G i)" using free by force
  then have "find (\<lambda>i. \<not> present (phys m G i)) [1..<512] \<noteq> None" by (metis (no_types, lifting) find_None_iff)
  then have "budget (managed a) 3 True U U'" using 3(4) by (elim disjE) (erule notE)
  then show ?thesis by (intro none [OF _ 3(2,3)]) (use 3(1) in \<open>simp add: find_empty_page_def\<close>)
next
  case (4 m1 a' U' lv' i4 t)
  note i4 = first_free [OF 4(4) free]
  have lt: "i4 < 256" "\<not> present (phys m G i4)" "1 \<le> i4" using i4 by simp_all
  let ?va = "mk_va i4 1 1 1 0" and ?m = "mset t 1 (frame_entry (number fr) 0) m1"
  have ix: "indices ?va = [i4, 1, 1, 1]" using mk_va_indices(1) [of i4 1 1 1 0] lt by simp
  have pl: "plain [i4, 1, 1, 1]" using lt by (simp add: plain4)
  have e0: "phys m1 t 1 = 0" using 4(8) by simp
  note run = map_existing [OF 4(2,7) pl e0 scratch_address [OF lt(1)] ix n]
  have v: "frame_entry (number fr) 0 < 2 ^ 48" "present (frame_entry (number fr) 0)"
      "entry_frame (frame_entry (number fr) 0) = number fr" using frame_entry_simps [OF n, of 0] by simp_all
  note leaf = leaf_ok [OF 4(2,7) pl v(1)]
  have p: "pinv G (?m, a') U' lv'" using leaf(3) v(2) by simp
  have lk: "look ?m G js = (if js = [i4, 1, 1, 1] then Some (number fr, []) else look m1 G js)" if "plain js" for js
    using leaf(4) [OF _ that] v by simp
  have x: "look m1 G js = look m G js" if "plain js" for js using pext_plain [OF 4(3) that] .
  have no: "look m G [i4, 1, 1, 1] = None" using lt(2) by simp
  have tG: "t \<noteq> G" using leaf(2) v(2) tree_invD(1) [OF pinvD(1) [OF 4(2)]] by auto
  have np: "\<not> present (phys m1 t (Suc 0))" using e0 by simp
  have lvt: "lv' t = Some (Suc 0)" using leaf(2) v(2) by simp
  have g: "pt_grow managed (m, a) U lv (?m, a') U' lv'"
    by (rule pt_grow_trans [OF pt_extD(1) [OF 4(3)]]) (use lvt np in \<open>auto simp: pt_grow_def fun_eq_iff\<close>)
  have sh: "shows_table m'' ?va (number fr)" if "cr3 m'' = G" "same_tree lv' ?m m''" for m''
    using look_shows_table [of m'' i4 1 1 1 "number fr"] look_same_tree [OF pinvD(1) [OF p] that(2) pl] lk [OF pl] that(1) lt
    by simp
  show ?thesis
    by (rule page [OF _ run scratch_address [OF lt(1)] p g _ _ lt(3,1,2) sh])
      (use 4(1,9,10) lk x no tG in \<open>auto simp: find_empty_page_def\<close>)
qed simp_all

section \<open>A new root table\<close>

text \<open>\<open>fresh_root F\<close>: an empty table with its recursive entry, in an allocated frame outside the tree.\<close>

definition fresh_root :: "nat \<Rightarrow> machine \<Rightarrow> (nat \<times> nat) set \<Rightarrow> (nat \<rightharpoonup> nat) \<Rightarrow> bool" where
  "fresh_root F m U lv \<longleftrightarrow> F \<notin> dom lv \<and> F < 2 ^ 36 \<and> F \<in> cells U
     \<and> (\<forall>j < 511. phys m F j = 0) \<and> links_to m F 511 F"

lemma empty_table_self:
  assumes "F < 2 ^ 36"
  shows "links_to (empty_table F m) F 511 F" "j < 511 \<Longrightarrow> phys (empty_table F m) F j = 0"
    "u \<noteq> F \<Longrightarrow> phys (empty_table F m) u = phys m u" "cr3 (empty_table F m) = cr3 m"
  using frame_entry_simps [OF assms, of 0]
  by (simp_all add: empty_table_def links_to_def or_writable_simps)

lemma empty_table_outside:
  assumes inv: "pinv G (m, a) U lv" and G: "cr3 m = G" and F: "F < 2 ^ 36" "F \<notin> dom lv"
  shows "pinv G (empty_table F m, a) U lv" "plain js \<Longrightarrow> look (empty_table F m) G js = look m G js"
    "cr3 (empty_table F m) = G" "phys (empty_table F m) G = phys m G"
proof -
  note I = pinvD [OF inv] and E = empty_table_self [OF F(1), where m = m]
  have same: "same_tree lv m (empty_table F m)" using F(2) E(3) unfolding same_tree_def by metis
  have GF: "G \<noteq> F" using F(2) tree_invD(1) [OF I(1)] by auto
  show c: "cr3 (empty_table F m) = G" "phys (empty_table F m) G = phys m G"
    using E(3) [OF GF] E(4) G by simp_all
  have "rec_root (empty_table F m) G" by (rule rec_root_cong [OF I(2)]) (use c G in auto)
  then show "pinv G (empty_table F m, a) U lv"
    using tree_inv_cong [OF I(1) same] I G c by (simp add: pt_inv_def)
  show "plain js \<Longrightarrow> look (empty_table F m) G js = look m G js" using look_same_tree [OF I(1) same] .
qed

lemma inactive_ok:
  assumes inv: "pinv G (m, a) U lv" and G: "cr3 m = G"
    and free: "\<exists>i. 1 \<le> i \<and> i < 256 \<and> \<not> present (phys m G i)"
  obtains (none) a' where "inactive_new E (m, a) = Inr (None, (m, a'))" "pinv G (m, a') U lv" "managed a' = managed a"
      "avail (managed a) U = 0"
  | (panic) "inactive_new E (m, a) = Inl UnwrapNone" "avail (managed a) U \<le> 4"
  | (table) fr m' a' U' lv' i4 where
      "inactive_new E (m, a) = Inr (Some \<lparr>level4_page_table = fr\<rparr>, (m', a'))"
      "pinv G (m', a') U' lv'" "fresh_root (number fr) m' U' lv'" "cr3 m' = G" "managed a' = managed a"
      "\<forall>js. plain js \<and> look m G js \<noteq> None \<longrightarrow> look m' G js = look m G js"
      "\<forall>j. j \<noteq> i4 \<longrightarrow> phys m' G j = phys m G j" "1 \<le> i4" "i4 < 256" "\<not> present (phys m G i4)"
      "budget (managed a) 4 False U U'"
proof (cases rule: alloc_frame_cases [OF inv])
  case (1 a')
  then show ?thesis using none by (simp add: inactive_new_def)
next
  case A: (2 fr a1)
  let ?F = "number fr" and ?U = "insert (number fr, 0) U"
  have n: "number (frame_clone fr) < 2 ^ 36" using A(4) by (simp add: frame_clone_def)
  show ?thesis
  proof (cases rule: scratch_ok [OF A(2) G free n])
    case (1 st' U')
    have "budget (managed a) 4 True U U'"
      using budget_trans [OF budget_insert 1(4) [unfolded A(3)]] by simp
    then show ?thesis by (intro panic) (use 1(1) A(1) budget_failed in \<open>auto simp: inactive_new_def\<close>)
  next
    case (2 page va m1 m' a' U' lv' i4)
    have gr: "dom lv' - dom lv \<subseteq> managed a1 - cells ?U" "U' = ?U \<union> (\<lambda>f. (f, 0)) ` (dom lv' - dom lv)"
      "managed a' = managed a1" "cr3 m' = cr3 m"
      using 2(5) by (auto simp: pt_grow_def)
    have nF: "?F \<notin> dom lv'" using gr(1) A(6,8) by auto
    have "stable_table m' va ?F"
      by (rule stable_table_outside [OF nF]) (use 2(11) gr(4) G in \<open>simp add: frame_clone_def\<close>)
    then obtain m2 m3 where run: "clear_all_entries va m' = Inr m2"
        "entry_update va 511 (set_frame_addr (pe_flags E) (?F * 4096)) m2 = Inr m3"
        "entry_update va 511 (\<lambda>e. Inr (set_flags (pe_flags E) WRITABLE e)) m3 = Inr (empty_table ?F m')"
      using init_table_run A(4) by blast
    let ?m = "empty_table ?F m'"
    have r: "inactive_new E (m, a) = Inr (Some \<lparr>level4_page_table = fr\<rparr>, (?m, a'))"
      unfolding inactive_new_def Let_def
      using A(1) 2(1-3) run frame_address_ok [OF A(4)] by simp
    have c': "cr3 m' = G" using gr(4) G by simp
    note E = empty_table_outside [OF 2(4) c' A(4) nF]
    have "?F \<in> cells U'" unfolding gr(2) cells_Un_singletons A(8) by simp
    then have fr: "fresh_root ?F ?m U' lv'"
      using nF A(4) empty_table_self(1,2) [OF A(4)] by (simp add: fresh_root_def)
    have lk: "\<forall>js. plain js \<and> look m G js \<noteq> None \<longrightarrow> look ?m G js = look m G js" using 2(6) E(2) by simp
    show ?thesis
      by (rule table [OF r E(1) fr _ _ lk _ 2(8-10)])
        (use E(3,4) gr(3) A(3) 2(7) budget_trans [OF budget_insert 2(12) [unfolded A(3)]] in auto)
  qed
qed

end

end
