(* ===== verification/Paging_Remap.thy ===== *)
theory Paging_Remap
  imports Paging_Switch Paging_State
begin

text \<open>
  \<^verbatim>\<open>ActivePageTable::with\<close> on a table made by \<^verbatim>\<open>InActivePageTable::new\<close>, \<^verbatim>\<open>switch\<close>, and the
  mapping of a list of pages, to which the loops of \<^verbatim>\<open>paging::init\<close> reduce.
\<close>

section \<open>Mapping a list of pages\<close>

text \<open>Pairs of a page number and a frame number, mapped one after the other until one fails.\<close>

fun map_all :: "'a paging_env \<Rightarrow> (nat \<times> nat) list \<Rightarrow> 'a pstate \<Rightarrow> ((PageTableError + unit) \<times> 'a pstate) res" where
  "map_all E [] st = Inr (Inr (), st)"
| "map_all E ((v, p) # ps) st =
     res_bind (map_page E (page_from_address (4096 * v)) (frame_from_address (4096 * p)) st) (\<lambda>(r, st').
     case r of Inl e \<Rightarrow> Inr (Inl e, st') | Inr _ \<Rightarrow> map_all E ps st')"

lemma map_all_append:
  "map_all E (ps @ qs) st =
     res_bind (map_all E ps st) (\<lambda>(r, st'). case r of Inl e \<Rightarrow> Inr (Inl e, st') | Inr _ \<Rightarrow> map_all E qs st')"
proof (induction ps arbitrary: st)
  case (Cons x ps)
  obtain v p where x: "x = (v, p)" by (cases x)
  show ?case
    by (cases "map_page E (page_from_address (4096 * v)) (frame_from_address (4096 * p)) st")
      (auto simp: x Cons.IH split: sum.splits)
qed simp

definition kernel_pages :: "nat \<Rightarrow> nat \<Rightarrow> nat \<Rightarrow> (nat \<times> nat) list" where
  "kernel_pages v p n = map (\<lambda>k. (v + k, p + k)) [0..<n]"

lemma map_fitting_loop_all:
  assumes "4096 * (v + o4 + n) < 2 ^ 64" and "4096 * (p + o4 + n) < 2 ^ 64"
  shows "map_fitting_loop E (4096 * v) (4096 * p) n (4096 * o4) st = map_all E (kernel_pages (v + o4) (p + o4) n) st"
  using assms
proof (induction n arbitrary: o4 st)
  case 0
  then show ?case by (simp add: kernel_pages_def)
next
  case (Suc n)
  have ad: "uadd (4096 * v) (4096 * o4) = Inr (4096 * (v + o4))" "uadd (4096 * p) (4096 * o4) = Inr (4096 * (p + o4))"
    "uadd (4096 * o4) 4096 = Inr (4096 * Suc o4)"
    using Suc.prems by (simp_all add: algebra_simps)
  have "kernel_pages (v + o4) (p + o4) (Suc n) = (v + o4, p + o4) # kernel_pages (v + Suc o4) (p + Suc o4) n"
    unfolding kernel_pages_def by (simp add: upt_conv_Cons map_Suc_upt [symmetric] del: upt_Suc)
  moreover have "map_fitting_loop E (4096 * v) (4096 * p) n (4096 * Suc o4) st' = map_all E (kernel_pages (v + Suc o4) (p + Suc o4) n) st'" for st'
    by (rule Suc.IH) (use Suc.prems in simp_all)
  ultimately show ?case
    using ad
    by (cases "map_page E (page_from_address (4096 * (v + o4))) (frame_from_address (4096 * (p + o4))) st")
      (auto split: sum.splits simp del: mult_Suc_right)
qed

definition request_pages :: "nat \<Rightarrow> IdenticalReMapRequest \<Rightarrow> (nat \<times> nat) list" where
  "request_pages ofs r = map (\<lambda>i. (fst r div 4096 + i + ofs, fst r div 4096 + i)) [0..<snd r]"

lemma remap_pages_all:
  assumes "KERNEL_ADDR_VIRTUAL_OFFSET K = 4096 * ofs" and "\<forall>i \<in> set is. 4096 * (b + i + ofs) < 2 ^ 64"
  shows "remap_pages E K (4096 * b) is st = map_all E (map (\<lambda>i. (b + i + ofs, b + i)) is) st"
  using assms(2)
proof (induction "is" arbitrary: st)
  case (Cons i "is")
  have "umul i SIZE = Inr (4096 * i)" "uadd (4096 * b) (4096 * i) = Inr (4096 * (b + i))"
    "to_virtual_addr K (4096 * (b + i)) = Inr (4096 * (b + i + ofs))"
    using Cons.prems by (simp_all add: SIZE_def umul_def assms(1) to_virtual_addr_def algebra_simps)
  then show ?case
    using Cons
    by (cases "map_page E (page_from_address (4096 * (b + i + ofs))) (frame_from_address (4096 * (b + i))) st")
      (auto split: sum.splits)
qed simp

lemma remap_requests_all:
  assumes "KERNEL_ADDR_VIRTUAL_OFFSET K = 4096 * ofs"
    and "\<forall>(addr, count) \<in> set rs. addr mod 4096 = 0 \<and> addr + 4096 * (count + ofs) < 2 ^ 64"
  shows "remap_requests_loop E K rs st = map_all E (concat (map (request_pages ofs) rs)) st"
  using assms(2)
proof (induction rs arbitrary: st)
  case (Cons r rs)
  obtain addr count where r: "r = (addr, count)" by (cases r)
  then have a: "addr = 4096 * (addr div 4096)" "addr + 4096 * (count + ofs) < 2 ^ 64" using Cons.prems by auto
  then have "remap_pages E K addr [0..<count] st = map_all E (request_pages ofs r) st"
    using remap_pages_all [OF assms(1), of "[0..<count]" "addr div 4096" E st] r by (simp add: request_pages_def)
  then show ?case
    using Cons r by (cases "map_all E (request_pages ofs r) st") (auto simp: map_all_append split: sum.splits)
qed simp

text \<open>
  The mapping after a list of pages has been mapped over \<open>l\<close>.
\<close>

definition plain_look :: "machine \<Rightarrow> nat \<Rightarrow> nat list \<Rightarrow> (nat \<times> nat list) option" where
  "plain_look m G js = (if plain js then look m G js else None)"

definition remapped :: "(nat \<times> nat) list \<Rightarrow> (nat list \<Rightarrow> (nat \<times> nat list) option) \<Rightarrow> nat list \<Rightarrow> (nat \<times> nat list) option" where
  "remapped ps l js = (case map_of (map (\<lambda>(v, p). (page_indices v, p)) ps) js of Some p \<Rightarrow> Some (p, []) | None \<Rightarrow> l js)"

definition fresh_pages :: "(nat \<times> nat) list \<Rightarrow> (nat list \<Rightarrow> (nat \<times> nat list) option) \<Rightarrow> bool" where
  "fresh_pages ps l \<longleftrightarrow> distinct (map (page_indices \<circ> fst) ps) \<and> (\<forall>x \<in> set ps. l (page_indices (fst x)) = None)"

lemma fresh_pages_Cons:
  assumes "\<And>js. l' js = (if js = page_indices v then Some (p, []) else l js)"
  shows "fresh_pages ((v, p) # ps) l \<longleftrightarrow> l (page_indices v) = None \<and> fresh_pages ps l'"
    and "fresh_pages ps l' \<Longrightarrow> remapped ((v, p) # ps) l = remapped ps l'"
proof -
  have "(\<forall>x \<in> set ps. l' (page_indices (fst x)) = None) \<longleftrightarrow>
      page_indices v \<notin> set (map (page_indices \<circ> fst) ps) \<and> (\<forall>x \<in> set ps. l (page_indices (fst x)) = None)"
    by (induction ps) (auto simp: assms)
  then show "fresh_pages ((v, p) # ps) l \<longleftrightarrow> l (page_indices v) = None \<and> fresh_pages ps l'"
    by (auto simp: fresh_pages_def)
  assume "fresh_pages ps l'"
  then have "page_indices v \<notin> fst ` set (map (\<lambda>(v, p). (page_indices v, p)) ps)"
    by (force simp: fresh_pages_def assms)
  then have "map_of (map (\<lambda>(v, p). (page_indices v, p)) ps) (page_indices v) = None"
    by (simp add: map_of_eq_None_iff)
  then show "remapped ((v, p) # ps) l = remapped ps l'" by (auto simp: remapped_def assms fun_eq_iff split: option.splits)
qed

lemma remapped_empty:
  assumes "fresh_pages ps (\<lambda>_. None)" and "plain_look m' G = remapped ps (\<lambda>_. None)"
    and "\<forall>(v, p) \<in> set ps. plain (page_indices v)"
  shows "distinct (map (page_indices \<circ> fst) ps)"
    and "\<forall>(v, p) \<in> set ps. look m' G (page_indices v) = Some (p, [])"
    and "\<forall>js. plain js \<and> (\<forall>(v, p) \<in> set ps. js \<noteq> page_indices v) \<longrightarrow> look m' G js = None"
proof -
  let ?l = "map (\<lambda>(v, p). (page_indices v, p)) ps"
  show d: "distinct (map (page_indices \<circ> fst) ps)" using assms(1) by (simp add: fresh_pages_def)
  moreover have "map fst ?l = map (page_indices \<circ> fst) ps" by (simp add: case_prod_unfold)
  ultimately have dl: "distinct (map fst ?l)" by (simp only:)
  have L: "look m' G js = (case map_of ?l js of Some p \<Rightarrow> Some (p, []) | None \<Rightarrow> None)" if "plain js" for js
    using fun_cong [OF assms(2), of js] that by (simp add: plain_look_def remapped_def split: option.splits)
  show "\<forall>(v, p) \<in> set ps. look m' G (page_indices v) = Some (p, [])"
  proof clarify
    fix v p assume vp: "(v, p) \<in> set ps"
    then have "(page_indices v, p) \<in> set ?l" by force
    then have "map_of ?l (page_indices v) = Some p" using dl by simp
    then show "look m' G (page_indices v) = Some (p, [])" using L [of "page_indices v"] assms(3) vp by auto
  qed
  show "\<forall>js. plain js \<and> (\<forall>(v, p) \<in> set ps. js \<noteq> page_indices v) \<longrightarrow> look m' G js = None"
  proof (intro allI impI)
    fix js assume A: "plain js \<and> (\<forall>(v, p) \<in> set ps. js \<noteq> page_indices v)"
    then have "map_of ?l js = None" by (auto simp: map_of_eq_None_iff)
    then show "look m' G js = None" using L A by simp
  qed
qed

text \<open>The entries of a root that are in use, and those that the pages of a list need.\<close>

definition root_used :: "machine \<Rightarrow> nat \<Rightarrow> nat set" where
  "root_used m G = {j. j < 511 \<and> present (phys m G j)}"

definition top_entries :: "(nat \<times> nat) list \<Rightarrow> nat set" where
  "top_entries ps = (\<lambda>(v, p). hd (page_indices v)) ` set ps"

context paging_state
begin

lemma map_all_keeps: "M (fst st) \<Longrightarrow> P (snd st) \<Longrightarrow> keeps (map_all E ps st)"
  by (induction ps arbitrary: st) (auto intro!: map_steps split: sum.split)

lemma with_map_all_keeps: "M (fst st) \<Longrightarrow> P (snd st) \<Longrightarrow> keeps (with_table E ia (map_all E ps) st)"
  by (intro with_table_keeps map_all_keeps)

end

section \<open>Entry 511\<close>

lemma frame_entry_frame: "n < 2 ^ 36 \<Longrightarrow> entry_frame (frame_entry n e) = n"
  using nat_bit_bound [of n 36]
  by (intro bit_eqI) (fastforce simp: entry_frame_def bit_take_bit_iff bit_drop_bit_eq bit_frame_entry)

lemma links_to_mset:
  "links_to (mset t i v m) u j f \<longleftrightarrow>
     (if u = t \<and> j = i then present v \<and> \<not> huge v \<and> entry_frame v = f else links_to m u j f)"
  by (simp add: links_to_def)

lemma same_tree_mset [simp]: "\<not> i < 511 \<Longrightarrow> same_tree lv m (mset t i v m')  \<longleftrightarrow> same_tree lv m m'"
  by (auto simp: same_tree_def)

context paging
begin

text \<open>The two writes that lead an entry to another table, through an address that shows its table.\<close>

lemma redirect_ok:
  assumes sh: "shows_table m va t" and F: "F < 2 ^ 36" and nh: "\<not> huge (phys m t 511)"
  shows "entry_update va 511 (set_frame_addr (pe_flags E) (F * 4096)) m = Inr (mset t 511 (frame_entry F (phys m t 511)) m)"
    and "links_to (mset t 511 (frame_entry F (phys m t 511)) m) t 511 F"
  using frame_entry_simps(1,2) [OF F] nh
  by (auto intro!: entry_update_ok [OF sh] simp: set_frame_addr_ok [OF F] links_to_mset frame_entry_frame [OF F])

lemma writable_ok:
  assumes sh: "shows_table m va t"
  shows "entry_update va 511 (\<lambda>e. Inr (set_flags (pe_flags E) WRITABLE e)) m = Inr (mset t 511 (phys m t 511 OR 2) m)"
    and "links_to (mset t 511 (phys m t 511 OR 2) m) u j f \<longleftrightarrow> links_to m u j f"
  using entry_update_ok [OF sh, of 511]
  by (auto simp: set_flags_WRITABLE links_to_mset or_writable_simps links_to_def)

text \<open>
  The recursive entry of the active table is led to the new root: from now on the operations on
  the page tables work on the new, empty tree.
\<close>

lemma override_ok:
  assumes inv: "pinv C (m, a) U lv" and C: "cr3 m = C" and fr: "fresh_root F m U lv"
  obtains m3 m4 where
    "entry_update LEVEL4_PAGE_TABLE 511 (set_frame_addr (pe_flags E) (F * 4096)) m = Inr m3"
    "entry_update LEVEL4_PAGE_TABLE 511 (\<lambda>e. Inr (set_flags (pe_flags E) WRITABLE e)) m3 = Inr m4"
    "pinv F (m4, a) U [F \<mapsto> 4]" "\<forall>js. plain js \<longrightarrow> look m4 F js = None" "same_tree lv m m4"
    "cr3 m4 = C" "\<not> huge (phys m4 C 511)" "root_used m4 F = {}"
proof -
  note I = pinvD [OF inv]
  have F: "F \<notin> dom lv" "F < 2 ^ 36" "F \<in> cells U" "links_to m F 511 F" "\<And>j. j < 511 \<Longrightarrow> phys m F j = 0"
    using fr by (auto simp: fresh_root_def)
  have ne: "C \<noteq> F" using F(1) tree_invD(1) [OF I(1)] by auto
  have L4: "LEVEL4_PAGE_TABLE = table_va []" by (simp add: LEVEL4_PAGE_TABLE_def level4_table_va)
  have sh: "shows_table m LEVEL4_PAGE_TABLE C" unfolding L4 by (rule rec_root_shows [OF I(2)]) simp_all
  have nh: "\<not> huge (phys m C 511)" using I(2) C by (simp add: rec_root_def links_to_def)
  define m3 where "m3 = mset C 511 (frame_entry F (phys m C 511)) m"
  note R = redirect_ok [OF sh F(2) nh, folded m3_def]
  have "rec_root m3 F" using R(2) F(4) ne C by (simp add: rec_root_def m3_def links_to_mset)
  then have sh3: "shows_table m3 LEVEL4_PAGE_TABLE F" unfolding L4 by (rule rec_root_shows) simp_all
  define m4 where "m4 = mset F 511 (phys m3 F 511 OR 2) m3"
  note W = writable_ok [OF sh3, folded m4_def]
  have c: "cr3 m4 = C" using C by (simp add: m4_def m3_def)
  have z: "phys m4 F j = 0" if "j < 511" for j using F(5) [OF that] ne that by (simp add: m4_def m3_def)
  have t: "tree_inv m4 F [F \<mapsto> 4]" using z by (auto simp: tree_inv_def links_to_def split: if_splits)
  have r: "rec_root m4 F" using \<open>rec_root m3 F\<close> W(2) by (simp add: rec_root_def m4_def)
  have p4: "pinv F (m4, a) U [F \<mapsto> 4]" using t r I c C F(3) by (auto simp: pt_inv_def)
  have lk: "\<forall>js. plain js \<longrightarrow> look m4 F js = None"
  proof (intro allI impI)
    fix js assume "plain js"
    then show "look m4 F js = None" using z by (cases js) (auto simp: plain_def)
  qed
  have st: "same_tree lv m m4" by (simp add: m4_def m3_def)
  have "links_to m4 C 511 F" using R(2) W(2) by simp
  then have "\<not> huge (phys m4 C 511)" by (simp add: links_to_def)
  moreover have "root_used m4 F = {}" using z by (simp add: root_used_def)
  ultimately show ?thesis using that [OF R(1) W(1) p4 lk st c] by blast
qed

lemma fresh_root_grow:
  assumes "pt_grow managed (m, a) U lv (m', a') U' lv'" and "fresh_root F m U lv"
  shows "fresh_root F m' U' lv'"
proof -
  have "F \<notin> dom lv'" "F \<in> cells U'" using assms by (auto simp: pt_grow_def fresh_root_def cells_Un_singletons)
  moreover from this have "phys m' F = phys m F" using assms(1) by (simp add: pt_grow_def)
  ultimately show ?thesis using assms(2) by (simp add: fresh_root_def links_to_def)
qed

text \<open>
  What holds when the closure of \<^verbatim>\<open>with\<close> has returned: the active tree is as it was but for the
  scratch page, the new tree is disjoint from it and ready to be switched to.
\<close>

definition detached :: "nat \<Rightarrow> 'a pstate \<Rightarrow> (nat \<times> nat) set \<Rightarrow> (nat \<rightharpoonup> nat) \<Rightarrow> (nat \<rightharpoonup> nat) \<Rightarrow> bool" where
  "detached F st U lv lvF \<longleftrightarrow> tree_inv (fst st) F lvF \<and> links_to (fst st) F 511 F
     \<and> dom lvF \<inter> managed (snd st) \<subseteq> cells U \<and> dom lv \<inter> dom lvF = {} \<and> F < 2 ^ 36"

text \<open>The end of \<^verbatim>\<open>with\<close>: the active table's recursive entry is restored through the scratch page.\<close>

lemma restore_ok:
  assumes inv: "pinv C (m, a) U lv" and F: "fresh_root F m U lv" and C: "cr3 m = C" "C < 2 ^ 36"
    and sh: "\<And>m''. cr3 m'' = C \<Longrightarrow> same_tree lv m m'' \<Longrightarrow> shows_table m'' va C"
    and m4: "same_tree lv m m4" "cr3 m4 = C" "\<not> huge (phys m4 C 511)"
    and m5: "pinv F (m5, a5) U5 lv5" "pt_grow managed (m4, a) U [F \<mapsto> 4] (m5, a5) U5 lv5"
  obtains m6 m7 where
    "entry_update va 511 (set_frame_addr (pe_flags E) (C * 4096)) m5 = Inr m6"
    "entry_update va 511 (\<lambda>e. Inr (set_flags (pe_flags E) WRITABLE e)) m6 = Inr m7"
    "pinv C (m7, a5) U5 lv" "detached F (m7, a5) U5 lv lv5" "cr3 m7 = C"
    "\<forall>js. plain js \<longrightarrow> look m7 C js = look m C js" "plain_look m7 F = plain_look m5 F" "managed a5 = managed a"
    "root_used m7 F = root_used m5 F"
proof -
  note I = pinvD [OF inv] and J = pinvD [OF m5(1)]
  have gr: "dom lv5 \<subseteq> insert F (managed a - cells U)" "managed a5 = managed a" "cells U \<subseteq> cells U5" "cr3 m5 = C"
    "\<And>u. u \<notin> dom lv5 \<Longrightarrow> phys m5 u = phys m4 u"
    using m5(2) m4(2) by (auto simp: pt_grow_def cells_Un_singletons)
  have dj: "dom lv \<inter> dom lv5 = {}" and F36: "F < 2 ^ 36"
    using gr(1) I(4) F by (auto simp: fresh_root_def)
  have CF: "C \<in> dom lv" "C \<notin> dom lv5" "C \<noteq> F"
    using tree_invD(1) [OF I(1)] tree_invD(1) [OF J(1)] dj by auto
  have "phys m5 u = phys m4 u" if "u \<in> dom lv" for u using gr(5) dj that by blast
  then have s5: "same_tree lv m m5" and h5: "\<not> huge (phys m5 C 511)"
    using m4(1,3) CF(1) by (simp_all add: same_tree_def)
  define m6 where "m6 = mset C 511 (frame_entry C (phys m5 C 511)) m5"
  note R = redirect_ok [OF sh [OF gr(4) s5] C(2) h5, folded m6_def]
  have c6: "cr3 m6 = C" and s6: "same_tree lv m m6" using gr(4) s5 by (simp_all add: m6_def)
  define m7 where "m7 = mset C 511 (phys m6 C 511 OR 2) m6"
  note W = writable_ok [OF sh [OF c6 s6], folded m7_def]
  have c7: "cr3 m7 = C" and s7: "same_tree lv m m7" and t7: "same_tree lv5 m5 m7"
    using c6 s6 by (simp_all add: m7_def m6_def)
  have "rec_root m7 C" using R(2) W(2) c7 by (simp add: rec_root_def)
  then have p7: "pinv C (m7, a5) U5 lv"
    using tree_inv_cong [OF I(1) s7] J(3) I(4) gr(2,3) c7 C(1) by (auto simp: pt_inv_def)
  have "links_to m7 F 511 F" using J(2) W(2) CF(3) by (simp add: rec_root_def m6_def links_to_mset)
  then have d: "detached F (m7, a5) U5 lv lv5"
    using tree_inv_cong [OF J(1) t7] J(4) dj F36 by (auto simp: detached_def)
  have k: "plain_look m7 F = plain_look m5 F"
    using look_same_tree [OF J(1) t7] by (simp add: plain_look_def fun_eq_iff)
  have "\<forall>js. plain js \<longrightarrow> look m7 C js = look m C js" using look_same_tree [OF I(1) s7] by blast
  moreover have "root_used m7 F = root_used m5 F" using CF(3) by (simp add: root_used_def m7_def m6_def)
  ultimately show ?thesis by (rule that [OF R(1) W(1) p7 d c7 _ k gr(2)])
qed

lemma with_ok:
  assumes inv: "pinv C (m, a) U lv" and C: "cr3 m = C" "C < 2 ^ 36"
    and fr: "fresh_root (number (level4_page_table ia)) m U lv"
    and free: "\<exists>i. 1 \<le> i \<and> i < 256 \<and> \<not> present (phys m C i)"
    and f: "\<forall>m4 a4 U4. pinv (number (level4_page_table ia)) (m4, a4) U4 [number (level4_page_table ia) \<mapsto> 4]
      \<and> (\<forall>js. plain js \<longrightarrow> look m4 (number (level4_page_table ia)) js = None)
      \<and> root_used m4 (number (level4_page_table ia)) = {} \<longrightarrow>
      (\<exists>r m5 a5 U5 lv5. f (m4, a4) = Inr (r, (m5, a5)) \<and> pinv (number (level4_page_table ia)) (m5, a5) U5 lv5
        \<and> pt_grow managed (m4, a4) U4 [number (level4_page_table ia) \<mapsto> 4] (m5, a5) U5 lv5
        \<and> Q r (plain_look m5 (number (level4_page_table ia))) (root_used m5 (number (level4_page_table ia))) \<and> budget (managed a4) N (r = Inl NoPageTable) U4 U5)"
  obtains (none) m' a' U' lv' where "with_table E ia f (m, a) = Inr (Inl NoEntry, (m', a'))"
      "pinv C (m', a') U' lv'" "cr3 m' = C" "\<forall>js. plain js \<longrightarrow> look m' C js = look m C js"
      "budget (managed a) 3 True U U'"
  | (run) r m' a' U' lv' lvF where "with_table E ia f (m, a) = Inr (r, (m', a'))"
      "pinv C (m', a') U' lv'" "detached (number (level4_page_table ia)) (m', a') U' lv' lvF" "cr3 m' = C"
      "\<forall>js. plain js \<and> look m C js \<noteq> None \<longrightarrow> look m' C js = look m C js"
      "Q r (plain_look m' (number (level4_page_table ia))) (root_used m' (number (level4_page_table ia)))" "managed a' = managed a"
      "budget (managed a) (3 + N) (r = Inl NoPageTable) U U'"
proof -
  let ?F = "number (level4_page_table ia)" and ?fr = "frame_from_address (cr3 m * SIZE)"
  have nf: "number ?fr = C" "number ?fr < 2 ^ 36" "cr3 m * SIZE = C * 4096"
    using C by (simp_all add: frame_from_address_def SIZE_def)
  show ?thesis
  proof (cases rule: scratch_ok [OF inv C(1) free nf(2)])
    case (1 st' U' lv')
    obtain m' a' where st': "st' = (m', a')" by (cases st')
    have "with_table E ia f (m, a) = Inr (Inl NoEntry, (m', a'))" using 1(1) st' by (simp add: with_table_def Let_def)
    then show ?thesis using none 1(2-4) st' C(1) pext_plain [of C m a U lv m' a' U' lv']
      by (simp add: pt_ext_def pt_grow_def)
  next
    case (2 page va m1 m2 a2 U2 lv2 i4)
    have c2: "cr3 m2 = C" using 2(5) C(1) by (simp add: pt_grow_def)
    note fr2 = fresh_root_grow [OF 2(5) fr]
    then have F36: "?F < 2 ^ 36" by (simp add: fresh_root_def)
    obtain m3 m4 where o: "entry_update LEVEL4_PAGE_TABLE 511 (set_frame_addr (pe_flags E) (?F * 4096)) m2 = Inr m3"
        "entry_update LEVEL4_PAGE_TABLE 511 (\<lambda>e. Inr (set_flags (pe_flags E) WRITABLE e)) m3 = Inr m4"
      and p4: "pinv ?F (m4, a2) U2 [?F \<mapsto> 4]" and e4: "\<forall>js. plain js \<longrightarrow> look m4 ?F js = None"
      and m4: "same_tree lv2 m2 m4" "cr3 m4 = C" "\<not> huge (phys m4 C 511)" and u4: "root_used m4 ?F = {}"
      by (rule override_ok [OF 2(4) c2 fr2])
    obtain r m5 a5 U5 lv5 where f5: "f (m4, a2) = Inr (r, (m5, a5))" and p5: "pinv ?F (m5, a5) U5 lv5"
      and g5: "pt_grow managed (m4, a2) U2 [?F \<mapsto> 4] (m5, a5) U5 lv5" and q: "Q r (plain_look m5 ?F) (root_used m5 ?F)"
      and b: "budget (managed a2) N (r = Inl NoPageTable) U2 U5"
      using f p4 e4 u4 by blast
    have sh: "shows_table m'' va C" if "cr3 m'' = C" "same_tree lv2 m2 m''" for m'' using 2(11) [OF that] nf(1) by simp
    obtain m6 m7 where e: "entry_update va 511 (set_frame_addr (pe_flags E) (C * 4096)) m5 = Inr m6"
        "entry_update va 511 (\<lambda>e. Inr (set_flags (pe_flags E) WRITABLE e)) m6 = Inr m7"
      and p7: "pinv C (m7, a5) U5 lv2" and d7: "detached ?F (m7, a5) U5 lv2 lv5" and c7: "cr3 m7 = C"
      and k7: "\<forall>js. plain js \<longrightarrow> look m7 C js = look m2 C js" and q7: "plain_look m7 ?F = plain_look m5 ?F"
      and n7: "managed a5 = managed a2" and u7: "root_used m7 ?F = root_used m5 ?F"
      using restore_ok [OF 2(4) fr2 c2 C(2) sh m4 p5 g5] .
    have r: "with_table E ia f (m, a) = Inr (r, (m7, a5))"
      unfolding with_table_def Let_def
      using 2(1-3) frame_address_ok [OF F36] o f5 e nf(3) by simp
    have n2: "managed a2 = managed a" using 2(5) by (simp add: pt_grow_def)
    have "budget (managed a) (3 + N) (r = Inl NoPageTable) U U5" by (rule budget_trans [OF 2(12) b [unfolded n2]])
    then show ?thesis by (intro run [OF r p7 d7 c7]) (use 2(5,6) k7 q7 u7 q n7 in \<open>auto simp: pt_grow_def\<close>)
  qed
qed

text \<open>Switching to a detached tree makes it the active one.\<close>

lemma switch_ok:
  assumes "pinv C (m, a) U lv" and "detached (number (level4_page_table ia)) (m, a) U lv lvF"
  shows "switch ia m = Inr (\<lparr>level4_page_table = frame_from_address (cr3 m * SIZE)\<rparr>, m\<lparr>cr3 := number (level4_page_table ia)\<rparr>)"
    and "pinv (number (level4_page_table ia)) (m\<lparr>cr3 := number (level4_page_table ia)\<rparr>, a) U lvF"
    and "plain_look (m\<lparr>cr3 := number (level4_page_table ia)\<rparr>) (number (level4_page_table ia))
      = plain_look m (number (level4_page_table ia))"
proof -
  let ?F = "number (level4_page_table ia)"
  note I = pinvD [OF assms(1)]
  have d: "tree_inv m ?F lvF" "links_to m ?F 511 ?F" "dom lvF \<inter> managed a \<subseteq> cells U" "?F < 2 ^ 36"
    using assms(2) by (simp_all add: detached_def)
  show "switch ia m = Inr (\<lparr>level4_page_table = frame_from_address (cr3 m * SIZE)\<rparr>, m\<lparr>cr3 := ?F\<rparr>)"
    using d(4) frame_address_ok [OF d(4)] by (simp add: switch_def Let_def SIZE_def)
  have s: "same_tree lvF m (m\<lparr>cr3 := ?F\<rparr>)" by (simp add: same_tree_def)
  show "plain_look (m\<lparr>cr3 := ?F\<rparr>) ?F = plain_look m ?F"
    using look_same_tree [OF d(1) s] by (simp add: plain_look_def fun_eq_iff)
  have t: "tree_inv (m\<lparr>cr3 := ?F\<rparr>) ?F lvF" by (rule tree_inv_cong [OF d(1) s])
  then show "pinv ?F (m\<lparr>cr3 := ?F\<rparr>, a) U lvF"
    using d tree_invD(1) [OF d(1)] I(3) by (auto simp: pt_inv_def rec_root_def links_to_def)
qed

lemma map_all_ok:
  assumes "pinv G (m, a) U lv" and "\<forall>(v, p) \<in> set ps. 4096 * v < 2 ^ 64 \<and> p < 2 ^ 36 \<and> plain (page_indices v)"
    and "\<forall>js. plain js \<longrightarrow> no_huge m G js"
  shows "\<exists>r m' a' U' lv'. map_all E ps (m, a) = Inr (r, (m', a')) \<and> pinv G (m', a') U' lv'
     \<and> pt_grow managed (m, a) U lv (m', a') U' lv'
     \<and> (r = Inr () \<and> fresh_pages ps (plain_look m G) \<and> plain_look m' G = remapped ps (plain_look m G)
        \<or> r = Inl AlreadyMapped \<and> \<not> fresh_pages ps (plain_look m G) \<or> r = Inl NoPageTable)
     \<and> budget (managed a) (3 * length ps) (r = Inl NoPageTable) U U'
     \<and> root_used m' G \<subseteq> root_used m G \<union> top_entries ps"
  using assms
proof (induction ps arbitrary: m a U lv)
  case Nil
  then show ?case using pt_grow_refl by (force simp: fresh_pages_def remapped_def fun_eq_iff)
next
  case (Cons x ps)
  obtain v p where x: "x = (v, p)" by (cases x)
  let ?pg = "page_from_address (4096 * v)" and ?fr = "frame_from_address (4096 * p)"
  have B: "4096 * v < 2 ^ 64" "p < 2 ^ 36" "plain (page_indices v)" using Cons.prems(2) x by auto
  have pa: "page_address ?pg = Inr (4096 * v)" using B(1) by (simp add: page_address_def page_from_address_def PAGE_SIZE_def)
  have nf: "number ?fr = p" "number ?fr < 2 ^ 36" using B(2) by (simp_all add: frame_from_address_def SIZE_def)
  have ix: "indices (4096 * v) = page_indices v" by (simp add: page_indices_def)
  have nh: "no_huge m G (page_indices v)" using Cons.prems(3) B(3) by blast
  obtain r m1 a1 U1 lv1 where mp: "map_page E ?pg ?fr (m, a) = Inr (r, (m1, a1))"
    and p1: "pinv G (m1, a1) U1 lv1" and g1: "pt_grow managed (m, a) U lv (m1, a1) U1 lv1"
    and res: "r = Inr () \<and> look m G (page_indices v) = None
          \<and> (\<forall>js. plain js \<longrightarrow> look m1 G js = (if js = page_indices v then Some (p, []) else look m G js))
        \<or> r = Inl AlreadyMapped \<and> look m G (page_indices v) \<noteq> None \<or> r = Inl NoPageTable"
    and b1: "budget (managed a) 3 (r = Inl NoPageTable) U U1"
    and o1: "\<forall>j. j \<noteq> level4_index (4096 * v) \<longrightarrow> phys m1 G j = phys m G j"
    by (rule map_ok [OF Cons.prems(1) pa nf(2) B(3) [folded ix] nh [folded ix]]) (use nf(1) ix in auto)
  have u1: "root_used m1 G \<subseteq> root_used m G \<union> top_entries (x # ps)"
    using o1 by (auto simp: root_used_def top_entries_def x page_indices_def indices_def)
  show ?case
  proof (cases "r = Inr ()")
    case True
    then have N: "plain_look m G (page_indices v) = None"
      and L: "plain_look m1 G js = (if js = page_indices v then Some (p, []) else plain_look m G js)" for js
      using res B(3) by (auto simp: plain_look_def)
    note F = fresh_pages_Cons [of "plain_look m1 G" v p "plain_look m G", OF L]
    have "\<forall>js. plain js \<longrightarrow> no_huge m1 G js"
    proof (intro allI impI)
      fix js assume "plain js"
      then show "no_huge m1 G js" using L [of js] Cons.prems(3) by (auto simp: no_huge_def plain_look_def split: if_splits)
    qed
    then obtain r' m' a' U' lv' where IH: "map_all E ps (m1, a1) = Inr (r', (m', a'))" "pinv G (m', a') U' lv'"
      "pt_grow managed (m1, a1) U1 lv1 (m', a') U' lv'"
      "r' = Inr () \<and> fresh_pages ps (plain_look m1 G) \<and> plain_look m' G = remapped ps (plain_look m1 G)
        \<or> r' = Inl AlreadyMapped \<and> \<not> fresh_pages ps (plain_look m1 G) \<or> r' = Inl NoPageTable"
      "budget (managed a1) (3 * length ps) (r' = Inl NoPageTable) U1 U'"
      "root_used m' G \<subseteq> root_used m1 G \<union> top_entries ps"
      using Cons.IH [OF p1] Cons.prems(2) by auto
    have "map_all E (x # ps) (m, a) = Inr (r', (m', a'))" using mp True IH(1) x by simp
    moreover have "r' = Inr () \<and> fresh_pages (x # ps) (plain_look m G) \<and> plain_look m' G = remapped (x # ps) (plain_look m G)
        \<or> r' = Inl AlreadyMapped \<and> \<not> fresh_pages (x # ps) (plain_look m G) \<or> r' = Inl NoPageTable"
      using IH(4) F N x by auto
    moreover have n1: "managed a1 = managed a" using g1 by (simp add: pt_grow_def)
    have "budget (managed a) (3 * length (x # ps)) (r' = Inl NoPageTable) U U'"
      using budget_trans [of _ 3 U U1, OF _ IH(5) [unfolded n1]] b1 True by simp
    moreover have "root_used m' G \<subseteq> root_used m G \<union> top_entries (x # ps)"
      using IH(6) u1 by (auto simp: top_entries_def)
    ultimately show ?thesis using IH(2) pt_grow_trans [OF g1 IH(3)] by blast
  next
    case False
    then have r: "r = Inl AlreadyMapped \<and> \<not> fresh_pages (x # ps) (plain_look m G) \<or> r = Inl NoPageTable"
      using res B(3) x by (auto simp: fresh_pages_def plain_look_def)
    then have "map_all E (x # ps) (m, a) = Inr (r, (m1, a1))" using mp x by auto
    moreover have "budget (managed a) (3 * length (x # ps)) (r = Inl NoPageTable) U U1" by (rule budget_mono [OF b1]) simp
    ultimately show ?thesis using p1 g1 r u1 by blast
  qed
qed

end

end
