(* ===== verification/Paging_Init.thy ===== *)
theory Paging_Init
  imports Paging_Remap Paging_Theorems
begin

text \<open>
  \<^verbatim>\<open>paging::init\<close> of \<^verbatim>\<open>src/memory/paging.rs\<close>: the kernel's new page table is built beside the one
  the boot loader left and then switched to.
\<close>

section \<open>The addresses of the kernel\<close>

text \<open>
  The pages \<^verbatim>\<open>init\<close> maps: those of the requests, then the \<open>n\<close> pages of the kernel from page
  \<open>pb + ofs\<close> on.  \<open>boot_layout\<close>: the linker's addresses and the requests are page-aligned, within
  the address space, and stay clear of the entries 511 the recursive mapping needs.
\<close>

definition boot_pages :: "nat \<Rightarrow> IdenticalReMapRequest list \<Rightarrow> nat \<Rightarrow> nat \<Rightarrow> (nat \<times> nat) list" where
  "boot_pages ofs rs pb n = concat (map (request_pages ofs) rs) @ kernel_pages (pb + ofs) pb n"

definition boot_layout :: "kernel_symbols \<Rightarrow> kernel_end \<Rightarrow> IdenticalReMapRequest list \<Rightarrow> nat \<Rightarrow> nat \<Rightarrow> nat \<Rightarrow> bool" where
  "boot_layout K cur rs ofs pb n \<longleftrightarrow>
     KERNEL_ADDR_VIRTUAL_OFFSET K = 4096 * ofs \<and> KERNEL_ADDR_PHYSICAL_BEGIN K = 4096 * pb
     \<and> KERNEL_ADDR_VIRTUAL_BEGIN K = 4096 * (pb + ofs) \<and> fst (kernel_addr_end_physical K cur) = 4096 * (pb + n)
     \<and> 4096 * (pb + ofs + n) < 2 ^ 64 \<and> 0 < n \<and> n < 512
     \<and> (\<forall>(addr, count) \<in> set rs. addr mod 4096 = 0 \<and> addr + 4096 * (count + ofs) < 2 ^ 64)
     \<and> (\<forall>(v, p) \<in> set (boot_pages ofs rs pb n). p < 2 ^ 36 \<and> plain (page_indices v))"

lemma boot_pages_bound:
  assumes "boot_layout K cur rs ofs pb n" and "(v, p) \<in> set (boot_pages ofs rs pb n)"
  shows "4096 * v < 2 ^ 64"
proof -
  note B = assms(1) [unfolded boot_layout_def]
  consider (request) addr count i where "(addr, count) \<in> set rs" "i < count" "v = addr div 4096 + i + ofs"
    | (kernel) k where "k < n" "v = pb + ofs + k"
    using assms(2) by (auto simp: boot_pages_def request_pages_def kernel_pages_def)
  then show ?thesis
  proof cases
    case request
    then have "addr + 4096 * (count + ofs) < 2 ^ 64" using B by auto
    moreover have "4096 * (addr div 4096) \<le> addr" by simp
    ultimately show ?thesis using request(2,3) by (simp add: distrib_left)
  next
    case kernel
    then show ?thesis using B by simp
  qed
qed

text \<open>What \<^verbatim>\<open>with\<close> runs is the mapping of these pages.\<close>

lemma boot_closure:
  assumes L: "boot_layout K cur rs ofs pb n"
  shows "res_bind (remap_requests_loop E K rs st) (\<lambda>(r, st4).
           case r of Inl e \<Rightarrow> Inr (Inl e, st4)
           | Inr _ \<Rightarrow> map_fitting E (4096 * (pb + ofs), 4096 * (pb + ofs + n)) (4096 * pb, 4096 * (pb + n)) st4)
     = map_all E (boot_pages ofs rs pb n) st"
proof -
  note B = L [unfolded boot_layout_def]
  have R: "remap_requests_loop E K rs st = map_all E (concat (map (request_pages ofs) rs)) st"
    by (rule remap_requests_all) (use B in auto)
  have ar: "usub (4096 * (pb + ofs + n)) (4096 * (pb + ofs)) = Inr (4096 * n)"
    "usub (4096 * (pb + n)) (4096 * pb) = Inr (4096 * n)" "4096 * n div (2 * 1024 * 1024) = 0"
    using B by (simp_all add: usub_def algebra_simps div_less)
  have F: "map_fitting E (4096 * (pb + ofs), 4096 * (pb + ofs + n)) (4096 * pb, 4096 * (pb + n)) st4
      = map_all E (kernel_pages (pb + ofs) pb n) st4" for st4
    unfolding map_fitting_def Let_def prod.case ar(1,2) res_bind_simps ar(3)
    using map_fitting_loop_all [of "pb + ofs" 0 n pb E st4] B by simp
  show ?thesis unfolding boot_pages_def map_all_append R F ..
qed

text \<open>The line \<^verbatim>\<open>init\<close> prints.\<close>

definition boot_message :: "nat \<Rightarrow> nat \<Rightarrow> nat \<Rightarrow> string" where
  "boot_message ofs pb n = kernel_range_message (4096 * (pb + ofs)) (4096 * (pb + ofs + n)) (4096 * n)"

lemma page_aligned_mask: "4096 * x AND 0xFFF = (0 :: nat)"
proof -
  have "(0xFFF :: nat) = mask 12" by (simp add: mask_eq_exp_minus_1)
  then have "4096 * x AND 0xFFF = take_bit 12 (4096 * x)" by (simp only: take_bit_eq_mask)
  then show ?thesis by (simp add: take_bit_eq_mod)
qed

lemma boot_addresses:
  assumes "boot_layout K cur rs ofs pb n"
  shows "kernel_addr_end_virtual K cur = Inr (4096 * (pb + ofs + n), snd (kernel_addr_end_physical K cur))"
    "fst (kernel_addr_end_physical K (snd (kernel_addr_end_physical K cur))) = 4096 * (pb + n)"
    "usub (4096 * (pb + ofs + n)) (4096 * (pb + ofs)) = Inr (4096 * n)"
    "4096 * (pb + ofs) < 4096 * (pb + ofs + n)"
proof -
  note B = assms [unfolded boot_layout_def]
  show "kernel_addr_end_virtual K cur = Inr (4096 * (pb + ofs + n), snd (kernel_addr_end_physical K cur))"
    using B by (simp add: kernel_addr_end_virtual_def to_virtual_addr_def case_prod_unfold algebra_simps)
  show "fst (kernel_addr_end_physical K (snd (kernel_addr_end_physical K cur))) = 4096 * (pb + n)"
    using B by (auto simp: kernel_addr_end_physical_def split: option.splits)
  show "usub (4096 * (pb + ofs + n)) (4096 * (pb + ofs)) = Inr (4096 * n)"
    by (simp add: usub_def algebra_simps)
  show "4096 * (pb + ofs) < 4096 * (pb + ofs + n)" using B by simp
qed

section \<open>The runtime test\<close>

text \<open>
  The test leaves the mapping as it was.  Its last step gives the frame back, which the frame
  allocator must accept.
\<close>

definition test_frame_returns :: "'a paging_env \<Rightarrow> ('a \<Rightarrow> Frame \<Rightarrow> bool) \<Rightarrow> 'a pstate \<Rightarrow> bool" where
  "test_frame_returns E can_free st \<longleftrightarrow> (\<forall>fr a1 m' a'.
     pe_alloc E (snd st) = Inr (Some fr, a1)
     \<and> map_page E (page_from_address 0x200000) fr (fst st, a1) = Inr (Inr (), (m', a'))
     \<longrightarrow> can_free a' (frame_from_address (number fr * 4096)))"

text \<open>From \<open>a\<close> to \<open>a'\<close> frames were taken and one frame that is in use was given back.\<close>

definition borrows_frame ::
  "'a paging_env \<Rightarrow> ('a \<Rightarrow> (nat \<times> nat) set \<Rightarrow> bool) \<Rightarrow> ('a \<Rightarrow> Frame \<Rightarrow> bool) \<Rightarrow> 'a \<Rightarrow> 'a \<Rightarrow> bool" where
  "borrows_frame E fa_inv can_free a a' \<longleftrightarrow> (\<exists>b U F. (takes_frame E)\<^sup>*\<^sup>* a b \<and> fa_inv b U \<and> (F, 0) \<in> U
     \<and> can_free b (frame_from_address (F * 4096)) \<and> pe_free E b (frame_from_address (F * 4096)) = Inr a')"

lemma map_page_takes_frames:
  assumes "map_page E page fr (m, a) = Inr (r, (m', a'))"
  shows "(takes_frame E)\<^sup>*\<^sup>* a a'"
  using validD [OF paging_state.map_page_keeps [OF frames_state] assms] by simp

context paging
begin

lemma fill_words_ok:
  assumes "stable_table m va F" and "\<forall>i \<in> set is. i < 512"
  shows "fill_words va is m = Inr (m\<lparr>phys := (phys m)(F := (\<lambda>j. if j \<in> set is then 0x100000001 else phys m F j))\<rparr>)"
  using assms
proof (induction "is" arbitrary: m)
  case (Cons i "is")
  have "entry_write va i 0x100000001 m = Inr (mset F i 0x100000001 m)"
    using Cons.prems by (intro entry_access(2) stable_table_shows) simp_all
  moreover have "fill_words va is (mset F i 0x100000001 m) = Inr ((mset F i 0x100000001 m)\<lparr>phys :=
      (phys (mset F i 0x100000001 m))(F := (\<lambda>j. if j \<in> set is then 0x100000001 else phys (mset F i 0x100000001 m) F j))\<rparr>)"
    using Cons.prems by (intro Cons.IH stable_table_mset) auto
  ultimately show ?case by (simp add: mset_def fun_eq_iff)
qed simp

lemma test_page: "page_address (page_from_address 0x200000) = Inr 0x200000" "indices 0x200000 = [0, 0, 1, 0]"
  "0x200000 = mk_va 0 0 1 0 0"
  by (simp_all add: page_address_def page_from_address_def PAGE_SIZE_def indices_2mb mk_va_def)

text \<open>A frame outside the tree that a page of the active table shows can be written through it.\<close>

lemma mapped_stable:
  assumes "pinv (cr3 m) (m, a) U lv" and "look m (cr3 m) [0, 0, 1, 0] = Some (F, [])" and "F \<notin> dom lv"
  shows "stable_table m 0x200000 F"
proof (rule stable_table_outside [OF assms(3)])
  fix m' :: machine assume m': "cr3 m' = cr3 m" "same_tree lv m m'"
  from look_same_tree [OF pinvD(1) [OF assms(1)] m'(2), of "[0, 0, 1, 0]"] assms(2) m'(1)
  show "shows_table m' 0x200000 F"
    unfolding test_page(3) by (intro look_shows_table) (simp_all add: plain4 del: look.simps)
qed

lemma test_ok:
  assumes inv: "pinv (cr3 m) (m, a) U lv" and lk: "look m (cr3 m) [0, 0, 1, 0] = Some (F, [])"
    and F: "(F, 0) \<in> U" "F \<notin> dom lv" "can_free a (frame_from_address (F * 4096))"
  obtains m2 m' a' where "fill_words 0x200000 [0..<512] m = Inr m2"
    "unmap E (page_from_address 0x200000) (m2, a) = Inr (Inr (), (m', a'))"
    "pinv (cr3 m) (m', a') (U - {(F, 0)}) lv" "cr3 m' = cr3 m" "phys m' (cr3 m) = phys m (cr3 m)" "managed a' = managed a"
    "\<forall>js. plain js \<longrightarrow> look m' (cr3 m) js = (if js = [0, 0, 1, 0] then None else look m (cr3 m) js)"
    "pe_free E a (frame_from_address (F * 4096)) = Inr a'"
proof -
  let ?C = "cr3 m"
  note I = pinvD [OF inv]
  have CF: "?C \<noteq> F" using tree_invD(1) [OF I(1)] F(2) by auto
  define m2 where "m2 = m\<lparr>phys := (phys m)(F := (\<lambda>j. if j \<in> set [0..<512] then 0x100000001 else phys m F j))\<rparr>"
  have fill: "fill_words 0x200000 [0..<512] m = Inr m2"
    unfolding m2_def by (rule fill_words_ok [OF mapped_stable [OF inv lk F(2)]]) simp
  have c2: "cr3 m2 = ?C" "phys m2 ?C = phys m ?C" using CF by (simp_all add: m2_def)
  have s2: "same_tree lv m m2" using F(2) by (auto simp: same_tree_def m2_def)
  have "rec_root m2 ?C" using I(2) c2 by (simp add: rec_root_def links_to_def)
  then have p2: "pinv ?C (m2, a) U lv" using tree_inv_cong [OF I(1) s2] I c2 by (simp add: pt_inv_def)
  note l2 = look_same_tree [OF I(1) s2]
  have pl: "plain (indices 0x200000)" by (simp add: test_page(2) plain4)
  have k2: "look m2 ?C (indices 0x200000) = Some (F, [])" using l2 [OF pl] lk by (simp only: test_page(2))
  have F2: "F \<noteq> cr3 m2" using CF c2 by simp
  obtain m' a' where u: "unmap E (page_from_address 0x200000) (m2, a) = Inr (Inr (), (m', a'))"
      "pinv ?C (m', a') (U - {(F, 0)}) lv"
      "\<forall>js. plain js \<longrightarrow> look m' ?C js = (if js = indices 0x200000 then None else look m2 ?C js)"
      "cr3 m' = cr3 m2" "phys m' ?C = phys m2 ?C" "managed a' = managed a"
      "pe_free E a (frame_from_address (F * 4096)) = Inr a'"
    by (rule unmap_ok [OF p2 test_page(1) pl k2 F(1,2) F2 F(3)])
  show ?thesis by (rule that [OF fill u(1,2)]) (use u(3-7) c2 l2 in \<open>simp_all add: test_page(2) del: look.simps\<close>)
qed

lemma runtime_test_ok:
  assumes inv: "pinv (cr3 m) (m, a) U lv" and nh: "no_huge m (cr3 m) [0, 0, 1, 0]"
    and safe: "test_frame_returns E can_free (m, a)"
  obtains r m' a' U' lv' where "runtime_test E (m, a) = Inr (r, (m', a'))" "pinv (cr3 m) (m', a') U' lv'"
    "cr3 m' = cr3 m" "\<forall>j. j \<noteq> 0 \<longrightarrow> phys m' (cr3 m) j = phys m (cr3 m) j"
    "\<forall>js. plain js \<longrightarrow> look m' (cr3 m) js = look m (cr3 m) js"
    "r = Inr () \<and> look m (cr3 m) [0, 0, 1, 0] = None \<or> r = Inl NoUsableMemory \<or> r = Inl (PageTable NoPageTable)
      \<or> r = Inl (PageTable AlreadyMapped) \<and> look m (cr3 m) [0, 0, 1, 0] \<noteq> None"
    "managed a' = managed a"
    "budget (managed a) 4 (r = Inl NoUsableMemory \<or> r = Inl (PageTable NoPageTable)) U U'"
    "r = Inr () \<longrightarrow> borrows_frame E fa_inv can_free a a'"
proof (cases rule: alloc_frame_cases [OF inv])
  case (1 a')
  then show ?thesis
    by (intro that [of "Inl NoUsableMemory" m a' U lv]) (simp_all add: runtime_test_def budget_def)
next
  case A: (2 fr a1)
  let ?C = "cr3 m" and ?pg = "page_from_address 0x200000"
  let ?F = "number fr" and ?U = "insert (number fr, 0) U"
  have pl: "plain (indices 0x200000)" and nh': "no_huge m ?C (indices 0x200000)" using nh by (simp_all add: test_page(2) plain4)
  have i4: "level4_index 0x200000 = 0" using test_page(2) by (simp add: indices_def)
  obtain r m1 a2 U2 lv2 where mp: "map_page E ?pg fr (m, a1) = Inr (r, (m1, a2))" and p2: "pinv ?C (m1, a2) U2 lv2"
    and g2: "pt_grow managed (m, a1) ?U lv (m1, a2) U2 lv2"
    and res: "r = Inr () \<and> look m ?C (indices 0x200000) = None
        \<and> (\<forall>js. plain js \<longrightarrow> look m1 ?C js = (if js = indices 0x200000 then Some (?F, []) else look m ?C js))
      \<or> r = Inl AlreadyMapped \<and> look m ?C (indices 0x200000) \<noteq> None \<and> (\<forall>js. plain js \<longrightarrow> look m1 ?C js = look m ?C js)
      \<or> r = Inl NoPageTable \<and> (\<forall>js. plain js \<longrightarrow> look m1 ?C js = look m ?C js)"
    and o2: "\<forall>j. j \<noteq> level4_index 0x200000 \<longrightarrow> phys m1 ?C j = phys m ?C j"
    and b1: "budget (managed a1) 3 (r = Inl NoPageTable) ?U U2"
    by (rule map_ok [OF A(2) test_page(1) A(4) pl nh']) blast
  have d: "dom lv2 - dom lv \<subseteq> managed a1 - insert ?F (cells U)" using g2 A(8) by (simp add: pt_grow_def)
  have g: "cr3 m1 = ?C" "?F \<notin> dom lv2" "(?F, 0) \<in> U2" "managed a2 = managed a1" using d A(6) g2 by (auto simp: pt_grow_def)
  have b2: "budget (managed a) 4 (r = Inl NoPageTable) U U2"
    using budget_trans [OF budget_insert b1 [unfolded A(3)]] by simp
  show ?thesis
  proof (cases "r = Inr ()")
    case False
    then obtain e where r: "r = Inl e" "e = NoPageTable \<or> e = AlreadyMapped \<and> look m ?C (indices 0x200000) \<noteq> None"
      "\<forall>js. plain js \<longrightarrow> look m1 ?C js = look m ?C js" using res by auto
    have "runtime_test E (m, a) = Inr (Inl (PageTable e), (m1, a2))"
      using A(1) mp r(1) by (simp add: runtime_test_def)
    then show ?thesis
      by (rule that [OF _ p2 g(1)]) (use o2 i4 r g(4) A(3) b2 in \<open>auto simp: test_page(2) simp del: look.simps\<close>)
  next
    case True
    then have ok: "look m ?C (indices 0x200000) = None"
      "\<And>js. plain js \<Longrightarrow> look m1 ?C js = (if js = [0, 0, 1, 0] then Some (?F, []) else look m ?C js)"
      using res by (auto simp: test_page(2) simp del: look.simps)
    have cf: "can_free a2 (frame_from_address (?F * 4096))"
      using safe A(1) mp True by (simp add: test_frame_returns_def)
    have k1: "look m1 (cr3 m1) [0, 0, 1, 0] = Some (?F, [])" using ok(2) pl g(1) by (simp add: test_page(2) del: look.simps)
    have p2': "pinv (cr3 m1) (m1, a2) U2 lv2" using p2 g(1) by simp
    obtain m2 m' a' where t: "fill_words 0x200000 [0..<512] m1 = Inr m2"
        "unmap E ?pg (m2, a2) = Inr (Inr (), (m', a'))" "pinv (cr3 m1) (m', a') (U2 - {(?F, 0)}) lv2"
        "cr3 m' = cr3 m1" "phys m' (cr3 m1) = phys m1 (cr3 m1)" "managed a' = managed a2"
        "\<forall>js. plain js \<longrightarrow> look m' (cr3 m1) js = (if js = [0, 0, 1, 0] then None else look m1 (cr3 m1) js)"
        "pe_free E a2 (frame_from_address (?F * 4096)) = Inr a'"
      by (rule test_ok [OF p2' k1 g(3,2) cf])
    have "takes_frame E a a1" using A(1) by (auto simp: takes_frame_def)
    then have "(takes_frame E)\<^sup>*\<^sup>* a a2" using map_page_takes_frames [OF mp] by (rule converse_rtranclp_into_rtranclp)
    then have bf: "borrows_frame E fa_inv can_free a a'"
      unfolding borrows_frame_def using pinvD(3) [OF p2] g(3) cf t(8) by blast
    have run: "runtime_test E (m, a) = Inr (Inr (), (m', a'))"
      using A(1) mp True t(1,2) test_page(1) by (simp add: runtime_test_def Let_def)
    have "budget (managed a) 4 False U (U2 - {(?F, 0)})"
      using b2 True avail_remove [OF finite_managed [OF pinvD(3) [OF inv]], of U2 "(?F, 0)"] by (simp add: budget_def)
    then show ?thesis
      by (intro that [OF run, of "U2 - {(?F, 0)}" lv2]) (use t(3-7) g(1,4) A(3) o2 i4 ok bf in \<open>simp_all add: test_page(2) del: look.simps\<close>)
  qed
qed

end

section \<open>Building and switching\<close>

text \<open>The result of mapping the pages of \<open>ps\<close> in an empty tree, with the mapping \<open>l\<close> it leaves.\<close>

definition boot_outcome :: "(nat \<times> nat) list \<Rightarrow> PageTableError + unit \<Rightarrow> (nat list \<Rightarrow> (nat \<times> nat list) option) \<Rightarrow> bool" where
  "boot_outcome ps r l \<longleftrightarrow> r = Inr () \<and> fresh_pages ps (\<lambda>_. None) \<and> l = remapped ps (\<lambda>_. None)
     \<or> r = Inl AlreadyMapped \<and> \<not> fresh_pages ps (\<lambda>_. None) \<or> r = Inl NoPageTable"

lemma boot_outcome_Ok:
  assumes "boot_outcome ps (Inr u) (plain_look m F)" and "\<forall>(v, p) \<in> set ps. plain (page_indices v)"
  shows "distinct (map (page_indices \<circ> fst) ps)"
    and "\<forall>(v, p) \<in> set ps. look m F (page_indices v) = Some (p, [])"
    and "\<forall>js. plain js \<and> (\<forall>(v, p) \<in> set ps. js \<noteq> page_indices v) \<longrightarrow> look m F js = None"
proof -
  have "fresh_pages ps (\<lambda>_. None)" "plain_look m F = remapped ps (\<lambda>_. None)" using assms(1) by (simp_all add: boot_outcome_def)
  from remapped_empty [OF this assms(2)]
  show "distinct (map (page_indices \<circ> fst) ps)" "\<forall>(v, p) \<in> set ps. look m F (page_indices v) = Some (p, [])"
    "\<forall>js. plain js \<and> (\<forall>(v, p) \<in> set ps. js \<noteq> page_indices v) \<longrightarrow> look m F js = None" .
qed

context paging
begin

lemma boot_map_ok:
  assumes L: "boot_layout K cur rs ofs pb n" and inv: "pinv F (m, a) U lv" and "\<forall>js. plain js \<longrightarrow> look m F js = None"
    and u: "root_used m F = {}"
  shows "\<exists>r m' a' U' lv'. map_all E (boot_pages ofs rs pb n) (m, a) = Inr (r, (m', a')) \<and> pinv F (m', a') U' lv'
     \<and> pt_grow managed (m, a) U lv (m', a') U' lv'
     \<and> (boot_outcome (boot_pages ofs rs pb n) r (plain_look m' F) \<and> root_used m' F \<subseteq> top_entries (boot_pages ofs rs pb n))
     \<and> budget (managed a) (3 * length (boot_pages ofs rs pb n)) (r = Inl NoPageTable) U U'"
proof -
  have b: "\<forall>(v, p) \<in> set (boot_pages ofs rs pb n). 4096 * v < 2 ^ 64 \<and> p < 2 ^ 36 \<and> plain (page_indices v)"
    using boot_pages_bound [OF L] L unfolding boot_layout_def by blast
  have "plain_look m F = (\<lambda>_. None)" using assms(3) by (simp add: plain_look_def fun_eq_iff)
  then show ?thesis
    using map_all_ok [OF inv b] assms(3) unfolding boot_outcome_def u by (simp add: no_huge_def) blast
qed

lemma boot_with_ok:
  assumes L: "boot_layout K cur rs ofs pb n" and inv: "pinv C (m, a) U lv" and C: "cr3 m = C" "C < 2 ^ 36"
    and fr: "fresh_root (number (level4_page_table ia)) m U lv"
    and free: "\<exists>i. 1 \<le> i \<and> i < 256 \<and> \<not> present (phys m C i)"
  obtains (none) m' a' U' lv' where "with_table E ia (map_all E (boot_pages ofs rs pb n)) (m, a) = Inr (Inl NoEntry, (m', a'))"
      "pinv C (m', a') U' lv'" "cr3 m' = C" "\<forall>js. plain js \<longrightarrow> look m' C js = look m C js"
      "budget (managed a) 3 True U U'"
  | (run) r m' a' U' lv' lvF where "with_table E ia (map_all E (boot_pages ofs rs pb n)) (m, a) = Inr (r, (m', a'))"
      "pinv C (m', a') U' lv'" "detached (number (level4_page_table ia)) (m', a') U' lv' lvF" "cr3 m' = C"
      "\<forall>js. plain js \<and> look m C js \<noteq> None \<longrightarrow> look m' C js = look m C js"
      "boot_outcome (boot_pages ofs rs pb n) r (plain_look m' (number (level4_page_table ia)))
        \<and> root_used m' (number (level4_page_table ia)) \<subseteq> top_entries (boot_pages ofs rs pb n)" "managed a' = managed a"
      "budget (managed a) (3 + 3 * length (boot_pages ofs rs pb n)) (r = Inl NoPageTable) U U'"
proof (cases rule: with_ok [where f = "map_all E (boot_pages ofs rs pb n)" and N = "3 * length (boot_pages ofs rs pb n)"
      and Q = "\<lambda>r pl u. boot_outcome (boot_pages ofs rs pb n) r pl \<and> u \<subseteq> top_entries (boot_pages ofs rs pb n)", OF inv C fr free])
  case 1
  then show ?case using boot_map_ok [OF L] by blast
next
  case (2 m' a' U' lv')
  then show ?thesis by (rule none)
next
  case (3 r m' a' U' lv' lvF)
  then show ?thesis by (rule run)
qed

lemma paging_init_build:
  assumes L: "boot_layout K cur rs ofs pb n" and test: "runtime_test E st = Inr (Inr (), (m, a))"
    and con: "out (boot_message ofs pb n) con = Inr con1"
  defines "cur1 \<equiv> (snd (kernel_addr_end_physical K cur), con1)"
  shows "paging_init E K out rs (cur, con) st =
     res_bind (inactive_new E (m, a)) (\<lambda>(io, st2).
     case io of
       None \<Rightarrow> Inr (Inl NoUsableMemory, cur1, st2)
     | Some ia \<Rightarrow>
         res_bind (with_table E ia (map_all E (boot_pages ofs rs pb n)) st2) (\<lambda>(r, (m5, a5)).
         case r of
           Inl e \<Rightarrow> Inr (Inl (PageTable e), cur1, (m5, a5))
         | Inr _ \<Rightarrow> res_bind (switch ia m5) (\<lambda>(old_table, m6). Inr (Inr (), cur1, (m6, a5)))))"
proof -
  note A = boot_addresses [OF L]
  have A5: "out (kernel_range_message (4096 * (pb + ofs)) (4096 * (pb + ofs + n)) (4096 * n)) con = Inr con1"
    using con by (simp only: boot_message_def)
  have K: "kernel_addr_begin_virtual K = 4096 * (pb + ofs)" "kernel_addr_begin_physical K = 4096 * pb"
    using L by (simp_all add: boot_layout_def kernel_addr_begin_virtual_def kernel_addr_begin_physical_def)
  have a: "debug_assert (4096 * (pb + ofs) < 4096 * (pb + ofs + n)) = Inr ()" "debug_assert (4096 * x AND 0xfff = 0) = Inr ()" for x :: nat
    using A(4) by (simp_all only: page_aligned_mask) (simp_all add: debug_assert_def)
  show ?thesis
    unfolding paging_init_def test res_bind_simps prod.case sum.case Let_def K A A5 a boot_closure [OF L] cur1_def ..
qed

text \<open>Every way \<^verbatim>\<open>init\<close> can end after its test, as the three cases of the theorem below.\<close>

lemma paging_init_ok:
  assumes L: "boot_layout K cur rs ofs pb n" and test: "runtime_test E st = Inr (Inr (), (m, a))"
    and con: "out (boot_message ofs pb n) con = Inr con1"
    and inv: "pinv (cr3 m) (m, a) U lv" and C: "cr3 m < 2 ^ 36"
    and free: "i \<noteq> j" "\<forall>k \<in> {i, j}. 1 \<le> k \<and> k < 256 \<and> \<not> present (phys m (cr3 m) k)"
  obtains (panic) "paging_init E K out rs (cur, con) st = Inl UnwrapNone" "avail (managed a) U \<le> 4"
  | (error) e m' a' U' lv' where
      "paging_init E K out rs (cur, con) st = Inr (Inl e, (snd (kernel_addr_end_physical K cur), con1), (m', a'))"
      "pinv (cr3 m) (m', a') U' lv'" "cr3 m' = cr3 m"
      "\<forall>js. plain js \<and> look m (cr3 m) js \<noteq> None \<longrightarrow> look m' (cr3 m) js = look m (cr3 m) js"
      "e = PageTable AlreadyMapped \<and> \<not> distinct (map (page_indices \<circ> fst) (boot_pages ofs rs pb n))
        \<or> e \<noteq> PageTable AlreadyMapped \<and> avail (managed a) U \<le> 7 + 3 * length (boot_pages ofs rs pb n)"
  | (switched) m' a' U' lv' where
      "paging_init E K out rs (cur, con) st = Inr (Inr (), (snd (kernel_addr_end_physical K cur), con1), (m', a'))"
      "pinv (cr3 m') (m', a') U' lv'" "boot_outcome (boot_pages ofs rs pb n) (Inr ()) (plain_look m' (cr3 m'))"
      "managed a' = managed a" "root_used m' (cr3 m') \<subseteq> top_entries (boot_pages ofs rs pb n)"
      "avail (managed a) U \<le> avail (managed a') U' + 7 + 3 * length (boot_pages ofs rs pb n)" "(takes_frame E)\<^sup>*\<^sup>* a a'"
proof -
  let ?ps = "boot_pages ofs rs pb n" and ?C = "cr3 m"
  note run = paging_init_build [where out = out, OF L test con]
  have f1: "\<exists>k. 1 \<le> k \<and> k < 256 \<and> \<not> present (phys m ?C k)" using free(2) by blast
  show ?thesis
  proof (cases rule: inactive_ok [OF inv refl f1])
    case (1 a')
    show ?thesis by (rule error [of NoUsableMemory m a' U lv]) (use run 1 in auto)
  next
    case 2
    then show ?thesis using panic run by simp
  next
    case (3 fr m1 a1 U1 lv1 i4)
    let ?ia = "\<lparr>level4_page_table = fr\<rparr>" and ?F = "number fr"
    have "\<exists>k \<in> {i, j}. k \<noteq> i4" using free(1) by auto
    then have f2: "\<exists>k. 1 \<le> k \<and> k < 256 \<and> \<not> present (phys m1 ?C k)" using free(2) 3(7) by metis
    have fr: "fresh_root (number (level4_page_table ?ia)) m1 U1 lv1" using 3(3) by simp
    show ?thesis
    proof (cases rule: boot_with_ok [OF L 3(2,4) C fr f2])
      case (1 m' a' U' lv')
      have "avail (managed a) U \<le> 4 + 3" using budget_failed [OF budget_trans [OF 3(11) 1(5) [unfolded 3(5)]]] .
      then show ?thesis by (intro error [of "PageTable NoEntry" m' a' U' lv']) (use run 3(1,6) 1 in auto)
    next
      case (2 r m' a' U' lv' lvF)
      have old: "\<forall>js. plain js \<and> look m ?C js \<noteq> None \<longrightarrow> look m' ?C js = look m ?C js" using 2(5) 3(6) by simp
      show ?thesis
      proof (cases r)
        case (Inl e)
        have "avail (managed a) U \<le> 7 + 3 * length ?ps" if "e = NoPageTable"
          using budget_failed [of _ _ U U'] budget_trans [OF 3(11) 2(8) [unfolded 3(5)]] that Inl by simp
        then have "e = AlreadyMapped \<and> \<not> distinct (map (page_indices \<circ> fst) ?ps)
            \<or> e \<noteq> AlreadyMapped \<and> avail (managed a) U \<le> 7 + 3 * length ?ps"
          using 2(6) Inl by (auto simp: boot_outcome_def fresh_pages_def)
        then show ?thesis
          by (intro error [of "PageTable e" m' a' U' lv']) (use run 3(1) 2(1-4) Inl old in auto)
      next
        case (Inr u)
        note sw = switch_ok [OF 2(2,3)] and fs = frames_state [of E a]
        have "(takes_frame E)\<^sup>*\<^sup>* a a1" using validD [OF paging_state.inactive_new_keeps [OF fs] 3(1)] by simp
        then have tf: "(takes_frame E)\<^sup>*\<^sup>* a a'"
          using validD [OF paging_state.with_map_all_keeps [OF fs] 2(1)] by simp
        have av: "avail (managed a) U \<le> avail (managed a') U' + 7 + 3 * length ?ps"
          using budget_trans [OF 3(11) 2(8) [unfolded 3(5)]] Inr 2(7) 3(5) by (simp add: budget_def)
        have oc: "boot_outcome ?ps (Inr ()) (plain_look (m'\<lparr>cr3 := ?F\<rparr>) (cr3 (m'\<lparr>cr3 := ?F\<rparr>)))"
            "root_used (m'\<lparr>cr3 := ?F\<rparr>) (cr3 (m'\<lparr>cr3 := ?F\<rparr>)) \<subseteq> top_entries ?ps"
          using 2(6) Inr sw(3) by (simp_all add: root_used_def)
        have "paging_init E K out rs (cur, con) st
            = Inr (Inr (), (snd (kernel_addr_end_physical K cur), con1), (m'\<lparr>cr3 := ?F\<rparr>, a'))"
          using run 3(1) 2(1) sw(1) Inr by simp
        then show ?thesis
          by (rule switched [OF _ _ oc(1) _ oc(2) av tf]) (use sw(2) 2(7) 3(5) in simp_all)
      qed
    qed
  qed
qed

lemma paging_init_full:
  assumes con: "out (boot_message ofs pb n) con = Inr con1" and L: "boot_layout K cur rs ofs pb n" and inv: "pinv (cr3 m) (m, a) U lv" and C: "cr3 m < 2 ^ 36"
    and free: "i \<noteq> j" "\<forall>k \<in> {i, j}. 1 \<le> k \<and> k < 256 \<and> \<not> present (phys m (cr3 m) k)"
    and nh: "no_huge m (cr3 m) [0, 0, 1, 0]" and safe: "test_frame_returns E can_free (m, a)"
  obtains (panic) "paging_init E K out rs (cur, con) (m, a) = Inl UnwrapNone" "avail (managed a) U \<le> 8"
  | (error) e cur' con' m' a' U' lv' where "paging_init E K out rs (cur, con) (m, a) = Inr (Inl e, (cur', con'), (m', a'))"
      "con' \<in> {con, con1}"
      "pinv (cr3 m) (m', a') U' lv'" "cr3 m' = cr3 m"
      "\<forall>js. plain js \<and> look m (cr3 m) js \<noteq> None \<longrightarrow> look m' (cr3 m) js = look m (cr3 m) js"
      "e = PageTable AlreadyMapped
          \<and> (look m (cr3 m) [0, 0, 1, 0] \<noteq> None \<or> \<not> distinct (map (page_indices \<circ> fst) (boot_pages ofs rs pb n)))
        \<or> e \<noteq> PageTable AlreadyMapped \<and> avail (managed a) U \<le> 11 + 3 * length (boot_pages ofs rs pb n)"
  | (switched) m' a' U' lv' where
      "paging_init E K out rs (cur, con) (m, a) = Inr (Inr (), (snd (kernel_addr_end_physical K cur), con1), (m', a'))"
      "pinv (cr3 m') (m', a') U' lv'" "managed a' = managed a"
      "\<forall>(v, p) \<in> set (boot_pages ofs rs pb n). look m' (cr3 m') (page_indices v) = Some (p, [])"
      "\<forall>js. plain js \<and> (\<forall>(v, p) \<in> set (boot_pages ofs rs pb n). js \<noteq> page_indices v) \<longrightarrow> look m' (cr3 m') js = None"
      "root_used m' (cr3 m') \<subseteq> top_entries (boot_pages ofs rs pb n)"
      "avail (managed a) U \<le> avail (managed a') U' + 11 + 3 * length (boot_pages ofs rs pb n)"
      "\<exists>b. borrows_frame E fa_inv can_free a b \<and> (takes_frame E)\<^sup>*\<^sup>* b a'"
proof -
  obtain r m1 a1 U1 lv1 where t: "runtime_test E (m, a) = Inr (r, (m1, a1))"
      and p1: "pinv (cr3 m) (m1, a1) U1 lv1" and c1: "cr3 m1 = cr3 m"
      and o1: "\<forall>j. j \<noteq> 0 \<longrightarrow> phys m1 (cr3 m) j = phys m (cr3 m) j"
      and k1: "\<forall>js. plain js \<longrightarrow> look m1 (cr3 m) js = look m (cr3 m) js"
      and n1: "managed a1 = managed a"
      and r: "r = Inr () \<and> look m (cr3 m) [0, 0, 1, 0] = None \<or> r = Inl NoUsableMemory \<or> r = Inl (PageTable NoPageTable)
        \<or> r = Inl (PageTable AlreadyMapped) \<and> look m (cr3 m) [0, 0, 1, 0] \<noteq> None"
      and b1: "budget (managed a) 4 (r = Inl NoUsableMemory \<or> r = Inl (PageTable NoPageTable)) U U1"
      and bf: "r = Inr () \<longrightarrow> borrows_frame E fa_inv can_free a a1"
    by (rule runtime_test_ok [OF inv nh safe])
  show ?thesis
  proof (cases r)
    case (Inl e)
    then have "paging_init E K out rs (cur, con) (m, a) = Inr (Inl e, (cur, con), (m1, a1))" using t by (simp add: paging_init_def)
    moreover have "e = PageTable AlreadyMapped \<and> look m (cr3 m) [0, 0, 1, 0] \<noteq> None
        \<or> e \<noteq> PageTable AlreadyMapped \<and> avail (managed a) U \<le> 11 + 3 * length (boot_pages ofs rs pb n)"
      using r b1 Inl by (auto simp: budget_def)
    ultimately show ?thesis using p1 c1 k1 by (intro error [of e cur con m1 a1 U1 lv1]) auto
  next
    case (Inr u)
    have t': "runtime_test E (m, a) = Inr (Inr (), (m1, a1))" using t Inr by simp
    have free1: "\<forall>k \<in> {i, j}. 1 \<le> k \<and> k < 256 \<and> \<not> present (phys m1 (cr3 m1) k)" using free o1 c1 by auto
    have p1': "pinv (cr3 m1) (m1, a1) U1 lv1" and C1: "cr3 m1 < 2 ^ 36" using p1 c1 C by simp_all
    have av: "avail (managed a) U \<le> avail (managed a1) U1 + 4" using b1 n1 Inr by (simp add: budget_def)
    show ?thesis
    proof (cases rule: paging_init_ok [where out = out, OF L t' con p1' C1 free(1) free1])
      case 1
      then show ?thesis using av by (intro panic) auto
    next
      case (2 e m' a' U' lv')
      then show ?thesis
        using av c1 k1 by (intro error [of e "snd (kernel_addr_end_physical K cur)" con1 m' a' U' lv']) auto
    next
      case (3 m' a' U' lv')
      have "\<forall>(v, p) \<in> set (boot_pages ofs rs pb n). plain (page_indices v)" using L by (auto simp: boot_layout_def)
      from switched [OF 3(1,2) _ boot_outcome_Ok(2,3) [OF 3(3) this] 3(5)] 3(4,6,7) n1 av bf Inr show ?thesis by auto
    qed
  qed
qed

end

section \<open>Properties\<close>


text \<open>A kernel of two pages at 1 MB, shown 1 GB higher, with the console's page.\<close>

definition small_kernel :: kernel_symbols where
  "small_kernel = \<lparr>KERNEL_ADDR_PHYSICAL_BEGIN = 0x100000, KERNEL_ADDR_PHYSICAL_END = 0x102000,
     KERNEL_ADDR_VIRTUAL_BEGIN = 0x40100000, KERNEL_ADDR_BSS_BEGIN = 0x40101000,
     KERNEL_ADDR_VIRTUAL_OFFSET = 0x40000000, KERNEL_SIZE_BSS = 0x1000\<rparr>"

lemma small_pages: "boot_pages 0x40000 [(0xB8000, 1)] 0x100 2 = [(0x400B8, 0xB8), (0x40100, 0x100), (0x40101, 0x101)]"
  by (simp add: boot_pages_def request_pages_def kernel_pages_def upt_rec)

lemma small_indices: "page_indices 0x400B8 = [0, 1, 0, 0xB8]" "page_indices 0x40100 = [0, 1, 0, 0x100]"
  "page_indices 0x40101 = [0, 1, 0, 0x101]"
  by (simp_all add: page_indices_def indices_def index_eqs)

lemma small_layout: "boot_layout small_kernel None [(0xB8000, 1)] 0x40000 0x100 2"
  unfolding boot_layout_def small_pages
  by (simp add: small_kernel_def kernel_addr_end_physical_def small_indices plain4)

lemma small_message: "boot_message 0x40000 0x100 2 = ''Kernel virtual address: 0x40100000 - 0x40102000, 8KB''"
  by (simp add: boot_message_def kernel_range_message_def kb_def fmt_eval)

lemma managed_base:
  assumes "buddy_managed a' = buddy_managed a" and "x \<in> buddy_managed a"
  shows "base_addr a' div SIZE = base_addr a div SIZE" and "obj_count a' = obj_count a"
proof -
  have "{base_addr a' div SIZE..<base_addr a' div SIZE + obj_count a'} = {base_addr a div SIZE..<base_addr a div SIZE + obj_count a}"
    using assms(1) by (simp add: buddy_managed_def)
  moreover have "x \<in> buddy_managed a'" using assms by simp
  with assms(2) have "0 < obj_count a" "0 < obj_count a'" by (simp_all add: buddy_managed_def)
  ultimately show "base_addr a' div SIZE = base_addr a div SIZE" "obj_count a' = obj_count a"
    using atLeastLessThan_eq_iff [of "base_addr a' div SIZE" "base_addr a' div SIZE + obj_count a'"] by auto
qed

text \<open>The last frame of an odd number of frames can always be given back.\<close>

lemma last_frame_returns:
  assumes F: "buddy_fa_inv (\<lambda>l. l) a {}" and dj: "buddy_managed a \<inter> {8..11} = {}"
    and last: "\<And>p a1. allocate seq_list a 0 = Inr (Some p, a1) \<Longrightarrow> even p \<and> p + 1 = obj_count a"
  shows "test_frame_returns (buddy_env seq_list bit_flags) buddy_can_free (warm_machine, a)"
  unfolding test_frame_returns_def
proof (intro allI impI)
  fix fr a1 m' a'
  assume A: "pe_alloc (buddy_env seq_list bit_flags) (snd (warm_machine, a)) = Inr (Some fr, a1)
    \<and> map_page (buddy_env seq_list bit_flags) (page_from_address 0x200000) fr (fst (warm_machine, a), a1) = Inr (Inr (), (m', a'))"
  then have f: "number fr \<in> buddy_managed a" "number fr < 2 ^ 36" "buddy_fa_inv (\<lambda>l. l) a1 {(number fr, 0)}"
      "buddy_managed a1 = buddy_managed a"
    using bp.alloc_one_Some [OF F] by auto
  obtain p where p: "allocate seq_list a 0 = Inr (Some p, a1)" "number fr = number (objs a1 ! p)"
    using A by (auto simp: buddy_env_def alloc_one_def res_bind_eq_Inr frame_clone_def)
  note mb = managed_base [OF f(4,1)] and last = last [OF p(1)]
  have nr: "number fr = base_addr a1 div SIZE + p" using f(3) p(2) mb(2) last by (simp add: buddy_fa_inv_def)
  have "pt_inv (buddy_fa_inv (\<lambda>l. l)) buddy_managed 8 (warm_machine, a1) {(number fr, 0)} warm_levels"
    using warm_tree f(3,4) dj by (auto simp: pt_inv_def warm_levels_def warm_machine_def split: if_splits)
  from paging.map_existing [OF bp.paging_axioms this warm_look(2) _ _ paging.test_page(1,2) [OF bp.paging_axioms], of fr]
  have "a' = a1" using A f(2) by (simp add: plain4) (simp add: warm_machine_def)
  moreover have "obj_count a1 \<le> buddy_of p 0" using last mb(2) by (simp add: buddy_of_def xor_Suc_0_eq)
  then have "merge_safe a1 p [0..<MAX_ORDER]" by (intro merge_safe_last) (simp_all add: MAX_ORDER_def)
  ultimately show "buddy_can_free a' (frame_from_address (number fr * 4096))"
    using nr by (simp add: buddy_can_free_def frame_from_address_def SIZE_def)
qed

text \<open>An allocator with 33 frames from frame 16 on, as \<^verbatim>\<open>BuddyAllocator::new\<close> leaves it.\<close>

definition roomy :: "nat list BuddyAllocator" where
  "roomy = \<lparr>base_addr = 0x10000, obj_count = 33, free_lists = (replicate 15 [])[0 := [32], 5 := [0]],
     free_counts = (replicate 15 0)[0 := 1, 5 := 1],
     objs = map (\<lambda>i. \<lparr>link = (i = 0 \<or> i = 32), number = 16 + i, order = (if i = 0 then 5 else 0), state = Free\<rparr>) [0..<33]\<rparr>"

lemma roomy_blocks: "free_blocks (\<lambda>l. l) roomy = {(32, 0), (0, 5)}"
  by (auto simp: free_blocks_def roomy_def MAX_ORDER_def nth_list_update split: if_splits)

lemma roomy_inv: "buddy_fa_inv (\<lambda>l. l) roomy {}"
proof -
  have "lists_inv (\<lambda>l. l) roomy"
    unfolding lists_inv_def roomy_blocks by (auto simp: roomy_def MAX_ORDER_def nth_list_update)
  moreover have "tiling 33 {(32, 0), (0, 5)}"
    by (auto simp: tiling_def good_blocks_def block_def cells_def MAX_ORDER_def)
  ultimately have "buddy_inv (\<lambda>l. l) roomy {}"
    unfolding buddy_inv_def roomy_blocks by (simp add: used_inv_def roomy_def)
  then show ?thesis by (auto simp: buddy_fa_inv_def to_frames_def roomy_def SIZE_def)
qed

lemma roomy_returns: "test_frame_returns (buddy_env seq_list bit_flags) buddy_can_free (warm_machine, roomy)"
proof (rule last_frame_returns [OF roomy_inv])
  show "buddy_managed roomy \<inter> {8..11} = {}" by (auto simp: buddy_managed_def roomy_def SIZE_def)
  fix p a1 assume "allocate seq_list roomy 0 = Inr (Some p, a1)"
  moreover obtain a2 where "allocate seq_list roomy 0 = Inr (Some 32, a2)"
    by (simp add: allocate_def seq_list_def roomy_def buddy_eval cong: res_bind_weak_cong)
  ultimately show "even p \<and> p + 1 = obj_count roomy" by (simp add: roomy_def)
qed


end
