(* ===== verification/Buddy_Fresh.thy ===== *)
theory Buddy_Fresh
  imports Buddy_Theorems
begin

text \<open>
  The allocator as \<^verbatim>\<open>BuddyAllocator::new\<close> leaves it: the blocks are cut greedily, so that the
  smallest of them ends where the objects end.  The first frame that is allocated can therefore
  be given back after any number of further allocations, unless merging could reach
  \<^verbatim>\<open>MAX_ORDER\<close>.
\<close>

section \<open>Greedy tilings\<close>

definition greedy :: "nat \<Rightarrow> (nat \<times> nat) set \<Rightarrow> bool" where
  "greedy count F \<longleftrightarrow> (\<forall>(p, j) \<in> F. Suc j < MAX_ORDER \<longrightarrow> 2 ^ Suc j dvd p \<and> count - p < 2 ^ Suc j)"

context linked_list
begin

lemma new_while_blocks:
  assumes "building elems count a index" and "k < MAX_ORDER" and "2 ^ k dvd index"
    and "new_while L count k index a = Inr (i', a')"
  shows "free_blocks elems a' \<subseteq> free_blocks elems a \<union> (\<lambda>n. (index + n * 2 ^ k, k)) ` {n. n * 2 ^ k + 2 ^ k \<le> count - index}"
  using assms
proof (induction "count - index" arbitrary: index a rule: less_induct)
  case less
  have sub: "usub count index = Inr (count - index)" using less.prems(1) by (simp add: building_def)
  show ?case
  proof (cases "2 ^ k \<le> count - index")
    case True
    obtain a1 where a1: "push_free L k index (obj_update index (mark_free \<circ> set_order k) a) = Inr a1"
        "building elems count a1 (index + 2 ^ k)" "free_blocks elems a1 = insert (index, k) (free_blocks elems a)"
      using new_while_step [OF less.prems(1-3) True] by blast
    have lt: "count - (index + 2 ^ k) < count - index" using True by (metis diff_less_mono2 less_add_same_cancel1 less_le_trans
      zero_less_diff zero_less_numeral zero_less_power)
    have w: "new_while L count k (index + 2 ^ k) a1 = Inr (i', a')"
      using less.prems(4) True sub a1(1) by (simp add: new_while.simps [of L count k index a])
    have "2 ^ k dvd index + 2 ^ k" using less.prems(3) by simp
    note IH = less.hyps [OF lt a1(2) less.prems(2) this w]
    show ?thesis
    proof
      fix b assume "b \<in> free_blocks elems a'"
      with IH a1(3) consider "b = (index, k)" | "b \<in> free_blocks elems a"
        | n where "b = (index + 2 ^ k + n * 2 ^ k, k)" "n * 2 ^ k + 2 ^ k \<le> count - (index + 2 ^ k)" by auto
      then show "b \<in> free_blocks elems a \<union> (\<lambda>n. (index + n * 2 ^ k, k)) ` {n. n * 2 ^ k + 2 ^ k \<le> count - index}"
      proof cases
        case 1
        then show ?thesis using True by (intro UnI2 image_eqI [of _ _ 0]) simp_all
      next
        case (3 n)
        then show ?thesis by (intro UnI2 image_eqI [of _ _ "Suc n"]) simp_all
      qed simp
    qed
  next
    case False
    with less.prems(4) sub show ?thesis by (simp add: new_while.simps [of L count k index a])
  qed
qed

lemma new_orders_greedy:
  assumes "building elems count a index" and "m \<le> MAX_ORDER" and "2 ^ m dvd index"
    and "m < MAX_ORDER \<longrightarrow> count - index < 2 ^ m" and "greedy count (free_blocks elems a)"
    and "new_orders L count (rev [0..<m]) index a = Inr (i', a')"
  shows "greedy count (free_blocks elems a')"
  using assms
proof (induction m arbitrary: index a)
  case (Suc m)
  have dvd: "2 ^ m dvd index" using Suc.prems(3) by (rule pow2_dvd_mono [rotated]) simp
  have m: "m < MAX_ORDER" using Suc.prems(2) by simp
  obtain j a1 where w: "new_while L count m index a = Inr (j, a1)" "building elems count a1 j" "2 ^ m dvd j" "count - j < 2 ^ m"
    using new_while_ok [OF Suc.prems(1) m dvd] by auto
  have "greedy count (free_blocks elems a1)"
    unfolding greedy_def
  proof clarify
    fix p i assume p: "(p, i) \<in> free_blocks elems a1" and i: "Suc i < MAX_ORDER"
    consider "(p, i) \<in> free_blocks elems a" | n where "p = index + n * 2 ^ m" "i = m" "n * 2 ^ m + 2 ^ m \<le> count - index"
      using new_while_blocks [OF Suc.prems(1) m dvd w(1)] p by auto
    then show "2 ^ Suc i dvd p \<and> count - p < 2 ^ Suc i"
    proof cases
      case 1
      then show ?thesis using Suc.prems(5) i by (auto simp: greedy_def)
    next
      case (2 n)
      then have lt: "count - index < 2 * 2 ^ m" using Suc.prems(4) i by simp
      have "n = 0"
      proof (rule ccontr)
        assume "n \<noteq> 0"
        then have "2 ^ m \<le> n * 2 ^ m" by (simp add: Suc_leI)
        with 2(3) lt show False by linarith
      qed
      then show ?thesis using 2 Suc.prems(3) lt by simp
    qed
  qed
  with Suc.IH [of a1 j] w Suc.prems(2,6) show ?case by simp
qed simp

lemma buddy_new_greedy:
  assumes "length os = count" and "count < 2 ^ 63" and "buddy_new L base os count = Inr a"
  shows "greedy count (free_blocks elems a)"
proof -
  let ?a0 = "\<lparr>base_addr = base, obj_count = count, free_lists = replicate MAX_ORDER (ll_new L),
        free_counts = replicate MAX_ORDER 0, objs = map reset_link os\<rparr>"
  have fb: "free_blocks elems ?a0 = {}" by (auto simp: free_blocks_def elems_new)
  have b: "building elems count ?a0 0"
    using assms tiling_empty by (auto simp: building_def lists_inv_def fb elems_new reset_link_def)
  obtain i where "new_orders L count (rev [0..<MAX_ORDER]) 0 ?a0 = Inr (i, a)"
    using assms(3) by (auto simp: buddy_new_def res_bind_eq_Inr)
  with new_orders_greedy [OF b, of MAX_ORDER] fb show ?thesis by (simp add: greedy_def)
qed

end

text \<open>The block of least order ends at the end, or its order is the greatest one.\<close>

lemma tiling_cover:
  assumes "tiling count F" and "x < count"
  obtains q j where "(q, j) \<in> F" "q \<le> x" "x < q + 2 ^ j"
proof -
  have "x \<in> cells F" using assms by (simp add: tiling_def)
  then show ?thesis using that by (auto simp: cells_def block_def case_prod_unfold)
qed

lemma multiple_between:
  fixes d p q :: nat
  assumes "d dvd p" "d dvd q" "p < q"
  shows "p + d \<le> q"
proof -
  have "d dvd q - p" using assms by (simp add: dvd_diff_nat)
  then have "d \<le> q - p" using assms(3) by (intro dvd_imp_le) simp_all
  then show ?thesis using assms(3) by simp
qed

lemma greedy_last_below:
  assumes t: "tiling count F" and g: "greedy count F" and p: "(p, m) \<in> F" and least: "\<forall>(q, j) \<in> F. m \<le> j"
    and m: "Suc m < MAX_ORDER"
  shows "count \<le> buddy_of p m"
proof (rule ccontr)
  have d: "2 ^ Suc m dvd p" using g p m by (auto simp: greedy_def)
  assume "\<not> count \<le> buddy_of p m"
  then have "p + 2 ^ m < count" using buddy_of_upper [OF d] by simp
  then obtain q j where q: "(q, j) \<in> F" "q \<le> p + 2 ^ m" "p + 2 ^ m < q + 2 ^ j" by (rule tiling_cover [OF t])
  have "m \<le> j" using least q(1) by auto
  then consider "j = m" | "Suc m \<le> j" by linarith
  then have dq: "2 ^ Suc m dvd q"
  proof cases
    case 1
    then show ?thesis using g q(1) m by (auto simp: greedy_def)
  next
    case 2
    then show ?thesis using tiling_block_bound(4) [OF t q(1)] by (rule pow2_dvd_mono)
  qed
  show False
  proof (cases "p < q")
    case True
    then show False using multiple_between [OF d dq] q(2) by simp
  next
    case False
    then have "p \<in> block (q, j)" using q(3) by (simp add: block_def)
    then have "(q, j) = (p, m)" using tiling_disjoint [OF t q(1) p] block_nonempty(1) [of "(p, m)"] by simp
    then show False using q(3) by simp
  qed
qed

lemma tiling_top_dvd:
  assumes t: "tiling count F" and top: "\<forall>(q, j) \<in> F. j = m" and "0 < count"
  shows "2 ^ m dvd count"
proof -
  obtain q j where q: "(q, j) \<in> F" "count - 1 < q + 2 ^ j"
    by (rule tiling_cover [OF t, of "count - 1"]) (use assms(3) in simp_all)
  have j: "j = m" using top q(1) by auto
  have "q + 2 ^ m = count" using q(2) tiling_block_bound(1) [OF t q(1)] assms(3) j by simp
  moreover have "2 ^ m dvd q" using tiling_block_bound(4) [OF t q(1)] j by simp
  ultimately show ?thesis by auto
qed

lemma greedy_last:
  assumes t: "tiling count F" and g: "greedy count F" and p: "(p, m) \<in> F" and least: "\<forall>(q, j) \<in> F. m \<le> j"
    and c: "count < 2 ^ MAX_ORDER \<or> \<not> 2 ^ (MAX_ORDER - 1) dvd count"
  shows "count \<le> buddy_of p m"
proof (cases "Suc m < MAX_ORDER")
  case True
  then show ?thesis by (rule greedy_last_below [OF t g p least])
next
  case False
  note tb = tiling_block_bound [OF t]
  have M: "MAX_ORDER = Suc m" using False tb(3) [OF p] by simp
  have top: "\<forall>(q, j) \<in> F. j = m"
  proof clarify
    fix q j assume "(q, j) \<in> F"
    then show "j = m" using least tb(3) [of q j] M by fastforce
  qed
  have pm: "p + 2 ^ m \<le> count" "2 ^ m dvd p" "p < count" using tb(1,4,2) [OF p] .
  have dc: "2 ^ m dvd count" using tiling_top_dvd [OF t top] pm(3) by simp
  then have lt: "count < 2 ^ m + 2 ^ m" using c unfolding M by simp
  have "p = 0" using multiple_between [of "2 ^ m" 0 p] pm(1,2) lt by fastforce
  moreover have "count \<le> 2 ^ m" using multiple_between [of "2 ^ m" "2 ^ m" count] dc lt by fastforce
  ultimately show ?thesis using buddy_of_upper [of m 0] by simp
qed

section \<open>Giving the first frame back\<close>

text \<open>A client that allocates single objects, any number of times.\<close>

definition alloc_step :: "'l linked_list_api \<Rightarrow> 'l BuddyAllocator \<Rightarrow> 'l BuddyAllocator \<Rightarrow> bool" where
  "alloc_step L a a' \<longleftrightarrow> (\<exists>r. allocate L a 0 = Inr (r, a'))"

lemma merge_chain:
  assumes "r \<le> m" "m < MAX_ORDER" "2 ^ m dvd p" "obj_count a \<le> buddy_of p m"
    and "\<forall>i. r \<le> i \<and> i < m \<longrightarrow> order (objs a ! (p + 2 ^ i)) = i"
  shows "merge_safe a p [r..<MAX_ORDER]"
  using assms
proof (induction "m - r" arbitrary: r)
  case 0
  then show ?case by (simp add: upt_conv_Cons)
next
  case (Suc d)
  then have r: "r < m" "d = m - Suc r" by simp_all
  have "2 ^ Suc r dvd p" using Suc.prems(3) r(1) by (intro pow2_dvd_mono [of "Suc r" m]) simp_all
  then have "buddy_of p r = p + 2 ^ r" by (rule buddy_of_upper)
  moreover have "merge_safe a p [Suc r..<MAX_ORDER]" using Suc.hyps(1) [OF r(2)] Suc.prems r(1) by simp
  moreover have "order (objs a ! (p + 2 ^ r)) = r" using Suc.prems(5) r(1) by simp
  ultimately show ?case using r(1) Suc.prems(2) by (simp add: upt_conv_Cons min_def)
qed

context linked_list
begin

lemma allocate_least:
  assumes inv: "buddy_inv elems a U" and "allocate L a 0 = Inr (Some p, a')"
  obtains m where "(p, m) \<in> free_blocks elems a" "\<forall>(q, j) \<in> free_blocks elems a. m \<le> j"
    "buddy_inv elems a' (insert (p, 0) U)" "same_shape a a'"
    "free_blocks elems a' = free_blocks elems a - {(p, m)} \<union> split_blocks p 0 m"
  using allocate_search_ok [OF inv, of 0 0] assms(2) by (auto simp: allocate_def MAX_ORDER_def)

lemma alloc_steps_inv:
  assumes "(alloc_step L)\<^sup>*\<^sup>* a a'" and "buddy_inv elems a U"
  shows "\<exists>U'. U \<subseteq> U' \<and> buddy_inv elems a' U' \<and> same_shape a a'"
  using assms
proof (induction rule: rtranclp_induct)
  case base
  then show ?case by (intro exI [of _ U]) simp
next
  case (step b c)
  then obtain U' where U': "U \<subseteq> U'" "buddy_inv elems b U'" "same_shape a b" by blast
  obtain r where r: "allocate L b 0 = Inr (r, c)" using step.hyps(2) by (auto simp: alloc_step_def)
  consider p a2 where "allocate L b 0 = Inr (Some p, a2)" "buddy_inv elems a2 (insert (p, 0) U')" "same_shape b a2"
    | "allocate L b 0 = Inr (None, b)" using allocate_ok [OF U'(2), of 0] by blast
  then show ?case
  proof cases
    case (1 p a2)
    then show ?thesis using r U' by (intro exI [of _ "insert (p, 0) U'"]) (auto intro: same_shape_trans)
  next
    case 2
    then show ?thesis using r U' by (intro exI [of _ U']) auto
  qed
qed

text \<open>
  The first object a fresh allocator hands out: either nothing else is allocated, and the merge
  rebuilds the block it was cut from, which ends at the end; or its buddy is allocated next.
\<close>

lemma first_object_returns:
  assumes inv: "buddy_inv elems a {}" and g: "greedy (obj_count a) (free_blocks elems a)"
    and c: "obj_count a < 2 ^ MAX_ORDER \<or> \<not> 2 ^ (MAX_ORDER - 1) dvd obj_count a"
    and p: "allocate L a 0 = Inr (Some p, a1)" and steps: "(alloc_step L)\<^sup>*\<^sup>* a1 a'"
  shows "merge_safe a' p [0..<MAX_ORDER]"
proof -
  let ?F = "free_blocks elems a"
  obtain m where m: "(p, m) \<in> ?F" "\<forall>(q, j) \<in> ?F. m \<le> j" "buddy_inv elems a1 {(p, 0)}" "same_shape a a1"
      "free_blocks elems a1 = ?F - {(p, m)} \<union> split_blocks p 0 m"
    using allocate_least [OF inv p] by metis
  have t: "tiling (obj_count a) ?F" using inv by (simp add: buddy_inv_def)
  note tb = tiling_block_bound [OF t m(1)]
  have last: "obj_count a \<le> buddy_of p m" by (rule greedy_last [OF t g m(1,2) c])
  have oc: "obj_count a1 = obj_count a" using same_shape_count [OF m(4)] .
  obtain U' where U': "{(p, 0)} \<subseteq> U'" "buddy_inv elems a' U'" "same_shape a1 a'" using alloc_steps_inv [OF steps m(3)] by blast
  have oc': "obj_count a' = obj_count a" using same_shape_count [OF U'(3)] oc by simp
  show ?thesis
  proof (cases "m = 0")
    case True
    then show ?thesis using merge_chain [of 0 0 p a'] last oc' by (simp add: MAX_ORDER_def)
  next
    case False
    have sb: "(p + 2 ^ i, i) \<in> free_blocks elems a1" if "i < m" for i using m(5) that by (auto simp: split_blocks_def)
    from steps show ?thesis
    proof (cases rule: converse_rtranclpE)
      case base
      have "order (objs a1 ! (p + 2 ^ i)) = i" if "i < m" for i
        using lists_invD(8) [of elems a1] m(3) sb [OF that] by (auto simp: buddy_inv_def)
      then show ?thesis using base merge_chain [of 0 m p a1] tb(3,4) last oc by simp
    next
      case (step b)
      then obtain r where r: "allocate L a1 0 = Inr (r, b)" by (auto simp: alloc_step_def)
      have one: "(p + 1, 0) \<in> free_blocks elems a1" using sb [of 0] False by simp
      then obtain q where q: "r = Some q" using allocate_ok [OF m(3), of 0] r by (auto simp: MAX_ORDER_def)
      obtain j where j: "(q, j) \<in> free_blocks elems a1" "\<forall>(x, i) \<in> free_blocks elems a1. j \<le> i"
          "buddy_inv elems b (insert (q, 0) {(p, 0)})"
        using allocate_least [OF m(3), of q b] r q by metis
      have "j = 0" using j(2) one by auto
      then have "q = p + 1" using j(1) m(2,5) False by (auto simp: split_blocks_def)
      then obtain U2 where U2: "(p + 1, 0) \<in> U2" "buddy_inv elems a' U2" using alloc_steps_inv [OF step(2) j(3)] by auto
      have "is_used (objs a' ! (p + 1))" using U2 by (auto simp: buddy_inv_def used_inv_def is_used_def)
      moreover have "2 ^ Suc 0 dvd p" using tb(4) False by (intro pow2_dvd_mono [of "Suc 0" m]) simp_all
      then have "buddy_of p 0 = p + 1" using buddy_of_upper [of 0 p] by simp
      moreover have "[0..<MAX_ORDER] = 0 # [Suc 0..<MAX_ORDER]" by (rule upt_conv_Cons) (simp add: MAX_ORDER_def)
      ultimately show ?thesis by (simp only: merge_safe.simps simp_thms)
    qed
  qed
qed

end

section \<open>Merging past the largest order\<close>

lemma merge_overflow:
  assumes "r \<le> m" "Suc m = MAX_ORDER" "2 ^ m dvd p" "\<forall>i. r \<le> i \<and> i \<le> m \<longrightarrow> buddy_of p i < obj_count a \<and> \<not> is_used (objs a ! buddy_of p i)"
  shows "\<not> merge_safe a p [r..<MAX_ORDER]"
  using assms
proof (induction "m - r" arbitrary: r)
  case 0
  then have r: "r = m" by simp
  have "buddy_of p m < obj_count a \<and> \<not> is_used (objs a ! buddy_of p m)" using 0(5) r by blast
  then show ?case using 0(3) r by (simp add: upt_conv_Cons)
next
  case (Suc d)
  then have r: "r < m" "d = m - Suc r" by simp_all
  have "2 ^ Suc r dvd p" using Suc.prems(3) r(1) by (intro pow2_dvd_mono [of "Suc r" m]) simp_all
  then have "min p (buddy_of p r) = p" by (simp add: buddy_of_upper)
  moreover have "\<not> merge_safe a p [Suc r..<MAX_ORDER]" using Suc.hyps(1) [OF r(2)] Suc.prems r(1) by simp
  moreover have "buddy_of p r < obj_count a \<and> \<not> is_used (objs a ! buddy_of p r)" using Suc.prems(1,4) r(1) by simp
  ultimately show ?case using r(1) Suc.prems(2) by (simp add: upt_conv_Cons)
qed

text \<open>When the objects are a multiple of twice the largest block, all blocks have that size.\<close>

lemma greedy_largest:
  assumes t: "tiling count F" and g: "greedy count F" and d: "2 ^ MAX_ORDER dvd count" and p: "(p, j) \<in> F"
  shows "Suc j = MAX_ORDER"
proof (rule ccontr)
  note tb = tiling_block_bound [OF t p]
  assume "Suc j \<noteq> MAX_ORDER"
  then have j: "Suc j < MAX_ORDER" using tb(3) by simp
  then have "2 ^ Suc j dvd p" "count - p < 2 ^ Suc j" using g p by (auto simp: greedy_def)
  moreover have "2 ^ Suc j dvd count" using d j by (intro pow2_dvd_mono [of "Suc j" MAX_ORDER]) simp_all
  ultimately have "2 ^ Suc j dvd count - p" "count - p < 2 ^ Suc j" by (simp_all add: dvd_diff_nat)
  then show False using tb(2) nat_dvd_not_less [of "count - p" "2 ^ Suc j"] by simp
qed

lemma largest_buddy:
  assumes t: "tiling count F" and all: "\<forall>(q, j) \<in> F. j = m" and d: "2 ^ Suc m dvd count" and p: "(p, m) \<in> F"
  shows "(buddy_of p m, m) \<in> F"
proof -
  note tb = tiling_block_bound [OF t]
  have "buddy_of p m < count"
    using buddy_of_cases [OF tb(4) [OF p]]
  proof
    assume u: "2 ^ Suc m dvd p \<and> buddy_of p m = p + 2 ^ m"
    show ?thesis
    proof (rule ccontr)
      assume "\<not> buddy_of p m < count"
      then have "0 < count - p" "count - p < 2 ^ Suc m" using u tb(2) [OF p] by simp_all
      moreover have "2 ^ Suc m dvd count - p" using u d by (simp add: dvd_diff_nat)
      ultimately show False using nat_dvd_not_less by blast
    qed
  qed (use tb(2) [OF p] in auto)
  then have "buddy_of p m \<in> cells F" using t by (simp add: tiling_def)
  then obtain q where q: "(q, m) \<in> F" "q \<le> buddy_of p m" "buddy_of p m < q + 2 ^ m"
    using all by (fastforce simp: cells_def block_def)
  have "2 ^ m dvd buddy_of p m - q" using tb(4) [OF q(1)] buddy_of_aligned [OF tb(4) [OF p]] by (simp add: dvd_diff_nat)
  moreover have "buddy_of p m - q < 2 ^ m" using q(2,3) by simp
  ultimately have "\<not> q < buddy_of p m" using nat_dvd_not_less [of "buddy_of p m - q" "2 ^ m"] by auto
  then have "buddy_of p m = q" using q(2) by simp
  then show ?thesis using q(1) by simp
qed



end
