(* ===== verification/Buddy_Scatter.thy ===== *)
theory Buddy_Scatter
  imports Buddy_Fresh
begin

text \<open>
  How far single allocations scatter the free memory.  An allocator that was just made, or that has
  handed out single objects since, has fewer than \<open>2 ^ r\<close> free objects in blocks below order \<open>r\<close>:
  \<^verbatim>\<open>allocate\<close> takes the smallest block, so that a block of order \<open>r\<close> is only cut when no smaller one is
  left.  Hence a block of order \<open>r\<close> is available as long as more objects than that are free.
\<close>

section \<open>Objects in small blocks\<close>

definition scattered :: "('l \<Rightarrow> nat list) \<Rightarrow> nat \<Rightarrow> 'l BuddyAllocator \<Rightarrow> nat" where
  "scattered elems r a = card (cells (free_blocks elems a) - cells (large r (free_blocks elems a)))"

lemma scattered_le:
  assumes "cells (free_blocks elems a) - cells (large r (free_blocks elems a)) \<subseteq> S" and "finite S"
  shows "scattered elems r a \<le> card S"
  unfolding scattered_def by (rule card_mono [OF assms(2,1)])

lemma small_cell:
  assumes "x \<in> cells F - cells (large r F)"
  obtains p j where "(p, j) \<in> F" "j < r" "x \<in> block (p, j)"
  using assms by (fastforce simp: cells_def large_def)

lemma fresh_scattered:
  assumes t: "tiling count (free_blocks elems a)" and g: "greedy count (free_blocks elems a)" and r: "r < MAX_ORDER"
  shows "scattered elems r a \<le> 2 ^ r - 1"
proof -
  have "cells (free_blocks elems a) - cells (large r (free_blocks elems a)) \<subseteq> {Suc count - 2 ^ r..<count}"
  proof
    fix x assume "x \<in> cells (free_blocks elems a) - cells (large r (free_blocks elems a))"
    then obtain p j where p: "(p, j) \<in> free_blocks elems a" "j < r" "x \<in> block (p, j)" by (rule small_cell)
    have "count - p < 2 ^ Suc j" using g p(1,2) r by (auto simp: greedy_def)
    also have "(2 :: nat) ^ Suc j \<le> 2 ^ r" using p(2) by (intro power_increasing) simp_all
    finally have "count - p < 2 ^ r" .
    then show "x \<in> {Suc count - 2 ^ r..<count}" using p(3) tiling_block_bound(1) [OF t p(1)] by (auto simp: block_def)
  qed
  from scattered_le [OF this] have "scattered elems r a \<le> count - (Suc count - 2 ^ r)" by simp
  also have "\<dots> \<le> 2 ^ r - 1" by simp
  finally show ?thesis .
qed

context linked_list
begin

lemma alloc_scattered:
  assumes inv: "buddy_inv elems a U" and al: "allocate L a 0 = Inr (Some p, a')"
  shows "scattered elems r a' \<le> max (scattered elems r a) (2 ^ r - 1)"
proof -
  let ?F = "free_blocks elems a"
  obtain m where m: "(p, m) \<in> ?F" "\<forall>(q, j) \<in> ?F. m \<le> j" "buddy_inv elems a' (insert (p, 0) U)"
      "free_blocks elems a' = ?F - {(p, m)} \<union> split_blocks p 0 m" "same_shape a a'"
    using allocate_least [OF inv al] by metis
  have cells': "cells (free_blocks elems a') = cells ?F - {p}"
    using buddy_inv_cells(1) [OF inv] buddy_inv_cells(1) [OF m(3)] same_shape_count [OF m(5)] by (auto simp: block_def)
  show ?thesis
  proof (cases "m < r")
    case True
    then have "large r (free_blocks elems a') = large r ?F" using m(4) by (auto simp: large_def split_blocks_def)
    then have "scattered elems r a' \<le> scattered elems r a"
      using scattered_le [of elems a' r "cells ?F - cells (large r ?F)"] cells' buddy_inv_cells(1) [OF inv]
      by (auto simp: scattered_def [of elems r a])
    then show ?thesis by simp
  next
    case False
    have "cells (free_blocks elems a') - cells (large r (free_blocks elems a')) \<subseteq> {Suc p..<p + 2 ^ r}"
    proof
      fix x assume x: "x \<in> cells (free_blocks elems a') - cells (large r (free_blocks elems a'))"
      then obtain q j where q: "(q, j) \<in> free_blocks elems a'" "j < r" "x \<in> block (q, j)" by (rule small_cell)
      have "(q, j) \<notin> ?F" using m(2) q(2) False by auto
      then have j: "q = p + 2 ^ j" using q(1) m(4) by (auto simp: split_blocks_def)
      have "(2 :: nat) ^ j + 2 ^ j \<le> 2 ^ r" using q(2) power_increasing [of "Suc j" r "2 :: nat"] by simp
      then show "x \<in> {Suc p..<p + 2 ^ r}" using q(3) j by (auto simp: block_def Suc_le_eq intro: less_le_trans)
    qed
    from scattered_le [OF this] show ?thesis by simp
  qed
qed

lemma alloc_steps_scattered:
  assumes "(alloc_step L)\<^sup>*\<^sup>* a a'" and "buddy_inv elems a U" and "scattered elems r a \<le> N" and "2 ^ r - 1 \<le> N"
  shows "(\<exists>U'. buddy_inv elems a' U') \<and> scattered elems r a' \<le> N"
  using assms(1)
proof (induction rule: rtranclp_induct)
  case base
  then show ?case using assms(2,3) by blast
next
  case (step b c)
  then obtain U' where U': "buddy_inv elems b U'" and s: "scattered elems r b \<le> N" by blast
  obtain x where x: "allocate L b 0 = Inr (x, c)" using step.hyps(2) by (auto simp: alloc_step_def)
  show ?case
  proof (cases x)
    case None
    then show ?thesis using allocate_ok [OF U', of 0] x U' s by auto
  next
    case (Some p)
    then show ?thesis using allocate_ok [OF U', of 0] alloc_scattered [OF U', of p c r] x s assms(4) by auto
  qed
qed

lemma free_scattered:
  assumes inv: "buddy_inv elems a U" and pk: "(p, k) \<in> U" and safe: "merge_safe a p [k..<MAX_ORDER]"
    and fr: "buddy_free L a p = Inr a'"
  shows "buddy_inv elems a' (U - {(p, k)})" and "scattered elems r a' \<le> scattered elems r a + 2 ^ k"
proof -
  let ?F = "free_blocks elems a"
  have f: "buddy_inv elems a' (U - {(p, k)})" "same_shape a a'" "cells (large r ?F) \<subseteq> cells (large r (free_blocks elems a'))"
    using buddy_free_ok [OF inv pk safe] fr by auto
  show "buddy_inv elems a' (U - {(p, k)})" by (rule f(1))
  have "cells U \<subseteq> cells (U - {(p, k)}) \<union> block (p, k)" by (auto simp: cells_def)
  then have "cells (free_blocks elems a') \<subseteq> cells ?F \<union> block (p, k)"
    using buddy_inv_cells(1) [OF inv] buddy_inv_cells(1) [OF f(1)] same_shape_count [OF f(2)] by auto
  then have s: "cells (free_blocks elems a') - cells (large r (free_blocks elems a')) \<subseteq> (cells ?F - cells (large r ?F)) \<union> block (p, k)"
    using f(3) by blast
  have "finite (cells ?F)" using buddy_inv_cells(1) [OF inv] by simp
  then have "scattered elems r a' \<le> card ((cells ?F - cells (large r ?F)) \<union> block (p, k))"
    by (intro scattered_le [OF s]) (simp add: block_def)
  also have "\<dots> \<le> scattered elems r a + 2 ^ k" unfolding scattered_def using card_Un_le [of _ "block (p, k)"] by (rule order_trans) simp
  finally show "scattered elems r a' \<le> scattered elems r a + 2 ^ k" .
qed

text \<open>So a request is only turned down when no more than the scattered objects are free.\<close>

lemma block_available:
  assumes inv: "buddy_inv elems a U" and r: "r < MAX_ORDER" and al: "allocate L a r = Inr (None, a')"
  shows "card ({..<obj_count a} - cells U) \<le> scattered elems r a"
proof -
  have "\<forall>(p, m) \<in> free_blocks elems a. m < r" using allocate_ok [OF inv, of r] r al by auto
  then have "large r (free_blocks elems a) = {}" by (auto simp: large_def)
  then show ?thesis using buddy_inv_cells(1) [OF inv] by (simp add: scattered_def cells_def)
qed

end

end
