(* ===== verification/Memory_Heap.thy ===== *)
theory Memory_Heap
  imports Paging_Init Heap_Theorems Buddy_Scatter
begin

text \<open>
  The kernel heap over the buddy allocator: when \<^verbatim>\<open>HeapAllocator::new\<close> finds its block of 32 frames
  and what it maps, and what \<^verbatim>\<open>paging::init\<close> does to the free frames before it.
\<close>

section \<open>The heap over the buddy allocator\<close>

abbreviation buddy_pt_inv where
  "buddy_pt_inv elems \<equiv> pt_inv (buddy_fa_inv elems) buddy_managed"

lemma used_block_unlinked:
  assumes "buddy_fa_inv elems a V" and "(base_addr a div SIZE + p, k) \<in> V" and "p < obj_count a"
  shows "\<not> link (objs a ! p)"
proof -
  obtain U where U: "buddy_inv elems a U" "V = to_frames (base_addr a div SIZE) U" using assms(1) by (auto simp: buddy_fa_inv_def)
  then have "(p, k) \<in> U" using assms(2) by (simp add: to_frames_mem)
  then have "state (objs a ! p) = Used" using U(1) by (auto simp: buddy_inv_def used_inv_def)
  then show ?thesis using lists_invD(9,10) [of elems a] U(1) assms(3) by (auto simp: buddy_inv_def)
qed

text \<open>A block of any order, by frame numbers.\<close>

context linked_list
begin

lemma block_alloc_ok:
  assumes F: "buddy_fa_inv elems a V"
  obtains (none) "allocate L a r = Inr (None, a)"
  | (block) p a' where "allocate L a r = Inr (Some p, a')"
      "buddy_fa_inv elems a' (insert (base_addr a div SIZE + p, r) V)"
      "block (base_addr a div SIZE + p, r) \<subseteq> buddy_managed a - cells V"
      "number (objs a' ! p) = base_addr a div SIZE + p" "order (objs a' ! p) = r"
      "base_addr a div SIZE + p + 2 ^ r \<le> 2 ^ 36" "buddy_managed a' = buddy_managed a"
proof -
  let ?b = "base_addr a div SIZE"
  obtain U where U: "buddy_inv elems a U" "V = to_frames ?b U"
    and num: "\<forall>i < obj_count a. number (objs a ! i) = ?b + i" and top: "?b + obj_count a \<le> 2 ^ 36"
    using F by (auto simp: buddy_fa_inv_def)
  have len: "length (objs a) = obj_count a" using U(1) by (simp add: buddy_inv_def lists_inv_def)
  consider "allocate L a r = Inr (None, a)"
    | p a' where "allocate L a r = Inr (Some p, a')" "block (p, r) \<subseteq> cells (free_blocks elems a)"
      "buddy_inv elems a' (insert (p, r) U)" "same_shape a a'"
    using allocate_ok [OF U(1), of r] by blast
  then show ?thesis
  proof cases
    case 1
    then show ?thesis by (rule none)
  next
    case (2 p a')
    have c: "x < obj_count a \<and> x \<notin> cells U" if "x \<in> block (p, r)" for x
      using 2(2) that buddy_inv_cells [OF U(1)] by auto
    have pc: "p < obj_count a" using c [of p] block_nonempty(1) [of "(p, r)"] by simp
    have le: "p + 2 ^ r \<le> obj_count a"
    proof (rule ccontr)
      assume "\<not> p + 2 ^ r \<le> obj_count a"
      then have "obj_count a \<in> block (p, r)" using pc by (simp add: block_def)
      with c show False by blast
    qed
    have np: "number (objs a' ! p) = ?b + p"
      using same_shape_numbers [OF 2(4) len num] same_shape_count [OF 2(4)] pc by simp
    have or: "order (objs a' ! p) = r" using 2(3) by (auto simp: buddy_inv_def used_inv_def)
    have "block (?b + p, r) \<subseteq> buddy_managed a - cells V"
    proof
      fix x assume "x \<in> block (?b + p, r)"
      then obtain y where y: "x = y + ?b" "y \<in> block (p, r)"
        by (intro that [of "x - ?b"]) (auto simp: block_def)
      with c [OF y(2)] show "x \<in> buddy_managed a - cells V" by (simp add: U(2) cells_to_frames buddy_managed_def)
    qed
    moreover have "buddy_fa_inv elems a' (insert (?b + p, r) V)"
      using buddy_fa_inv_shape [OF F 2(4,3)] U(2) by (simp add: to_frames_insert)
    ultimately show ?thesis using block [OF 2(1)] np or le top same_shape_managed [OF 2(4)] by simp
  qed
qed

end

lemma avail_insert_block: "avail M U \<le> avail M (insert b U) + 2 ^ snd b"
proof -
  have "M - cells U \<subseteq> (M - cells (insert b U)) \<union> block b" by auto
  show ?thesis
  proof (cases "finite (M - cells U)")
    case True
    have "finite ((M - cells (insert b U)) \<union> block b)"
      using True by (auto simp: block_def intro: finite_subset [of _ "M - cells U"])
    with \<open>M - cells U \<subseteq> (M - cells (insert b U)) \<union> block b\<close>
    have "avail M U \<le> card ((M - cells (insert b U)) \<union> block b)" unfolding avail_def by (rule card_mono [rotated])
    also have "\<dots> \<le> avail M (insert b U) + 2 ^ snd b" unfolding avail_def using card_Un_le [of _ "block b"] by (rule order_trans) simp
    finally show ?thesis .
  qed (simp add: avail_def)
qed

text \<open>A request that is turned down, in terms of frames.\<close>

lemma buddy_avail:
  assumes "buddy_inv elems a U"
  shows "avail (buddy_managed a) (to_frames (base_addr a div SIZE) U) = card ({..<obj_count a} - cells U)"
proof -
  let ?b = "base_addr a div SIZE"
  have "buddy_managed a - cells (to_frames ?b U) = (\<lambda>x. x + ?b) ` ({..<obj_count a} - cells U)"
  proof (intro set_eqI iffI)
    fix y assume y: "y \<in> buddy_managed a - cells (to_frames ?b U)"
    then have "y = (y - ?b) + ?b" "y - ?b < obj_count a" by (auto simp: buddy_managed_def)
    moreover have "y - ?b \<notin> cells U" using y cells_to_frames [of "y - ?b" ?b U] by (auto simp: buddy_managed_def)
    ultimately show "y \<in> (\<lambda>x. x + ?b) ` ({..<obj_count a} - cells U)" by blast
  qed (auto simp: buddy_managed_def cells_to_frames)
  then show ?thesis unfolding avail_def by (simp add: card_image inj_on_def)
qed

lemma heap_block_available:
  assumes LL: "linked_list L elems" and F: "buddy_fa_inv elems a V" and r: "r < MAX_ORDER" and al: "allocate L a r = Inr (None, a')"
  shows "avail (buddy_managed a) V \<le> scattered elems r a"
proof -
  obtain U where U: "buddy_inv elems a U" "V = to_frames (base_addr a div SIZE) U" using F by (auto simp: buddy_fa_inv_def)
  show ?thesis using linked_list.block_available [OF LL U(1) r al] buddy_avail [OF U(1)] U(2) by simp
qed

text \<open>
  \<^verbatim>\<open>HeapAllocator::new\<close>: either nothing, with every translation kept, or a fresh range of 32 pages
  that shows one block of 32 frames, which is disjoint from all page tables.
\<close>

lemma heap_new_ok:
  assumes LL: "linked_list L elems" and B: "bitflags B" and inv: "buddy_pt_inv elems G (m, a) U lv"
  obtains (none) m' a' U' lv' where "heap_new L (buddy_env L B) (m, a) = Inr (None, (m', a'))"
      "buddy_pt_inv elems G (m', a') U' lv'" "cr3 m' = cr3 m" "\<forall>js. plain js \<longrightarrow> look m' G js = look m G js"
      "{1..<511} \<subseteq> root_used m G \<or> avail (buddy_managed a) U \<le> max 35 (scattered elems 5 a)"
  | (heap) v f m' a' U' lv' where
      "heap_new L (buddy_env L B) (m, a) = Inr (Some \<lparr>heap_begin = 4096 * v, heap_end = 4096 * (v + 32)\<rparr>, (m', a'))"
      "buddy_pt_inv elems G (m', a') U' lv'" "cr3 m' = cr3 m" "0 < v" "4096 * (v + 32) < 2 ^ 64"
      "\<forall>k < 32. look m G (page_indices (v + k)) = None \<and> look m' G (page_indices (v + k)) = Some (f + k, [])"
      "\<forall>js. plain js \<and> (\<forall>k < 32. js \<noteq> page_indices (v + k)) \<longrightarrow> look m' G js = look m G js"
      "block (f, 5) \<subseteq> buddy_managed a" "block (f, 5) \<inter> dom lv' = {}"
proof -
  note P = paging_over_buddy [OF LL B]
  note I = paging.pinvD [OF P inv]
  show ?thesis
  proof (cases rule: linked_list.block_alloc_ok [OF LL I(3), of 5])
    case 1
    have "avail (buddy_managed a) U \<le> max 35 (scattered elems 5 a)"
      using heap_block_available [OF LL I(3) _ 1] by (simp add: MAX_ORDER_def)
    then show ?thesis by (intro none [of m a U lv]) (use 1 inv in \<open>simp_all add: heap_new_def\<close>)
  next
    case blk: (2 p a1)
    let ?f = "base_addr a div SIZE + p" and ?fr = "objs a1 ! p"
    let ?V = "insert (?f, 5) U"
    have cV: "cells ?V = block (?f, 5) \<union> cells U" by (simp add: cells_def)
    have p1: "buddy_pt_inv elems G (m, a1) ?V lv" using I blk(2,7) cV by (auto simp: pt_inv_def)
    have o: "2 ^ order ?fr \<le> (510 :: nat)" "number ?fr + 2 ^ order ?fr \<le> 2 ^ 36" using blk(4-6) by simp_all
    show ?thesis
    proof (cases rule: paging.auto_continuous_map_ok [OF P p1 o])
      case (1 st' U' lv')
      obtain m' a' where st': "st' = (m', a')" by (cases st')
      have "heap_new L (buddy_env L B) (m, a) = Inr (None, (m', a'))" using blk(1) 1(1) st' by (simp add: heap_new_def)
      moreover have "{1..<511} \<subseteq> root_used m G \<or> avail (buddy_managed a) U \<le> max 35 (scattered elems 5 a)"
      proof (cases "find (\<lambda>i. \<not> present (phys m G i)) [1..<512] = None")
        case True
        then show ?thesis by (auto simp: find_None_iff root_used_def)
      next
        case False
        then have "avail (buddy_managed a) ?V \<le> 3" using 1(4) blk(7) by (auto dest: budget_failed)
        then have "avail (buddy_managed a) U \<le> 35" using avail_insert_block [of "buddy_managed a" U "(?f, 5)"] by simp
        then show ?thesis by (simp only: le_max_iff_disj simp_thms)
      qed
      ultimately show ?thesis
        using none 1(2,3) st' paging.pext_plain [OF P, of G m a1 ?V lv m' a' U' lv'] by (simp add: pt_ext_def pt_grow_def)
    next
      case (2 m' a' U' lv' i4)
      let ?v = "i4 * 512 ^ 3 + 512 ^ 2 + 512 + 1"
      have ord: "2 ^ order ?fr = (32 :: nat)" using blk(5) by simp
      note J = paging.pinvD [OF P 2(2)]
      have g: "cr3 m' = cr3 m" "buddy_managed a' = buddy_managed a" "(?f, 5) \<in> U'"
        "dom lv' - dom lv \<subseteq> buddy_managed a - (block (?f, 5) \<union> cells U)"
        using 2(3) blk(7) cV by (auto simp: pt_grow_def)
      have fm: "?f \<in> buddy_managed a" using blk(3) block_nonempty(1) [of "(?f, 5)"] by auto
      note mb = managed_base [OF g(2) fm]
      have "\<not> link (objs a' ! p)"
        by (rule used_block_unlinked [OF J(3), of p 5]) (use g(3) mb fm in \<open>auto simp: buddy_managed_def\<close>)
      then have run: "heap_new L (buddy_env L B) (m, a) = Inr (Some \<lparr>heap_begin = 4096 * ?v, heap_end = 4096 * (?v + 32)\<rparr>, (m', a'))"
        using blk(1) 2(1) ord by (simp add: heap_new_def algebra_simps)
      have free: "\<not> present (phys m G i4)" using 2(4) by (auto simp: find_Some_iff)
      have ix: "page_indices (?v + k) = [i4, 1, 1, Suc k]" if "k < 32" for k
        using paging.found_page_indices(1) [OF P 2(6), of k] that by simp
      have M: "look m' G (page_indices (?v + k)) = Some (?f + k, [])" if "k < 32" for k
        using 2(7) that blk(4) ord by (simp add: paging.mapped_upto_def [OF P])
      have O: "\<forall>js. plain js \<and> (\<forall>k < 32. js \<noteq> page_indices (?v + k)) \<longrightarrow> look m' G js = look m G js"
        using 2(7) ord by (simp add: paging.mapped_upto_def [OF P])
      have N: "look m G (page_indices (?v + k)) = None" if "k < 32" for k using ix [OF that] free by simp
      have b: "4096 * (?v + 32) < 2 ^ 64" using 2(6) by simp
      have d: "block (?f, 5) \<inter> dom lv' = {}" using g(4) blk(3) I(4) by blast
      show ?thesis
        by (rule heap [OF run 2(2) g(1) _ b _ O _ d]) (use M N blk(3) in auto)
    qed
  qed
qed

section \<open>The frame of the runtime test\<close>

lemma takes_alloc_steps: "(takes_frame (buddy_env L B))\<^sup>*\<^sup>* a a' \<Longrightarrow> (alloc_step L)\<^sup>*\<^sup>* a a'"
  by (erule rtranclp_mono [THEN predicate2D, rotated])
    (auto simp: takes_frame_def alloc_step_def buddy_env_def alloc_one_def res_bind_eq_Inr)

lemma fresh_frame_returns:
  assumes LL: "linked_list L elems" and F: "buddy_fa_inv elems a {}" and g: "greedy (obj_count a) (free_blocks elems a)"
    and c: "obj_count a < 2 ^ 15 \<or> \<not> 2 ^ 14 dvd obj_count a"
  shows "test_frame_returns (buddy_env L B) buddy_can_free (m, a)"
  unfolding test_frame_returns_def
proof (intro allI impI)
  fix fr a1 m' a'
  assume A: "pe_alloc (buddy_env L B) (snd (m, a)) = Inr (Some fr, a1)
    \<and> map_page (buddy_env L B) (page_from_address 0x200000) fr (fst (m, a), a1) = Inr (Inr (), (m', a'))"
  then obtain p where p: "allocate L a 0 = Inr (Some p, a1)" "number fr = number (objs a1 ! p)"
    by (auto simp: buddy_env_def alloc_one_def res_bind_eq_Inr frame_clone_def)
  have steps: "(alloc_step L)\<^sup>*\<^sup>* a1 a'" using takes_alloc_steps [OF map_page_takes_frames] A by fastforce
  have inv: "buddy_inv elems a {}" and num: "\<forall>i < obj_count a. number (objs a ! i) = base_addr a div SIZE + i"
    using F by (auto simp: buddy_fa_inv_def to_frames_def)
  have c': "obj_count a < 2 ^ MAX_ORDER \<or> \<not> 2 ^ (MAX_ORDER - 1) dvd obj_count a" using c by (simp add: MAX_ORDER_def)
  have safe: "merge_safe a' p [0..<MAX_ORDER]" by (rule linked_list.first_object_returns [OF LL inv g c' p(1) steps])
  have al: "buddy_inv elems a1 (insert (p, 0) {})" "same_shape a a1" "p < obj_count a"
    using linked_list.allocate_ok [OF LL inv, of 0] p(1) buddy_inv_cells(1) [OF inv] block_nonempty(1) [of "(p, 0)"] by auto
  have "base_addr a' = base_addr a" "number fr = base_addr a div SIZE + p"
    using linked_list.alloc_steps_inv [OF LL steps al(1)] al(2,3) p(2) num same_shape_numbers [OF al(2) _ num]
      inv by (auto simp: same_shape_def buddy_inv_def lists_inv_def)
  then show "buddy_can_free a' (frame_from_address (number fr * 4096))"
    using safe by (simp add: buddy_can_free_def frame_from_address_def SIZE_def)
qed

text \<open>
  Hence \<^verbatim>\<open>paging::init\<close>, which takes frames, gives one back and takes more, leaves at most 32 frames in
  blocks that are too small for the heap.
\<close>

lemma paging_scattered:
  assumes LL: "linked_list L elems" and inv: "buddy_inv elems a U" and s: "scattered elems 5 a \<le> 31"
    and b: "borrows_frame (buddy_env L B) (buddy_fa_inv elems) buddy_can_free a b" and t: "(takes_frame (buddy_env L B))\<^sup>*\<^sup>* b a'"
  shows "scattered elems 5 a' \<le> 32"
proof -
  obtain c V F where c: "(takes_frame (buddy_env L B))\<^sup>*\<^sup>* a c" "buddy_fa_inv elems c V" "(F, 0) \<in> V"
      "buddy_can_free c (frame_from_address (F * 4096))" "free_frame L c (frame_from_address (F * 4096)) = Inr b"
    using b by (auto simp: borrows_frame_def buddy_env_def)
  obtain W p where W: "buddy_inv elems c W" "(p, 0) \<in> W" "F = base_addr c div SIZE + p"
    using c(2,3) by (auto simp: buddy_fa_inv_def to_frames_def)
  have nf: "number (frame_from_address (F * 4096)) = F" by (simp add: frame_from_address_def SIZE_def)
  have f: "buddy_free L c p = Inr b" "merge_safe c p [0..<MAX_ORDER]"
    using c(4,5) W(3) unfolding free_frame_def buddy_can_free_def nf by (simp_all add: usub_def)
  have "scattered elems 5 c \<le> 31" using linked_list.alloc_steps_scattered [OF LL takes_alloc_steps [OF c(1)] inv s] by simp
  then have "scattered elems 5 b \<le> 32" using linked_list.free_scattered(2) [OF LL W(1,2) f(2,1), of 5] by simp
  moreover note linked_list.free_scattered(1) [OF LL W(1,2) f(2,1)]
  ultimately show ?thesis using linked_list.alloc_steps_scattered [OF LL takes_alloc_steps [OF t], of _ 5 32] by simp
qed

end
