(* ===== verification/Memory_Init.thy ===== *)
theory Memory_Init
  imports Memory_Heap
begin

text \<open>
  \<^verbatim>\<open>memory::init\<close> of \<^verbatim>\<open>src/memory.rs\<close>, the composition of the memory subsystem: the early
  allocator places the frame objects, the buddy allocator takes them over, \<^verbatim>\<open>paging::init\<close> builds
  the kernel's page table with frames of the buddy allocator, and the heap is mapped in it.
\<close>

section \<open>Up to the frame allocator\<close>

text \<open>
  \<open>memory_layout\<close>: the first region at or after the kernel ends on a page boundary and reaches
  past the kernel's end \<open>kend\<close>; the frame objects (of size \<open>s\<close>, aligned to \<open>2 ^ k\<close>) are placed
  there, which leaves \<open>count\<close> frames from frame \<open>pb + n\<close> on.
\<close>

definition memory_layout ::
  "kernel_symbols \<Rightarrow> kernel_end \<Rightarrow> (usize \<times> usize) list \<Rightarrow> IdenticalReMapRequest list \<Rightarrow> nat \<Rightarrow> nat \<Rightarrow>
     nat \<Rightarrow> nat \<Rightarrow> nat \<Rightarrow> nat \<Rightarrow> bool" where
  "memory_layout K cur areas rs s k ofs pb n count \<longleftrightarrow> (\<exists>r rest re frames.
     filter (\<lambda>r. kernel_addr_begin_physical K \<le> region_base_addr r) (adapter_iter areas) = r # rest
     \<and> region_base_addr r + region_size r = 4096 * re \<and> re \<le> 2 ^ 36 \<and> 4096 * (re + ofs) + 8192 \<le> 2 ^ 64
     \<and> round_up 4096 (fst (kernel_addr_end_physical K cur) + 4096 * ofs) < 4096 * (re + ofs) \<and> s \<le> 4096 \<and> k \<le> 12
     \<and> allocate_frames s (2 ^ k)
          \<lparr>addr_begin = fst (kernel_addr_end_physical K cur) + 4096 * ofs, addr_end = 4096 * (re + ofs)\<rparr>
        = Inr ((frames, count), \<lparr>addr_begin = 4096 * (pb + n + ofs), addr_end = 4096 * (re + ofs)\<rparr>)
     \<and> boot_layout K (Some (4096 * (pb + n))) rs ofs pb n)"

lemma memory_layout_top:
  assumes "memory_layout K cur areas rs s k ofs pb n count"
  shows "pb + n + count \<le> 2 ^ 36"
proof -
  let ?kend = "fst (kernel_addr_end_physical K cur)"
  obtain re frames where R: "re \<le> 2 ^ 36" "4096 * (re + ofs) + 8192 \<le> 2 ^ 64"
      "round_up 4096 (?kend + 4096 * ofs) < 4096 * (re + ofs)" "s \<le> 4096" "k \<le> 12"
      "allocate_frames s (2 ^ k) \<lparr>addr_begin = ?kend + 4096 * ofs, addr_end = 4096 * (re + ofs)\<rparr>
        = Inr ((frames, count), \<lparr>addr_begin = 4096 * (pb + n + ofs), addr_end = 4096 * (re + ofs)\<rparr>)"
    using assms unfolding memory_layout_def by blast
  have "4096 * (pb + n + ofs) + 4096 * count \<le> 4096 * (re + ofs)"
    using allocate_frames_ok [of "\<lparr>addr_begin = ?kend + 4096 * ofs, addr_end = 4096 * (re + ofs)\<rparr>" s k] R(2-6) by auto
  then show ?thesis using R(1) by simp
qed

text \<open>The lines \<^verbatim>\<open>init\<close> prints before it calls \<^verbatim>\<open>paging::init\<close>.\<close>

definition memory_messages :: "nat \<Rightarrow> nat \<Rightarrow> nat \<Rightarrow> string list" where
  "memory_messages pb n count =
     [free_region_message (4096 * (pb + n)) (4096 * (pb + n) + count * 4096) (count * 4096), buddy_objects_message count]"

lemma memory_init_start:
  assumes M: "memory_layout K (ks_end ks) areas rs s k ofs pb n count"
    and os: "set_numbers (pb + n) 0 (raw count) = Inr os" and bman: "buddy_new L (4096 * (pb + n)) os count = Inr bman"
    and fc: "count_free_objs bman = Inr count" and con: "print_lines out (memory_messages pb n count) con = Inr con2"
  shows "memory_init L B K out s (2 ^ k) raw areas rs (ks, con) =
     res_bind (paging_init (buddy_env L B) K out rs (Some (4096 * (pb + n)), con2) (ks_machine ks, bman)) (\<lambda>(r, (cur3, con3), (m1, bman1)).
     case r of
       Inl e \<Rightarrow> Inr (Inl e, (ks\<lparr>ks_machine := m1, ks_end := cur3\<rparr>, con3))
     | Inr _ \<Rightarrow>
         res_bind (heap_new L (buddy_env L B) (m1, bman1)) (\<lambda>(ho, (m2, bman2)).
         case ho of
           None \<Rightarrow> Inr (Inl NoUsableMemory, (ks\<lparr>ks_machine := m2, ks_end := cur3\<rparr>, con3))
         | Some h \<Rightarrow>
             let g = global_init h (ks_heap ks) in
             res_bind (global_alloc \<lparr>layout_size = 4, layout_align = 4\<rparr> g) (\<lambda>(ptr, g1).
             res_bind (global_dealloc ptr \<lparr>layout_size = 4, layout_align = 4\<rparr> g1) (\<lambda>g2.
             Inr (Inr (), (ks\<lparr>ks_machine := m2, ks_end := cur3, ks_heap := g2\<rparr>, con3))))))"
    (is ?run)
proof -
  let ?kend = "fst (kernel_addr_end_physical K (ks_end ks))" and ?cur1 = "snd (kernel_addr_end_physical K (ks_end ks))"
  obtain r rest re frames where R: "filter (\<lambda>r. kernel_addr_begin_physical K \<le> region_base_addr r) (adapter_iter areas) = r # rest"
      "region_base_addr r + region_size r = 4096 * re" "re \<le> 2 ^ 36" "4096 * (re + ofs) + 8192 \<le> 2 ^ 64"
      "round_up 4096 (?kend + 4096 * ofs) < 4096 * (re + ofs)" "s \<le> 4096" "k \<le> 12"
      "allocate_frames s (2 ^ k) \<lparr>addr_begin = ?kend + 4096 * ofs, addr_end = 4096 * (re + ofs)\<rparr>
        = Inr ((frames, count), \<lparr>addr_begin = 4096 * (pb + n + ofs), addr_end = 4096 * (re + ofs)\<rparr>)"
      "boot_layout K (Some (4096 * (pb + n))) rs ofs pb n"
    using M unfolding memory_layout_def by blast
  have kofs: "KERNEL_ADDR_VIRTUAL_OFFSET K = 4096 * ofs" using R(9) by (simp add: boot_layout_def)
  have le: "?kend + 4096 * ofs \<le> round_up 4096 (?kend + 4096 * ofs)" using round_up_bounds [of 4096] by simp
  have a1: "kernel_addr_end_virtual K (ks_end ks) = Inr (?kend + 4096 * ofs, ?cur1)"
    using le R(4,5) kofs by (simp add: kernel_addr_end_virtual_def to_virtual_addr_def case_prod_unfold Let_def)
  have a2: "uadd (region_base_addr r) (region_size r) = Inr (4096 * re)" "to_virtual_addr K (4096 * re) = Inr (4096 * (re + ofs))"
    using R(2,4) kofs by (simp_all add: to_virtual_addr_def algebra_simps)
  have a3: "early_new (?kend + 4096 * ofs) (4096 * (re + ofs)) = Inr \<lparr>addr_begin = ?kend + 4096 * ofs, addr_end = 4096 * (re + ofs)\<rparr>"
    using le R(5) by (simp add: early_new_def debug_assert_def)
  have a4: "to_physical_addr K (4096 * (pb + n + ofs)) = Inr (4096 * (pb + n))"
    using kofs by (simp add: to_physical_addr_def usub_def algebra_simps)
  have a5: "umul count SIZE = Inr (count * 4096)" "uadd (4096 * (pb + n)) (count * 4096) = Inr (4096 * (pb + n) + count * 4096)"
    using memory_layout_top [OF M] by (simp_all add: SIZE_def umul_def uadd_def)
  have a6: "4096 * (pb + n) div SIZE = pb + n" by (simp add: SIZE_def)
  obtain con1 where c: "out (free_region_message (4096 * (pb + n)) (4096 * (pb + n) + count * 4096) (count * 4096)) con = Inr con1"
      "out (buddy_objects_message count) con1 = Inr con2"
    using con by (auto simp: memory_messages_def res_bind_eq_Inr)
  show ?run
    unfolding memory_init_def Let_def R(1) list.case a1 res_bind_simps prod.case a2 a3 R(8) to_addr_begin_def
      EarlyAllocator.select_convs a4 update_kernel_addr_end_physical_def a5 a6 c(1) os bman fc c(2) buddy_env_def ..
qed

lemma heap_first_alloc:
  assumes "4096 * (v + 32) < 2 ^ 64"
  shows "global_alloc \<lparr>layout_size = 4, layout_align = 4\<rparr> (global_init \<lparr>heap_begin = 4096 * v, heap_end = 4096 * (v + 32)\<rparr> g)
     = Inr (4096 * v, Some \<lparr>heap_begin = 4096 * v + 4, heap_end = 4096 * (v + 32)\<rparr>)"
proof -
  have "align_up (4096 * v) (2 ^ 2) = Inr (4096 * v)"
    unfolding align_up_pow2 using assms round_up_dvd [of "2 ^ 2" "4096 * v"] by simp
  then show ?thesis using assms by (simp add: global_alloc_def global_init_def heap_alloc_def)
qed

section \<open>Initialisation\<close>

text \<open>
  Why \<^verbatim>\<open>init\<close> can fail on a machine \<open>m\<close> with \<open>count\<close> frames and the pages \<open>ps\<close> to map: too few
  frames for the tables, or for the tables and the heap; a top level without a free entry for the
  heap; a page that is mapped twice, or a test page that was mapped before.
\<close>

definition init_fails :: "machine \<Rightarrow> (nat \<times> nat) list \<Rightarrow> nat \<Rightarrow> memory_error \<Rightarrow> bool" where
  "init_fails m ps count e \<longleftrightarrow>
     count \<le> 11 + 3 * length ps
     \<or> e = NoUsableMemory \<and> (count \<le> 46 + 3 * length ps \<or> {1..<511} \<subseteq> top_entries ps)
     \<or> e = PageTable AlreadyMapped
         \<and> (look m (cr3 m) [0, 0, 1, 0] \<noteq> None \<or> \<not> distinct (map (page_indices \<circ> fst) ps))"

text \<open>The three ways \<^verbatim>\<open>init\<close> can end, from a machine whose active table is well-formed.\<close>

lemma new_manager_ok:
  assumes LL: "linked_list L elems" and raw: "length (raw count) = count"
    and M: "memory_layout K cur areas rs s k ofs pb n count" and cnt: "count < 2 ^ 15 \<or> \<not> 2 ^ 14 dvd count"
  obtains os bman where "set_numbers (pb + n) 0 (raw count) = Inr os" "buddy_new L (4096 * (pb + n)) os count = Inr bman"
    "buddy_fa_inv elems bman {}" "buddy_managed bman = {pb + n..<pb + n + count}" "count_free_objs bman = Inr count"
    "\<forall>m. test_frame_returns (buddy_env L B) buddy_can_free (m, bman)" "scattered elems 5 bman \<le> 31"
proof -
  have b: "4096 * (pb + n) div SIZE = pb + n" by (simp add: SIZE_def)
  obtain os bman where os: "set_numbers (pb + n) 0 (raw count) = Inr os" and bman: "buddy_new L (4096 * (pb + n)) os count = Inr bman"
    and fa: "buddy_fa_inv elems bman {}" "buddy_managed bman = {pb + n..<pb + n + count}" "count_free_objs bman = Inr count"
    using frames_handover_ok [OF LL raw, of "4096 * (pb + n)"] memory_layout_top [OF M] unfolding b by auto
  have lo: "length os = count" "count < 2 ^ 63"
    using set_numbers_ok [of "pb + n" 0 "raw count"] os raw memory_layout_top [OF M] by auto
  have oc: "obj_count bman = count" using linked_list.buddy_new_ok [OF LL lo, of "4096 * (pb + n)"] bman by auto
  note gr = linked_list.buddy_new_greedy [OF LL lo bman]
  have safe: "test_frame_returns (buddy_env L B) buddy_can_free (m, bman)" for m
    using fresh_frame_returns [OF LL fa(1)] gr cnt oc by simp
  have "tiling (obj_count bman) (free_blocks elems bman)"
    using fa(1) by (auto simp: buddy_fa_inv_def to_frames_def buddy_inv_def)
  then have "scattered elems 5 bman \<le> 31"
    using fresh_scattered [of "obj_count bman" elems bman 5] gr oc by (simp add: MAX_ORDER_def)
  with os bman fa safe show ?thesis by (intro that) simp_all
qed

lemma memory_init_full:
  assumes LL: "linked_list L elems" and B: "bitflags B" and C: "console out con_inv shown" "con_inv con"
    and raw: "length (raw count) = count" and M: "memory_layout K (ks_end ks) areas rs s k ofs pb n count"
    and cnt: "count < 2 ^ 15 \<or> \<not> 2 ^ 14 dvd count"
    and T: "tree_inv (ks_machine ks) (cr3 (ks_machine ks)) lv" "rec_root (ks_machine ks) (cr3 (ks_machine ks))"
      "dom lv \<inter> {pb + n..<pb + n + count} = {}" "cr3 (ks_machine ks) < 2 ^ 36"
    and free: "i \<noteq> j" "\<forall>k \<in> {i, j}. 1 \<le> k \<and> k < 256 \<and> \<not> present (phys (ks_machine ks) (cr3 (ks_machine ks)) k)"
    and nh: "no_huge (ks_machine ks) (cr3 (ks_machine ks)) [0, 0, 1, 0]"
  obtains (panic) "memory_init L B K out s (2 ^ k) raw areas rs (ks, con) = Inl UnwrapNone" "count \<le> 8"
  | (error) e ks' con' a' U' lv' where "memory_init L B K out s (2 ^ k) raw areas rs (ks, con) = Inr (Inl e, (ks', con'))"
      "buddy_pt_inv elems (cr3 (ks_machine ks')) (ks_machine ks', a') U' lv'" "ks_heap ks' = ks_heap ks" "con_inv con'"
      "init_fails (ks_machine ks) (boot_pages ofs rs pb n) count e"
  | (ok) ks' a' U' lv' v f where "memory_init L B K out s (2 ^ k) raw areas rs (ks, con)
        = Inr (Inr (), (ks', fold shown (memory_messages pb n count @ [boot_message ofs pb n]) con))"
      "buddy_pt_inv elems (cr3 (ks_machine ks')) (ks_machine ks', a') U' lv'"
      "ks_end ks' = Some (4096 * (pb + n))"
      "ks_heap ks' = Some \<lparr>heap_begin = 4096 * v + 4, heap_end = 4096 * (v + 32)\<rparr>"
      "\<forall>x < 32. look (ks_machine ks') (cr3 (ks_machine ks')) (page_indices (v + x)) = Some (f + x, [])"
      "\<forall>(w, p) \<in> set (boot_pages ofs rs pb n). look (ks_machine ks') (cr3 (ks_machine ks')) (page_indices w) = Some (p, [])"
      "\<forall>js. plain js \<and> (\<forall>x < 32. js \<noteq> page_indices (v + x)) \<and> (\<forall>(w, p) \<in> set (boot_pages ofs rs pb n). js \<noteq> page_indices w)
         \<longrightarrow> look (ks_machine ks') (cr3 (ks_machine ks')) js = None"
      "block (f, 5) \<subseteq> {pb + n..<pb + n + count}" "block (f, 5) \<inter> dom lv' = {}"
proof -
  let ?m = "ks_machine ks" and ?E = "buddy_env L B"
  let ?con2 = "fold shown (memory_messages pb n count) con"
  let ?con3 = "shown (boot_message ofs pb n) ?con2"
  note P = paging_over_buddy [OF LL B]
  have L: "boot_layout K (Some (4096 * (pb + n))) rs ofs pb n" using M by (auto simp: memory_layout_def)
  obtain os bman where os: "set_numbers (pb + n) 0 (raw count) = Inr os" and bman: "buddy_new L (4096 * (pb + n)) os count = Inr bman"
    and fa: "buddy_fa_inv elems bman {}" "buddy_managed bman = {pb + n..<pb + n + count}" "count_free_objs bman = Inr count"
    and safe: "\<forall>m. test_frame_returns ?E buddy_can_free (m, bman)" and few: "scattered elems 5 bman \<le> 31"
    by (rule new_manager_ok [where raw = raw and B = B, OF LL raw M cnt])
  note start = memory_init_start [where raw = raw and B = B and out = out, OF M os bman fa(3) console.print_lines_ok [OF C]]
  have ci: "con_inv ?con2" by (rule console.con_inv_fold [OF C])
  note c3 = console.out_ok [OF C(1) ci, of "boot_message ofs pb n"] console.con_inv_shown [OF C(1) ci]
  have inv: "buddy_pt_inv elems (cr3 ?m) (?m, bman) {} lv"
    using T fa(1,2) tree_invD(1) [OF T(1)] by (auto simp: pt_inv_def cells_def)
  have av: "avail (buddy_managed bman) {} = count" using fa(2) by (simp add: avail_def cells_def)
  show ?thesis
  proof (cases rule: paging.paging_init_full [where out = out, OF P c3(1) L inv T(4) free nh safe [rule_format]])
    case 1
    then show ?thesis using panic start av by simp
  next
    case (2 e cur' con' m' a' U' lv')
    then have "init_fails ?m (boot_pages ofs rs pb n) count e" using av by (auto simp: init_fails_def)
    then show ?thesis using start ci c3(2) 2
      by (intro error [of e "ks\<lparr>ks_machine := m', ks_end := cur'\<rparr>" con' a' U' lv']) auto
  next
    case pg: (3 m1 a1 U1 lv1)
    have bi: "buddy_inv elems bman {}" using fa(1) by (auto simp: buddy_fa_inv_def to_frames_def)
    have sc: "scattered elems 5 a1 \<le> 32" using paging_scattered [OF LL bi few] pg(8) by blast
    have cur: "snd (kernel_addr_end_physical K (Some (4096 * (pb + n)))) = Some (4096 * (pb + n))"
      by (simp add: kernel_addr_end_physical_def)
    show ?thesis
    proof (cases rule: heap_new_ok [OF LL B pg(2)])
      case (1 m' a' U' lv')
      have "avail (buddy_managed a1) U1 \<le> 35 \<or> {1..<511} \<subseteq> top_entries (boot_pages ofs rs pb n)"
        using 1(5) sc pg(6) by auto
      then have "init_fails ?m (boot_pages ofs rs pb n) count NoUsableMemory"
        using pg(7) av by (auto simp: init_fails_def)
      then show ?thesis using start pg(1) cur c3(2) 1
        by (intro error [of NoUsableMemory "ks\<lparr>ks_machine := m', ks_end := Some (4096 * (pb + n))\<rparr>" ?con3 a' U' lv']) simp_all
    next
      case (2 v f m' a' U' lv')
      let ?ks = "ks\<lparr>ks_machine := m', ks_end := Some (4096 * (pb + n)),
        ks_heap := Some \<lparr>heap_begin = 4096 * v + 4, heap_end = 4096 * (v + 32)\<rparr>\<rparr>"
      have run: "memory_init L B K out s (2 ^ k) raw areas rs (ks, con)
          = Inr (Inr (), (?ks, fold shown (memory_messages pb n count @ [boot_message ofs pb n]) con))"
        using start pg(1) cur 2(1) heap_first_alloc [OF 2(5)]
        by (simp add: Let_def global_dealloc_def heap_dealloc_def)
      have boot: "\<forall>(w, p) \<in> set (boot_pages ofs rs pb n). look m' (cr3 m') (page_indices w) = Some (p, [])"
      proof clarify
        fix w p assume wp: "(w, p) \<in> set (boot_pages ofs rs pb n)"
        then have w: "look m1 (cr3 m1) (page_indices w) = Some (p, [])" "plain (page_indices w)"
          using pg(4) L by (auto simp: boot_layout_def)
        then have "\<forall>x < 32. page_indices w \<noteq> page_indices (v + x)" using 2(6) by fastforce
        then show "look m' (cr3 m') (page_indices w) = Some (p, [])" using 2(3,7) w by simp
      qed
      show ?thesis by (rule ok [OF run, of a' U' lv' v f]) (use 2 boot pg(3,5) fa(2) in auto)
    qed
  qed
qed

section \<open>Properties\<close>


text \<open>
  The kernel of \<^verbatim>\<open>paging_init_correct_witness\<close> with a region of five pages: the frame objects take
  the second page of the kernel's range and one frame is left.
\<close>

definition small_state :: kernel_state where
  "small_state = \<lparr>ks_machine = warm_machine, ks_end = Some 0x101000, ks_heap = None\<rparr>"

lemma small_memory: "memory_layout small_kernel (Some 0x101000) [(0x100000, 0x3000)] [(0xB8000, 1)] 40 3 0x40000 0x100 2 1"
proof -
  have "adapter_iter [(0x100000, 0x3000)] = [\<lparr>region_base_addr = 0x100000, region_size = 0x3000, region_state = RegionFree\<rparr>]"
    by (simp add: area_into_region_def region_new_def)
  moreover have "allocate_frames 40 (2 ^ 3) \<lparr>addr_begin = 0x40101000, addr_end = 0x40103000\<rparr>
      = Inr ((0x40101000, 1), \<lparr>addr_begin = 0x40102000, addr_end = 0x40103000\<rparr>)"
    unfolding allocate_frames_def early_allocate_def align_addr_begin_def
    by (simp add: align_up_page SIZE_def capacity_def align_up_pow2 [of _ 3, simplified] round_up_def debug_assert_def)
  moreover have "boot_layout small_kernel (Some 0x102000) [(0xB8000, 1)] 0x40000 0x100 2"
    using small_layout by (simp add: boot_layout_def kernel_addr_end_physical_def)
  ultimately show ?thesis
    unfolding memory_layout_def
    by (intro exI [of _ "\<lparr>region_base_addr = 0x100000, region_size = 0x3000, region_state = RegionFree\<rparr>"] exI [of _ "[]"]
        exI [of _ "0x103"] exI [of _ "0x40101000"])
      (simp add: small_kernel_def kernel_addr_begin_physical_def kernel_addr_end_physical_def round_up_def)
qed

lemma small_messages: "memory_messages 0x100 2 1 = [''free region: 0x102000 - 0x103000, 4KB'', ''1 buddy objects'']"
  by (simp add: memory_messages_def free_region_message_def buddy_objects_message_def fmt_eval)


end
