(* ===== verification/Interrupt_Theorems.thy ===== *)
theory Interrupt_Theorems
  imports Interrupt
begin

text \<open>
  What the interrupt modules establish: a descriptor holds the handler's address in its three
  parts, the table dispatches every vector to the right kind of handler, the controllers are
  acknowledged and masked as the code intends, and the timer's counter value is the quotient of
  the clock and the wanted frequency.
\<close>

section \<open>Descriptors\<close>

definition descriptor_is_trap_gate :: "Descriptor \<Rightarrow> bool" where
  "descriptor_is_trap_gate d \<longleftrightarrow> bit (d_flags d) 15 \<and> take_bit 4 (drop_bit 8 (d_flags d)) = TRAP_GATE
     \<and> take_bit 8 (d_flags d) = 0 \<and> take_bit 3 (drop_bit 12 (d_flags d)) = 0"

lemma parse_addr_join:
  "parse_addr a = (l, m, h) \<Longrightarrow> (ucast l :: u64) OR push_bit 16 (ucast m) OR push_bit 32 (ucast h) = a"
proof -
  assume "parse_addr a = (l, m, h)"
  then have e: "l = ucast (a AND 0xFFFF)" "m = ucast (drop_bit 16 a AND 0xFFFF)"
    "h = ucast (drop_bit 32 a AND 0xFFFFFFFF)"
    by (auto simp: parse_addr_def)
  have k: "(0xFFFF :: u64) = mask 16" "(0xFFFFFFFF :: u64) = mask 32"
    by (simp_all add: mask_eq_exp_minus_1)
  show ?thesis
    unfolding e k
  proof (rule bit_word_eqI, goal_cases)
    case (1 n)
    consider "n < 16" | "16 \<le> n" "n < 32" | "32 \<le> n" by linarith
    then show ?case using 1 by cases (auto simp: bit_simps)
  qed
qed

context bitfield
begin

text \<open>The laws determine the setters, so a field computation can be evaluated on \<open>word_fields\<close>.\<close>

lemma set_bit_range_word_fields: "set_bit_range F msb lsb v x = set_bit_range word_fields msb lsb v x"
  by (rule bit_word_eqI) (simp add: bit_set_bit_range word_fields.bit_set_bit_range)

lemma set_one_bit_word_fields: "set_one_bit F i b x = set_one_bit word_fields i b x"
  by (rule bit_word_eqI) (simp add: bit_set_one_bit word_fields.bit_set_one_bit)

lemma get_bit_range_word_fields: "get_bit_range F msb lsb x = get_bit_range word_fields msb lsb x"
  by (rule bit_word_eqI) (simp add: bit_get_bit_range word_fields.bit_get_bit_range)

lemmas eval_fields = set_bit_range_word_fields set_one_bit_word_fields get_bit_range_word_fields

text \<open>A field that is set is read back, cut to its width; a disjoint field keeps its value.\<close>

lemma get_set_same: "lsb \<le> msb \<Longrightarrow> msb < LENGTH('a) \<Longrightarrow> get_bit_range F msb lsb (set_bit_range F msb lsb v x) = take_bit (Suc msb - lsb) v"
  by (rule bit_word_eqI) (auto simp: bit_get_bit_range bit_set_bit_range bit_take_bit_iff)

lemma get_set_other:
  assumes "msb < lsb' \<or> msb' < lsb" "msb < LENGTH('a)"
  shows "get_bit_range F msb lsb (set_bit_range F msb' lsb' v x) = get_bit_range F msb lsb x"
  using assms by (intro bit_word_eqI) (auto simp: bit_get_bit_range bit_set_bit_range)

end

lemma descriptor_flags_value:
  assumes "bitfield F"
  shows "d_flags (descriptor_new F sel h) = 0x8F00"
  by (simp add: descriptor_new_def gate_flag_defs bitfield.eval_fields[OF assms] word_fields_def TRAP_GATE_def
      mask_eq_exp_minus_1 set_bit_eq take_bit_eq_mask split: prod.splits)

text \<open>A new descriptor: a present trap gate for the handler in the current code segment.\<close>

lemma descriptor_new_handler [simp]: "descriptor_handler (descriptor_new F sel h) = h"
  using parse_addr_join[of h] by (auto simp: descriptor_handler_def descriptor_new_def split: prod.splits)

lemma descriptor_new_is_trap_gate: "bitfield F \<Longrightarrow> descriptor_is_trap_gate (descriptor_new F sel h)"
  by (simp add: descriptor_is_trap_gate_def descriptor_flags_value TRAP_GATE_def)

section \<open>The table\<close>

definition error_code_vectors :: "nat list" where
  "error_code_vectors = [8, 10, 11, 12, 13, 14, 17]"

definition vector_handler :: "handler_addrs \<Rightarrow> nat \<Rightarrow> u64" where
  "vector_handler A v =
     (if v \<in> set error_code_vectors then default_handler_with_error_code A
      else if v = 0x20 then timer_handler A else default_handler A)"

text \<open>
  Initialising the table gives 256 vectors, and each of them is a descriptor for the handler
  the vector needs: the variant with an error code exactly for the exceptions that push one,
  the timer's handler for vector \<^verbatim>\<open>0x20\<close>, and the default handler otherwise.
\<close>

lemma idt_init_vectors:
  assumes "length (reserveds idt) = 11" "length (user_defined_interrupts idt) = 224"
  shows "\<exists>idt'. idt_init F sel A idt = Inr idt' \<and>
    idt_vectors idt' = map (\<lambda>v. descriptor_new F sel (vector_handler A v)) [0..<256]"
proof -
  let ?f = "\<lambda>v. descriptor_new F sel (vector_handler A v)"
  have "[0..<256] = [0..<21] @ [21..<32] @ [32] @ [33..<256]"
    using upt_add_eq_append[of 0 21 235] upt_add_eq_append[of 21 32 224] upt_conv_Cons[of 32 256]
    by simp
  moreover have "map ?f [21..<32] = replicate 11 (?f 0)"
    by (rule replicate_eqI) (auto simp: vector_handler_def error_code_vectors_def)
  moreover have "map ?f [33..<256] = replicate 223 (?f 0)"
    by (rule replicate_eqI) (auto simp: vector_handler_def error_code_vectors_def)
  moreover have "[0..<21] = [0, 1, 2, 3, 4, 5, 6, 7, 8, 9, 10, 11, 12, 13, 14, 15, 16, 17, 18, 19, 20]"
    by code_simp
  moreover have "(replicate 224 d)[0 := e] = e # replicate 223 d" for d e :: Descriptor
    using replicate_Suc[of 223 d] by simp
  ultimately show ?thesis
    using assms
    by (simp add: idt_init_def set_handlers_def set_handler_def Let_def idt_vectors_def with_handler_def
      with_handler_with_error_code_def IRQ_NUMBER_TIMER_def IRQ_OFFSET_MASTER_def debug_assert_def
      usub_def vec_set_def map_replicate_const vector_handler_def error_code_vectors_def)
qed


text \<open>A table over memory of zeroes.\<close>

definition zero_descriptor :: Descriptor where
  "zero_descriptor = \<lparr>offset_low = 0, segment_selector = 0, d_flags = 0, offset_middle = 0, offset_high = 0,
     d_reserved = 0\<rparr>"

definition zero_idt :: InterruptDescriptorTable where
  "zero_idt = (let d = zero_descriptor in
     \<lparr>divide_error_exception = d, debug = d, nonmaskable = d, breakpoint = d, overflow = d,
      bound_range_exceeded = d, invalid_opcode = d, device_not_available = d, double_fault = d,
      coprocessor_segment_overrun = d, invalid_tss = d, segment_not_present = d,
      stack_segment_not_present = d, general_protection = d, page_fault = d, reserved_15 = d,
      x87_pfu_floting_point_error = d, alignment_check_exception = d, machine_check_exception = d,
      simd_floating_point_exception = d, virtualization_exception = d,
      reserveds = replicate 11 d, user_defined_interrupts = replicate 224 d\<rparr>)"

definition example_handlers :: handler_addrs where
  "example_handlers = \<lparr>default_handler = 0x1000, default_handler_with_error_code = 0x2000, timer_handler = 0x3000\<rparr>"

definition example_symbols :: kernel_symbols where
  "example_symbols = \<lparr>KERNEL_ADDR_PHYSICAL_BEGIN = 0x100000, KERNEL_ADDR_PHYSICAL_END = 0x200000,
     KERNEL_ADDR_VIRTUAL_BEGIN = 0xFFFF800000100000, KERNEL_ADDR_BSS_BEGIN = 0xFFFF800000180000,
     KERNEL_ADDR_VIRTUAL_OFFSET = 0xFFFF800000000000, KERNEL_SIZE_BSS = 0x1000\<rparr>"

lemma zero_idt_lengths: "length (reserveds zero_idt) = 11" "length (user_defined_interrupts zero_idt) = 224"
  by (simp_all add: zero_idt_def Let_def)

section \<open>The timer\<close>

lemma bytes_of_u16:
  fixes c :: u16
  shows "unat (ucast (drop_bit 8 c) :: u8) * 256 + unat (ucast (c AND 0xFF) :: u8) = unat c"
proof -
  have "c AND 0xFF = take_bit 8 c" by (simp add: take_bit_eq_mask mask_eq_exp_minus_1)
  then have "unat (ucast (c AND 0xFF) :: u8) = unat c mod 256"
    by (simp add: unsigned_ucast_eq unsigned_take_bit_eq) (simp add: take_bit_eq_mod)
  moreover have "unat (ucast (drop_bit 8 c) :: u8) = unat c div 256"
    using unsigned_less[where ?'a = nat, of c]
    by (simp add: unsigned_ucast_eq take_bit_eq_mod drop_bit_eq_div unat_div)
  ultimately show ?thesis by simp
qed

text \<open>
  The two bytes for the timer's counter are the high and the low byte of the number of clock
  ticks per period, for every frequency from 19 Hz to the clock's own.
\<close>
theorem counter_value_correct:
  assumes "19 \<le> f" "f < 1193181"
  shows "\<exists>h l. make_asymptotic_counter_value f = Inr (h, l) \<and> unat h * 256 + unat l = 1193181 div f"
proof -
  have "1193181 div f \<le> 1193181 div 19"
    using assms by (intro div_le_mono2) auto
  then have "unat (word_of_nat (1193181 div f) :: u16) = 1193181 div f"
    by (simp add: unat_of_nat)
  then show ?thesis
    using assms bytes_of_u16[of "word_of_nat (1193181 div f)"]
    by (simp add: make_asymptotic_counter_value_def Let_def)
qed

theorem counter_value_correct_witness:
  "\<exists>h l. make_asymptotic_counter_value 100 = Inr (h, l) \<and> unat h * 256 + unat l = 11931"
  using counter_value_correct[of 100] by simp

text \<open>
  The assertions admit 18 Hz, whose counter value does not fit into sixteen bits: the code
  programs 751 ticks instead of 66287.
\<close>
theorem counter_value_truncated:
  "\<exists>h l. make_asymptotic_counter_value 18 = Inr (h, l) \<and> unat h * 256 + unat l = 751
     \<and> 1193181 div 18 = (66287 :: nat)"
  using bytes_of_u16[of "word_of_nat 66287"] by (simp add: make_asymptotic_counter_value_def Let_def)

section \<open>Initialisation\<close>

text \<open>The last byte written to a port.\<close>

fun last_write :: "nat \<Rightarrow> port_write list \<Rightarrow> u8 option" where
  "last_write p [] = None"
| "last_write p ((q, b) # ws) = (case last_write p ws of Some c \<Rightarrow> Some c | None \<Rightarrow> if p = q then Some b else None)"

lemma last_write_append:
  "last_write p (xs @ ys) = (case last_write p ys of Some c \<Rightarrow> Some c | None \<Rightarrow> last_write p xs)"
  by (induction xs) (auto split: option.splits)

lemma pit_init_trace:
  assumes "bitfield G"
  shows "pit_init G out con = res_bind (out ''init pit'' con) (\<lambda>con1. Inr ([(0x43, 0x34), (0x40, 155), (0x40, 46), (0x21, 0xFE)], con1))"
  by (simp add: pit_init_def mode_defs make_asymptotic_counter_value_def Let_def bitfield.eval_fields[OF assms]
      word_fields_def mask_eq_exp_minus_1 take_bit_eq_mask MODE_COMMAND_REGISTER_def CHANNEL0_def
      enable_timer_interrupt_def MASTER_DATA_PORT_def)

lemma pic_init_trace:
  "pic_init = [(0x20, 0x11), (0x80, 0), (0x20, 0x11), (0x80, 0), (0x21, 0x20), (0x80, 0), (0xA1, 0x28), (0x80, 0),
     (0x21, 4), (0x80, 0), (0xA1, 2), (0x80, 0), (0x21, 1), (0x80, 0), (0xA1, 1), (0x80, 0), (0x21, 0xFF), (0xA1, 0xFF)]"
  by (simp add: pic_init_def port_defs io_wait_def IRQ_OFFSET_MASTER_def IRQ_OFFSET_SLAVE_def ICW1_INIT_def
      ICW1_ICW4_REQUIRED_def ICW4_8086_MODE_def)

section \<open>Delivery\<close>

text \<open>A table in which every vector leads to the handler it needs.\<close>

definition idt_ok :: "handler_addrs \<Rightarrow> InterruptDescriptorTable \<Rightarrow> bool" where
  "idt_ok A idt \<longleftrightarrow> map descriptor_handler (idt_vectors idt) = map (vector_handler A) [0..<256]"

lemma idt_ok_vectors: "idt_vectors idt = map (\<lambda>v. descriptor_new F sel (vector_handler A v)) [0..<256] \<Longrightarrow> idt_ok A idt"
  by (simp add: idt_ok_def o_def)

definition handlers_distinct :: "handler_addrs \<Rightarrow> bool" where
  "handlers_distinct A \<longleftrightarrow> distinct [default_handler A, default_handler_with_error_code A, timer_handler A]"

lemma idt_ok_vector:
  assumes "idt_ok A idt"
  obtains d where "vec_get (idt_vectors idt) (unat (v :: u8)) = Inr d" "descriptor_handler d = vector_handler A (unat v)"
proof -
  have l: "length (idt_vectors idt) = 256"
    using assms [unfolded idt_ok_def, THEN arg_cong [of _ _ length]] by simp
  have v: "unat v < 256" using unsigned_less [of v] by simp
  have "map descriptor_handler (idt_vectors idt) ! unat v = map (vector_handler A) [0..<256] ! unat v"
    using assms by (simp only: idt_ok_def)
  then show ?thesis using that v l by simp
qed

text \<open>The lines an interrupt prints, and its effect on the processor's side.\<close>

definition interrupt_lines :: "u8 \<Rightarrow> InterruptFrame \<Rightarrow> ErrorCode \<Rightarrow> string list" where
  "interrupt_lines v frame error =
     (if v = 0x20 then []
      else [''Got interrupt'', ''  '' @ interrupt_frame_debug frame]
        @ (if unat v \<in> set error_code_vectors then [''  '' @ fmt_hex (unat error)] else []))"

definition two_processes :: "ProcessManager \<Rightarrow> bool" where
  "two_processes m \<longleftrightarrow> processes m ! 0 \<noteq> None \<and> processes m ! 1 \<noteq> None"

definition after_ticks :: "nat \<Rightarrow> irq_state \<Rightarrow> irq_state" where
  "after_ticks n s = s\<lparr>irq_ds := if 0 < n \<and> two_processes (irq_manager s) then 35 else irq_ds s,
     irq_ports := irq_ports s @ replicate n (MASTER_COMMAND_PORT, END_OF_INTERRUPT)\<rparr>"

lemma after_ticks_0 [simp]: "after_ticks 0 s = s"
  by (simp add: after_ticks_def)

lemma after_ticks_after_ticks [simp]: "after_ticks m (after_ticks n s) = after_ticks (n + m) s"
  by (simp add: after_ticks_def replicate_add)

lemma timer_tick:
  assumes "length (processes m) = MAX_PROCESS_COUNT"
  shows "run_timer_handler (m, fr, ds) =
    Inr ((m, if two_processes m then (fr\<lparr>cs := 27, ss := 35\<rparr>, 35) else (fr, ds)), [(MASTER_COMMAND_PORT, END_OF_INTERRUPT)])"
proof -
  obtain p0 p1 ps where m: "processes m = p0 # p1 # ps"
    using assms by (auto simp: MAX_PROCESS_COUNT_def length_Suc_conv eval_nat_numeral)
  have "m\<lparr>processes := p0 # p1 # ps\<rparr> = m" using m by simp
  then show ?thesis
    by (auto simp: run_timer_handler_def thread_switch_context_def process_switch_context_def m vec_get_def two_processes_def
        send_end_of_interrupt_def IRQ_OFFSET_SLAVE_def IRQ_NUMBER_TIMER_def IRQ_OFFSET_MASTER_def Let_def
        split: option.splits)
qed

context console
begin

lemma default_handler_ok:
  "con_inv con \<Longrightarrow> run_default_handler out frame con
     = Inr (fold shown [''Got interrupt'', ''  '' @ interrupt_frame_debug frame] con)"
  by (simp add: run_default_handler_def out_ok con_inv_shown)

lemma default_handler_with_error_code_ok:
  "con_inv con \<Longrightarrow> run_default_handler_with_error_code out frame error con
     = Inr (fold shown [''Got interrupt'', ''  '' @ interrupt_frame_debug frame, ''  '' @ fmt_hex (unat error)] con)"
  by (simp add: run_default_handler_with_error_code_def out_ok con_inv_shown)

lemma deliver_ok:
  assumes "idt_ok A idt" "handlers_distinct A" "con_inv con" "length (processes (irq_manager s)) = MAX_PROCESS_COUNT"
  shows "deliver_interrupt A out idt v frame error (s, con) =
    Inr (if v = 0x20 \<and> two_processes (irq_manager s) then frame\<lparr>cs := 27, ss := 35\<rparr> else frame,
      after_ticks (if v = 0x20 then 1 else 0) s, fold shown (interrupt_lines v frame error) con)"
proof -
  obtain d where d: "vec_get (idt_vectors idt) (unat v) = Inr d" "descriptor_handler d = vector_handler A (unat v)"
    by (rule idt_ok_vector [OF assms(1)])
  have t: "unat v = 0x20 \<longleftrightarrow> v = 0x20" by (simp add: word_unat_eq_iff)
  have ne: "timer_handler A \<noteq> default_handler A" "timer_handler A \<noteq> default_handler_with_error_code A"
    "default_handler_with_error_code A \<noteq> default_handler A"
    using assms(2) by (auto simp: handlers_distinct_def)
  consider "v = 0x20" | "v \<noteq> 0x20" "unat v \<in> set error_code_vectors" | "v \<noteq> 0x20" "unat v \<notin> set error_code_vectors" by blast
  then show ?thesis
  proof cases
    case 1
    then show ?thesis
      using d timer_tick [OF assms(4)] ne
      by (simp add: deliver_interrupt_def vector_handler_def error_code_vectors_def Let_def
          interrupt_lines_def after_ticks_def)
  next
    case 2
    then show ?thesis
      using d ne default_handler_with_error_code_ok [OF assms(3)]
      by (simp add: deliver_interrupt_def vector_handler_def interrupt_lines_def Let_def)
  next
    case 3
    then show ?thesis
      using d t default_handler_ok [OF assms(3)]
      by (simp add: deliver_interrupt_def vector_handler_def interrupt_lines_def Let_def)
  qed
qed

end

text \<open>What \<^verbatim>\<open>interrupt::init\<close> prints and writes.\<close>

definition interrupt_messages :: "InterruptFrame \<Rightarrow> string list" where
  "interrupt_messages frame = [''Initialize IDT'', ''Got interrupt'', ''  '' @ interrupt_frame_debug frame,
     ''Return from interrupt'', ''init pit'']"

definition boot_port_writes :: "port_write list" where
  "boot_port_writes = pic_init @ [(0x43, 0x34), (0x40, 155), (0x40, 46), (0x21, 0xFE)]"

lemma interrupt_init_ok:
  assumes "bitfield G" and C: "console out con_inv shown" "con_inv con"
    and "KERNEL_ADDR_VIRTUAL_OFFSET K + TABLE_ADDRESS < 2 ^ 64"
    and "length (reserveds idt) = 11" "length (user_defined_interrupts idt) = 224"
  obtains idt' where "interrupt_init F G sel A K out frame idt (s, con) = Inr ((idt', idt_load (TABLE_ADDRESS + KERNEL_ADDR_VIRTUAL_OFFSET K)),
      s\<lparr>irq_ports := irq_ports s @ boot_port_writes, irq_enabled := True\<rparr>, fold shown (interrupt_messages frame) con)"
    "idt_vectors idt' = map (\<lambda>v. descriptor_new F sel (vector_handler A v)) [0..<256]"
proof -
  obtain idt' where i: "idt_init F sel A idt = Inr idt'"
    and v: "idt_vectors idt' = map (\<lambda>v. descriptor_new F sel (vector_handler A v)) [0..<256]"
    using idt_init_vectors[OF assms(5,6), of F sel A] by blast
  have t: "vec_get (idt_vectors idt') 0xFA = Inr (descriptor_new F sel (default_handler A))"
    by (simp add: v vec_get_def vector_handler_def error_code_vectors_def)
  note c = console.out_ok [OF C(1)] console.con_inv_shown [OF C(1)] console.default_handler_ok [OF C(1)]
  have u: "unat (0xFA :: u8) = 0xFA" by simp
  have d: "deliver_interrupt A out idt' 0xFA frame 0 (s, con')
      = Inr (frame, s, fold shown [''Got interrupt'', ''  '' @ interrupt_frame_debug frame] con')" if "con_inv con'" for con'
    unfolding deliver_interrupt_def u t using c(3) [OF that] by simp
  have "interrupt_init F G sel A K out frame idt (s, con) = Inr ((idt', idt_load (TABLE_ADDRESS + KERNEL_ADDR_VIRTUAL_OFFSET K)),
      s\<lparr>irq_ports := irq_ports s @ boot_port_writes, irq_enabled := True\<rparr>, fold shown (interrupt_messages frame) con)"
    using assms(4) C(2)
    by (simp add: interrupt_init_def i c(1,2) d pit_init_trace[OF assms(1)] to_virtual_addr_def uadd_def add.commute
        Let_def interrupt_messages_def boot_port_writes_def)
  then show ?thesis using that v by blast
qed

definition idle_state :: irq_state where
  "idle_state = \<lparr>irq_manager = process_manager_new, irq_ds = 0, irq_ports = [], irq_enabled = False\<rparr>"

text \<open>
  C17. \<^verbatim>\<open>interrupt::init\<close> returns and leaves the machine ready for timer interrupts: every vector
  has its handler, the processor's register covers the whole table at its virtual address, the
  master controller is initialised and delivers its lines from vector \<^verbatim>\<open>0x20\<close> on, only the timer
  line is unmasked, the timer gets the mode word and the divisor of 100 Hz, low byte first, and
  interrupts are enabled.  The test interrupt reaches the default handler: its two lines are
  printed between the messages.
\<close>
theorem interrupt_init_correct:
  assumes "bitfield F" "bitfield G" and C: "console out con_inv shown" "con_inv con"
    and "KERNEL_ADDR_VIRTUAL_OFFSET K + TABLE_ADDRESS < 2 ^ 64"
    and "length (reserveds idt) = 11" "length (user_defined_interrupts idt) = 224"
  shows "\<exists>idt' idtr w. interrupt_init F G sel A K out frame idt (s, con)
      = Inr ((idt', idtr), s\<lparr>irq_ports := irq_ports s @ w, irq_enabled := True\<rparr>, fold shown (interrupt_messages frame) con)
    \<and> map descriptor_handler (idt_vectors idt') = map (vector_handler A) [0..<256]
    \<and> list_all descriptor_is_trap_gate (idt_vectors idt')
    \<and> unat (limit idtr) + 1 = 16 * length (idt_vectors idt')
    \<and> base idtr = TABLE_ADDRESS + KERNEL_ADDR_VIRTUAL_OFFSET K
    \<and> map snd (filter (\<lambda>(p, b). p \<in> {0x20, 0x21}) w) = [0x11, 0x11, 0x20, 4, 1, 0xFF, 0xFE]
    \<and> last_write 0x21 w = Some 0xFE \<and> last_write 0xA1 w = Some 0xFF
    \<and> map snd (filter (\<lambda>(p, b). p = 0x40) w) = [155, 46] \<and> 46 * 256 + 155 = (1193181 :: nat) div 100"
proof -
  obtain idt' where i: "interrupt_init F G sel A K out frame idt (s, con) = Inr ((idt', idt_load (TABLE_ADDRESS + KERNEL_ADDR_VIRTUAL_OFFSET K)),
        s\<lparr>irq_ports := irq_ports s @ boot_port_writes, irq_enabled := True\<rparr>, fold shown (interrupt_messages frame) con)"
      "idt_vectors idt' = map (\<lambda>v. descriptor_new F sel (vector_handler A v)) [0..<256]"
    by (rule interrupt_init_ok [OF assms(2-7)])
  moreover have "list_all descriptor_is_trap_gate (idt_vectors idt')"
    by (simp add: i(2) list_all_iff descriptor_new_is_trap_gate[OF assms(1)])
  ultimately show ?thesis
    by (intro exI [of _ idt'] exI [of _ "idt_load (TABLE_ADDRESS + KERNEL_ADDR_VIRTUAL_OFFSET K)"] exI [of _ boot_port_writes])
      (simp add: o_def idt_load_def pic_init_trace boot_port_writes_def)
qed

theorem interrupt_init_correct_witness:
  "\<exists>idt' idtr s'. interrupt_init word_fields word_fields 8 example_handlers example_symbols transcript
       \<lparr>ip = 0x1234, cs = 8, if_flags = 0x202, sp = 0xabc, ss = 0x10\<rparr> zero_idt (idle_state, [])
     = Inr ((idt', idtr), s', [''Initialize IDT'', ''Got interrupt'',
         ''  InterruptFrame { cs:ip = 0x8:0x1234, ss:sp = 0x10:0xabc, flags = 0x202}'', ''Return from interrupt'', ''init pit''])
    \<and> map descriptor_handler (idt_vectors idt') = map (vector_handler example_handlers) [0..<256]
    \<and> last_write 0x21 (irq_ports s') = Some 0xFE"
proof -
  let ?f = "\<lparr>ip = 0x1234, cs = 8, if_flags = 0x202, sp = 0xabc, ss = 0x10\<rparr>"
  have m: "interrupt_messages ?f = [''Initialize IDT'', ''Got interrupt'',
      ''  InterruptFrame { cs:ip = 0x8:0x1234, ss:sp = 0x10:0xabc, flags = 0x202}'', ''Return from interrupt'', ''init pit'']"
    by (simp add: interrupt_messages_def interrupt_frame_debug_def fmt_eval)
  have k: "KERNEL_ADDR_VIRTUAL_OFFSET example_symbols + TABLE_ADDRESS < 2 ^ 64" by (simp add: example_symbols_def TABLE_ADDRESS_def)
  from interrupt_init_correct [OF word_fields.bitfield_axioms word_fields.bitfield_axioms transcript.console_axioms TrueI k
      zero_idt_lengths, of 8 example_handlers ?f idle_state "[]"]
  show ?thesis unfolding m by (fastforce simp: idle_state_def)
qed

text \<open>
  The initialisation words of the slave controller are never started: no byte is written to
  its command port, so the bytes for its data port do not set its vector offset.
\<close>
theorem pic_init_skips_slave:
  "SLAVE_COMMAND_PORT \<notin> fst ` set pic_init \<and> length (filter (\<lambda>(p, b). p = MASTER_COMMAND_PORT) pic_init) = 2
   \<and> map snd (filter (\<lambda>(p, b). p = SLAVE_DATA_PORT) pic_init) = [of_nat IRQ_OFFSET_SLAVE, 2, ICW4_8086_MODE, 0xFF]"
  by (simp add: pic_init_def port_defs io_wait_def)

section \<open>The timer tick\<close>

text \<open>
  A timer tick keeps the instruction and stack pointers of the interrupted frame, switches the frame to the
  user segments exactly when the first two process slots are in use, keeps every process, and acknowledges the
  interrupt to the master controller only.
\<close>
theorem run_timer_handler_correct:
  assumes "length (processes m) = MAX_PROCESS_COUNT"
  shows "run_timer_handler (m, fr, ds) =
    Inr ((m, if processes m ! 0 \<noteq> None \<and> processes m ! 1 \<noteq> None then (fr\<lparr>cs := 27, ss := 35\<rparr>, 35) else (fr, ds)),
         [(MASTER_COMMAND_PORT, END_OF_INTERRUPT)])"
  using timer_tick [OF assms] by (simp add: two_processes_def)

theorem run_timer_handler_correct_witness:
  "\<exists>fr'. run_timer_handler (\<lparr>processes = (replicate 16 None)[0 := Some \<lparr>thread = Thread\<rparr>, 1 := Some \<lparr>thread = Thread\<rparr>]\<rparr>,
      \<lparr>ip = 5, cs = 8, if_flags = 2, sp = 7, ss = 16\<rparr>, 0) =
    Inr ((\<lparr>processes = (replicate 16 None)[0 := Some \<lparr>thread = Thread\<rparr>, 1 := Some \<lparr>thread = Thread\<rparr>]\<rparr>, fr', 35),
      [(0x20, 0x20)]) \<and> cs fr' = 27 \<and> ip fr' = 5"
  using run_timer_handler_correct[of "\<lparr>processes = (replicate 16 None)[0 := Some \<lparr>thread = Thread\<rparr>, 1 := Some \<lparr>thread = Thread\<rparr>]\<rparr>"
      "\<lparr>ip = 5, cs = 8, if_flags = 2, sp = 7, ss = 16\<rparr>" 0]
  by (simp add: MAX_PROCESS_COUNT_def MASTER_COMMAND_PORT_def END_OF_INTERRUPT_def)

section \<open>Runs\<close>

text \<open>
  A run of the kernel after start-up, as far as its own code is concerned, is a sequence of
  interrupts: vector, frame and error code.
\<close>

fun run_interrupts ::
  "handler_addrs \<Rightarrow> 'c printer \<Rightarrow> InterruptDescriptorTable \<Rightarrow> (u8 \<times> InterruptFrame \<times> ErrorCode) list \<Rightarrow> irq_state \<times> 'c
   \<Rightarrow> (irq_state \<times> 'c) res" where
  "run_interrupts A out idt [] sc = Inr sc"
| "run_interrupts A out idt ((v, frame, error) # es) sc =
     res_bind (deliver_interrupt A out idt v frame error sc) (\<lambda>(_, sc'). run_interrupts A out idt es sc')"

definition ticks :: "(u8 \<times> InterruptFrame \<times> ErrorCode) list \<Rightarrow> nat" where
  "ticks es = length (filter (\<lambda>(v, _). v = 0x20) es)"

lemma ticks_simps [simp]: "ticks [] = 0" "ticks ((v, e) # es) = (if v = 0x20 then 1 else 0) + ticks es"
  by (simp_all add: ticks_def)

lemma after_ticks_manager [simp]: "irq_manager (after_ticks n s) = irq_manager s"
  by (simp add: after_ticks_def)

lemma run_interrupts_ok:
  assumes "console out con_inv shown" "idt_ok A idt" "handlers_distinct A"
  shows "con_inv con \<Longrightarrow> length (processes (irq_manager s)) = MAX_PROCESS_COUNT \<Longrightarrow>
    run_interrupts A out idt es (s, con) =
      Inr (after_ticks (ticks es) s, fold shown (concat (map (\<lambda>(v, f, e). interrupt_lines v f e) es)) con)"
proof (induction es arbitrary: s con)
  case (Cons e es)
  obtain v f err where e: "e = (v, f, err)" by (cases e)
  note d = console.deliver_ok [OF assms(1-3) Cons.prems, of v f err]
  show ?case
    using Cons.IH [of "fold shown (interrupt_lines v f err) con" "after_ticks (if v = 0x20 then 1 else 0) s"] Cons.prems
      console.con_inv_fold [OF assms(1) Cons.prems(1)]
    by (simp add: e d)
qed simp


lemma example_idt: "\<exists>idt. idt_ok example_handlers idt"
  using idt_init_vectors [OF zero_idt_lengths, of word_fields 8 example_handlers] idt_ok_vectors by blast


section \<open>The default handlers' text\<close>

text \<open>The named fields of an error code make up its low 32 bits.\<close>

lemma error_code_fields:
  assumes "bitfield F"
  shows "take_bit 32 e = of_bool (external_event F e) OR push_bit 1 (of_bool (descriptor_location F e))
    OR push_bit 2 (of_bool (ti F e)) OR push_bit 3 (segment_selector_index F e) OR push_bit 14 (error_reserved F e)"
proof (rule bit_word_eqI)
  fix n assume "n < LENGTH(64)"
  then consider "n = 0" | "n = 1" | "n = 2" | "3 \<le> n" "n \<le> 13" | "14 \<le> n" "n \<le> 31" | "32 \<le> n" by linarith
  then show "bit (take_bit 32 e) n \<longleftrightarrow> bit (of_bool (external_event F e) OR push_bit 1 (of_bool (descriptor_location F e))
    OR push_bit 2 (of_bool (ti F e)) OR push_bit 3 (segment_selector_index F e) OR push_bit 14 (error_reserved F e)) n"
    using \<open>n < LENGTH(64)\<close>
    by cases (auto simp: error_code_defs bit_simps bitfield.get_one_bit_bit [OF assms] bitfield.bit_get_bit_range [OF assms])
qed

text \<open>
  The fields of \<^verbatim>\<open>Flags\<close> and of \<^verbatim>\<open>ModeCommandRegister\<close> are not disjoint: the reserved fields share a
  bit with the stack table and the privilege level, the binary mode with the operating mode.
\<close>

lemma flag_fields_overlap:
  assumes "bitfield F" and "bitfield G"
  shows "flags_reserved1 F (set_interrupt_stack_table F 4 0) = 1" and "flags_reserved2 F (set_privilege_level F 1 0) = 2"
    and "operating_mode G (set_bcd_binary_mode G 2 0) = 1"
  by (simp_all add: gate_flag_defs mode_defs bitfield.eval_fields [OF assms(1)] bitfield.eval_fields [OF assms(2)] word_fields_def
      mask_eq_exp_minus_1 take_bit_eq_mask)

lemma not_hex_digit: "of_char c < (48 :: nat) \<or> of_char c \<in> {58, 125 :: nat} \<Longrightarrow> \<not> is_digit 16 c"
  by (auto simp: is_digit_def digit_char_code split: if_splits)

text \<open>
  C30. The text a handler prints for a frame determines the frame: two frames with the same text
  have the same five registers.
\<close>
theorem interrupt_frame_debug_injective:
  "interrupt_frame_debug f = interrupt_frame_debug g \<longleftrightarrow> f = (g :: InterruptFrame)"
proof
  have n: "\<not> is_digit 16 CHR '':''" "\<not> is_digit 16 CHR '',''" "\<not> is_digit 16 CHR ''}''"
    by (rule not_hex_digit, simp)+
  assume "interrupt_frame_debug f = interrupt_frame_debug g"
  then have 1: "fmt_hex (cs f) @ CHR '':'' # ''0x'' @ fmt_hex (ip f) @ CHR '','' # '' ss:sp = 0x'' @ fmt_hex (ss f)
      @ CHR '':'' # ''0x'' @ fmt_hex (sp f) @ CHR '','' # '' flags = 0x'' @ fmt_hex (if_flags f) @ [CHR ''}'']
    = fmt_hex (cs g) @ CHR '':'' # ''0x'' @ fmt_hex (ip g) @ CHR '','' # '' ss:sp = 0x'' @ fmt_hex (ss g)
      @ CHR '':'' # ''0x'' @ fmt_hex (sp g) @ CHR '','' # '' flags = 0x'' @ fmt_hex (if_flags g) @ [CHR ''}'']"
    by (simp add: interrupt_frame_debug_def)
  note 2 = fmt_hex_sep [OF 1 n(1)]
  note 3 = fmt_hex_sep [OF 2 [THEN conjunct2] n(2)]
  note 4 = fmt_hex_sep [OF 3 [THEN conjunct2] n(1)]
  note 5 = fmt_hex_sep [OF 4 [THEN conjunct2] n(2)]
  note 6 = fmt_hex_followed [OF 5 [THEN conjunct2] n(3) n(3)]
  show "f = g" using 2 3 4 5 6 by simp
qed simp

end
