(* ===== verification/Boot_Main.thy ===== *)
theory Boot_Main
  imports Boot_Theorems Memory_Init Interrupt_Theorems
begin

text \<open>
  \<^verbatim>\<open>main\<close> of \<^verbatim>\<open>src/kernel.rs\<close> from the boot code's call to the end of start-up: the console, the
  memory subsystem and the interrupts put together, and what is on the screen at the end.
\<close>

section \<open>The log of the kernel\<close>

locale kernel_log =
  fixes V :: "'l boot_env"
  assumes ready: "console_ready V"

sublocale kernel_log \<subseteq> log: console "log_println V" context_inv "log_shown V"
  by (rule log_console [OF ready])

text \<open>The lines of the panic handler.\<close>

definition panic_lines :: "string option \<Rightarrow> (string \<times> nat) option \<Rightarrow> string list" where
  "panic_lines message location =
     [''Panic !''] @ (case message of Some msg \<Rightarrow> [''  msg: '' @ msg] | None \<Rightarrow> [])
     @ [case location of
          Some (file, line) \<Rightarrow> ''panic occurred in file '' @ [CHR 0x27] @ file @ [CHR 0x27] @ '' at line '' @ fmt_dec line
        | None \<Rightarrow> ''panic occurred but can'' @ [CHR 0x27] @ ''t get location information...'']"

context kernel_log
begin

lemma panic_impl_ok:
  "context_inv con \<Longrightarrow> panic_impl V message location con = Inr (fold (log_shown V) (panic_lines message location) con)"
  by (auto simp: panic_impl_def panic_lines_def log.out_ok log.con_inv_shown split: option.splits)

end

section \<open>The state the boot code leaves\<close>

text \<open>
  The pages \<^verbatim>\<open>init\<close> asks \<^verbatim>\<open>memory::init\<close> to map: the stack, the console and the descriptor table.
\<close>

definition boot_requests :: "usize list \<Rightarrow> IdenticalReMapRequest list" where
  "boot_requests argv = [(argv ! 1, argv ! 2), (VRAM_ADDR, 1), (TABLE_ADDRESS, 1)]"

text \<open>
  \<open>env_ok\<close>: the crates behave as documented, the linker's image and the memory map fit together
  (theory \<open>Memory_Init\<close>), and the descriptor table's memory has the size of the table.
  \<open>machine_ok\<close>: the boot loader's page table is well-formed and recursive, leaves two entries of
  its lower half free and does not use the frames behind the kernel.
\<close>

definition env_ok :: "('l \<Rightarrow> nat list) \<Rightarrow> 'l boot_env \<Rightarrow> usize list \<Rightarrow> kernel_end \<Rightarrow> nat \<Rightarrow> nat \<Rightarrow> nat \<Rightarrow> nat \<Rightarrow> bool" where
  "env_ok elems V argv cur ofs pb n count \<longleftrightarrow>
     linked_list (be_list V) elems \<and> bitflags (be_flags V) \<and> bitfield (be_fields16 V) \<and> bitfield (be_fields8 V)
     \<and> console_ready V \<and> handlers_distinct (be_handlers V)
     \<and> length (reserveds (be_raw_idt V)) = 11 \<and> length (user_defined_interrupts (be_raw_idt V)) = 224
     \<and> length argv = 3 \<and> length (be_raw_frames V count) = count \<and> (count < 2 ^ 15 \<or> \<not> 2 ^ 14 dvd count)
     \<and> (\<exists>areas al. be_memory_map V (argv ! 0) = Some areas \<and> be_frame_align V = 2 ^ al
          \<and> memory_layout (be_symbols V) cur areas (boot_requests argv) (be_frame_size V) al ofs pb n count)"

definition machine_ok :: "machine \<Rightarrow> (nat \<rightharpoonup> nat) \<Rightarrow> nat set \<Rightarrow> bool" where
  "machine_ok m lv frames \<longleftrightarrow> tree_inv m (cr3 m) lv \<and> rec_root m (cr3 m) \<and> dom lv \<inter> frames = {} \<and> cr3 m < 2 ^ 36
     \<and> (\<exists>i j. i \<noteq> j \<and> (\<forall>k \<in> {i, j}. 1 \<le> k \<and> k < 256 \<and> \<not> present (phys m (cr3 m) k)))
     \<and> no_huge m (cr3 m) [0, 0, 1, 0]"

section \<open>Start-up\<close>

text \<open>The whole text of a start-up that succeeds.\<close>

definition boot_lines :: "'l boot_env \<Rightarrow> nat \<Rightarrow> nat \<Rightarrow> nat \<Rightarrow> nat \<Rightarrow> string list" where
  "boot_lines V ofs pb n count = [''Start Axel''] @ memory_messages pb n count @ [boot_message ofs pb n]
     @ interrupt_messages (be_test_frame V) @ [''Startup complete'']"

lemma argv_access:
  assumes "length argv = 3"
  shows "vec_get argv 0 = Inr (argv ! 0)" "vec_get argv 1 = Inr (argv ! 1)" "vec_get argv 2 = Inr (argv ! 2)"
  using assms by (simp_all add: vec_get_def)

lemma x86_64_init_memory:
  assumes "length argv = 3" and "be_memory_map V (argv ! 0) = Some areas"
  shows "x86_64_init V argv k =
     res_bind (memory_init (be_list V) (be_flags V) (be_symbols V) (log_println V) (be_frame_size V) (be_frame_align V)
                 (be_raw_frames V) areas (boot_requests argv) (k_memory k, k_context k)) (\<lambda>(r, (ks, con)).
     case r of
       Inl e \<Rightarrow> Inr (Inl (into_arch_error e), k\<lparr>k_memory := ks, k_context := con\<rparr>)
     | Inr _ \<Rightarrow>
         res_bind (interrupt_init (be_fields16 V) (be_fields8 V) (be_cs V) (be_handlers V) (be_symbols V) (log_println V)
                     (be_test_frame V) (be_raw_idt V) (k_irq k, con)) (\<lambda>(tables, irq, con').
         Inr (Inr (), k\<lparr>k_memory := ks, k_context := con', k_interrupts := Some tables, k_irq := irq\<rparr>)))"
  unfolding x86_64_init_def boot_requests_def Let_def argv_access [OF assms(1)] res_bind_simps assms(2) option.case ..

lemma boot_requests_pages:
  assumes "boot_layout K cur (boot_requests argv) ofs pb n"
  shows "(0xB8 + ofs, 0xB8) \<in> set (boot_pages ofs (boot_requests argv) pb n)"
    and "(0x6E + ofs, 0x6E) \<in> set (boot_pages ofs (boot_requests argv) pb n)"
    and "KERNEL_ADDR_VIRTUAL_OFFSET K + TABLE_ADDRESS < 2 ^ 64"
proof -
  show "(0xB8 + ofs, 0xB8) \<in> set (boot_pages ofs (boot_requests argv) pb n)"
    "(0x6E + ofs, 0x6E) \<in> set (boot_pages ofs (boot_requests argv) pb n)"
    by (simp_all add: boot_pages_def boot_requests_def request_pages_def VRAM_ADDR_def TABLE_ADDRESS_def)
  show "KERNEL_ADDR_VIRTUAL_OFFSET K + TABLE_ADDRESS < 2 ^ 64"
    using assms by (simp add: boot_layout_def boot_requests_def TABLE_ADDRESS_def VRAM_ADDR_def)
qed

text \<open>The state after a start-up that succeeds.\<close>

definition booted ::
  "('l \<Rightarrow> nat list) \<Rightarrow> 'l boot_env \<Rightarrow> usize list \<Rightarrow> nat \<Rightarrow> nat \<Rightarrow> nat \<Rightarrow> nat \<Rightarrow> kernel \<Rightarrow> kernel \<Rightarrow> bool" where
  "booted elems V argv ofs pb n count k k' \<longleftrightarrow>
     k_context k' = Some (Some (fold put_char (concat (map (\<lambda>s. text_of s @ [0x0A]) (boot_lines V ofs pb n count))) (blank_console V)))
     \<and> (\<exists>a' U' lv' v. buddy_pt_inv elems (cr3 (ks_machine (k_memory k'))) (ks_machine (k_memory k'), a') U' lv'
          \<and> ks_heap (k_memory k') = Some \<lparr>heap_begin = 4096 * v + 4, heap_end = 4096 * (v + 32)\<rparr>
          \<and> (\<forall>(w, p) \<in> set (boot_pages ofs (boot_requests argv) pb n).
               look (ks_machine (k_memory k')) (cr3 (ks_machine (k_memory k'))) (page_indices w) = Some (p, [])))
     \<and> (\<exists>idt. k_interrupts k' = Some (idt, idt_load (TABLE_ADDRESS + 4096 * ofs)) \<and> idt_ok (be_handlers V) idt)
     \<and> k_irq k' = (k_irq k)\<lparr>irq_ports := irq_ports (k_irq k) @ boot_port_writes, irq_enabled := True\<rparr>"

lemma env_okD:
  assumes "env_ok elems V argv cur ofs pb n count"
  obtains areas al where "be_memory_map V (argv ! 0) = Some areas" "be_frame_align V = 2 ^ al"
    "memory_layout (be_symbols V) cur areas (boot_requests argv) (be_frame_size V) al ofs pb n count"
    "boot_layout (be_symbols V) (Some (4096 * (pb + n))) (boot_requests argv) ofs pb n"
  using assms unfolding env_ok_def memory_layout_def by blast

lemma context_inv_None [simp]: "context_inv None"
  by (simp add: context_inv_def)

text \<open>
  \<^verbatim>\<open>main\<close> after \<^verbatim>\<open>memory::init\<close>: the panic handler on an error, the interrupts and the last line
  otherwise.
\<close>

lemma kernel_main_memory:
  assumes R: "console_ready V" and k: "k_context k = None" and A: "length argv = 3" "be_memory_map V (argv ! 0) = Some areas"
  shows "kernel_main V argv k =
     res_bind (memory_init (be_list V) (be_flags V) (be_symbols V) (log_println V) (be_frame_size V) (be_frame_align V)
                 (be_raw_frames V) areas (boot_requests argv) (k_memory k, log_shown V ''Start Axel'' None)) (\<lambda>(r, (ks, con)).
     let k1 = k\<lparr>k_bytes := clean_bss_section (be_memset V) (be_symbols V) (k_bytes k), k_memory := ks\<rparr> in
     case r of
       Inl e \<Rightarrow>
         res_bind (panic_impl V (Some (''arch::init fails: '' @ arch_error_display (into_arch_error e))) (be_panic_location V) con)
           (\<lambda>con3. Inr (Panicked, k1\<lparr>k_context := con3\<rparr>))
     | Inr _ \<Rightarrow>
         res_bind (interrupt_init (be_fields16 V) (be_fields8 V) (be_cs V) (be_handlers V) (be_symbols V) (log_println V)
                     (be_test_frame V) (be_raw_idt V) (k_irq k, con)) (\<lambda>(tables, irq, con').
         res_bind (log_println V ''Startup complete'' con') (\<lambda>con3.
         Inr (Returned, k1\<lparr>k_interrupts := Some tables, k_irq := irq, k_context := con3\<rparr>))))"
proof -
  have "log_println V ''Start Axel'' None = Inr (log_shown V ''Start Axel'' None)"
    by (rule console.out_ok [OF log_console [OF R]]) simp
  then have main: "kernel_main V argv k =
      res_bind (x86_64_init V argv (k\<lparr>k_bytes := clean_bss_section (be_memset V) (be_symbols V) (k_bytes k),
        k_context := log_shown V ''Start Axel'' None\<rparr>)) (\<lambda>(r, k2).
      case r of
        Inl e \<Rightarrow>
          res_bind (panic_impl V (Some (''arch::init fails: '' @ arch_error_display e)) (be_panic_location V) (k_context k2))
            (\<lambda>con3. Inr (Panicked, k2\<lparr>k_context := con3\<rparr>))
      | Inr _ \<Rightarrow>
          res_bind (log_println V ''Startup complete'' (k_context k2)) (\<lambda>con3. Inr (Returned, k2\<lparr>k_context := con3\<rparr>)))"
    by (simp add: kernel_main_def k)
  show ?thesis (is "_ = res_bind ?M ?f")
  proof (cases ?M)
    case (Inl e)
    then show ?thesis by (simp add: main x86_64_init_memory [OF A])
  next
    case (Inr x)
    obtain r ks con where x: "x = (r, (ks, con))" by (cases x) auto
    show ?thesis
    proof (cases r)
      case (Inl e)
      then show ?thesis using Inr x by (simp add: main x86_64_init_memory [OF A])
    next
      case r: (Inr u)
      show ?thesis
      proof (cases "interrupt_init (be_fields16 V) (be_fields8 V) (be_cs V) (be_handlers V) (be_symbols V) (log_println V)
                     (be_test_frame V) (be_raw_idt V) (k_irq k, con)")
        case (Inl e)
        then show ?thesis using Inr x r by (simp add: main x86_64_init_memory [OF A])
      next
        case (Inr y)
        then show ?thesis using \<open>?M = Inr x\<close> x r by (cases y) (simp add: main x86_64_init_memory [OF A])
      qed
    qed
  qed
qed

lemma kernel_main_booted:
  assumes E: "env_ok elems V argv cur ofs pb n count" and k: "k_context k = None" and A: "be_memory_map V (argv ! 0) = Some areas"
    and M: "memory_init (be_list V) (be_flags V) (be_symbols V) (log_println V) (be_frame_size V) (be_frame_align V)
              (be_raw_frames V) areas (boot_requests argv) (k_memory k, log_shown V ''Start Axel'' None)
          = Inr (Inr (), (ks, fold (log_shown V) (memory_messages pb n count @ [boot_message ofs pb n]) (log_shown V ''Start Axel'' None)))"
    and T: "buddy_pt_inv elems (cr3 (ks_machine ks)) (ks_machine ks, a') U' lv'"
      "ks_heap ks = Some \<lparr>heap_begin = 4096 * v + 4, heap_end = 4096 * (v + 32)\<rparr>"
      "\<forall>(w, p) \<in> set (boot_pages ofs (boot_requests argv) pb n). look (ks_machine ks) (cr3 (ks_machine ks)) (page_indices w) = Some (p, [])"
  obtains k' where "kernel_main V argv k = Inr (Returned, k')" "booted elems V argv ofs pb n count k k'"
proof -
  have V: "console_ready V" "bitfield (be_fields8 V)" "length argv = 3" "length (reserveds (be_raw_idt V)) = 11"
      "length (user_defined_interrupts (be_raw_idt V)) = 224"
    using E by (simp_all add: env_ok_def)
  note C = log_console [OF V(1)]
  have L: "boot_layout (be_symbols V) (Some (4096 * (pb + n))) (boot_requests argv) ofs pb n"
    by (rule env_okD [OF E])
  have K: "KERNEL_ADDR_VIRTUAL_OFFSET (be_symbols V) = 4096 * ofs" using L by (simp add: boot_layout_def)
  let ?con = "fold (log_shown V) (memory_messages pb n count @ [boot_message ofs pb n]) (log_shown V ''Start Axel'' None)"
  let ?con2 = "fold (log_shown V) (interrupt_messages (be_test_frame V)) ?con"
  have c0: "context_inv (log_shown V ''Start Axel'' None)" by (rule console.con_inv_shown [OF C]) simp
  have ci: "context_inv ?con" by (rule console.con_inv_fold [OF C, OF c0])
  obtain idt where i: "interrupt_init (be_fields16 V) (be_fields8 V) (be_cs V) (be_handlers V) (be_symbols V) (log_println V)
        (be_test_frame V) (be_raw_idt V) (k_irq k, ?con)
      = Inr ((idt, idt_load (TABLE_ADDRESS + 4096 * ofs)),
          (k_irq k)\<lparr>irq_ports := irq_ports (k_irq k) @ boot_port_writes, irq_enabled := True\<rparr>, ?con2)"
      "idt_vectors idt = map (\<lambda>v. descriptor_new (be_fields16 V) (be_cs V) (vector_handler (be_handlers V) v)) [0..<256]"
    by (rule interrupt_init_ok [OF V(2) C, OF ci boot_requests_pages(3) [OF L] V(4,5), unfolded K])
  have o: "log_println V ''Startup complete'' ?con2 = Inr (log_shown V ''Startup complete'' ?con2)"
    by (rule console.out_ok [OF C, OF console.con_inv_fold [OF C, OF ci]])
  let ?k' = "k\<lparr>k_bytes := clean_bss_section (be_memset V) (be_symbols V) (k_bytes k), k_memory := ks,
      k_interrupts := Some (idt, idt_load (TABLE_ADDRESS + 4096 * ofs)),
      k_irq := (k_irq k)\<lparr>irq_ports := irq_ports (k_irq k) @ boot_port_writes, irq_enabled := True\<rparr>,
      k_context := log_shown V ''Startup complete'' ?con2\<rparr>"
  have "kernel_main V argv k = Inr (Returned, ?k')"
    unfolding kernel_main_memory [OF V(1) k V(3) A] M res_bind_simps prod.case Let_def sum.case i(1) o by simp
  moreover have "booted elems V argv ofs pb n count k ?k'"
  proof -
    have "log_shown V ''Startup complete'' ?con2 = fold (log_shown V) (boot_lines V ofs pb n count) None"
      by (simp add: boot_lines_def)
    also have "\<dots> = Some (Some (fold put_char (concat (map (\<lambda>s. text_of s @ [0x0A]) (boot_lines V ofs pb n count))) (blank_console V)))"
      using log_shown_fold [of "boot_lines V ofs pb n count" V None] by (simp add: boot_lines_def context_display_def)
    finally show ?thesis unfolding booted_def using T idt_ok_vectors [OF i(2)] by auto
  qed
  ultimately show ?thesis by (rule that)
qed

text \<open>The ways \<^verbatim>\<open>main\<close> can end.\<close>

lemma kernel_main_full:
  assumes E: "env_ok elems V argv (ks_end (k_memory k)) ofs pb n count"
    and M: "machine_ok (ks_machine (k_memory k)) lv {pb + n..<pb + n + count}" and k: "k_context k = None"
  obtains (panic) "kernel_main V argv k = Inl UnwrapNone" "count \<le> 8"
  | (failed) e con k' a' U' lv' where "kernel_main V argv k = Inr (Panicked, k')" "context_inv con"
      "k_context k' = fold (log_shown V) (panic_lines (Some (''arch::init fails: Memory initialization faild: ''
          @ memory_error_display e)) (be_panic_location V)) con"
      "buddy_pt_inv elems (cr3 (ks_machine (k_memory k'))) (ks_machine (k_memory k'), a') U' lv'"
      "ks_heap (k_memory k') = ks_heap (k_memory k)" "k_interrupts k' = k_interrupts k" "k_irq k' = k_irq k"
      "init_fails (ks_machine (k_memory k)) (boot_pages ofs (boot_requests argv) pb n) count e"
  | (returned) k' where "kernel_main V argv k = Inr (Returned, k')" "booted elems V argv ofs pb n count k k'"
proof -
  have V: "linked_list (be_list V) elems" "bitflags (be_flags V)" "console_ready V" "length argv = 3"
      "length (be_raw_frames V count) = count" "count < 2 ^ 15 \<or> \<not> 2 ^ 14 dvd count"
    using E by (simp_all add: env_ok_def)
  note C = log_console [OF V(3)]
  let ?m = "ks_machine (k_memory k)" and ?con1 = "log_shown V ''Start Axel'' None"
  have c1: "context_inv ?con1" by (rule console.con_inv_shown [OF C]) simp
  obtain areas al where A: "be_memory_map V (argv ! 0) = Some areas" "be_frame_align V = 2 ^ al"
      "memory_layout (be_symbols V) (ks_end (k_memory k)) areas (boot_requests argv) (be_frame_size V) al ofs pb n count"
    by (rule env_okD [OF E])
  obtain i j where f: "i \<noteq> j" "\<forall>x \<in> {i, j}. 1 \<le> x \<and> x < 256 \<and> \<not> present (phys ?m (cr3 ?m) x)"
    using M by (auto simp: machine_ok_def)
  have T: "tree_inv ?m (cr3 ?m) lv" "rec_root ?m (cr3 ?m)" "dom lv \<inter> {pb + n..<pb + n + count} = {}" "cr3 ?m < 2 ^ 36"
      "no_huge ?m (cr3 ?m) [0, 0, 1, 0]" using M by (simp_all add: machine_ok_def)
  note main = kernel_main_memory [OF V(3) k V(4) A(1), unfolded A(2)]
  show ?thesis
  proof (cases rule: memory_init_full [where raw = "be_raw_frames V" and con = ?con1 and con_inv = context_inv,
        OF V(1,2) C c1 V(5) A(3) V(6) T(1-4) f T(5)])
    case 1
    then show ?thesis using panic main by simp
  next
    case (2 e ks' con' a' U' lv')
    let ?msg = "Some (''arch::init fails: Memory initialization faild: '' @ memory_error_display e)"
    let ?k' = "k\<lparr>k_bytes := clean_bss_section (be_memset V) (be_symbols V) (k_bytes k), k_memory := ks',
        k_context := fold (log_shown V) (panic_lines ?msg (be_panic_location V)) con'\<rparr>"
    have "panic_impl V ?msg (be_panic_location V) con' = Inr (fold (log_shown V) (panic_lines ?msg (be_panic_location V)) con')"
      by (rule kernel_log.panic_impl_ok [OF kernel_log.intro [OF V(3)] 2(4)])
    then have "kernel_main V argv k = Inr (Panicked, ?k')"
      unfolding main 2(1) by (simp add: into_arch_error_def)
    then show ?thesis by (rule failed [of ?k' con' e a' U' lv']) (use 2 in simp_all)
  next
    case (3 ks' a' U' lv' v f)
    obtain k' where "kernel_main V argv k = Inr (Returned, k')" "booted elems V argv ofs pb n count k k'"
      by (rule kernel_main_booted [OF E k A(1), unfolded A(2), OF 3(1,2,4,6)])
    then show ?thesis by (rule returned)
  qed
qed

text \<open>After a start-up that returned, every sequence of interrupts is handled.\<close>

lemma booted_handles:
  assumes E: "env_ok elems V argv cur ofs pb n count" and b: "booted elems V argv ofs pb n count k k'"
    and p: "length (processes (irq_manager (k_irq k))) = MAX_PROCESS_COUNT"
  obtains idt idtr where "k_interrupts k' = Some (idt, idtr)"
    "run_interrupts (be_handlers V) (log_println V) idt es (k_irq k', k_context k')
      = Inr (after_ticks (ticks es) (k_irq k'), fold (log_shown V) (concat (map (\<lambda>(v, f, e). interrupt_lines v f e) es)) (k_context k'))"
proof -
  have V: "console_ready V" "handlers_distinct (be_handlers V)" using E by (simp_all add: env_ok_def)
  obtain idt where i: "k_interrupts k' = Some (idt, idt_load (TABLE_ADDRESS + 4096 * ofs))" "idt_ok (be_handlers V) idt"
    using b by (auto simp: booted_def)
  have q: "length (processes (irq_manager (k_irq k'))) = MAX_PROCESS_COUNT" using b p by (simp add: booted_def)
  have "k_context k' = fold (log_shown V) (boot_lines V ofs pb n count) None"
    using b log_shown_fold [of "boot_lines V ofs pb n count" V None] by (simp add: booted_def boot_lines_def context_display_def)
  then have "context_inv (k_context k')"
    using console.con_inv_fold [OF log_console [OF V(1)], OF context_inv_None] by (simp only:)
  from that [OF i(1) run_interrupts_ok [OF log_console [OF V(1)] i(2) V(2) this q]] show ?thesis .
qed

section \<open>Properties\<close>



text \<open>
  A start-up on the machine of \<open>warm_machine\<close>: the kernel of two pages, its stack at 512 KB, and 408 KB
  of memory from 1 MB on, which leaves 100 frames.
\<close>

definition demo_env :: "nat list boot_env" where
  "demo_env = \<lparr>be_list = seq_list, be_flags = bit_flags, be_fields16 = word_fields, be_fields8 = word_fields,
     be_memset = (\<lambda>d v n m a. if d \<le> a \<and> a < d + n then ucast v else m a), be_symbols = small_kernel, be_handlers = example_handlers, be_cs = 8,
     be_test_frame = \<lparr>ip = 0x40100000, cs = 8, if_flags = 0x202, sp = 0x80F00, ss = 0\<rparr>,
     be_frame_size = 40, be_frame_align = 8, be_raw_frames = (\<lambda>c. replicate c (frame_from_address 0)),
     be_raw_vram = (\<lambda>n. replicate n 0), be_raw_idt = zero_idt,
     be_memory_map = (\<lambda>_. Some [(0x100000, 0x66000)]), be_panic_location = None\<rparr>"

definition demo_kernel :: kernel where
  "demo_kernel = \<lparr>k_bytes = (\<lambda>_. 0), k_context = None, k_memory = small_state, k_interrupts = None, k_irq = idle_state\<rparr>"

abbreviation demo_argv :: "usize list" where
  "demo_argv \<equiv> [0x9000, 0x80000, 1]"

lemma demo_ready: "console_ready demo_env"
  by (simp add: console_ready_def demo_env_def small_kernel_def)

interpretation demo_log: kernel_log demo_env
  by unfold_locales (rule demo_ready)

lemma demo_pages: "boot_pages 0x40000 (boot_requests demo_argv) 0x100 2
    = [(0x40080, 0x80), (0x400B8, 0xB8), (0x4006E, 0x6E), (0x40100, 0x100), (0x40101, 0x101)]"
  by (simp add: boot_pages_def boot_requests_def VRAM_ADDR_def TABLE_ADDRESS_def request_pages_def kernel_pages_def upt_rec)

lemma demo_indices: "page_indices 0x40080 = [0, 1, 0, 0x80]" "page_indices 0x4006E = [0, 1, 0, 0x6E]"
  by (simp_all add: page_indices_def indices_def index_eqs)

lemma demo_memory:
  "memory_layout small_kernel (Some 0x101000) [(0x100000, 0x66000)] (boot_requests demo_argv) 40 3 0x40000 0x100 2 100"
proof -
  have "adapter_iter [(0x100000, 0x66000)] = [\<lparr>region_base_addr = 0x100000, region_size = 0x66000, region_state = RegionFree\<rparr>]"
    by (simp add: area_into_region_def region_new_def)
  moreover have "allocate_frames 40 (2 ^ 3) \<lparr>addr_begin = 0x40101000, addr_end = 0x40166000\<rparr>
      = Inr ((0x40101000, 100), \<lparr>addr_begin = 0x40102000, addr_end = 0x40166000\<rparr>)"
    unfolding allocate_frames_def early_allocate_def align_addr_begin_def
    by (simp add: align_up_page SIZE_def capacity_def align_up_pow2 [of _ 3, simplified] round_up_def debug_assert_def)
  moreover have "boot_layout small_kernel (Some 0x102000) (boot_requests demo_argv) 0x40000 0x100 2"
    unfolding boot_layout_def demo_pages
    by (simp add: small_kernel_def kernel_addr_end_physical_def small_indices demo_indices plain4 boot_requests_def
        VRAM_ADDR_def TABLE_ADDRESS_def)
  ultimately show ?thesis
    unfolding memory_layout_def
    by (intro exI [of _ "\<lparr>region_base_addr = 0x100000, region_size = 0x66000, region_state = RegionFree\<rparr>"] exI [of _ "[]"]
        exI [of _ "0x166"] exI [of _ "0x40101000"])
      (simp add: small_kernel_def kernel_addr_begin_physical_def kernel_addr_end_physical_def round_up_def)
qed

lemma demo_env_ok: "env_ok (\<lambda>l. l) demo_env demo_argv (Some 0x101000) 0x40000 0x100 2 100"
proof -
  have "\<exists>areas al. be_memory_map demo_env (demo_argv ! 0) = Some areas \<and> be_frame_align demo_env = 2 ^ al
      \<and> memory_layout (be_symbols demo_env) (Some 0x101000) areas (boot_requests demo_argv) (be_frame_size demo_env) al 0x40000 0x100 2 100"
    using demo_memory by (intro exI [of _ "[(0x100000, 0x66000)]"] exI [of _ 3]) (simp add: demo_env_def)
  moreover have "handlers_distinct example_handlers" by (simp add: handlers_distinct_def example_handlers_def)
  ultimately show ?thesis
    using seq.linked_list_axioms bit_flags.bitflags_axioms demo_ready zero_idt_lengths
    by (simp add: env_ok_def) (simp add: demo_env_def word_fields.bitfield_axioms)
qed

lemma demo_machine_ok: "machine_ok (ks_machine small_state) warm_levels {0x100 + 2..<0x100 + 2 + 100}"
proof -
  have c: "cr3 warm_machine = 8" by (simp add: warm_machine_def)
  have "\<exists>i j. i \<noteq> j \<and> (\<forall>k \<in> {i, j}. 1 \<le> k \<and> k < 256 \<and> \<not> present (phys warm_machine 8 k))"
    by (intro exI [of _ 1] exI [of _ 2]) (simp add: warm_machine_def)
  moreover have "dom warm_levels \<inter> {0x100 + 2..<0x100 + 2 + 100} = {}" by (auto simp: warm_levels_def split: if_splits)
  ultimately show ?thesis
    using warm_tree c warm_look(1) by (simp add: machine_ok_def small_state_def no_huge_def del: look.simps)
qed

lemma demo_kernel_ok:
  "env_ok (\<lambda>l. l) demo_env demo_argv (ks_end (k_memory demo_kernel)) 0x40000 0x100 2 100"
  "machine_ok (ks_machine (k_memory demo_kernel)) warm_levels {0x100 + 2..<0x100 + 2 + 100}" "k_context demo_kernel = None"
  using demo_env_ok demo_machine_ok by (simp_all add: demo_kernel_def small_state_def)



end
