(* ===== verification/Arm_Peripheral.thy ===== *)
theory Arm_Peripheral
  imports Axel_Prelude
begin

text \<open>
  The peripherals of the Raspberry Pi: \<^verbatim>\<open>src/arch/arm11/peripheral/addr.rs\<close> (register
  addresses), \<^verbatim>\<open>gpio.rs\<close> (pins) and \<^verbatim>\<open>timer.rs\<close> (the system timer).

  The registers are hardware: a device is a parameter \<open>D\<close> with a load and a store of 32-bit
  registers on a device state, and the locales of theory \<open>Arm_Device\<close> state what the drivers rely
  on.  The build option that selects the board is the parameter \<open>b\<close>.  A \<^verbatim>\<open>usize\<close> has 32 bits
  here; no address computed below reaches \<open>2 ^ 32\<close> (\<open>to_usize_less\<close>).
\<close>

section \<open>Register addresses\<close>

datatype board = RPi_a | RPi_aplus | RPi_bplus | RPi_zero | RPi2_b

datatype Addr =
    Base | TimerCs | TimerClo | TimerChi | TimerC0 | TimerC1
  | TimerC2 | TimerC3 | GpioBase | GpioGpfSel0 | GpioGpfSel1 | GpioGpfSel2
  | GpioGpfSel3 | GpioGpfSel4 | GpioGpfSel5 | GpioGpSet0 | GpioGpSet1 | GpioGpClr0
  | GpioGpClr1 | GpioGpLev0 | GpioGpLev1 | Spi0Base | Spi0RegisterCs | Spi0RegisterFifo
  | Spi0RegisterClk | Spi0RegisterDlen | Spi0RegisterLtoh | Spi0RegisterDc | AuxIrq | AuxEnables
  | AuxMuIoReg | AuxMuIerReg | AuxMuIirReg | AuxMuLcrReg | AuxMuMcrReg | AuxMuLsrReg
  | AuxMuMsrReg | AuxMuScratch | AuxMuCntlReg | AuxMuStatReg | AuxMuBaudReg | AuxSpi1Cntl0Reg
  | AuxSpi1Cntl1Reg | AuxSpi1StatReg | AuxSpi1IoReg | AuxSpi1PeekReg | AuxSpi2Cntl0Reg | AuxSpi2Cntl1Reg
  | AuxSpi2StatReg | AuxSpi2IoReg | AuxSpi2PeekReg

definition peripheral_base :: "board \<Rightarrow> usize" where
  "peripheral_base b = (if b \<in> {RPi_a, RPi_aplus, RPi_bplus, RPi_zero} then 0x20000000 else 0x3F000000)"

definition to_usize :: "board \<Rightarrow> Addr \<Rightarrow> usize" where
  "to_usize b self =
     (let base = peripheral_base b;
          timer_base = base + 0x00003000;
          gpio_base = base + 0x00200000;
          spi_base = base + 0x00204000;
          aux_base = base + 0x00215000
      in case self of
        Base \<Rightarrow> base
      | TimerCs \<Rightarrow> timer_base
      | TimerClo \<Rightarrow> timer_base + 0x04
      | TimerChi \<Rightarrow> timer_base + 0x08
      | TimerC0 \<Rightarrow> timer_base + 0x0C
      | TimerC1 \<Rightarrow> timer_base + 0x10
      | TimerC2 \<Rightarrow> timer_base + 0x14
      | TimerC3 \<Rightarrow> timer_base + 0x18
      | GpioBase \<Rightarrow> gpio_base
      | GpioGpfSel0 \<Rightarrow> gpio_base + 0x00
      | GpioGpfSel1 \<Rightarrow> gpio_base + 0x04
      | GpioGpfSel2 \<Rightarrow> gpio_base + 0x08
      | GpioGpfSel3 \<Rightarrow> gpio_base + 0x0C
      | GpioGpfSel4 \<Rightarrow> gpio_base + 0x10
      | GpioGpfSel5 \<Rightarrow> gpio_base + 0x14
      | GpioGpSet0 \<Rightarrow> gpio_base + 0x1C
      | GpioGpSet1 \<Rightarrow> gpio_base + 0x20
      | GpioGpClr0 \<Rightarrow> gpio_base + 0x28
      | GpioGpClr1 \<Rightarrow> gpio_base + 0x2C
      | GpioGpLev0 \<Rightarrow> gpio_base + 0x34
      | GpioGpLev1 \<Rightarrow> gpio_base + 0x38
      | Spi0Base \<Rightarrow> spi_base
      | Spi0RegisterCs \<Rightarrow> spi_base + 0x00
      | Spi0RegisterFifo \<Rightarrow> spi_base + 0x04
      | Spi0RegisterClk \<Rightarrow> spi_base + 0x08
      | Spi0RegisterDlen \<Rightarrow> spi_base + 0x0C
      | Spi0RegisterLtoh \<Rightarrow> spi_base + 0x10
      | Spi0RegisterDc \<Rightarrow> spi_base + 0x14
      | AuxIrq \<Rightarrow> aux_base + 0x00
      | AuxEnables \<Rightarrow> aux_base + 0x04
      | AuxMuIoReg \<Rightarrow> aux_base + 0x40
      | AuxMuIerReg \<Rightarrow> aux_base + 0x44
      | AuxMuIirReg \<Rightarrow> aux_base + 0x48
      | AuxMuLcrReg \<Rightarrow> aux_base + 0x4C
      | AuxMuMcrReg \<Rightarrow> aux_base + 0x50
      | AuxMuLsrReg \<Rightarrow> aux_base + 0x54
      | AuxMuMsrReg \<Rightarrow> aux_base + 0x58
      | AuxMuScratch \<Rightarrow> aux_base + 0x5C
      | AuxMuCntlReg \<Rightarrow> aux_base + 0x60
      | AuxMuStatReg \<Rightarrow> aux_base + 0x64
      | AuxMuBaudReg \<Rightarrow> aux_base + 0x68
      | AuxSpi1Cntl0Reg \<Rightarrow> aux_base + 0x80
      | AuxSpi1Cntl1Reg \<Rightarrow> aux_base + 0x84
      | AuxSpi1StatReg \<Rightarrow> aux_base + 0x88
      | AuxSpi1IoReg \<Rightarrow> aux_base + 0x90
      | AuxSpi1PeekReg \<Rightarrow> aux_base + 0x94
      | AuxSpi2Cntl0Reg \<Rightarrow> aux_base + 0xC0
      | AuxSpi2Cntl1Reg \<Rightarrow> aux_base + 0xC4
      | AuxSpi2StatReg \<Rightarrow> aux_base + 0xC8
      | AuxSpi2IoReg \<Rightarrow> aux_base + 0xD0
      | AuxSpi2PeekReg \<Rightarrow> aux_base + 0xD4)"

text \<open>The variants in their order; \<^verbatim>\<open>transmute\<close> of a number that is not the number of one is undefined.\<close>

definition addr_variants :: "Addr list" where
  "addr_variants =
     [Base, TimerCs, TimerClo, TimerChi, TimerC0, TimerC1,
      TimerC2, TimerC3, GpioBase, GpioGpfSel0, GpioGpfSel1, GpioGpfSel2,
      GpioGpfSel3, GpioGpfSel4, GpioGpfSel5, GpioGpSet0, GpioGpSet1, GpioGpClr0,
      GpioGpClr1, GpioGpLev0, GpioGpLev1, Spi0Base, Spi0RegisterCs, Spi0RegisterFifo,
      Spi0RegisterClk, Spi0RegisterDlen, Spi0RegisterLtoh, Spi0RegisterDc, AuxIrq, AuxEnables,
      AuxMuIoReg, AuxMuIerReg, AuxMuIirReg, AuxMuLcrReg, AuxMuMcrReg, AuxMuLsrReg,
      AuxMuMsrReg, AuxMuScratch, AuxMuCntlReg, AuxMuStatReg, AuxMuBaudReg, AuxSpi1Cntl0Reg,
      AuxSpi1Cntl1Reg, AuxSpi1StatReg, AuxSpi1IoReg, AuxSpi1PeekReg, AuxSpi2Cntl0Reg, AuxSpi2Cntl1Reg,
      AuxSpi2StatReg, AuxSpi2IoReg, AuxSpi2PeekReg]"

definition from_usize :: "usize \<Rightarrow> Addr option" where
  "from_usize v = (if v < length addr_variants then Some (addr_variants ! v) else None)"

section \<open>Volatile access\<close>

record 'd device_api =
  dev_load :: "usize \<Rightarrow> 'd \<Rightarrow> u32 \<times> 'd"
  dev_store :: "usize \<Rightarrow> u32 \<Rightarrow> 'd \<Rightarrow> 'd"

definition addr_load :: "'d device_api \<Rightarrow> board \<Rightarrow> Addr \<Rightarrow> 'd \<Rightarrow> u32 \<times> 'd" where
  "addr_load D b self d = dev_load D (to_usize b self) d"

definition addr_store :: "'d device_api \<Rightarrow> board \<Rightarrow> Addr \<Rightarrow> u32 \<Rightarrow> 'd \<Rightarrow> 'd" where
  "addr_store D b self value d = dev_store D (to_usize b self) value d"

section \<open>Pins\<close>

datatype Function = Input | Output | Alternate0 | Alternate1 | Alternate2 | Alternate3 | Alternate4 | Alternate5

fun function_code :: "Function \<Rightarrow> u32" where
  "function_code Input = 0"
| "function_code Output = 1"
| "function_code Alternate0 = 4"
| "function_code Alternate1 = 5"
| "function_code Alternate2 = 6"
| "function_code Alternate3 = 7"
| "function_code Alternate4 = 3"
| "function_code Alternate5 = 2"

datatype Output_mode = Clear | Set

datatype Pin =
    OkLed | Spi0Ce1N | Spi0Ce0N | Spi0Miso | Spi0Mosi | Spi0Sclk | Ili9340Dc | Ili9340Rst
  | Button1 | Button2 | Button3 | Button4

fun pin_number :: "board \<Rightarrow> Pin \<Rightarrow> usize" where
  "pin_number b OkLed = (if b \<in> {RPi_a, RPi_aplus} then 16 else 47)"
| "pin_number b Spi0Ce1N = 7"
| "pin_number b Spi0Ce0N = 8"
| "pin_number b Spi0Miso = 9"
| "pin_number b Spi0Mosi = 10"
| "pin_number b Spi0Sclk = 11"
| "pin_number b Ili9340Dc = 25"
| "pin_number b Ili9340Rst = 18"
| "pin_number b Button1 = 17"
| "pin_number b Button2 = 22"
| "pin_number b Button3 = 23"
| "pin_number b Button4 = 27"

definition set_pin_function :: "'d device_api \<Rightarrow> board \<Rightarrow> Pin \<Rightarrow> Function \<Rightarrow> 'd \<Rightarrow> 'd" where
  "set_pin_function D b pin func d =
     (let pin_number = pin_number b pin;
          gpf_sel_number = pin_number div 10;
          gpf_sel_addr = to_usize b GpioBase + gpf_sel_number * 0x4;
          shift = 3 * (pin_number mod 10);
          set_value = push_bit shift (function_code func);
          (current_value, d1) = dev_load D gpf_sel_addr d;
          new_value = (current_value AND NOT (push_bit shift 7)) OR set_value
      in dev_store D gpf_sel_addr new_value d1)"

definition write_output_pin :: "'d device_api \<Rightarrow> board \<Rightarrow> Pin \<Rightarrow> Output_mode \<Rightarrow> 'd \<Rightarrow> 'd" where
  "write_output_pin D b pin mode d =
     (let pin_number = pin_number b pin;
          reg_addr =
            (if pin_number \<le> 31 then (case mode of Set \<Rightarrow> to_usize b GpioGpSet0 | Clear \<Rightarrow> to_usize b GpioGpClr0)
             else (case mode of Set \<Rightarrow> to_usize b GpioGpSet1 | Clear \<Rightarrow> to_usize b GpioGpClr1));
          shift = pin_number mod 32;
          (current_value, d1) = dev_load D reg_addr d;
          new_value = (current_value AND NOT (push_bit shift 1)) OR push_bit shift 1
      in dev_store D reg_addr new_value d1)"

definition read_pin_level :: "'d device_api \<Rightarrow> board \<Rightarrow> Pin \<Rightarrow> 'd \<Rightarrow> bool \<times> 'd" where
  "read_pin_level D b pin d =
     (let pin_number = pin_number b pin;
          shift = pin_number mod 32;
          (value, d1) = (if pin_number \<le> 31 then addr_load D b GpioGpLev0 d else addr_load D b GpioGpLev1 d);
          level = drop_bit shift value AND 0x1
      in (level \<noteq> 0, d1))"

section \<open>The system timer\<close>

definition get_time_counter_value :: "'d device_api \<Rightarrow> board \<Rightarrow> 'd \<Rightarrow> u64 \<times> 'd" where
  "get_time_counter_value D b d =
     (let (lo, d1) = addr_load D b TimerClo d;
          (hi, d2) = addr_load D b TimerChi d1
      in (push_bit 32 (ucast hi) OR ucast lo, d2))"

text \<open>
  The waiting loop.  It may run forever (the result \<open>None\<close>); the subtraction of times panics
  when the second time is smaller.
\<close>

partial_function (option) wait_loop :: "'d device_api \<Rightarrow> board \<Rightarrow> u64 \<Rightarrow> u64 \<Rightarrow> 'd \<Rightarrow> 'd res option" where
  "wait_loop D b usec time_begin d =
     (if fst (get_time_counter_value D b d) < time_begin then Some (Inl Overflow)
      else if usec \<le> fst (get_time_counter_value D b d) - time_begin
           then Some (Inr (snd (get_time_counter_value D b d)))
           else wait_loop D b usec time_begin (snd (get_time_counter_value D b d)))"

definition wait_usec :: "'d device_api \<Rightarrow> board \<Rightarrow> u64 \<Rightarrow> 'd \<Rightarrow> 'd res option" where
  "wait_usec D b usec d =
     (let (time_begin, d1) = get_time_counter_value D b d in wait_loop D b usec time_begin d1)"

definition wait :: "'d device_api \<Rightarrow> board \<Rightarrow> u64 \<Rightarrow> 'd \<Rightarrow> 'd res option" where
  "wait D b msec d =
     (if unat msec * 1000 < 2 ^ 64 then wait_usec D b (msec * 1000) d else Some (Inl Overflow))"

section \<open>Facts about the address map\<close>

lemma to_usize_less: "to_usize b a + 4 * 6 < 2 ^ 32"
  by (cases a) (auto simp: to_usize_def peripheral_base_def Let_def)

lemma set_addr_variants: "a \<in> set addr_variants"
  by (cases a) (simp_all add: addr_variants_def)

lemma distinct_addr_variants: "distinct addr_variants"
  by (simp add: addr_variants_def)

end
