(* ===== verification/Girl.thy ===== *)
theory Girl
  imports Axel_Prelude
begin

text \<open>
  The picture \<^verbatim>\<open>GIRL_COLORS\<close> of \<^verbatim>\<open>src/arch/arm11/peripheral/spi.rs\<close>: 240 rows of 320 colours of
  16 bits.  A line of the table is a row of the picture.  It is written here as its runs: the
  pair \<open>(n, c)\<close> stands for \<open>n\<close> constants \<open>c\<close> next to each other.
\<close>

type_synonym runs = "(nat \<times> nat) list"

definition run_row :: "runs \<Rightarrow> nat list" where
  "run_row rs = concat (map (\<lambda>(n, c). replicate n c) rs)"

definition row_ok :: "runs \<Rightarrow> bool" where
  "row_ok rs \<longleftrightarrow> sum_list (map fst rs) = 320 \<and> list_all (\<lambda>(n, c). c < 65536) rs"

lemma length_run_row: "length (run_row rs) = sum_list (map fst rs)"
  unfolding run_row_def by (induction rs) auto

lemma set_run_row: "set (run_row rs) \<subseteq> snd ` set rs"
  unfolding run_row_def by force

lemma concat_rows:
  assumes "list_all row_ok rss"
  shows "length (concat (map run_row rss)) = 320 * length rss"
    and "\<forall>c \<in> set (concat (map run_row rss)). c < 65536"
proof -
  show "length (concat (map run_row rss)) = 320 * length rss"
    using assms by (induction rss) (auto simp: length_run_row row_ok_def)
  show "\<forall>c \<in> set (concat (map run_row rss)). c < 65536"
  proof
    fix c assume "c \<in> set (concat (map run_row rss))"
    then obtain rs where rs: "rs \<in> set rss" "c \<in> set (run_row rs)" by auto
    then obtain n where "(n, c) \<in> set rs" using set_run_row[of rs] by force
    with assms rs(1) show "c < 65536"
      by (fastforce simp: list_all_iff row_ok_def)
  qed
qed

definition GIRL_COLORS_0 :: "runs list" where
  "GIRL_COLORS_0 =
     [[(320, 0xFFFF)],
      [(320, 0xFFFF)],
      [(320, 0xFFFF)],
      [(320, 0xFFFF)],
      [(320, 0xFFFF)],
      [(320, 0xFFFF)],
      [(320, 0xFFFF)],
      [(320, 0xFFFF)],
      [(320, 0xFFFF)],
      [(320, 0xFFFF)],
      [(320, 0xFFFF)],
      [(320, 0xFFFF)],
      [(320, 0xFFFF)],
      [(320, 0xFFFF)],
      [(320, 0xFFFF)],
      [(320, 0xFFFF)],
      [(320, 0xFFFF)],
      [(320, 0xFFFF)],
      [(320, 0xFFFF)],
      [(320, 0xFFFF)]]"

definition GIRL_COLORS_1 :: "runs list" where
  "GIRL_COLORS_1 =
     [[(320, 0xFFFF)],
      [(320, 0xFFFF)],
      [(320, 0xFFFF)],
      [(320, 0xFFFF)],
      [(320, 0xFFFF)],
      [(320, 0xFFFF)],
      [(320, 0xFFFF)],
      [(320, 0xFFFF)],
      [(320, 0xFFFF)],
      [(320, 0xFFFF)],
      [(135, 0xFFFF), (1, 0xEF5C), (1, 0xEF7D), (1, 0xFFDF), (1, 0xF79E), (181, 0xFFFF)],
      [(134, 0xFFFF), (1, 0xFFDF), (1, 0xEF7C), (1, 0xFFDE), (1, 0xEF5C), (1, 0xDEDA), (1, 0xDEFB), (180, 0xFFFF)],
      [(135, 0xFFFF), (1, 0xDEFB), (2, 0xFFDE), (1, 0xDEFA), (1, 0xF79D), (180, 0xFFFF)],
      [(135, 0xFFFF), (1, 0xE73C), (1, 0xFFBE), (1, 0xFFBD), (2, 0xEF3C), (180, 0xFFFF)],
      [(135, 0xFFFF), (1, 0xE73C), (1, 0xFFDE), (1, 0xFFBD), (1, 0xFFFE), (1, 0xCE79), (180, 0xFFFF)],
      [(135, 0xFFFF), (1, 0xFFDF), (1, 0xE6FB), (1, 0xFFDE), (1, 0xFFBE), (1, 0xE73C), (1, 0xF77E), (179, 0xFFFF)],
      [(136, 0xFFFF), (1, 0xD6BA), (1, 0xFFDE), (1, 0xFFBD), (1, 0xF79D), (1, 0xF7BE), (179, 0xFFFF)],
      [(136, 0xFFFF), (1, 0xD6BA), (1, 0xFFDE), (1, 0xFFBD), (1, 0xFFBE), (1, 0xDEFB), (179, 0xFFFF)],
      [(136, 0xFFFF), (1, 0xC617), (1, 0xFFDE), (1, 0xFFBE), (1, 0xE6FB), (1, 0xF79E), (179, 0xFFFF)],
      [(135, 0xFFFF), (1, 0xEF5D), (1, 0xEF5C), (1, 0xFFBE), (1, 0xFFDE), (1, 0xCE79), (1, 0xF79E), (179, 0xFFFF)]]"

definition GIRL_COLORS_2 :: "runs list" where
  "GIRL_COLORS_2 =
     [[(135, 0xFFFF), (1, 0xE73C), (1, 0xE71B), (1, 0xFFBE), (1, 0xFFDE), (1, 0xF77D), (1, 0xFFDF), (179, 0xFFFF)],
      [(135, 0xFFFF), (2, 0xE71B), (1, 0xFFBE), (1, 0xFFDE), (1, 0xEF7D), (1, 0xD69A), (179, 0xFFFF)],
      [(134, 0xFFFF), (1, 0xE73C), (1, 0xFFDE), (1, 0xE71B), (2, 0xFFDE), (1, 0xDEDB), (1, 0xF7BE), (179, 0xFFFF)],
      [(134, 0xFFFF), (1, 0xE71C), (1, 0xFFDE), (1, 0xF79D), (1, 0xFFBD), (1, 0xFFFE), (1, 0xCE79), (180, 0xFFFF)],
      [(134, 0xFFFF), (1, 0xE6FB), (1, 0xFFBE), (2, 0xFFBD), (1, 0xFFDE), (1, 0xD6BA), (180, 0xFFFF)],
      [(133, 0xFFFF), (1, 0xE71C), (1, 0xFFDE), (3, 0xFFBD), (1, 0xF79D), (1, 0xE73C), (180, 0xFFFF)],
      [(133, 0xFFFF), (1, 0xE73C), (1, 0xFFBE), (3, 0xFFBD), (1, 0xE71B), (181, 0xFFFF)],
      [(132, 0xFFFF), (1, 0xF79E), (1, 0xF7BD), (4, 0xFFBD), (1, 0xEF3C), (1, 0xFFDF), (180, 0xFFFF)],
      [(132, 0xFFFF), (1, 0xEF5C), (1, 0xFFBE), (4, 0xFFBD), (1, 0xE71B), (181, 0xFFFF)],
      [(131, 0xFFFF), (1, 0xF7BE), (1, 0xF79D), (5, 0xFFBD), (1, 0xE71B), (181, 0xFFFF)],
      [(131, 0xFFFF), (1, 0xEF5C), (1, 0xFFDE), (5, 0xFFBD), (1, 0xE71B), (181, 0xFFFF)],
      [(131, 0xFFFF), (1, 0xEF5C), (6, 0xFFBD), (1, 0xEF3C), (130, 0xFFFF), (3, 0xF7FF), (48, 0xFFFF)],
      [(130, 0xFFFF), (1, 0xEF5D), (1, 0xFFDE), (6, 0xFFBD), (1, 0xF7BD), (1, 0xEF5C), (4, 0xFFFF), (1, 0xEF7E), (2, 0xEF7D), (1,
       0xF7BF), (117, 0xFFFF), (1, 0xF77D), (1, 0xEE59), (1, 0xECD3), (1, 0xEBEF), (1, 0xFBF0), (1, 0xFC10), (1, 0xFBEF), (1, 0xD5F7),
       (47, 0xFFFF)],
      [(130, 0xFFFF), (1, 0xEF5C), (8, 0xFFBD), (1, 0xFFDE), (1, 0xDEDA), (1, 0xE6FB), (1, 0xDEDA), (1, 0xEF3C), (3, 0xF79D), (1,
       0xF7BD), (1, 0xF77D), (1, 0xEF5D), (113, 0xFFFF), (1, 0xF73D), (1, 0xEC71), (1, 0xFBAE), (1, 0xFBCF), (1, 0xFBF0), (1, 0xFC10),
       (1, 0xFBF0), (1, 0xED75), (49, 0xFFFF)],
      [(129, 0xFFFF), (1, 0xEF7D), (1, 0xFFBE), (9, 0xFFBD), (4, 0xFFDE), (2, 0xFFBD), (2, 0xFFDE), (1, 0xEF7C), (1, 0xEF5C), (112,
       0xFFFF), (1, 0xE4F3), (1, 0xFB8E), (1, 0xFBCF), (1, 0xFBEF), (2, 0xFC10), (1, 0xFBEF), (1, 0xEF1C), (50, 0xFFFF)],
      [(129, 0xFFFF), (1, 0xEF5C), (1, 0xFFBE), (13, 0xFFBD), (1, 0xFFDE), (1, 0xF77D), (1, 0xE71B), (1, 0xDEDA), (112, 0xFFFF), (1,
       0xF7BE), (1, 0xF3CF), (1, 0xFBCE), (3, 0xFBEF), (1, 0xFC10), (1, 0xF451), (1, 0xF7DF), (51, 0xFFFF)],
      [(129, 0xFFFF), (1, 0xEF3C), (13, 0xFFBD), (1, 0xFFDE), (1, 0xDEDA), (1, 0xEF7D), (72, 0xFFFF), (1, 0xF77D), (1, 0xF6DB), (2,
       0xEE38), (1, 0xF6BA), (1, 0xEF5D), (35, 0xFFFF), (1, 0xF77D), (1, 0xF38E), (5, 0xFBEF), (1, 0xF410), (53, 0xFFFF)],
      [(128, 0xFFFF), (1, 0xEF7D), (1, 0xFFBE), (13, 0xFFBD), (1, 0xE73C), (72, 0xFFFF), (1, 0xEEFB), (1, 0xDB0C), (1, 0xFA49), (1,
       0xF9E7), (1, 0xFA07), (1, 0xF9E7), (1, 0xF9C7), (1, 0xF208), (1, 0xE289), (1, 0xD555), (1, 0xEF5D), (31, 0xFFFF), (1, 0xF79E), (1,
       0xF36E), (5, 0xFBCF), (1, 0xFB6E), (1, 0xF71C), (53, 0xFFFF)],
      [(128, 0xFFFF), (1, 0xDEFB), (12, 0xFFBD), (1, 0xFFBE), (1, 0xEF5D), (72, 0xFFFF), (1, 0xEC71), (1, 0xFA49), (1, 0xFAAA), (1,
       0xFA69), (2, 0xE228), (4, 0xFA69), (1, 0xFA07), (1, 0xF207), (1, 0xE2AA), (1, 0xEDD7), (29, 0xFFFF), (1, 0xF3AE), (5, 0xFBCF), (1,
       0xFBAF), (1, 0xF555), (54, 0xFFFF)],
      [(128, 0xFFFF), (1, 0xBDD6), (1, 0xF77D), (1, 0xFFFF), (1, 0xF7BD), (9, 0xFFBD), (1, 0xEF5D), (72, 0xFFFF), (1, 0xEB4D), (1,
       0xFA8A), (1, 0xFACB), (1, 0xD228), (1, 0xC9C6), (1, 0xF207), (1, 0xFA07), (1, 0xFA28), (1, 0xFA89), (5, 0xFA69), (1, 0xFA07), (1,
       0xFA48), (1, 0xE492), (1, 0xFFDF), (1, 0xFFFF), (1, 0xFFDF), (23, 0xFFFF), (1, 0xEC71), (5, 0xFBCF), (1, 0xFBAE), (1, 0xFB6D), (1,
       0xEF7D), (54, 0xFFFF)]]"

definition GIRL_COLORS_3 :: "runs list" where
  "GIRL_COLORS_3 =
     [[(127, 0xFFFF), (1, 0x9CD3), (1, 0x2145), (1, 0x39E7), (1, 0x73AE), (1, 0xE6FB), (1, 0xFFFF), (5, 0xFFBD), (1, 0xFFDE), (1,
       0xF79D), (1, 0xEF5D), (72, 0xFFFF), (1, 0xEB6D), (1, 0xFACB), (1, 0xFA69), (1, 0xDBEF), (1, 0xEF7D), (1, 0xFF7E), (1, 0xF75D), (1,
       0xE679), (1, 0xE534), (1, 0xEB0C), (1, 0xFA28), (1, 0xFA07), (4, 0xFA69), (1, 0xFA89), (2, 0xFA48), (1, 0xE430), (1, 0xF7DF), (22,
       0xFFFF), (1, 0xEDD7), (1, 0xFB8E), (3, 0xFBCF), (2, 0xFBAE), (1, 0xFB8E), (1, 0xDBAE), (55, 0xFFFF)],
      [(126, 0xFFFF), (1, 0xDEDB), (1, 0x31A6), (3, 0x4208), (1, 0x31A6), (1, 0x6B6D), (1, 0xF77C), (1, 0xFFFF), (2, 0xFFBD), (1,
       0xFFBE), (1, 0xEF5C), (1, 0xFFDF), (72, 0xFFFF), (1, 0xEC71), (1, 0xFAEB), (1, 0xFAAA), (1, 0xE4B2), (1, 0xFFFF), (1, 0xFFDF), (1,
       0xFFFF), (1, 0xFFDF), (3, 0xFFFF), (1, 0xFFBE), (1, 0xED55), (1, 0xF269), (1, 0xF9E7), (6, 0xFA69), (1, 0xFA28), (1, 0xE4B2), (20,
       0xFFFF), (1, 0xF79E), (1, 0xFB6D), (5, 0xFBAE), (1, 0xFB4D), (1, 0xEC51), (1, 0xF75D), (55, 0xFFFF)],
      [(126, 0xFFFF), (1, 0x4A49), (6, 0x4208), (1, 0x31A7), (1, 0xB595), (1, 0xFFFF), (1, 0xF77C), (1, 0xE73C), (73, 0xFFFF), (1,
       0xEE38), (1, 0xFAAA), (1, 0xFACA), (1, 0xEBAE), (11, 0xFFFF), (1, 0xEE38), (1, 0xF289), (1, 0xF9E7), (5, 0xFA69), (2, 0xFA48), (1,
       0xED34), (1, 0xF7FF), (17, 0xFFFF), (1, 0xEC10), (5, 0xFBAE), (1, 0xF34D), (1, 0xEEDB), (57, 0xFFFF)],
      [(125, 0xFFFF), (1, 0x9514), (1, 0x29C7), (1, 0x3A08), (6, 0x4208), (1, 0x31A7), (1, 0xB5B6), (1, 0xE71C), (73, 0xFFFF), (1,
       0xF7FF), (1, 0xF2CB), (1, 0xFAEB), (1, 0xFA8A), (1, 0xF7DF), (13, 0xFFFF), (1, 0xEE59), (1, 0xF289), (1, 0xF9E7), (5, 0xFA69), (1,
       0xFA28), (1, 0xEA48), (1, 0xCCB2), (15, 0xFFFF), (1, 0xEDF7), (1, 0xFB8D), (4, 0xFBAE), (1, 0xF36D), (1, 0xF7DF), (58, 0xFFFF)],
      [(124, 0xFFFF), (1, 0xF7FF), (1, 0xE207), (1, 0xBA08), (1, 0x69E7), (1, 0x3A08), (1, 0x31E7), (1, 0x3A08), (4, 0x4208), (1,
       0x3186), (1, 0xE71C), (73, 0xFFFF), (1, 0xEC71), (1, 0xFB0C), (1, 0xFACB), (1, 0xED75), (16, 0xFFFF), (1, 0xEE18), (1, 0xF269),
       (1, 0xFA07), (5, 0xFA69), (1, 0xFA48), (1, 0xEACB), (1, 0xEEDB), (12, 0xFFFF), (1, 0xF7BE), (1, 0xFB4D), (2, 0xFB8E), (2, 0xFBAE),
       (1, 0xFB4C), (1, 0xF7BE), (59, 0xFFFF)],
      [(124, 0xFFFF), (1, 0xF492), (2, 0xFA69), (1, 0xFACA), (1, 0xFB2C), (1, 0xDB0C), (1, 0x8269), (1, 0x4208), (1, 0x31E7), (1,
       0x3A08), (3, 0x4208), (1, 0xF79E), (71, 0xFFFF), (1, 0xEF5D), (1, 0xFAEB), (1, 0xFB2C), (1, 0xFACB), (1, 0xF7FF), (18, 0xFFFF),
       (1, 0xED96), (1, 0xF248), (1, 0xFA07), (4, 0xFA69), (1, 0xFAAA), (1, 0xFA48), (1, 0xEB8E), (1, 0xEF3C), (10, 0xFFFF), (1, 0xEBCF),
       (4, 0xFB8E), (1, 0xFB2D), (1, 0xEE79), (60, 0xFFFF)],
      [(123, 0xFFFF), (1, 0xE73C), (1, 0x7945), (1, 0xB1E7), (1, 0xF248), (1, 0xFAAA), (1, 0xFB4D), (1, 0xFB6D), (2, 0xFBAE), (1,
       0xE36D), (1, 0x7249), (1, 0x29C6), (2, 0x39E7), (1, 0x31A6), (1, 0xCE79), (70, 0xFFFF), (1, 0xF410), (1, 0xFB6D), (1, 0xFB2C), (1,
       0xECD3), (21, 0xFFFF), (1, 0xED14), (1, 0xFA08), (1, 0xFA28), (2, 0xFA69), (1, 0xFA8A), (1, 0xFAAA), (1, 0xFACB), (1, 0xFA69), (1,
       0xF3AE), (1, 0xEEDB), (6, 0xFFFF), (1, 0xF7FF), (1, 0xE3EF), (1, 0xFB6E), (3, 0xFB8E), (1, 0xFB6E), (1, 0xEC51), (61, 0xFFFF)],
      [(123, 0xFFFF), (1, 0x31A6), (1, 0x2986), (1, 0x29C7), (1, 0x29E7), (1, 0x49E7), (1, 0x7228), (1, 0xCAEB), (1, 0xFBAE), (1,
       0xFBCE), (1, 0xFBAE), (1, 0xFBCF), (1, 0xA2AA), (1, 0x29C6), (2, 0x39E7), (1, 0x2945), (1, 0xB5B6), (5, 0xFFFF), (1, 0xFFBF), (1,
       0xA514), (1, 0xAD55), (1, 0xCE59), (59, 0xFFFF), (1, 0xEEDB), (1, 0xFB4D), (1, 0xFB8E), (1, 0xFB4D), (1, 0xF6DB), (22, 0xFFFF),
       (1, 0xF7FF), (1, 0xE492), (1, 0xF1E7), (1, 0xFA48), (1, 0xFA8A), (3, 0xFACB), (1, 0xFAEB), (1, 0xFA8A), (1, 0xF36E), (1, 0xED55),
       (1, 0xEF7D), (3, 0xFFFF), (1, 0xDBAE), (1, 0xFB8D), (3, 0xFB6D), (1, 0xFB8E), (1, 0xFB2D), (1, 0xF75D), (61, 0xFFFF)],
      [(122, 0xFFFF), (1, 0x39C7), (1, 0x3166), (1, 0x3186), (1, 0x39C7), (3, 0x39E7), (1, 0x29C6), (1, 0x41E7), (1, 0x7A69), (1,
       0xE36D), (2, 0xFBAE), (1, 0x6208), (1, 0x31C7), (2, 0x39E7), (1, 0x2124), (1, 0x9492), (1, 0xFFFF), (1, 0xF79E), (2, 0xFFFF), (1,
       0x31A6), (2, 0x3186), (1, 0x2945), (1, 0x2124), (1, 0xC638), (1, 0xFFFF), (1, 0xEF7D), (55, 0xFFFF), (1, 0xF410), (2, 0xFBAE), (1,
       0xFB4D), (1, 0xF7FF), (24, 0xFFFF), (1, 0xEF7D), (1, 0xCBEF), (1, 0xFA08), (1, 0xFA8A), (2, 0xFACB), (4, 0xFB0C), (1, 0xFACB), (1,
       0xEB2D), (1, 0xEBAE), (1, 0xEB4D), (5, 0xFB6D), (1, 0xFB4C), (1, 0xEC92), (62, 0xFFFF)],
      [(121, 0xFFFF), (1, 0x6B4D), (1, 0x4A49), (1, 0x2965), (1, 0x2945), (1, 0x2985), (1, 0x2986), (1, 0x31C6), (4, 0x39E7), (1,
       0x21A6), (1, 0xBAEB), (1, 0xFBAE), (1, 0xFB8E), (1, 0x41C6), (1, 0x31E7), (1, 0x39E7), (1, 0x31A6), (1, 0x4A69), (1, 0xFFFF), (1,
       0xADB6), (1, 0x4A69), (1, 0xA534), (1, 0x31A6), (3, 0x39C7), (1, 0x31A6), (2, 0x8410), (1, 0x18C3), (1, 0x2124), (1, 0x8430), (52,
       0xFFFF), (1, 0xEEBB), (1, 0xFBAE), (1, 0xFBEF), (1, 0xFBCF), (1, 0xEC71), (27, 0xFFFF), (1, 0xEF9E), (1, 0xDC92), (1, 0xFA6A), (1,
       0xFA8A), (3, 0xFB0C), (1, 0xFB2C), (2, 0xFB4D), (7, 0xFB6D), (1, 0xFB0C), (1, 0xF75D), (62, 0xFFFF)],
      [(121, 0xFFFF), (1, 0xDEDA), (2, 0xFFFF), (1, 0xFFDE), (1, 0xD699), (1, 0x94B2), (1, 0x4248), (1, 0x2985), (1, 0x31C6), (3,
       0x39E7), (1, 0x29C6), (1, 0xEB4D), (1, 0xFB8E), (1, 0xFB6E), (1, 0x49C7), (1, 0x29C6), (1, 0x2124), (1, 0xFFDF), (1, 0xF79E), (1,
       0xAAAA), (1, 0x29A6), (1, 0x3186), (5, 0x39C7), (1, 0x3186), (1, 0x31A6), (1, 0x39C7), (1, 0x39A7), (1, 0x2965), (1, 0x31A6), (1,
       0xB596), (50, 0xFFFF), (1, 0xF451), (1, 0xFC30), (1, 0xFC10), (1, 0xFBEF), (1, 0xEDF7), (29, 0xFFFF), (1, 0xF7FF), (1, 0xED96),
       (1, 0xF2EC), (1, 0xFACB), (1, 0xFAEC), (3, 0xFB4D), (6, 0xFB6D), (1, 0xFB4D), (1, 0xEC30), (63, 0xFFFF)],
      [(120, 0xFFFF), (1, 0xE73C), (1, 0xFFDE), (4, 0xFFBD), (1, 0xFFDE), (1, 0xFFFF), (1, 0xDEDA), (1, 0x5B0B), (1, 0x3186), (4,
       0x39E7), (2, 0xFB6D), (1, 0xFB8D), (1, 0xCACB), (1, 0x92EB), (1, 0xFFFF), (1, 0xEC92), (1, 0xA9E7), (1, 0x29A7), (11, 0x39C7), (1,
       0x3186), (1, 0x6B4D), (49, 0xFFFF), (1, 0xE659), (1, 0xFC31), (2, 0xFC51), (1, 0xFBEF), (1, 0xF6FB), (32, 0xFFFF), (1, 0xF679),
       (1, 0xEBAE), (1, 0xFAEB), (1, 0xFB0C), (2, 0xFB4D), (5, 0xFB6D), (1, 0xFB0B), (1, 0xF75D), (63, 0xFFFF)],
      [(119, 0xFFFF), (1, 0xE73C), (9, 0xFFBD), (1, 0xFFFF), (1, 0x8C71), (1, 0x2965), (1, 0x39C7), (2, 0x39E7), (1, 0x39C6), (2,
       0xFB4D), (1, 0xFB0C), (1, 0xF596), (1, 0xFFFF), (1, 0xFAAA), (1, 0xDAAA), (1, 0x2986), (1, 0x31C7), (10, 0x39C7), (1, 0x31A6), (1,
       0x3186), (1, 0x2945), (1, 0xEF7D), (46, 0xFFFF), (1, 0xEFBE), (1, 0xF3EF), (3, 0xFC51), (1, 0xFC30), (1, 0xF7BE), (34, 0xFFFF),
       (1, 0xF77D), (1, 0xED96), (1, 0xEB4D), (1, 0xFB0C), (1, 0xFB2C), (1, 0xFB4D), (1, 0xFB4C), (1, 0xFB2C), (1, 0xFACB), (1, 0xE555),
       (64, 0xFFFF)],
      [(118, 0xFFFF), (1, 0xEF5C), (10, 0xFFBD), (1, 0xFFFF), (1, 0x83EF), (1, 0x2124), (1, 0x3186), (3, 0x39C7), (1, 0x3986), (1,
       0xEACB), (1, 0xFA69), (1, 0xF7FF), (1, 0xF6BB), (1, 0xFAAA), (1, 0xFB0C), (1, 0xEACB), (1, 0x3986), (1, 0x29A6), (2, 0x31A7), (3,
       0x31C7), (4, 0x39C7), (3, 0x31A6), (1, 0x528A), (1, 0x630C), (1, 0x2144), (1, 0xA514), (43, 0xFFFF), (1, 0xD471), (1, 0xFC71), (3,
       0xFC51), (1, 0xEC30), (38, 0xFFFF), (1, 0xDEBA), (1, 0xCCB2), (1, 0xDC51), (1, 0xEC92), (1, 0xF555), (1, 0xF73C), (65, 0xFFFF)],
      [(117, 0xFFFF), (1, 0xE73C), (10, 0xFFBD), (1, 0xFFDE), (1, 0xEF3C), (1, 0x2104), (1, 0x2945), (2, 0x3186), (1, 0x31A6), (1,
       0x39A7), (1, 0x39C7), (1, 0x2986), (1, 0x932C), (1, 0xFFFF), (1, 0xECB2), (1, 0xFAEB), (3, 0xFB2C), (1, 0xCA8A), (1, 0x8A28), (1,
       0x71E7), (2, 0x69E7), (1, 0x51C7), (1, 0x29A6), (1, 0x31A7), (1, 0x39C7), (1, 0x31A6), (1, 0x39A7), (1, 0x39C7), (3, 0x31A6), (1,
       0x39E7), (1, 0x2985), (1, 0x632C), (41, 0xFFFF), (1, 0xCD14), (1, 0xFC31), (3, 0xFC51), (1, 0xFC31), (1, 0xED14), (109, 0xFFFF)],
      [(116, 0xFFFF), (1, 0xDEDB), (1, 0xF79D), (10, 0xFFBD), (1, 0xFFFF), (1, 0x738E), (1, 0x18E3), (1, 0x2945), (1, 0x2104), (1,
       0x2945), (1, 0x3166), (2, 0x3186), (1, 0x2945), (1, 0x94B2), (1, 0xFFFF), (1, 0xF32C), (4, 0xFB4D), (1, 0xFB0C), (1, 0xFAEB), (3,
       0xFACB), (1, 0xFACA), (1, 0xFA8A), (1, 0xAA08), (1, 0x39C7), (1, 0x31A6), (2, 0x39C7), (1, 0x39E7), (2, 0x31A6), (2, 0x39E7), (1,
       0x31A6), (1, 0x4248), (39, 0xFFFF), (1, 0xCD96), (1, 0xFC30), (4, 0xFC51), (1, 0xFC10), (1, 0xEE79), (109, 0xFFFF)],
      [(115, 0xFFFF), (1, 0xE73C), (1, 0xF79D), (10, 0xFFBD), (1, 0xFFBE), (1, 0xE6FB), (1, 0xFFFF), (1, 0xEF5D), (2, 0xB596), (1,
       0x94B2), (1, 0x2945), (1, 0x2124), (1, 0x2945), (1, 0x18C3), (1, 0xEF5D), (1, 0xF6DB), (1, 0xFB2C), (1, 0xFB6D), (2, 0xFB4D), (1,
       0xFB2C), (1, 0xFB0C), (2, 0xFAEB), (2, 0xFACB), (1, 0xFAAA), (1, 0xEA69), (1, 0xEA28), (1, 0xEA08), (1, 0x69A6), (1, 0x31E7), (2,
       0x39E7), (1, 0x31C6), (4, 0x39E7), (2, 0x31C6), (1, 0xFFDF), (35, 0xFFFF), (1, 0xF7DF), (1, 0xED14), (1, 0xFC30), (2, 0xFC50), (3,
       0xFC51), (1, 0xFC10), (1, 0xF79D), (109, 0xFFFF)],
      [(44, 0xFFFF), (1, 0xEF1C), (69, 0xFFFF), (1, 0xF79E), (1, 0xE71B), (1, 0xFFBE), (11, 0xFFBD), (1, 0xF77D), (6, 0xFFFF), (1,
       0xCE79), (2, 0x7BCF), (1, 0xFFFF), (1, 0xEC92), (3, 0xFB6D), (1, 0xFB4D), (1, 0xFB2C), (1, 0xFB0C), (4, 0xFAEB), (1, 0xE269), (1,
       0xFA8A), (2, 0xFA69), (1, 0xFA48), (1, 0x91E7), (1, 0x31C7), (1, 0x31C6), (6, 0x39E7), (1, 0x31C6), (1, 0x4228), (34, 0xFFFF), (1,
       0xEE18), (1, 0xFC10), (5, 0xFC30), (2, 0xFC51), (1, 0xEC92), (110, 0xFFFF)],
      [(44, 0xFFFF), (1, 0xEEDB), (1, 0xEEBB), (68, 0xFFFF), (1, 0xE71C), (1, 0xFFDE), (10, 0xFFBD), (1, 0xFFBE), (1, 0xF77C), (10,
       0xFFFF), (1, 0xF7DF), (1, 0xF34D), (1, 0xFB8E), (2, 0xFB6D), (2, 0xFB4D), (2, 0xFB0C), (2, 0xFAEB), (1, 0xF2CA), (1, 0xFAEB), (1,
       0xEA8A), (3, 0xFA69), (1, 0x39C6), (1, 0x39C7), (8, 0x39E7), (1, 0x2965), (1, 0x8C71), (31, 0xFFFF), (1, 0xEE79), (1, 0xF430), (2,
       0xFC10), (6, 0xFC30), (1, 0xF3CF), (1, 0xE73C), (110, 0xFFFF)],
      [(44, 0xFFFF), (1, 0xF77D), (1, 0xFCF6), (1, 0xF7BE), (66, 0xFFFF), (1, 0xEF7D), (13, 0xFFBD), (1, 0xEF7D), (9, 0xFFFF), (1,
       0xF79E), (1, 0xDE59), (1, 0xFB8D), (2, 0xFB8E), (2, 0xFB4D), (1, 0xFB2D), (1, 0xFB2C), (2, 0xFB0C), (1, 0xFAEB), (1, 0xF2CB), (1,
       0xFB0C), (1, 0xF30B), (1, 0xFB0C), (1, 0xFACB), (1, 0x49A6), (9, 0x39E7), (1, 0x31A6), (1, 0x6B8D), (30, 0xFFFF), (1, 0xEE9A), (1,
       0xEC30), (1, 0xFBCF), (4, 0xFC10), (3, 0xFC30), (1, 0xFC10), (1, 0xE3CE), (1, 0xDE38), (111, 0xFFFF)]]"

definition GIRL_COLORS_4 :: "runs list" where
  "GIRL_COLORS_4 =
     [[(44, 0xFFFF), (1, 0xF77D), (1, 0xFCF6), (1, 0xED98), (65, 0xFFFF), (1, 0xFFDF), (1, 0xF79D), (11, 0xFFBD), (1, 0xFFBE), (1,
       0xF77C), (1, 0xFFDF), (8, 0xFFFF), (1, 0xE3AE), (1, 0xFA08), (1, 0xDA28), (1, 0xFBCE), (1, 0xFB8D), (1, 0xFB6D), (3, 0xFB4D), (1,
       0xFB2C), (2, 0xFB0C), (1, 0xF2EB), (3, 0xFB2C), (1, 0xEAEB), (1, 0x51C7), (1, 0x31E7), (8, 0x39E7), (1, 0x39C7), (1, 0x3186), (29,
       0xFFFF), (1, 0xEE38), (1, 0xEBCF), (1, 0xFBAE), (2, 0xFBEF), (5, 0xFC10), (1, 0xFBEF), (1, 0xE471), (1, 0xDE18), (113, 0xFFFF)],
      [(37, 0xFFFF), (1, 0xFFDF), (1, 0xDE9A), (5, 0xFFFF), (1, 0xF77D), (1, 0xFC74), (1, 0xF3D2), (1, 0xD69A), (64, 0xFFFF), (1,
       0xEF5C), (1, 0xFFDE), (12, 0xFFBD), (1, 0xEF7D), (8, 0xFFFF), (1, 0xEDD7), (1, 0xF208), (1, 0xFAAA), (1, 0xDA49), (1, 0xFB8E), (3,
       0xFB6D), (2, 0xFB4D), (3, 0xFB0C), (1, 0xF2EB), (1, 0xFB2D), (1, 0xFB4D), (2, 0xFB2C), (1, 0x41A6), (8, 0x39E7), (1, 0x31C6), (1,
       0x39C7), (1, 0x31C6), (1, 0xCE79), (1, 0xC638), (1, 0xD6BA), (1, 0xF7BE), (22, 0xFFFF), (1, 0xEF3C), (1, 0xED54), (1, 0xF36D), (1,
       0xFBAE), (1, 0xFBCF), (3, 0xFBEF), (3, 0xFC10), (1, 0xFBAE), (1, 0xED14), (1, 0xEF3C), (115, 0xFFFF)],
      [(38, 0xFFFF), (1, 0xB432), (5, 0xFFFF), (1, 0xEEFC), (1, 0xFBD2), (1, 0xFBF2), (1, 0xBB90), (1, 0xE71C), (62, 0xFFFF), (1,
       0xF7BE), (1, 0xF79D), (12, 0xFFBD), (1, 0xF79D), (1, 0xF7BE), (7, 0xFFFF), (1, 0xF7DF), (1, 0xFA48), (1, 0xFAAA), (1, 0xD228), (1,
       0xFAAA), (1, 0xFB2C), (4, 0xFB6D), (3, 0xFB0C), (1, 0xF2CB), (2, 0xFAEB), (1, 0xFB0C), (1, 0xFB2C), (1, 0xFAEC), (1, 0xF2AA), (1,
       0x3186), (6, 0x39E7), (1, 0x31C6), (2, 0x39C7), (1, 0x39E7), (1, 0x2985), (2, 0x31A6), (1, 0x2965), (1, 0x39E7), (1, 0xF79E), (17,
       0xFFFF), (1, 0xF73C), (1, 0xED96), (1, 0xEBAE), (1, 0xFB6D), (1, 0xFB8D), (3, 0xFBCF), (3, 0xFBEF), (1, 0xFBCF), (1, 0xF3CF), (1,
       0xED76), (1, 0xF7DF), (117, 0xFFFF)],
      [(37, 0xFFFF), (1, 0xF75D), (1, 0xBB70), (1, 0xFFDF), (4, 0xFFFF), (1, 0xEDF9), (1, 0xFB71), (1, 0xFBB1), (1, 0xCA4C), (1,
       0xDEFC), (61, 0xFFFF), (1, 0xF79E), (1, 0xEF3C), (1, 0xFFDE), (11, 0xFFBD), (1, 0xFFBE), (1, 0xEF5C), (8, 0xFFFF), (1, 0xEC10),
       (1, 0xFACA), (1, 0xFAEB), (1, 0xD249), (1, 0xF2AA), (1, 0xFB0C), (1, 0xFB4D), (2, 0xFB6D), (1, 0xFB4D), (2, 0xFB0C), (1, 0xFB0B),
       (1, 0xEAAA), (2, 0xFACB), (4, 0xFAEB), (1, 0xFACA), (1, 0x49A6), (1, 0x31E7), (3, 0x39E7), (1, 0x31C6), (1, 0x39E7), (1, 0x39A7),
       (1, 0x39C7), (1, 0x39A7), (4, 0x4208), (1, 0x39E7), (1, 0x4A49), (13, 0xFFFF), (1, 0xF7BE), (1, 0xF679), (1, 0xECF3), (1, 0xF34D),
       (1, 0xFB2C), (1, 0xFB6D), (3, 0xFBAE), (3, 0xFBCF), (1, 0xFBEF), (1, 0xFBAE), (1, 0xF451), (1, 0xEE38), (120, 0xFFFF)],
      [(37, 0xFFFF), (1, 0xF65A), (1, 0xB2EE), (1, 0xF7DF), (4, 0xFFFF), (1, 0xECB5), (1, 0xFD16), (1, 0xFB30), (1, 0xE2AD), (1,
       0xBBD1), (58, 0xFFFF), (1, 0xF7BE), (1, 0xF79D), (1, 0xEF5C), (1, 0xF7BD), (13, 0xFFBD), (1, 0xFFBE), (1, 0xEF7D), (7, 0xFFFF),
       (1, 0xE6BA), (1, 0xFA8A), (3, 0xFB0C), (1, 0xD269), (1, 0xFB0C), (2, 0xFB2C), (1, 0xFB4D), (2, 0xFB0C), (1, 0xFAEB), (1, 0xF2AA),
       (1, 0xFAAB), (1, 0xFACB), (2, 0xFAAA), (5, 0xFAEB), (1, 0x9A08), (1, 0x29C6), (1, 0x39E7), (1, 0x39C7), (1, 0x39E7), (3, 0x39C7),
       (1, 0x39E7), (5, 0x4208), (1, 0x31A6), (1, 0xC618), (8, 0xFFFF), (1, 0xF77D), (1, 0xF638), (1, 0xECD3), (1, 0xEB2C), (1, 0xFAAB),
       (1, 0xFAEB), (1, 0xFB0C), (1, 0xFB4D), (1, 0xFB6D), (1, 0xFB8E), (4, 0xFBAE), (1, 0xFBCF), (1, 0xF34D), (1, 0xDC72), (1, 0xE6FB),
       (122, 0xFFFF)],
      [(37, 0xFFFF), (1, 0xF4D5), (1, 0xBAAE), (1, 0xF7BE), (3, 0xFFFF), (1, 0xF77D), (1, 0xFAEE), (1, 0xFC94), (1, 0xFAEF), (1,
       0xEAAD), (1, 0xA9EA), (52, 0xFFFF), (1, 0xFFDF), (2, 0xF7BE), (1, 0xF79E), (1, 0xEF7D), (1, 0xEF5C), (2, 0xFFBD), (1, 0xFFBE),
       (13, 0xFFBD), (1, 0xFFDE), (1, 0xE71B), (8, 0xFFFF), (1, 0xDBCF), (1, 0xFB0C), (2, 0xFB2C), (2, 0xFAEB), (1, 0xD249), (1, 0xF2AA),
       (1, 0xFAEB), (1, 0xFB0C), (1, 0xFB0B), (2, 0xFACB), (1, 0xDA69), (1, 0xFACB), (4, 0xFAAA), (2, 0xFAEB), (2, 0xFACB), (1, 0xFAEB),
       (1, 0xFAAA), (1, 0x69E7), (1, 0x29C7), (1, 0x31A6), (3, 0x39C7), (3, 0x4208), (1, 0x39E7), (1, 0x39C7), (2, 0x3186), (1, 0x6B6D),
       (4, 0xFFFF), (1, 0xF73C), (1, 0xF5D7), (1, 0xEC30), (1, 0xEA49), (1, 0xFA69), (1, 0xFA8A), (1, 0xFAAA), (1, 0xFAEB), (1, 0xFB0C),
       (1, 0xFB2C), (2, 0xFB4D), (1, 0xFB6D), (2, 0xFB8E), (1, 0xFBAE), (1, 0xFB4D), (1, 0xF3CF), (1, 0xDD35), (1, 0xEFBE), (36, 0xFFFF),
       (1, 0xCE79), (1, 0xB5B6), (1, 0xAD55), (3, 0xA534), (1, 0xBDD7), (2, 0xC618), (1, 0xCE59), (1, 0xDEDB), (1, 0xE71C), (1, 0xF79E),
       (48, 0xFFFF), (1, 0xDEFB), (1, 0xB5B6), (1, 0x73AE), (1, 0x526A), (1, 0x4A69), (1, 0x4228), (1, 0x3A07), (2, 0x4228), (1, 0x4A29),
       (1, 0x6B6D), (1, 0x8C31), (1, 0x8C71), (1, 0xAD35), (1, 0xBDF7), (1, 0xC638), (1, 0xEF7D), (10, 0xFFFF)],
      [(36, 0xFFFF), (1, 0xEEDB), (1, 0xFB91), (1, 0xBA8D), (1, 0xF7DF), (3, 0xFFFF), (1, 0xEB2F), (1, 0xFAAE), (1, 0xFAAD), (1,
       0xFAEF), (1, 0xE28D), (1, 0xC1A9), (1, 0xD659), (43, 0xFFFF), (1, 0xF7BE), (1, 0xEF7D), (1, 0xE71C), (2, 0xEF5D), (3, 0xEF5C), (1,
       0xF79D), (3, 0xFFBD), (2, 0xFFBE), (17, 0xFFBD), (1, 0xEF5D), (7, 0xFFFF), (1, 0xE71C), (1, 0xFACB), (2, 0xFB4D), (1, 0xFB0B), (2,
       0xFACB), (1, 0xFAAA), (1, 0xE269), (1, 0xEA69), (3, 0xFAAA), (1, 0xFACB), (1, 0xD249), (1, 0xFACA), (4, 0xFAAA), (6, 0xFACB), (1,
       0xFAAA), (1, 0xD228), (1, 0x3165), (2, 0x3186), (1, 0x31A6), (1, 0x4208), (2, 0x39E7), (2, 0x4208), (1, 0x39E7), (1, 0x31A6), (1,
       0x8CD3), (1, 0xFFBE), (1, 0xF5F7), (1, 0xEBEF), (1, 0xF228), (1, 0xFA28), (1, 0xFA08), (1, 0xFA28), (1, 0xFA69), (1, 0xFAAA), (1,
       0xFACB), (2, 0xFAEB), (2, 0xFB0C), (1, 0xFB2C), (1, 0xFB4D), (1, 0xFB6D), (1, 0xFB4D), (1, 0xF32D), (1, 0xF4B2), (1, 0xEEFB), (36,
       0xFFFF), (1, 0xD69A), (1, 0x738E), (1, 0x2104), (13, 0x2124), (1, 0x2925), (1, 0x2124), (1, 0x39C7), (1, 0x52AA), (1, 0x6B4D), (1,
       0x8C71), (1, 0xAD55), (1, 0xC618), (1, 0xCE79), (1, 0xE71C), (1, 0xF7BE), (34, 0xFFFF), (1, 0xCE79), (1, 0x7BCF), (1, 0x3186), (1,
       0x39C7), (1, 0x31A6), (1, 0x39E7), (1, 0x41E8), (1, 0x4208), (1, 0x39C7), (1, 0x31C6), (1, 0x31A6), (1, 0x2965), (1, 0x3186), (2,
       0x2945), (1, 0x2925), (4, 0x2124), (1, 0x2965), (1, 0x7BEF), (1, 0xC638), (7, 0xFFFF)],
      [(36, 0xFFFF), (1, 0xF391), (1, 0xE30F), (1, 0xBA4C), (3, 0xFFFF), (1, 0xDC32), (1, 0xF9AB), (1, 0xFA6D), (2, 0xFAAE), (1,
       0xD20B), (1, 0xC9A9), (1, 0xBC72), (27, 0xFFFF), (1, 0xF7BE), (1, 0xFFBE), (1, 0xF79E), (1, 0xF77D), (4, 0xF75C), (3, 0xF73B), (1,
       0xEF1B), (2, 0xF73B), (1, 0xF71B), (1, 0xEEFA), (2, 0xFF5C), (1, 0xFF5B), (1, 0xF71A), (1, 0xEF5C), (1, 0xFFDE), (2, 0xFFBE), (21,
       0xFFBD), (1, 0xFFDE), (1, 0xE71B), (8, 0xFFFF), (1, 0xF4B2), (3, 0xFB4D), (2, 0xFACB), (4, 0xFAAA), (1, 0xEA69), (2, 0xFA8A), (1,
       0xE269), (4, 0xFAAA), (3, 0xFA8A), (2, 0xFACB), (1, 0xFACA), (2, 0xFACB), (2, 0xFAAA), (1, 0xFA6A), (1, 0x4965), (1, 0x2165), (1,
       0x3165), (1, 0x31C6), (4, 0x4208), (1, 0x39E7), (1, 0x3A08), (1, 0xA248), (1, 0xFA28), (1, 0xFA07), (1, 0xFA48), (5, 0xFA69), (1,
       0xFAAA), (1, 0xFACB), (2, 0xFAEB), (3, 0xFB0C), (1, 0xFACA), (1, 0xF3CF), (1, 0xEDD6), (37, 0xFFFF), (1, 0xBDD7), (1, 0x4208), (1,
       0x2104), (1, 0x2945), (16, 0x3186), (2, 0x2965), (1, 0x2945), (1, 0x2925), (1, 0x2124), (1, 0x2104), (2, 0x2124), (1, 0x2945), (1,
       0x2925), (1, 0x31A6), (1, 0x526A), (1, 0x6B4D), (1, 0x8C71), (1, 0xAD55), (1, 0xC618), (1, 0xDEDB), (1, 0xF79E), (18, 0xFFFF), (1,
       0x9492), (1, 0xB596), (1, 0xEF7D), (1, 0xFFFF), (1, 0xF79E), (1, 0x9CF3), (1, 0x3186), (1, 0x2965), (1, 0x3186), (1, 0x39A7), (1,
       0x39C7), (3, 0x4208), (3, 0x39E7), (2, 0x3186), (1, 0x2965), (7, 0x3186), (1, 0x3166), (1, 0x2945), (1, 0x2104), (1, 0x528A), (6,
       0xFFFF)],
      [(18, 0xFFFF), (1, 0xF79E), (1, 0xE73C), (7, 0xE71C), (1, 0xE73C), (1, 0xF79E), (1, 0xF7BE), (5, 0xFFFF), (1, 0xEBB1), (1,
       0xFAF0), (1, 0xD26D), (1, 0xB20B), (2, 0xFFFF), (1, 0xD390), (1, 0xF9AB), (1, 0xFA0C), (1, 0xFA2C), (1, 0xFA8D), (1, 0xFAAE), (1,
       0xC1AA), (1, 0xC1A9), (1, 0xBB2E), (25, 0xFFFF), (1, 0xEF5D), (1, 0xDE99), (1, 0xFF5B), (1, 0xFF5C), (1, 0xFF5B), (5, 0xFF5C), (8,
       0xFF7C), (3, 0xFF5C), (1, 0xFF7C), (1, 0xF71B), (1, 0xF79D), (23, 0xFFBD), (1, 0xF7BD), (1, 0xEF7D), (7, 0xFFFF), (1, 0xF79E), (1,
       0xFB2C), (1, 0xFB6D), (1, 0xFB4D), (1, 0xFB6D), (1, 0xFAEB), (1, 0xFACB), (5, 0xFAAA), (1, 0xF289), (1, 0xDA28), (1, 0xD208), (2,
       0xFA69), (2, 0xFAAA), (6, 0xFA8A), (1, 0xFAAA), (1, 0xFACB), (2, 0xFAAA), (2, 0xFA8A), (1, 0xCA07), (1, 0x3166), (1, 0x31A6), (4,
       0x4208), (1, 0x39E7), (1, 0x4208), (1, 0x39E7), (1, 0x79E7), (7, 0xFA69), (1, 0xFA8A), (1, 0xFAAA), (1, 0xFACB), (1, 0xFAEB), (1,
       0xFA89), (1, 0xF30C), (1, 0xECD3), (1, 0xF77D), (37, 0xFFFF), (1, 0xA534), (1, 0x2945), (1, 0x2104), (1, 0x2965), (8, 0x3186), (3,
       0x31A6), (17, 0x3186), (1, 0x3166), (1, 0x2965), (1, 0x2945), (1, 0x2124), (2, 0x2104), (1, 0x2124), (2, 0x2945), (1, 0x3166), (1,
       0x4228), (1, 0x630C), (1, 0x6B6D), (1, 0x8C71), (1, 0x9CF3), (1, 0xBDD7), (1, 0xCE59), (1, 0xD69A), (1, 0xDEFB), (1, 0xE73C), (1,
       0xF79E), (1, 0xFFDF), (2, 0xFFFF), (1, 0xF79E), (1, 0x4228), (1, 0x2104), (1, 0x2124), (1, 0x3186), (1, 0x2965), (1, 0x3166), (1,
       0x2965), (5, 0x39C7), (1, 0x31A6), (3, 0x31C6), (1, 0x31A6), (4, 0x3186), (1, 0x2965), (5, 0x3186), (1, 0x3166), (3, 0x2965), (1,
       0x31A6), (6, 0xFFFF)],
      [(12, 0xFFFF), (1, 0xE71C), (1, 0xB596), (1, 0x8410), (1, 0x52CA), (1, 0x31A6), (1, 0x3186), (3, 0x39C7), (1, 0x39A7), (1,
       0x39C7), (1, 0x31A6), (2, 0x2985), (2, 0x3186), (1, 0x31A6), (3, 0x3186), (1, 0x4228), (1, 0x4AEB), (1, 0xDACE), (1, 0xFA6D), (1,
       0xFAAF), (1, 0xC1AA), (1, 0xB36F), (1, 0xDE9A), (1, 0xDA0B), (1, 0xF9CB), (1, 0xF9EC), (1, 0xFA2C), (1, 0xFA6D), (1, 0xFA8D), (1,
       0xD1EA), (1, 0xB989), (1, 0xB168), (1, 0xB2CD), (12, 0xFFFF), (1, 0xF7DF), (1, 0xDE9A), (9, 0xFFFF), (1, 0xDEDB), (1, 0xEEFA), (1,
       0xFF5C), (1, 0xFF7C), (20, 0xFF5C), (1, 0xFF3B), (1, 0xF77D), (22, 0xFFBD), (1, 0xFFDE), (1, 0xDEDA), (8, 0xFFFF), (1, 0xEDF7),
       (1, 0xFB6D), (2, 0xFB4D), (1, 0xFB4C), (1, 0xFAEB), (2, 0xFACB), (5, 0xFAAA), (1, 0xFA8A), (1, 0xDA28), (1, 0xC1A6), (1, 0xEA08),
       (7, 0xFA8A), (1, 0xFA69), (1, 0xFA8A), (1, 0xFACB), (2, 0xFAAA), (1, 0xFA8A), (2, 0xFA69), (1, 0xF248), (1, 0x2165), (4, 0x4208),
       (1, 0x39E7), (2, 0x4208), (1, 0x2A08), (1, 0xEA48), (7, 0xFA69), (1, 0xFA28), (1, 0xF249), (1, 0xEC0F), (1, 0xEEBA), (38, 0xFFFF),
       (1, 0xB5B6), (1, 0x2965), (1, 0x2104), (3, 0x3186), (1, 0x31A6), (6, 0x3186), (4, 0x31A6), (6, 0x3186), (1, 0x31A6), (1, 0x39A7),
       (2, 0x39C7), (1, 0x31A6), (16, 0x3186), (1, 0x2965), (2, 0x2945), (2, 0x2124), (3, 0x2104), (1, 0x2124), (1, 0x2925), (3, 0x2945),
       (1, 0x2965), (1, 0x2925), (1, 0x2965), (2, 0x3186), (1, 0x31A6), (7, 0x39C7), (1, 0x3186), (5, 0x3166), (4, 0x3186), (1, 0x2965),
       (1, 0x3186), (1, 0x2965), (1, 0x2124), (1, 0x2945), (1, 0x2965), (1, 0x3166), (2, 0x3186), (1, 0x2965), (1, 0x52AA), (6, 0xFFFF)],
      [(9, 0xFFFF), (1, 0xF79E), (1, 0x73AE), (1, 0x31C6), (1, 0x2985), (1, 0x2965), (1, 0x31A6), (1, 0x31C6), (2, 0x39E7), (5, 0x4208),
       (6, 0x39E7), (2, 0x39C7), (1, 0x31C7), (1, 0x3966), (1, 0xD949), (1, 0xFA0D), (1, 0xFA4D), (1, 0xE1EB), (1, 0xC18A), (1, 0xC1CA),
       (1, 0xF9CC), (2, 0xFA0C), (1, 0xFA4D), (1, 0xFA6D), (1, 0xFAAE), (1, 0xFA8E), (1, 0xFA8D), (1, 0xFAAE), (1, 0xFA8D), (1, 0xB1EA),
       (1, 0xCD14), (1, 0xE73C), (11, 0xFFFF), (1, 0xE3AF), (8, 0xFFFF), (1, 0xD679), (1, 0xFF5C), (1, 0xFF7C), (22, 0xFF5C), (1,
       0xFF7C), (1, 0xEF3B), (1, 0xEF7D), (1, 0xFFBE), (21, 0xFFBD), (1, 0xEF7D), (8, 0xFFFF), (1, 0xF492), (1, 0xFB2D), (1, 0xFB4D), (3,
       0xFB2C), (1, 0xFAEB), (1, 0xFACB), (5, 0xFAAA), (1, 0xFA8A), (1, 0xFA89), (1, 0xFA69), (1, 0xC9C7), (1, 0xC1A6), (5, 0xFA8A), (3,
       0xFA69), (2, 0xFAAA), (1, 0xFA8A), (4, 0xFA69), (1, 0x69A6), (1, 0x39E7), (4, 0x4208), (1, 0x39E7), (1, 0x39C7), (1, 0x29A7), (1,
       0xA9C7), (5, 0xF9E7), (1, 0xFA28), (1, 0xF3AE), (1, 0xEE59), (19, 0xFFFF), (4, 0xFFDF), (16, 0xFFFF), (1, 0xCE59), (1, 0x39E7),
       (1, 0x2104), (4, 0x3186), (3, 0x31A6), (6, 0x3186), (2, 0x31A6), (5, 0x3186), (1, 0x3166), (1, 0x31A6), (5, 0x39C7), (5, 0x31A6),
       (30, 0x3186), (1, 0x31A6), (3, 0x39A7), (1, 0x31A6), (13, 0x3186), (1, 0x2945), (1, 0x2965), (4, 0x3186), (1, 0x2965), (1,
       0x3186), (1, 0x8410), (1, 0xEF5D), (6, 0xFFFF)],
      [(8, 0xFFFF), (1, 0xE73C), (1, 0x3186), (1, 0x39C7), (5, 0x39E7), (1, 0x39C7), (6, 0x4208), (5, 0x39E7), (1, 0x39C7), (1, 0x3186),
       (1, 0x29A6), (1, 0x8147), (1, 0xF94A), (1, 0xF9AB), (1, 0xF9EC), (1, 0xE9AB), (1, 0xC969), (1, 0xC169), (1, 0xF20C), (1, 0xFA2D),
       (1, 0xFA0D), (1, 0xFA4D), (1, 0xFA6D), (1, 0xFA8E), (2, 0xFAAE), (4, 0xFACE), (1, 0xFA6D), (1, 0xFA6C), (1, 0xDB2E), (1, 0xEE7A),
       (1, 0xF7FF), (5, 0xFFFF), (1, 0xF7DF), (1, 0xF6DB), (1, 0xF3CF), (1, 0xCACB), (7, 0xFFFF), (1, 0xDEBA), (1, 0xFF9C), (19, 0xFF5C),
       (1, 0xFF9C), (5, 0xFF7C), (1, 0xF75C), (1, 0xEF3C), (20, 0xFFBD), (1, 0xFFDE), (1, 0xDEFB), (9, 0xFFFF), (1, 0xF30C), (1, 0xFB4D),
       (4, 0xFB2C), (1, 0xFB0C), (1, 0xFAEB), (4, 0xFAAA), (2, 0xFA8A), (2, 0xFA69), (2, 0xFA49), (1, 0xC9E7), (1, 0xF269), (1, 0xFA8A),
       (5, 0xFA69), (1, 0xFA8A), (6, 0xFA69), (1, 0xF228), (1, 0x29A6), (2, 0x4208), (1, 0x39E7), (1, 0x632C), (1, 0x94B2), (1, 0xBDD6),
       (1, 0xC617), (1, 0xD6B9), (1, 0xE71B), (1, 0xEF1B), (1, 0xEF3C), (1, 0xEF3B), (1, 0xEF1B), (1, 0xE71B), (1, 0xE77D), (1, 0xEF7C),
       (3, 0xEF3C), (1, 0xE73C), (1, 0xEF5C), (1, 0xEF3C), (1, 0xEF5C), (1, 0xEF3C), (1, 0xEF5C), (5, 0xEF5D), (2, 0xEF7D), (1, 0xC618),
       (1, 0x2945), (2, 0x2965), (1, 0x2945), (4, 0x2965), (1, 0x4208), (1, 0x5ACB), (1, 0x7BAF), (1, 0x9CB3), (1, 0xB596), (1, 0xCE59),
       (1, 0xDEDB), (1, 0xDEFB), (2, 0xEF5D), (1, 0xDEBB), (1, 0xBDF7), (1, 0x8410), (1, 0x2965), (1, 0x2104), (1, 0x2965), (6, 0x3186),
       (1, 0x31A6), (11, 0x3186), (4, 0x31A6), (6, 0x39C7), (5, 0x31A6), (1, 0x3186), (2, 0x3166), (16, 0x3186), (3, 0x3166), (8,
       0x3186), (1, 0x3166), (3, 0x3186), (1, 0x3166), (14, 0x3186), (1, 0x2124), (3, 0x3186), (1, 0x2124), (1, 0x83F0), (9, 0xFFFF)],
      [(8, 0xFFFF), (1, 0x5ACB), (1, 0x39E7), (1, 0x4208), (1, 0x39E7), (1, 0x31C6), (1, 0x5269), (1, 0x62AA), (1, 0x4A28), (1, 0x39C7),
       (1, 0x39E7), (5, 0x4208), (1, 0x41E7), (3, 0x39E7), (1, 0x31E7), (1, 0x2185), (1, 0x6946), (1, 0xF14A), (2, 0xF96A), (1, 0xF98B),
       (1, 0xD169), (1, 0xB948), (1, 0xB148), (1, 0x9106), (1, 0xC9AA), (1, 0xE9EC), (1, 0xF22D), (1, 0xF24D), (1, 0xFA6E), (1, 0xFAAE),
       (1, 0xFACE), (1, 0xFAEF), (3, 0xFACE), (1, 0xF2CE), (1, 0xF2CD), (1, 0xEAAD), (1, 0xF28C), (1, 0xF22B), (1, 0xF28B), (1, 0xDACC),
       (1, 0xD3D0), (1, 0xE4B2), (1, 0xEC92), (1, 0xEB6E), (1, 0xFB0C), (1, 0xFACC), (1, 0xEA8A), (1, 0xC556), (7, 0xFFFF), (1, 0xE658),
       (1, 0xFF7C), (9, 0xFF5C), (1, 0xFF7C), (4, 0xFF5C), (2, 0xFF7C), (2, 0xFF3B), (1, 0xEF1A), (2, 0xDE99), (1, 0xE6DA), (1, 0xEF1B),
       (1, 0xF75C), (1, 0xEF3B), (1, 0xDE99), (1, 0xD6B9), (1, 0xEF5C), (1, 0xF77D), (1, 0xFFDE), (1, 0xFFBE), (16, 0xFFBD), (1, 0xF79D),
       (1, 0xEF9E), (2, 0xFFFF), (1, 0xDBEF), (1, 0xDDB6), (4, 0xFFFF), (1, 0xF79E), (1, 0xFB0C), (6, 0xFB2C), (1, 0xFAEB), (4, 0xFAAA),
       (1, 0xFA8A), (1, 0xFA6A), (3, 0xFA69), (2, 0xFA49), (1, 0xF249), (1, 0xEA28), (12, 0xFA69), (1, 0xFA89), (1, 0x81A6), (2, 0x4208),
       (1, 0x31C7), (1, 0xD699), (1, 0xFFFF), (2, 0xFFFE), (4, 0xFFDE), (2, 0xFFBE), (2, 0xFFDE), (9, 0xFFBE), (5, 0xFFDE), (1, 0xFFBE),
       (2, 0xFFBD), (1, 0xFFFF), (1, 0x5ACB), (7, 0x3186), (1, 0x3166), (1, 0x2965), (1, 0x2945), (1, 0x2124), (1, 0x2104), (1, 0x18E3),
       (2, 0x2104), (2, 0x2925), (2, 0x2104), (1, 0x2925), (15, 0x3186), (3, 0x31A6), (2, 0x3186), (3, 0x31A6), (2, 0x39C7), (1, 0x39E7),
       (1, 0x4208), (2, 0x39E7), (2, 0x39C7), (3, 0x31A6), (2, 0x31C6), (3, 0x39C7), (2, 0x39E7), (12, 0x39C7), (3, 0x39A7), (3, 0x31A6),
       (4, 0x3186), (1, 0x3166), (10, 0x3186), (4, 0x31A6), (8, 0x3186), (1, 0x2945), (1, 0x2124), (1, 0x2104), (1, 0x94B2), (1, 0xEF7D),
       (1, 0xDEDB), (1, 0xDEFB), (1, 0xF79E), (6, 0xFFFF)],
      [(8, 0xFFFF), (1, 0x5ACB), (1, 0x39E7), (1, 0x4208), (1, 0x62EB), (1, 0xFEBA), (1, 0xFE7A), (1, 0xFEDB), (1, 0x4A28), (1, 0x4208),
       (1, 0x39E7), (1, 0x4208), (1, 0x3A28), (1, 0x3A08), (1, 0x51C7), (1, 0x59C7), (1, 0x5208), (1, 0x39E7), (1, 0x4228), (1, 0x31A6),
       (1, 0x7947), (1, 0xF94A), (1, 0xF96A), (1, 0xF909), (2, 0xF96A), (1, 0xF98B), (1, 0xF9AB), (2, 0xF9CC), (1, 0xF9ED), (1, 0xF9EC),
       (1, 0xFA0C), (1, 0xFA2D), (1, 0xFA4D), (1, 0xEA4D), (1, 0xC1EA), (1, 0xA189), (1, 0xBA0B), (1, 0xF2EE), (1, 0xFB0F), (2, 0xFAEF),
       (1, 0xFAEE), (1, 0xF2CE), (1, 0xFACD), (1, 0xFAAD), (1, 0xFA8C), (1, 0xFAAC), (1, 0xF26B), (1, 0xEA6A), (1, 0xEA8A), (1, 0xF2CC),
       (1, 0xFB0D), (1, 0xD26A), (1, 0xAC92), (6, 0xFFFF), (1, 0xF7DF), (1, 0xE492), (1, 0xEE58), (9, 0xFF5C), (1, 0xFF7C), (1, 0xE699),
       (1, 0xF71B), (1, 0xFF3B), (1, 0xF6FA), (1, 0xEEFA), (1, 0xEF1B), (1, 0xEF3C), (1, 0xF79D), (1, 0xF7BD), (1, 0xF79D), (4, 0xFFDE),
       (1, 0xFFBE), (2, 0xFFDE), (1, 0xF79D), (1, 0xF77D), (1, 0xF79D), (1, 0xEF5C), (1, 0xEF7C), (1, 0xF79D), (1, 0xFFDE), (1, 0xFFBE),
       (11, 0xFFBD), (1, 0xFFDE), (1, 0xF77D), (1, 0xF79E), (2, 0xFFFF), (1, 0xEE79), (1, 0xF9E7), (1, 0xFA07), (1, 0xEA48), (1, 0xE575),
       (1, 0xFF7D), (1, 0xFF5D), (1, 0xEE79), (1, 0xFB4D), (6, 0xFB2C), (1, 0xFACB), (5, 0xFAAA), (5, 0xFA69), (2, 0xFA49), (1, 0xFA69),
       (1, 0xEA28), (13, 0xFA69), (1, 0x31E7), (1, 0x4228), (1, 0x39E7), (1, 0xA513), (1, 0xFFDE), (1, 0xFFBD), (4, 0xFFDE), (1, 0xFFBE),
       (2, 0xF79D), (1, 0xF77D), (1, 0xF79D), (1, 0xF77D), (1, 0xF77C), (3, 0xF77D), (4, 0xF79D), (1, 0xFFDE), (1, 0xFFBE), (6, 0xFFBD),
       (1, 0xF79D), (1, 0xFFDE), (1, 0x2965), (34, 0x3186), (4, 0x31A6), (1, 0x3186), (2, 0x31A6), (2, 0x39C7), (2, 0x39E7), (2, 0x4208),
       (7, 0x39E7), (1, 0x31C6), (1, 0x39C7), (1, 0x31A6), (1, 0x2985), (1, 0x31A6), (1, 0x29A6), (1, 0x2A07), (8, 0x39E7), (1, 0x41E7),
       (1, 0x3207), (3, 0x39E7), (1, 0x31C6), (2, 0x29C6), (1, 0x29E7), (1, 0x3207), (1, 0x31E7), (2, 0x39C7), (1, 0x39A6), (9, 0x3186),
       (5, 0x31A6), (11, 0x3186), (1, 0x2945), (2, 0x2104), (1, 0x18E3), (1, 0x2104), (1, 0x6B4D), (5, 0xFFFF)],
      [(8, 0xFFFF), (1, 0x6B6D), (1, 0x39E7), (2, 0x4208), (1, 0xFEBA), (1, 0xFD75), (1, 0xA3CF), (1, 0x31C7), (1, 0x4208), (1, 0x31E7),
       (1, 0x39C7), (1, 0xB144), (1, 0xF8E3), (1, 0xF820), (1, 0xF800), (1, 0xF965), (1, 0xEBF0), (1, 0xBA2A), (1, 0xF949), (2, 0xF96A),
       (1, 0xF94A), (1, 0xFFFF), (1, 0xF8E8), (2, 0xF96A), (3, 0xF98B), (1, 0xF9CB), (1, 0xF9CC), (1, 0xF9EB), (1, 0xF20C), (1, 0xEA2C),
       (1, 0xEA2D), (1, 0xF26D), (1, 0xF2AE), (1, 0xA9EA), (1, 0xBA0B), (1, 0xFB10), (1, 0xFB30), (1, 0xFB2F), (1, 0xFB0F), (1, 0xFAEE),
       (1, 0xFAED), (1, 0xFACD), (1, 0xFAAD), (1, 0xFAAC), (1, 0xFACC), (2, 0xFAEC), (1, 0xFB0C), (1, 0xFB0D), (1, 0xF30C), (1, 0xF3EF),
       (1, 0xECD3), (1, 0xEDB6), (1, 0xEDF8), (1, 0xEE18), (1, 0xED96), (1, 0xF430), (1, 0xEA8A), (1, 0xC4B2), (1, 0xFFBD), (8, 0xFF5C),
       (1, 0xFF9C), (1, 0xFF5C), (1, 0xFF3B), (1, 0xEF1B), (1, 0xCE37), (1, 0xDEDA), (1, 0xF77D), (1, 0xFFBE), (1, 0xFFDE), (13, 0xFFBD),
       (1, 0xFFDE), (1, 0xFFBD), (1, 0xF79D), (1, 0xEF3C), (1, 0xEF7C), (1, 0xF79D), (1, 0xFFDE), (1, 0xFFBE), (4, 0xFFBD), (1, 0xF7BD),
       (1, 0xFFDE), (1, 0xFFBD), (1, 0xEF7C), (1, 0xEF5C), (1, 0xFFDF), (3, 0xFFFF), (1, 0xF596), (1, 0xFA28), (2, 0xFA69), (2, 0xFA07),
       (1, 0xFA69), (1, 0xEAAA), (1, 0xFB6E), (5, 0xFB2C), (1, 0xFB0C), (5, 0xFAAA), (1, 0xFA8A), (9, 0xFA69), (1, 0xEA28), (9, 0xFA69),
       (2, 0xF248), (1, 0xFA69), (1, 0x71E7), (1, 0x4228), (1, 0x3A07), (1, 0x634C), (1, 0xFFBE), (1, 0xF79D), (1, 0xEF3B), (1, 0xEF1B),
       (2, 0xEEFA), (1, 0xF6FA), (1, 0xFF5C), (1, 0xFF5B), (1, 0xFF3B), (2, 0xFF5B), (1, 0xFF3B), (1, 0xFF5B), (1, 0xFF3B), (4, 0xFF5B),
       (1, 0xF73B), (1, 0xEEFA), (1, 0xEF5C), (1, 0xFFDE), (6, 0xFFBD), (1, 0xFFFE), (1, 0xBDB6), (1, 0x2124), (31, 0x3186), (1, 0x3166),
       (7, 0x31A6), (1, 0x39A6), (2, 0x39C7), (1, 0x39E7), (1, 0x31E7), (1, 0x3A08), (1, 0x3208), (1, 0x31E7), (1, 0x39E7), (1, 0x41E7),
       (1, 0x4A28), (1, 0x5269), (1, 0x6AEB), (1, 0x7B2C), (1, 0x9C10), (1, 0xB471), (1, 0xDD55), (1, 0xE555), (1, 0xF575), (1, 0xF4B3),
       (1, 0xF800), (1, 0xF882), (1, 0xF862), (1, 0xF882), (1, 0xF861), (1, 0xF841), (1, 0xF820), (3, 0xF800), (1, 0xF000), (2, 0xF800),
       (1, 0xF841), (1, 0xF9C7), (1, 0xF249), (1, 0xE28A), (1, 0xCA08), (1, 0xB186), (1, 0x9165), (1, 0x6965), (1, 0x5165), (1, 0x4145),
       (1, 0x2986), (1, 0x29E7), (1, 0x31A7), (3, 0x3186), (1, 0x3166), (2, 0x3186), (6, 0x31A6), (4, 0x3186), (4, 0x31A6), (6, 0x3186),
       (1, 0x2104), (1, 0x2945), (1, 0x4228), (4, 0xFFFF)],
      [(8, 0xFFFF), (1, 0x8410), (1, 0x39C7), (1, 0x4208), (1, 0x39E8), (1, 0x8ACB), (1, 0xFCB2), (1, 0x31C7), (2, 0x4208), (1, 0x7249),
       (1, 0xFB0C), (1, 0xFA69), (1, 0xFA89), (1, 0xF945), (1, 0xF021), (1, 0xE8E7), (1, 0xF929), (1, 0xF94A), (5, 0xF96A), (1, 0xFB30),
       (1, 0xF949), (3, 0xF96A), (1, 0xF98A), (1, 0xF9AB), (1, 0xE18A), (1, 0xC169), (1, 0xB969), (1, 0xB189), (1, 0x9968), (1, 0x9168),
       (1, 0xA9A9), (1, 0xBA0B), (1, 0xA1EA), (1, 0xB22B), (2, 0xFB70), (1, 0xFB50), (1, 0xFB2F), (1, 0xFAEE), (1, 0xFACD), (2, 0xFAAD),
       (2, 0xFACC), (1, 0xFAEC), (1, 0xFB0C), (1, 0xFB0D), (1, 0xFB2D), (1, 0xFB4D), (1, 0xFB2C), (1, 0xFB0C), (1, 0xF2AB), (1, 0xEAAA),
       (1, 0xF2AB), (1, 0xB208), (1, 0xCE59), (1, 0xEF5C), (1, 0xFF7C), (4, 0xFF5C), (2, 0xFF7C), (1, 0xFF3B), (1, 0xF71B), (1, 0xD678),
       (1, 0xEF3B), (1, 0xF79D), (1, 0xFFBE), (1, 0xFFFE), (1, 0xFFDE), (19, 0xFFBD), (1, 0xFFDE), (1, 0xFFBD), (1, 0xF77D), (1, 0xDEBA),
       (1, 0xEF3C), (1, 0xEF5C), (2, 0xFFDE), (1, 0xF77D), (1, 0xEF3B), (1, 0xD6BA), (1, 0xE73C), (1, 0xFFDF), (5, 0xFFFF), (1, 0xECB2),
       (1, 0xFA49), (4, 0xFA69), (1, 0xFA8A), (1, 0xF2EB), (1, 0xF32C), (1, 0xFB4D), (1, 0xFB2C), (2, 0xFB0C), (1, 0xFAEB), (2, 0xFACB),
       (4, 0xFAAA), (1, 0xFA8A), (10, 0xFA69), (1, 0xE228), (6, 0xFA69), (1, 0xF248), (1, 0xEA48), (1, 0xEA28), (1, 0xFA49), (1, 0xDA07),
       (1, 0xDA08), (1, 0x3228), (1, 0x4228), (1, 0x31A6), (1, 0xFF7C), (1, 0xFF3B), (1, 0xFF7C), (1, 0xFFBD), (1, 0xFF9D), (2, 0xFF7C),
       (13, 0xFF5C), (1, 0xFF7C), (1, 0xF73B), (1, 0xF79D), (7, 0xFFBD), (1, 0xFFFF), (1, 0x4A69), (26, 0x3186), (3, 0x31A6), (2,
       0x3186), (2, 0x31A6), (2, 0x39A7), (2, 0x39C7), (1, 0x31E8), (1, 0x2A08), (1, 0x31A6), (1, 0x3965), (1, 0x4965), (1, 0x59A6), (1,
       0x79A6), (1, 0xAA28), (1, 0xCA69), (1, 0xEB0C), (1, 0xFBCF), (1, 0xFC51), (1, 0xFC71), (1, 0xFC51), (1, 0xFC10), (1, 0xFBF0), (1,
       0xFB8E), (1, 0xFB2C), (1, 0xFB0C), (1, 0xFB2C), (1, 0xFB0C), (1, 0xFAEB), (1, 0xFBAE), (1, 0xFC30), (1, 0xFCD3), (1, 0xFD96), (2,
       0xFE59), (1, 0xFDB7), (1, 0xFDB6), (1, 0xFDB7), (1, 0xFDB6), (1, 0xFDB7), (1, 0xF4D3), (1, 0xFCD3), (1, 0xFBEF), (1, 0xFA49), (1,
       0xFACB), (1, 0xFB8E), (1, 0xFC30), (1, 0xFC92), (1, 0xFCB2), (1, 0xFC71), (1, 0xFC30), (1, 0xFC10), (1, 0xF32C), (1, 0xC0C2), (1,
       0x8882), (1, 0x50E3), (1, 0x3965), (1, 0x29A7), (1, 0x31A6), (1, 0x39A6), (1, 0x39E7), (1, 0x39C7), (6, 0x31A6), (2, 0x3186), (5,
       0x31A6), (6, 0x3186), (1, 0x2124), (1, 0x3186), (1, 0x4228), (4, 0xFFFF)],
      [(8, 0xFFFF), (1, 0xAD75), (1, 0x39A7), (2, 0x4208), (1, 0x3A08), (1, 0x6A8A), (1, 0x3A08), (1, 0x4208), (1, 0x5229), (1, 0xFC10),
       (1, 0xFCF3), (1, 0xFC92), (1, 0xF4F3), (1, 0xE968), (1, 0xF98B), (7, 0xF96A), (1, 0xF949), (1, 0xFDB8), (1, 0xF8A8), (4, 0xF96A),
       (1, 0xF98B), (1, 0xF9AB), (1, 0xFA0C), (1, 0xFA6D), (1, 0xFA8E), (1, 0xF28D), (1, 0xF2AE), (1, 0xC22B), (1, 0xB20B), (1, 0xBA2B),
       (1, 0xB22B), (1, 0xC26C), (2, 0xFB70), (1, 0xFB4F), (1, 0xFB0E), (1, 0xFAEE), (1, 0xFACD), (1, 0xFAAD), (2, 0xFACC), (1, 0xFAEC),
       (1, 0xFB0C), (1, 0xFB0D), (1, 0xFB2D), (3, 0xFB4D), (1, 0xEAEC), (1, 0xCA6A), (1, 0x91A7), (1, 0xC5F8), (1, 0xFFFF), (1, 0xEF3C),
       (1, 0xFF7C), (1, 0xFF5C), (1, 0xFF7C), (2, 0xF71B), (1, 0xDE99), (1, 0xE6FB), (2, 0xF79D), (2, 0xFFDE), (26, 0xFFBD), (1, 0xFFDE),
       (1, 0xF79D), (1, 0xEF7C), (1, 0xCE58), (1, 0xA534), (1, 0xB5B6), (1, 0xEF5D), (3, 0xFFFF), (1, 0xFFDF), (4, 0xFFFF), (1, 0xE575),
       (1, 0xFA48), (5, 0xFA69), (1, 0xFAEB), (1, 0xDAAA), (1, 0xFB4C), (1, 0xFB2C), (1, 0xFB0B), (4, 0xFACB), (1, 0xFACA), (3, 0xFAAA),
       (1, 0xFA8A), (4, 0xFA69), (4, 0xFA49), (2, 0xFA69), (1, 0xFA89), (1, 0xD208), (3, 0xFA8A), (1, 0xEA28), (1, 0xF248), (1, 0xFA69),
       (1, 0xEA28), (3, 0xFA69), (1, 0xE207), (1, 0x49E7), (1, 0x4228), (1, 0x39E7), (1, 0xBD95), (1, 0xDE78), (1, 0xB534), (1, 0x7BAE),
       (1, 0xAD33), (1, 0xFF7C), (15, 0xFF5C), (1, 0xFF7C), (1, 0xEF1B), (1, 0xFFDE), (6, 0xFFBD), (1, 0xFFDE), (1, 0xDEDA), (1, 0x2124),
       (18, 0x3186), (2, 0x3166), (3, 0x3186), (2, 0x31A6), (4, 0x39C7), (1, 0x39E7), (1, 0x31E7), (1, 0x29C7), (1, 0x3186), (1, 0x4125),
       (1, 0x50E4), (1, 0x78E3), (1, 0xA8E3), (1, 0xD904), (1, 0xF269), (1, 0xFB8E), (1, 0xFB6D), (1, 0xFAEB), (1, 0xFACA), (1, 0xFA8A),
       (1, 0xFAEB), (1, 0xFB8E), (1, 0xFC51), (1, 0xFC71), (1, 0xFC30), (1, 0xFBCF), (2, 0xFB8E), (1, 0xF32C), (2, 0xEAEB), (1, 0xDAEB),
       (1, 0xBAAA), (1, 0xAA69), (1, 0x9269), (1, 0x828A), (1, 0x6A69), (1, 0x6269), (1, 0x4228), (2, 0x4208), (1, 0x4228), (1, 0x4208),
       (2, 0x39E7), (1, 0x31C7), (1, 0x3A08), (1, 0x3A49), (1, 0x4228), (1, 0x41E7), (1, 0x51E7), (1, 0x7249), (1, 0x92CB), (1, 0xBB6D),
       (1, 0xE40F), (1, 0xF451), (1, 0xFC92), (1, 0xFD34), (1, 0xFE59), (1, 0xFE39), (1, 0xFD14), (1, 0xFBEF), (1, 0xE2AA), (1, 0x8A8A),
       (1, 0x5207), (1, 0x31C6), (1, 0x29C7), (2, 0x39C7), (5, 0x31A6), (1, 0x3186), (6, 0x31A6), (5, 0x3186), (1, 0x2945), (1, 0x3186),
       (1, 0x4208), (4, 0xFFFF)],
      [(8, 0xFFFF), (1, 0xD6BA), (1, 0x31A6), (1, 0x4208), (3, 0x4A49), (1, 0x4228), (1, 0x39E7), (1, 0xB30C), (1, 0xFCF3), (1, 0xFD55),
       (1, 0xDCF4), (1, 0xF16A), (1, 0xF94A), (8, 0xF96A), (1, 0xF94A), (1, 0xF96A), (1, 0xFE19), (1, 0xF909), (3, 0xF96A), (1, 0xF98A),
       (1, 0xF9AB), (1, 0xF9CC), (1, 0xFA2D), (1, 0xFA8E), (1, 0xFAAE), (1, 0xFAEF), (1, 0xFB30), (1, 0xFB50), (1, 0xF330), (1, 0xCA8D),
       (1, 0xBA4B), (1, 0xCA2C), (2, 0xFB0F), (1, 0xFB2F), (2, 0xFAEE), (1, 0xFAAD), (2, 0xFACC), (1, 0xFAEC), (1, 0xFB0C), (1, 0xFB0D),
       (2, 0xFB2D), (5, 0xFB4D), (1, 0xE26B), (1, 0xBAAB), (1, 0xA4D3), (1, 0xC5D6), (1, 0xDEB9), (1, 0xF77C), (1, 0xF79D), (1, 0xEF7C),
       (2, 0xFFDE), (32, 0xFFBD), (1, 0xFFFF), (1, 0x5AEB), (1, 0x2125), (1, 0x2124), (1, 0x3166), (1, 0x4208), (1, 0x73AE), (1, 0xCE79),
       (1, 0xF7BE), (4, 0xFFFF), (1, 0xE69A), (1, 0xFA07), (2, 0xFA69), (1, 0xFA89), (1, 0xFA69), (1, 0xD228), (1, 0x4986), (1, 0x2965),
       (1, 0x89E7), (1, 0xFB2C), (1, 0xFB0C), (4, 0xFACB), (4, 0xFAAA), (2, 0xFA8A), (2, 0xFA69), (1, 0xEA49), (2, 0xF269), (1, 0xFA6A),
       (1, 0xFA69), (1, 0xF249), (1, 0xEA49), (1, 0xFA6A), (1, 0xF28A), (1, 0xEA89), (1, 0xDA69), (1, 0xE269), (1, 0xFAAA), (1, 0xFA89),
       (1, 0xFA69), (1, 0xFA49), (4, 0xFA69), (1, 0x79E7), (2, 0x4228), (2, 0x31A6), (2, 0x39C7), (1, 0x52AA), (1, 0xFFBD), (16, 0xFF5C),
       (1, 0xF73B), (1, 0xF7BD), (7, 0xFFBD), (1, 0xFFFF), (1, 0x4A49), (1, 0x31A6), (10, 0x3186), (2, 0x3166), (4, 0x3186), (2, 0x31A6),
       (1, 0x39A7), (3, 0x39C7), (1, 0x31C7), (1, 0x29A7), (1, 0x21A6), (1, 0x29A6), (1, 0x39A6), (1, 0x49A6), (1, 0x7965), (1, 0xB1A6),
       (1, 0xE228), (1, 0xF2EB), (1, 0xFC30), (1, 0xFD34), (1, 0xFDD7), (1, 0xFE99), (1, 0xFF1B), (1, 0xFE79), (1, 0xFCD3), (1, 0xFBAE),
       (1, 0xFB0C), (1, 0xFAAA), (1, 0xFA69), (1, 0xF269), (1, 0xE1E7), (1, 0xB924), (1, 0x9986), (1, 0x7A69), (1, 0x6228), (1, 0x5228),
       (1, 0x4A08), (1, 0x4208), (1, 0x3A08), (1, 0x31E7), (1, 0x29C7), (1, 0x29C6), (3, 0x31C7), (16, 0x39E7), (1, 0x31C6), (1, 0x29C6),
       (1, 0x2986), (1, 0x31A6), (1, 0x41E7), (1, 0x5229), (1, 0x8BCF), (1, 0xC4D3), (1, 0xF575), (1, 0xFD55), (1, 0xFCF4), (1, 0xFC30),
       (1, 0xFB8E), (1, 0xF2AB), (1, 0xBA49), (1, 0x59E7), (1, 0x39C7), (1, 0x29A6), (11, 0x31A6), (6, 0x3186), (1, 0x2945), (1, 0x4208),
       (4, 0xFFFF)],
      [(9, 0xFFFF), (1, 0x4208), (3, 0x4A69), (2, 0x4A49), (1, 0x3A28), (1, 0xD3EF), (1, 0xFCD3), (1, 0xDC31), (1, 0xF8E8), (12,
       0xF96A), (1, 0xFACE), (1, 0xF949), (3, 0xF96A), (1, 0xF98B), (1, 0xF9CB), (1, 0xF9AC), (1, 0xE9AB), (1, 0xD1AA), (1, 0xD9EB), (1,
       0xD1EB), (1, 0xDA4D), (1, 0xF2EF), (1, 0xFB71), (1, 0xFBF2), (1, 0xF370), (1, 0xB34E), (1, 0xC492), (1, 0xD5F7), (1, 0xB22B), (1,
       0xDA2B), (1, 0xE28C), (1, 0xFAAD), (1, 0xFACC), (3, 0xFAEC), (1, 0xFB0D), (2, 0xFB2D), (4, 0xFB4D), (1, 0xFB4E), (1, 0xFB6E), (1,
       0xFBAF), (1, 0xF30C), (1, 0x6986), (1, 0x1945), (1, 0x5ACB), (1, 0xCE58), (1, 0xFFFF), (1, 0xFFFE), (32, 0xFFBD), (1, 0xF7BD), (1,
       0xDEBA), (1, 0x2124), (3, 0x3186), (1, 0x31A6), (1, 0x3166), (1, 0x2104), (1, 0x2945), (1, 0x39C7), (1, 0x5AEB), (1, 0xAD55), (1,
       0xE71C), (1, 0xF7FF), (1, 0xE28A), (1, 0xDA28), (1, 0xB1E7), (1, 0x81A6), (1, 0x5186), (1, 0x2165), (2, 0x3186), (1, 0x2165), (1,
       0xAA28), (1, 0xFB0B), (3, 0xFACB), (5, 0xFAAA), (2, 0xFA8A), (1, 0xE249), (1, 0xF269), (1, 0xFA8A), (1, 0xF269), (4, 0xFA8A), (2,
       0xFAAA), (1, 0xFAAB), (1, 0xBA08), (3, 0xFACB), (1, 0xFAAA), (1, 0xFA69), (1, 0xFA48), (1, 0xFA49), (1, 0xE228), (1, 0xAA07), (1,
       0x71C7), (1, 0x4A08), (4, 0x4228), (1, 0x39E7), (1, 0x39C7), (1, 0x2945), (1, 0xFFBD), (17, 0xFF5C), (1, 0xEF7C), (1, 0xFFBE), (6,
       0xFFBD), (1, 0xFFFE), (1, 0xAD54), (1, 0x2124), (6, 0x3186), (1, 0x3166), (2, 0x3186), (2, 0x31A6), (2, 0x39A7), (4, 0x39C7), (1,
       0x31A7), (1, 0x29A6), (1, 0x21A6), (1, 0x31A7), (1, 0x41A7), (1, 0x61C7), (1, 0x9A28), (1, 0xD28A), (1, 0xEB0C), (1, 0xFB6D), (1,
       0xFBCF), (1, 0xFC30), (1, 0xFC91), (1, 0xFCD3), (1, 0xFD75), (1, 0xFE18), (3, 0xFE59), (1, 0xEE18), (1, 0xC4D3), (1, 0xA36D), (1,
       0x7269), (1, 0x51E7), (1, 0x49C7), (1, 0x39C7), (1, 0x31A6), (1, 0x29A7), (1, 0x29E7), (1, 0x31C7), (2, 0x31A6), (13, 0x3186), (2,
       0x2965), (2, 0x2945), (1, 0x2124), (2, 0x2104), (1, 0x18E3), (1, 0x2104), (1, 0x2124), (1, 0x2965), (1, 0x3186), (1, 0x39C7), (1,
       0x39E7), (1, 0x3186), (1, 0x2124), (1, 0x31A6), (2, 0x39C7), (1, 0x31A6), (1, 0x2966), (1, 0x2986), (1, 0x41E7), (1, 0x6249), (1,
       0xB32C), (1, 0xF36D), (1, 0xFAAA), (1, 0xFAEB), (1, 0xFB0C), (1, 0xFAAA), (1, 0xCA69), (1, 0x61E7), (1, 0x39A7), (1, 0x2165), (1,
       0x2985), (6, 0x31A6), (7, 0x3186), (1, 0x2945), (1, 0x41E8), (4, 0xFFFF)],
      [(9, 0xFFFF), (1, 0x8450), (1, 0x4228), (3, 0x4A69), (1, 0x4A49), (1, 0x4228), (1, 0xC430), (1, 0xEC71), (1, 0xF909), (17,
       0xF96A), (1, 0xF96B), (1, 0xF16A), (1, 0xD128), (1, 0xB8A6), (1, 0xC129), (1, 0xA927), (1, 0x89E9), (1, 0xCC93), (1, 0xCCD3), (1,
       0xC493), (1, 0xB3B0), (1, 0xBB4F), (1, 0xE370), (1, 0xFB91), (1, 0xEE79), (1, 0xFF5C), (1, 0xE658), (1, 0xBB4E), (1, 0xC1CA), (1,
       0xB948), (1, 0xC1EA), (1, 0xD22A), (1, 0xEAAB), (1, 0xFAEC), (3, 0xFB2D), (4, 0xFB4D), (2, 0xFB6E), (1, 0xFB8E), (1, 0xFB8F), (1,
       0xFBAF), (1, 0xDB6E), (1, 0x39A6), (1, 0x10E3), (1, 0x31C7), (1, 0xBDB6), (1, 0xFFFF), (1, 0xFFDE), (30, 0xFFBD), (1, 0xFFFF), (1,
       0x4A49), (10, 0x3186), (1, 0x2945), (1, 0x18E3), (1, 0x2945), (1, 0x2986), (1, 0x2165), (1, 0x2166), (1, 0x2986), (5, 0x3186), (1,
       0x2165), (1, 0x79E7), (1, 0xFAEB), (2, 0xFACB), (5, 0xFAAA), (1, 0xFACA), (1, 0xD248), (1, 0xFA8A), (1, 0xFAAA), (1, 0xFA8A), (1,
       0xF269), (4, 0xFA8A), (1, 0xF2AA), (1, 0xEA8A), (1, 0xF2AA), (5, 0xFACB), (1, 0xFAAA), (1, 0x49A7), (1, 0x31A6), (1, 0x29A6), (1,
       0x3A08), (1, 0x4208), (4, 0x4228), (1, 0x39E7), (2, 0x39C7), (1, 0x2966), (1, 0xDE58), (1, 0xFF7C), (15, 0xFF5C), (1, 0xFF7C), (1,
       0xEF1B), (1, 0xFFDE), (8, 0xFFBD), (1, 0x2965), (4, 0x3186), (1, 0x3166), (1, 0x3186), (1, 0x31A6), (6, 0x39C7), (1, 0x29A6), (1,
       0x2986), (1, 0x31A6), (1, 0x41C7), (1, 0x7A49), (1, 0xB28A), (1, 0xE28A), (1, 0xF269), (1, 0xFA8A), (1, 0xFACA), (1, 0xFAEB), (1,
       0xFB0C), (1, 0xFB4D), (1, 0xFBAE), (1, 0xFBEF), (1, 0xFC0F), (1, 0xFC30), (1, 0xEC31), (1, 0xAB8E), (1, 0x72EB), (1, 0x5228), (1,
       0x4208), (1, 0x39A6), (1, 0x2945), (1, 0x2965), (1, 0x2986), (5, 0x3186), (1, 0x3166), (4, 0x3186), (1, 0x3166), (1, 0x2965), (1,
       0x2945), (1, 0x2124), (1, 0x2104), (2, 0x18E3), (1, 0x2104), (1, 0x2945), (1, 0x2965), (1, 0x3186), (1, 0x31A6), (1, 0x39C7), (1,
       0x4A49), (1, 0x5AEB), (1, 0x73AE), (1, 0x8430), (1, 0xA514), (1, 0xAD75), (1, 0xCE39), (1, 0xDEDB), (1, 0xE71C), (1, 0xE73C), (1,
       0xEF7D), (1, 0xF7BE), (2, 0xFFFF), (1, 0xF79E), (1, 0xCE59), (1, 0x632C), (1, 0x3186), (1, 0x2124), (1, 0x2945), (1, 0x31A6), (3,
       0x39C7), (1, 0x29A6), (1, 0x29C6), (1, 0x49E7), (1, 0x8A48), (1, 0xEAEB), (1, 0xFAAA), (1, 0xFAEB), (1, 0xFB6D), (1, 0xFBAE), (1,
       0xCB8E), (1, 0x5A28), (1, 0x2985), (1, 0x2165), (1, 0x39A7), (3, 0x39C7), (1, 0x31A6), (6, 0x3186), (2, 0x2965), (4, 0xFFFF)]]"

definition GIRL_COLORS_5 :: "runs list" where
  "GIRL_COLORS_5 =
     [[(9, 0xFFFF), (1, 0xD6BA), (1, 0x3A07), (3, 0x4A69), (3, 0x4A49), (19, 0xF96A), (1, 0xD108), (1, 0xB886), (1, 0xB9EA), (1,
       0xEE18), (1, 0x83AE), (1, 0x0000), (1, 0xFFFE), (1, 0xFFFD), (1, 0xFFFC), (1, 0xFFBD), (1, 0xFFFE), (1, 0xFFDE), (1, 0xEF1B), (1,
       0xFEFA), (1, 0xDD96), (1, 0xE699), (1, 0xFF7C), (1, 0xFFDD), (1, 0xFF5B), (1, 0xE596), (1, 0xC22B), (1, 0xC1A9), (1, 0xC1E9), (1,
       0xBA09), (1, 0xBA29), (1, 0xFB0D), (4, 0xFB4D), (1, 0xFB2C), (1, 0xFB6E), (2, 0xFB8E), (1, 0xFB8F), (1, 0xFBAF), (1, 0xFBD0), (1,
       0xFC32), (1, 0xC2AB), (1, 0x5986), (1, 0x1104), (1, 0x4228), (1, 0xDEBA), (1, 0xFFFF), (29, 0xFFBD), (1, 0xD679), (1, 0x2124), (4,
       0x3186), (2, 0x31A6), (10, 0x3186), (7, 0x31A6), (1, 0x2966), (1, 0x71C7), (1, 0xFACA), (3, 0xFAAA), (1, 0xFACB), (1, 0xFAAA), (1,
       0xFACB), (1, 0xD249), (3, 0xFACB), (1, 0xFAAA), (1, 0xFA8A), (1, 0xDA28), (1, 0xFAAA), (1, 0xEA49), (1, 0xD228), (1, 0xF28A), (1,
       0xFAEB), (6, 0xFACB), (1, 0xFAAA), (1, 0x41C7), (3, 0x39C7), (4, 0x4208), (1, 0x39E7), (1, 0x39A7), (2, 0x39C7), (1, 0x3186), (1,
       0xAD13), (1, 0xFF7C), (16, 0xFF5C), (1, 0xFF3B), (1, 0xF7BD), (7, 0xFFBD), (1, 0xFFFF), (1, 0x5ACB), (5, 0x3186), (1, 0x39C7), (1,
       0x31C7), (1, 0x31A7), (1, 0x29A7), (1, 0x21A6), (1, 0x29A6), (1, 0x39A7), (1, 0x49C7), (1, 0x9228), (1, 0xD2CB), (1, 0xF34D), (2,
       0xFBAE), (1, 0xFB0C), (1, 0xFACA), (2, 0xFA8A), (2, 0xFAAA), (1, 0xFACB), (1, 0xD2AA), (1, 0x9269), (1, 0x6208), (1, 0x49E7), (1,
       0x39A7), (1, 0x2986), (1, 0x31A6), (2, 0x39C7), (1, 0x31A6), (6, 0x3186), (1, 0x2965), (1, 0x2945), (1, 0x2124), (1, 0x2104), (1,
       0x18E3), (1, 0x2104), (1, 0x2124), (1, 0x2965), (1, 0x39E7), (1, 0x4A49), (1, 0x7BCF), (1, 0xA4F4), (1, 0xA534), (1, 0xC638), (1,
       0xDEDB), (1, 0xE71C), (1, 0xEF7D), (1, 0xF7BE), (10, 0xFFFF), (2, 0xFFDF), (9, 0xFFFF), (1, 0xE71C), (1, 0xA4F4), (1, 0x4A49), (1,
       0x2965), (1, 0x2104), (1, 0x2965), (3, 0x39C7), (1, 0x31E7), (1, 0x29C6), (1, 0x49E7), (1, 0x9A69), (1, 0xF32C), (1, 0xFC10), (1,
       0xFC92), (1, 0xFC71), (1, 0xF3EF), (1, 0xB2EC), (1, 0x41C7), (1, 0x29A6), (3, 0x39C7), (1, 0x31A6), (5, 0x3186), (1, 0x2965), (1,
       0x2945), (4, 0xFFFF)],
      [(10, 0xFFFF), (1, 0x4A49), (3, 0x4A69), (1, 0x4A49), (1, 0x3A49), (1, 0xC969), (17, 0xF96A), (1, 0xF149), (1, 0xC067), (1,
       0xB949), (1, 0xE617), (1, 0xFFDD), (1, 0xFF9D), (1, 0x62EB), (1, 0x1084), (1, 0x621B), (1, 0x621C), (1, 0x59FD), (1, 0xFF5D), (1,
       0xE6DB), (1, 0xDE7A), (4, 0xFF7C), (4, 0xFF5C), (1, 0xFFBD), (1, 0xF699), (1, 0xBAAC), (1, 0xC1A9), (1, 0xCA2A), (1, 0xB209), (1,
       0xCA8A), (1, 0xFB4D), (1, 0xFB6D), (1, 0xFBAF), (1, 0xFD14), (1, 0xFB4D), (1, 0xFB8E), (2, 0xFB8F), (1, 0xFBB0), (1, 0xFBF0), (1,
       0xFC11), (1, 0xFC73), (1, 0xFC31), (1, 0xDA28), (1, 0x4986), (1, 0x1945), (1, 0x840F), (1, 0xFFFF), (1, 0xFFDE), (26, 0xFFBD), (1,
       0xFFFF), (1, 0x4A49), (3, 0x3186), (6, 0x31A6), (1, 0x3166), (4, 0x3186), (1, 0x31A6), (1, 0x39C7), (1, 0x39A7), (7, 0x31A6), (1,
       0x3186), (1, 0x2966), (1, 0x71A6), (1, 0xFA89), (1, 0xFAAA), (3, 0xFACB), (1, 0xE269), (6, 0xFACB), (1, 0xD228), (1, 0xCA28), (1,
       0xEA49), (2, 0xFAAA), (2, 0xFAEB), (5, 0xFACB), (1, 0xFAAA), (1, 0x41C7), (2, 0x39C7), (7, 0x39E7), (1, 0x4208), (1, 0x3A07), (1,
       0x31A6), (1, 0x9450), (1, 0xFF9C), (16, 0xFF5C), (1, 0xFF3B), (1, 0xF79D), (7, 0xFFBD), (1, 0xFFFF), (1, 0x8C51), (1, 0x2965), (2,
       0x3185), (2, 0x39A6), (1, 0x41A6), (1, 0x59C7), (1, 0x8208), (1, 0xA228), (1, 0xD269), (1, 0xEA8A), (1, 0xFACB), (1, 0xFB0B), (1,
       0xFB2C), (1, 0xFB6E), (1, 0xFBCF), (1, 0xFBAE), (1, 0xFB6D), (1, 0xFB0C), (1, 0xFA28), (1, 0xD1C7), (1, 0x91A6), (1, 0x59A7), (1,
       0x41A6), (2, 0x29A6), (1, 0x31C7), (2, 0x39C7), (1, 0x31A6), (3, 0x3186), (1, 0x3166), (1, 0x2965), (1, 0x2124), (2, 0x2104), (1,
       0x2945), (1, 0x3166), (1, 0x31A6), (1, 0x526A), (1, 0x73AE), (1, 0x94B2), (1, 0xB5B6), (1, 0xD69A), (1, 0xE71C), (1, 0xE73C), (1,
       0xFFDF), (6, 0xFFFF), (1, 0xFFDF), (27, 0xFFFF), (1, 0xFFDF), (1, 0xD6BA), (1, 0x8410), (1, 0x31A6), (1, 0x2925), (1, 0x2124), (1,
       0x3186), (1, 0x39C7), (1, 0x39E7), (1, 0x31C7), (1, 0x29A6), (1, 0x41A7), (1, 0x9AEB), (1, 0xFC30), (1, 0xFBF0), (2, 0xFB8E), (1,
       0x8208), (1, 0x29A6), (2, 0x39C7), (1, 0x39E7), (1, 0x39C7), (4, 0x3186), (1, 0x2965), (1, 0x2945), (4, 0xFFFF)],
      [(10, 0xFFFF), (1, 0xA514), (1, 0x4208), (2, 0x4A69), (1, 0x4A8A), (1, 0x81E9), (1, 0xF94A), (16, 0xF96A), (1, 0xD909), (1,
       0xB846), (1, 0xC3B0), (1, 0xFFBD), (2, 0xFF5C), (1, 0xFFBD), (1, 0x5288), (1, 0x0809), (1, 0x389F), (1, 0x493E), (1, 0x40DF), (1,
       0xF73D), (1, 0xEEFF), (1, 0xC67F), (1, 0xCEBE), (1, 0xF71B), (1, 0xFF7C), (7, 0xFF5C), (1, 0xFFBD), (1, 0xCCD3), (1, 0xC1A8), (1,
       0xC22A), (2, 0xC24A), (1, 0xD2AB), (1, 0xFBCF), (1, 0xFD55), (1, 0xFB2D), (1, 0xFB8E), (1, 0xFB8F), (1, 0xFBAF), (1, 0xFBB0), (1,
       0xFBF1), (1, 0xFC32), (1, 0xFC53), (1, 0xFCB4), (1, 0xFD57), (1, 0xF3AF), (1, 0xC9E7), (1, 0x3985), (1, 0x3A48), (1, 0xE71B), (1,
       0xFFFF), (15, 0xFFBD), (1, 0xFFDE), (1, 0xFFFE), (7, 0xFFBD), (1, 0xF79D), (1, 0xE6FB), (1, 0x2104), (2, 0x3186), (8, 0x31A6), (1,
       0x3186), (1, 0x3166), (1, 0x3186), (5, 0x39C7), (1, 0x39A7), (5, 0x31A6), (2, 0x3186), (1, 0x2166), (1, 0xB1E7), (1, 0xFACA), (1,
       0xFACB), (1, 0xFAEB), (1, 0xDA69), (2, 0xFAEB), (5, 0xFACB), (1, 0xEA69), (3, 0xFAAA), (2, 0xFACB), (2, 0xFAEB), (5, 0xFACB), (1,
       0x49C7), (2, 0x39C7), (5, 0x39E7), (1, 0x4208), (3, 0x4228), (1, 0x3A07), (1, 0x9471), (1, 0xFF9C), (16, 0xFF5C), (1, 0xFF7C), (1,
       0xEF3B), (1, 0xFFDE), (6, 0xFFBD), (1, 0xFFFF), (1, 0xECD2), (2, 0xF800), (1, 0xF8A2), (1, 0xF965), (1, 0xFA08), (1, 0xFA69), (1,
       0xFAAA), (6, 0xFAEB), (1, 0xFA8A), (1, 0xF9C7), (1, 0xE904), (1, 0xA904), (1, 0x6924), (1, 0x4924), (1, 0x3186), (1, 0x29C7), (1,
       0x31C7), (2, 0x39C7), (1, 0x39A6), (1, 0x31A6), (2, 0x3186), (1, 0x2965), (1, 0x2945), (2, 0x2104), (1, 0x2965), (1, 0x3186), (1,
       0x52AA), (1, 0x8C71), (1, 0xBDD7), (1, 0xDEFB), (1, 0xEF7D), (48, 0xFFFF), (1, 0xEF5D), (1, 0xAD75), (1, 0x4A69), (1, 0x2945), (1,
       0x2124), (1, 0x31A6), (2, 0x39C7), (1, 0x31A6), (1, 0x3186), (1, 0x92AA), (1, 0xFBAE), (2, 0xFB8E), (1, 0x9228), (1, 0x31C6), (3,
       0x39E7), (1, 0x39C7), (3, 0x3186), (1, 0x2965), (1, 0x20E4), (4, 0xFFFF)],
      [(10, 0xFFFF), (1, 0xEF7D), (1, 0x39E7), (2, 0x4A69), (1, 0x5269), (1, 0xF94A), (16, 0xF96A), (1, 0xC8E8), (1, 0xB846), (1,
       0xD555), (1, 0xFFBD), (3, 0xFF5C), (1, 0xFFBD), (1, 0x5289), (1, 0x0007), (1, 0x389F), (1, 0x40FF), (1, 0x38BD), (1, 0x941A), (1,
       0x3955), (1, 0x519E), (1, 0xCE9F), (1, 0xBDFF), (1, 0xF71B), (1, 0xFF7C), (7, 0xFF5C), (1, 0xFF9D), (1, 0xC451), (1, 0xC1C9), (2,
       0xC24A), (1, 0xCA6A), (1, 0xC249), (1, 0xC229), (1, 0xF30D), (1, 0xFB4D), (2, 0xFBAF), (1, 0xFBB0), (1, 0xFBF1), (1, 0xFC11), (1,
       0xFC52), (1, 0xFC94), (1, 0xFD36), (1, 0xFDD8), (1, 0xF5B8), (1, 0xF3CF), (1, 0x79C6), (1, 0x1924), (1, 0xA554), (1, 0xFFFF), (13,
       0xFFBD), (1, 0xFFFE), (1, 0xE679), (1, 0xD5D6), (1, 0xF7BD), (1, 0xFFFF), (5, 0xFFBD), (1, 0xFFFF), (1, 0x73AE), (1, 0x2945), (2,
       0x3186), (6, 0x31A6), (1, 0x39C7), (3, 0x31A6), (8, 0x39C7), (4, 0x31A6), (3, 0x3186), (1, 0x2165), (1, 0xE289), (1, 0xFB0C), (1,
       0xD28A), (4, 0xFAEB), (4, 0xFACB), (1, 0xFAAA), (1, 0xDA48), (1, 0xFAAA), (3, 0xFACB), (3, 0xFAEB), (4, 0xFACB), (1, 0x51A6), (1,
       0x39C7), (5, 0x39E7), (2, 0x4208), (2, 0x4228), (1, 0x3A07), (1, 0x2986), (1, 0xACF3), (1, 0xFF7C), (16, 0xFF5C), (1, 0xFF7C), (1,
       0xEF1B), (1, 0xFFDE), (6, 0xFFBD), (1, 0xFFDE), (1, 0xEE58), (2, 0xF800), (1, 0xF881), (1, 0xF8E3), (1, 0xF924), (1, 0xF986), (2,
       0xF9E7), (1, 0xF9C7), (1, 0xF945), (1, 0xF8E3), (1, 0xE881), (1, 0xA8A2), (1, 0x68E4), (1, 0x4186), (1, 0x21E7), (1, 0x31E7), (5,
       0x39C7), (1, 0x39A7), (1, 0x3186), (1, 0x2945), (1, 0x2104), (1, 0x2124), (1, 0x2965), (1, 0x41E8), (1, 0x73AE), (1, 0xB5B6), (1,
       0xDEFB), (1, 0xFFDF), (57, 0xFFFF), (1, 0xF7BE), (1, 0xC618), (1, 0x5AEB), (1, 0x2965), (1, 0x2945), (1, 0x31A6), (1, 0x39C7), (1,
       0x31A6), (1, 0x39C7), (1, 0xE38E), (1, 0xFBCF), (1, 0xFC10), (1, 0x31E7), (3, 0x39E7), (1, 0x39C7), (3, 0x3186), (1, 0x2965), (1,
       0x20E4), (4, 0xFFFF)],
      [(11, 0xFFFF), (1, 0x6B4D), (1, 0x4228), (1, 0x4289), (1, 0xA968), (1, 0xF94A), (14, 0xF96A), (1, 0xF94A), (1, 0xC0C8), (1,
       0xB866), (1, 0xE678), (1, 0xF71B), (4, 0xFF5C), (1, 0xFFBD), (1, 0x62CA), (1, 0x0000), (1, 0x385F), (1, 0x40FF), (1, 0x2897), (1,
       0x1855), (1, 0x2096), (1, 0x2092), (1, 0x9C5F), (1, 0xCE7F), (1, 0xE6BB), (1, 0xFF7C), (8, 0xFF5C), (1, 0xFFBD), (1, 0xBB4E), (1,
       0xC229), (1, 0xC24A), (1, 0xA208), (1, 0xA2EB), (1, 0xDE9A), (1, 0xF7FF), (1, 0xD575), (1, 0xDB2D), (1, 0xFBD0), (1, 0xFBF1), (1,
       0xFC11), (1, 0xFC12), (1, 0xFC52), (1, 0xFC93), (1, 0xFD36), (1, 0xFDB8), (1, 0xFDD9), (1, 0xFE3A), (1, 0xFE5B), (1, 0xD536), (1,
       0x7B2D), (1, 0xC5D7), (1, 0xF79D), (1, 0xF7BD), (10, 0xFFBD), (1, 0xFFFE), (1, 0xDEBA), (1, 0xFB8E), (1, 0xFBEF), (1, 0xEBAF), (1,
       0xD514), (1, 0xF7BD), (1, 0xFFBE), (2, 0xFFBD), (1, 0xF7BD), (1, 0xFFBD), (3, 0x3186), (1, 0x31A6), (1, 0x29A6), (1, 0x31A6), (17,
       0x39C7), (2, 0x39A7), (3, 0x31A6), (2, 0x3186), (1, 0x2965), (1, 0xBA49), (1, 0xFB2C), (1, 0xFAEB), (2, 0xFACB), (2, 0xFAEB), (3,
       0xFACB), (1, 0xFAAA), (1, 0xE249), (1, 0xFAAA), (4, 0xFACB), (2, 0xFAEB), (3, 0xFACB), (1, 0xFAEB), (1, 0x71C7), (6, 0x39E7), (1,
       0x4208), (2, 0x4228), (1, 0x39E7), (1, 0x738D), (1, 0xD617), (1, 0xFF9D), (18, 0xFF5C), (1, 0xF73B), (1, 0xF7BD), (6, 0xFFBD), (1,
       0xFFFE), (1, 0xEDD6), (4, 0xF800), (1, 0xF000), (1, 0xD000), (1, 0xB841), (1, 0x9882), (1, 0x6904), (1, 0x5145), (1, 0x39A6), (1,
       0x29E7), (1, 0x31E7), (4, 0x39C7), (3, 0x31A6), (1, 0x2945), (1, 0x2104), (1, 0x2124), (1, 0x3186), (1, 0x6B4D), (1, 0xB596), (1,
       0xDEFB), (67, 0xFFFF), (1, 0xB5B6), (1, 0x528A), (1, 0x2965), (1, 0x2945), (1, 0x39E7), (1, 0x31E7), (1, 0xA34D), (1, 0xFC92), (1,
       0x8AEB), (1, 0x31C6), (3, 0x39E7), (1, 0x39C7), (1, 0x3166), (1, 0x3186), (1, 0x2965), (1, 0x18E3), (4, 0xFFFF)],
      [(11, 0xFFFF), (1, 0xCE79), (1, 0x3165), (1, 0x5208), (4, 0xF96B), (11, 0xF96A), (1, 0xF149), (1, 0xC0C8), (1, 0xB866), (1,
       0xE678), (1, 0xF6BA), (1, 0xFF3B), (4, 0xFF5C), (1, 0xFFBD), (1, 0x7B8D), (1, 0x0000), (1, 0x281B), (1, 0x389F), (1, 0x515F), (1,
       0x30D9), (1, 0x30B7), (1, 0x40DF), (1, 0xBDDF), (1, 0xB5BD), (1, 0xFF3B), (1, 0xFF7C), (9, 0xFF5C), (1, 0xF73B), (1, 0xB9E8), (1,
       0xCA09), (1, 0xCA4A), (1, 0xCA29), (1, 0xB9A7), (1, 0xC2CB), (1, 0x7A49), (1, 0x1945), (1, 0x3986), (1, 0x7229), (1, 0xD36E), (1,
       0xFC52), (1, 0xFC93), (1, 0xFCF5), (1, 0xFDB8), (1, 0xFDF9), (1, 0xFE3A), (1, 0xFE5A), (1, 0xFE5B), (1, 0xF61A), (1, 0xD536), (1,
       0x8B8F), (1, 0xBD96), (1, 0xF77D), (8, 0xFFBD), (1, 0xFFFE), (1, 0xF7FE), (1, 0xE4F3), (1, 0xFB6E), (2, 0xFBEF), (1, 0xFC10), (1,
       0xFBEF), (1, 0xDE17), (1, 0xFFFE), (2, 0xFFBD), (1, 0xF79D), (1, 0xD699), (1, 0x20E4), (2, 0x3186), (1, 0x29A6), (1, 0x4986), (1,
       0x51A6), (1, 0x3186), (2, 0x31A6), (1, 0x29A6), (1, 0x29E7), (1, 0x31E7), (2, 0x39E7), (3, 0x39C7), (1, 0x39E7), (1, 0x39C7), (1,
       0x39E7), (1, 0x39C7), (2, 0x39E7), (3, 0x39C7), (4, 0x31A6), (1, 0x3186), (1, 0xFB2C), (9, 0xFACB), (1, 0xFACA), (1, 0xFA8A), (1,
       0xFAAA), (1, 0xFACB), (3, 0xFAAA), (3, 0xFAEB), (3, 0xFACB), (1, 0xB228), (1, 0x29E7), (3, 0x39E7), (1, 0x39C7), (1, 0x39E7), (1,
       0x41E8), (1, 0x4228), (1, 0x4208), (1, 0x3A07), (1, 0xFFFF), (1, 0xFF5C), (1, 0xFF7C), (18, 0xFF5C), (1, 0xFF3B), (1, 0xF7BD), (6,
       0xFFBD), (1, 0xFFFF), (1, 0xA513), (2, 0x2986), (1, 0x29A6), (1, 0x19A6), (2, 0x21C7), (2, 0x29A6), (9, 0x3186), (1, 0x2925), (1,
       0x2104), (1, 0x2945), (1, 0x6B2D), (1, 0xBDD7), (1, 0xEF5D), (73, 0xFFFF), (1, 0xEF7D), (1, 0xAD55), (1, 0x4228), (1, 0x39A7), (1,
       0x29A6), (1, 0xC3CF), (1, 0xFC71), (2, 0x29A6), (1, 0x31A6), (1, 0x31C6), (1, 0x3A28), (1, 0x29C7), (1, 0x21A6), (1, 0x2166), (1,
       0x2104), (1, 0xD6BA), (3, 0xFFFF)],
      [(12, 0xFFFF), (1, 0x2185), (1, 0xB148), (1, 0xF9AB), (4, 0xF98B), (9, 0xF96A), (1, 0xF149), (1, 0xC0E8), (1, 0xC046), (1,
       0xDDD6), (1, 0xFFBD), (1, 0xF596), (1, 0xFF7C), (4, 0xFF5C), (1, 0xFF9D), (1, 0xAD13), (1, 0x0000), (1, 0x1811), (1, 0x387F), (1,
       0x491F), (1, 0x515F), (1, 0x729F), (1, 0xC5FF), (1, 0xC63F), (1, 0xCE19), (1, 0xFF7C), (10, 0xFF5C), (1, 0xFF9D), (1, 0xC4F3), (1,
       0xBBCF), (1, 0xBB6E), (2, 0xC38E), (1, 0xB430), (1, 0xAD34), (1, 0x2104), (2, 0x3186), (1, 0x31E7), (1, 0x31C7), (1, 0x5229), (1,
       0x628A), (1, 0x62AB), (1, 0x62CB), (1, 0x52AB), (1, 0x4228), (1, 0xB208), (1, 0xFA07), (1, 0xC9C6), (1, 0x29A6), (1, 0x18C3), (1,
       0xDEFA), (1, 0xFFBE), (4, 0xFFBD), (1, 0xFFBE), (2, 0xFFFE), (1, 0xEE38), (1, 0xF3CF), (1, 0xFBAF), (1, 0xFBCF), (3, 0xFBEF), (1,
       0xF410), (1, 0xF7DE), (3, 0xFFBD), (1, 0xFFFF), (1, 0x73AE), (1, 0x2945), (2, 0x31A6), (1, 0x3945), (1, 0xFA08), (1, 0xFAAA), (1,
       0xFB2C), (1, 0xFB4D), (1, 0xF34D), (1, 0xE248), (1, 0xB9A6), (1, 0x79A6), (1, 0x39A6), (1, 0x31C6), (1, 0x29C7), (1, 0x29E7), (7,
       0x39E7), (4, 0x39C7), (2, 0x31A6), (1, 0x2986), (1, 0xAA89), (1, 0xFB0C), (7, 0xFACB), (4, 0xFAAA), (1, 0xE269), (5, 0xFAAA), (2,
       0xFAEB), (3, 0xFACB), (1, 0xFAAB), (1, 0x29C6), (3, 0x39E7), (1, 0x39C7), (1, 0x39E7), (1, 0x4208), (2, 0x4228), (1, 0x39E7), (1,
       0xACF3), (2, 0xF71B), (1, 0xFF7C), (17, 0xFF5C), (1, 0xFF3B), (1, 0xF7BD), (6, 0xFFBD), (1, 0xFFFF), (1, 0x6B2C), (1, 0x3186), (2,
       0x3166), (11, 0x3186), (1, 0x2945), (2, 0x2124), (1, 0x8410), (1, 0xD6BA), (80, 0xFFFF), (1, 0xE73C), (1, 0x738E), (1, 0x2986),
       (1, 0xFC92), (1, 0xF4B2), (1, 0xAB6D), (1, 0x8B4D), (1, 0x9BAE), (1, 0xA924), (1, 0xA0A2), (1, 0xB882), (1, 0xB104), (1, 0x1924),
       (1, 0xDEDB), (3, 0xFFFF)],
      [(12, 0xFFFF), (1, 0xB575), (1, 0xF94A), (2, 0xF9AB), (4, 0xF98B), (7, 0xF96A), (1, 0xF94A), (1, 0xC0E8), (1, 0xC046), (1,
       0xC492), (1, 0xFF9D), (1, 0xFF9C), (1, 0xF576), (1, 0xFF5B), (4, 0xFF5C), (1, 0xFF7C), (1, 0xFF5C), (1, 0x0000), (1, 0x0003), (1,
       0x281E), (1, 0x385E), (1, 0x305E), (1, 0x7B7B), (1, 0xC5FA), (1, 0xE6DA), (1, 0xFFBD), (1, 0xFF7C), (12, 0xFF5C), (1, 0xF73B), (3,
       0xFFBD), (1, 0xFF9D), (1, 0xFFBD), (1, 0x9CB1), (1, 0x2125), (1, 0x31A6), (3, 0x4208), (2, 0x3A08), (1, 0x51E7), (1, 0xBA08), (1,
       0xFA69), (1, 0xDA28), (1, 0x61C6), (1, 0x2186), (1, 0x2124), (1, 0x9491), (1, 0xF79D), (3, 0xFFBD), (1, 0xFFDE), (1, 0xFFFE), (1,
       0xF7BD), (1, 0xED54), (1, 0xF3AE), (1, 0xFB6D), (1, 0xFBAE), (3, 0xFBCF), (1, 0xFBEF), (1, 0xFC10), (1, 0xD4F3), (1, 0xFFFF), (3,
       0xFFBD), (1, 0xFFFF), (1, 0x39C7), (1, 0x3186), (1, 0x31A6), (1, 0x21C6), (1, 0xA0C3), (1, 0xFA8A), (1, 0xFA69), (1, 0xFAEB), (1,
       0xFB8D), (1, 0xFBAE), (2, 0xFBEF), (1, 0xFB8D), (1, 0xFB2C), (1, 0xEA8A), (1, 0xD9A6), (1, 0xA208), (1, 0x41E7), (6, 0x39E7), (4,
       0x39C7), (2, 0x31A6), (1, 0x2986), (1, 0xB28A), (1, 0xFB0C), (7, 0xFACB), (5, 0xFAAA), (1, 0xF289), (4, 0xFAAA), (1, 0xFAAB), (2,
       0xFAEB), (3, 0xFACB), (1, 0x61E7), (2, 0x39E7), (1, 0x39C7), (1, 0x31A6), (1, 0x31C6), (1, 0x39E7), (3, 0x4208), (1, 0x39E7), (1,
       0x29A6), (1, 0x2144), (1, 0xE6B9), (1, 0xFF7C), (16, 0xFF5C), (1, 0xFF3B), (1, 0xF7BD), (6, 0xFFBD), (1, 0xFFFE), (1, 0x39E7), (8,
       0x3186), (1, 0x3166), (1, 0x2945), (2, 0x2124), (1, 0x2925), (1, 0x2104), (1, 0x630C), (1, 0xD6BA), (85, 0xFFFF), (1, 0x9CF3), (1,
       0x5A28), (1, 0xFC72), (1, 0xFCB2), (1, 0xFE38), (1, 0xFF1C), (1, 0xFEDB), (1, 0xFA49), (1, 0xF800), (1, 0xD8E3), (1, 0x1945), (1,
       0xC618), (3, 0xFFFF)],
      [(12, 0xFFFF), (1, 0xECB5), (1, 0xF96B), (2, 0xF9AC), (4, 0xF98B), (7, 0xF96A), (1, 0xC0E8), (1, 0xC887), (1, 0xAA8C), (1,
       0xFFBD), (1, 0xFF5C), (1, 0xFF7C), (1, 0xF618), (1, 0xFEBA), (5, 0xFF5C), (1, 0xFFDE), (1, 0x1081), (1, 0x0000), (1, 0xC614), (2,
       0xFFBA), (1, 0xFFFD), (1, 0xF75C), (1, 0xEEFA), (1, 0xE6BA), (1, 0xEEDA), (1, 0xFF7C), (10, 0xFF5C), (1, 0xFF7C), (1, 0xE6B9), (5,
       0xFF5C), (1, 0xFFBD), (2, 0x31A6), (1, 0x3A07), (1, 0x3208), (1, 0x51E7), (1, 0xBA28), (1, 0xFA48), (1, 0xFA69), (1, 0xA207), (1,
       0x3986), (1, 0x1186), (1, 0x5986), (1, 0xAB8D), (1, 0xFFFF), (1, 0xFFDE), (2, 0xFFBD), (1, 0xFFFE), (1, 0xFFFF), (1, 0xEF5C), (1,
       0xEC91), (1, 0xFAEB), (1, 0xFB4D), (2, 0xFB8E), (2, 0xFBAE), (4, 0xFBCF), (1, 0xD658), (1, 0xFFDE), (2, 0xFFBD), (1, 0xF79D), (1,
       0xEF3B), (1, 0x2925), (2, 0x31A6), (1, 0x1986), (1, 0xD9C6), (1, 0xFAEB), (1, 0xFACB), (1, 0xF28A), (1, 0xD2CB), (1, 0xD32C), (1,
       0xE36D), (2, 0xFBAE), (1, 0xFBCE), (2, 0xFBAE), (1, 0xFBCF), (1, 0x928A), (2, 0x4208), (1, 0x3A08), (1, 0x3986), (1, 0x3965), (1,
       0x29C6), (1, 0x31C7), (2, 0x29A7), (1, 0x31A7), (1, 0x31C7), (2, 0x29A6), (1, 0x61E7), (1, 0xFB2C), (4, 0xFACB), (8, 0xFAAA), (1,
       0xEA69), (6, 0xFAAA), (4, 0xFACB), (1, 0xAA28), (1, 0x31E7), (4, 0x39E7), (3, 0x4208), (3, 0x4228), (1, 0x31C6), (1, 0xEEDA), (1,
       0xFF7C), (16, 0xFF5C), (1, 0xFF5B), (1, 0xF7BD), (5, 0xFFBD), (1, 0xFFDE), (1, 0xEF3C), (1, 0x2104), (4, 0x3186), (1, 0x2965), (1,
       0x2945), (2, 0x2124), (1, 0x31A6), (1, 0x7BCF), (1, 0xB596), (1, 0xD6BA), (1, 0xEF7D), (89, 0xFFFF), (1, 0x4A69), (1, 0x41A6), (1,
       0x6A8A), (1, 0x7B4D), (1, 0x7B6E), (1, 0x7B6D), (1, 0x736D), (1, 0x4904), (1, 0x39C7), (1, 0x2945), (1, 0x9CB3), (3, 0xFFFF)],
      [(12, 0xFFFF), (1, 0xF20D), (3, 0xF9CC), (1, 0xF9AB), (3, 0xF98B), (6, 0xF96A), (1, 0xC8E8), (1, 0xC8C8), (1, 0xA189), (1,
       0xFFDD), (2, 0xFF5C), (1, 0xFF7C), (1, 0xF6FA), (1, 0xED96), (1, 0xFF5C), (1, 0xFF7C), (3, 0xFF9C), (1, 0xFFBD), (1, 0x7B8D), (1,
       0x4986), (1, 0xABF0), (1, 0xEDB8), (1, 0xED98), (1, 0xED77), (1, 0xF5B8), (1, 0xCCB6), (1, 0xC495), (1, 0xFF5B), (1, 0xFF7C), (6,
       0xFF5C), (1, 0xFF7C), (4, 0xFF5C), (1, 0xFF7C), (1, 0xDE78), (1, 0xFF7C), (3, 0xFF5C), (1, 0xFFBD), (1, 0x9471), (1, 0x1945), (1,
       0x69C7), (1, 0xE228), (1, 0xFA69), (1, 0xAA08), (1, 0x59E8), (1, 0x19C7), (1, 0x49A6), (1, 0xB207), (1, 0xF248), (1, 0xFA89), (1,
       0xF9E7), (1, 0xEE58), (2, 0xFFFE), (1, 0xFFFF), (1, 0xDDF7), (1, 0xF3AE), (1, 0xFA89), (1, 0xFB0C), (1, 0xFB4D), (1, 0xFB6D), (3,
       0xFB8E), (2, 0xFBAE), (2, 0xFBCF), (1, 0xEBAF), (1, 0xF79D), (3, 0xFFBD), (1, 0xF7BD), (1, 0xCE38), (1, 0x18E4), (2, 0x31A6), (1,
       0x2185), (1, 0xEAAA), (1, 0xFACB), (1, 0xE269), (1, 0x1966), (1, 0x29A6), (1, 0x29C6), (1, 0x29A6), (1, 0x31C6), (1, 0x5A28), (1,
       0x7A69), (1, 0xE34D), (1, 0xFBAE), (1, 0xFBCE), (1, 0x828A), (1, 0x4208), (1, 0x3A08), (1, 0x6145), (1, 0xF800), (1, 0xF882), (1,
       0xF8E3), (1, 0xF1A6), (1, 0xD208), (1, 0xBA28), (1, 0x9208), (1, 0x7986), (1, 0x5924), (1, 0x3144), (1, 0x1965), (1, 0xFB0C), (3,
       0xFACB), (9, 0xFAAA), (1, 0xFA8A), (1, 0xEA49), (1, 0xFA8A), (1, 0xFAAA), (2, 0xFA8A), (2, 0xFAAA), (1, 0xFACB), (1, 0xFACA), (2,
       0xFAAA), (1, 0x29C6), (6, 0x39E7), (1, 0x39C7), (3, 0x4208), (1, 0x31A7), (1, 0xDE58), (1, 0xFF7C), (15, 0xFF5C), (1, 0xFF7C), (1,
       0xEF1B), (1, 0xFFDE), (3, 0xFFBD), (1, 0xFFBE), (1, 0xFFDE), (1, 0xFFFF), (1, 0x630B), (1, 0x3186), (1, 0x2965), (1, 0x2945), (1,
       0x2124), (1, 0x2104), (1, 0x39C7), (1, 0x8410), (1, 0xC618), (1, 0xF79E), (94, 0xFFFF), (1, 0xE71C), (1, 0x2104), (1, 0x39C7), (3,
       0x39E7), (2, 0x3186), (2, 0x2965), (1, 0x94B2), (3, 0xFFFF)],
      [(11, 0xFFFF), (1, 0xF73D), (2, 0xF9EC), (3, 0xF9CC), (1, 0xF9AB), (2, 0xF98B), (5, 0xF96A), (1, 0xD108), (1, 0xC8E8), (1,
       0xA886), (1, 0xEF1B), (3, 0xFF5C), (1, 0xFF7C), (1, 0xFF9C), (1, 0xDE78), (1, 0xFFBD), (1, 0xF71A), (1, 0xEDB6), (1, 0xF4B4), (1,
       0xF453), (1, 0xF433), (1, 0xFCB5), (1, 0xFD17), (1, 0xFD57), (1, 0xFD77), (2, 0xFDD9), (1, 0xD495), (1, 0xCCF6), (1, 0xFF9C), (7,
       0xFF5C), (1, 0xFF7C), (1, 0xDE58), (1, 0xFF7C), (3, 0xFF5C), (1, 0xFF7C), (1, 0xEEDA), (1, 0xFF3B), (3, 0xFF5C), (1, 0xFF7C), (1,
       0xDE98), (1, 0xD9C6), (1, 0xFA69), (1, 0x81E7), (1, 0x29A7), (1, 0x31E7), (1, 0x7A49), (1, 0xEA28), (5, 0xFA69), (1, 0xFA07), (1,
       0xDE38), (1, 0xCDB6), (1, 0xDA69), (1, 0xFA28), (1, 0xFACA), (1, 0xFB0C), (1, 0xFB2C), (1, 0xFB4D), (1, 0xFB6D), (2, 0xFB8E), (1,
       0xFB6E), (2, 0xFB4D), (1, 0xDBEF), (1, 0xEE17), (1, 0xEF5C), (1, 0xFFDE), (3, 0xFFBD), (1, 0xFFFE), (1, 0xAC50), (1, 0x20E3), (1,
       0x2186), (2, 0x2985), (2, 0xFAEB), (1, 0xAA49), (1, 0x31A7), (1, 0x39C7), (1, 0x4208), (2, 0x39E7), (1, 0x4208), (1, 0x3A08), (1,
       0x7A28), (1, 0xFBF0), (1, 0xFBCF), (1, 0x5228), (1, 0x4208), (1, 0x3A08), (1, 0xA9A6), (1, 0xF9E7), (1, 0xFA07), (1, 0xFA48), (1,
       0xFA07), (1, 0xFA49), (1, 0xFA8A), (1, 0xFACB), (1, 0xFB0C), (1, 0xFACB), (1, 0xF9E7), (1, 0x9882), (1, 0x7207), (1, 0xFB0C), (2,
       0xFACB), (9, 0xFAAA), (1, 0xFA8A), (1, 0xFA6A), (1, 0xF269), (4, 0xFA8A), (5, 0xFAAA), (1, 0xA207), (3, 0x29C7), (5, 0x39E7), (2,
       0x4208), (1, 0x39C7), (1, 0xCDF6), (1, 0xFF7C), (15, 0xFF5C), (1, 0xFF7C), (1, 0xEF3C), (1, 0xFFDE), (1, 0xFFBE), (2, 0xFFBD), (1,
       0xEF5C), (1, 0xE6FB), (1, 0x632C), (1, 0x2945), (1, 0x2965), (1, 0x52AA), (1, 0x8C51), (1, 0xBDF7), (1, 0xF7BE), (99, 0xFFFF), (1,
       0xC5F8), (1, 0x18C3), (1, 0x2124), (3, 0x2945), (1, 0x2124), (1, 0x2104), (1, 0x18E3), (1, 0xAD75), (3, 0xFFFF)],
      [(11, 0xFFFF), (1, 0xEDF9), (1, 0xF9EC), (1, 0xFA2D), (1, 0xF9EC), (3, 0xF9CC), (1, 0xF9AB), (1, 0xF96B), (4, 0xF96A), (1,
       0xE929), (1, 0xC0E8), (1, 0xC046), (1, 0xCD75), (1, 0xFF7C), (1, 0xFF9C), (1, 0xFFBD), (1, 0xFFDD), (1, 0xF6FA), (1, 0xED55), (1,
       0xF412), (1, 0xF2EF), (1, 0xFA8E), (1, 0xFB10), (1, 0xFB51), (1, 0xFB91), (1, 0xFC34), (1, 0xFC54), (1, 0xFC94), (1, 0xFCF6), (1,
       0xFD37), (1, 0xFD78), (1, 0xCC75), (1, 0xC4B4), (1, 0xFF9C), (9, 0xFF5C), (1, 0xF6FA), (6, 0xFF5C), (1, 0xDE58), (1, 0xFF7C), (3,
       0xFF5C), (1, 0xFF7C), (1, 0x81A6), (1, 0x2165), (1, 0x2965), (1, 0x31A6), (1, 0x9CF3), (1, 0x9514), (1, 0xCA07), (6, 0xFA69), (1,
       0xFA07), (1, 0xFA28), (1, 0xFA69), (1, 0xFAAA), (1, 0xFAEB), (1, 0xFB0C), (1, 0xFB2C), (1, 0xFB4D), (1, 0xFB6D), (1, 0xFB8E), (1,
       0xFB6E), (1, 0xE492), (1, 0xE638), (1, 0xEFBD), (1, 0xFFFF), (1, 0xFFFE), (2, 0xFFDE), (3, 0xFFBD), (1, 0xFFFF), (1, 0xE9E7), (1,
       0xF904), (1, 0xF228), (1, 0xE2AA), (1, 0xEAEB), (2, 0xFB2C), (1, 0x7A28), (1, 0x31C7), (1, 0x39E7), (4, 0x4208), (1, 0x31E7), (1,
       0xBAEB), (2, 0xFBCF), (1, 0x31C7), (1, 0x4208), (1, 0x3A08), (1, 0xD208), (1, 0xFA28), (1, 0x91C7), (1, 0x49E7), (1, 0x61C6), (1,
       0x71C6), (1, 0x9208), (1, 0xAA28), (1, 0xE2CA), (1, 0xFB0C), (1, 0xFAEB), (1, 0xC289), (1, 0x1165), (1, 0xE2CB), (1, 0xFACB), (7,
       0xFAAA), (5, 0xFA8A), (1, 0xEA49), (6, 0xFA8A), (4, 0xFAAA), (1, 0xC207), (1, 0xF249), (1, 0xD9E7), (1, 0x21C6), (1, 0x39E7), (2,
       0x39C7), (1, 0x39A7), (2, 0x4208), (1, 0x39C7), (1, 0xCDD6), (1, 0xFF7C), (14, 0xFF5C), (1, 0xFF7C), (1, 0xE6B9), (2, 0xE6FB), (1,
       0xE73C), (1, 0xF7BE), (1, 0xF79E), (1, 0xFFDF), (109, 0xFFFF), (1, 0xB596), (1, 0x9CD3), (1, 0x8430), (1, 0x8C51), (1, 0xB596),
       (1, 0xDEDB), (5, 0xFFFF)],
      [(11, 0xFFFF), (1, 0xEC94), (1, 0xFA4D), (2, 0xFA6E), (1, 0xFA0C), (1, 0xF9EC), (1, 0xF9CC), (1, 0xF9AC), (1, 0xF96B), (4,
       0xF96A), (1, 0xC8E8), (1, 0xC887), (1, 0xAB6E), (1, 0xFFFF), (1, 0xEF3B), (1, 0xE535), (1, 0xEB70), (1, 0xF1AA), (1, 0xF96B), (1,
       0xFA2D), (1, 0xFA8E), (1, 0xFACF), (1, 0xFB10), (1, 0xFB30), (1, 0xFB50), (1, 0xFB51), (1, 0xFB91), (1, 0xFC33), (1, 0xFC34), (1,
       0xFCB5), (1, 0xFCF6), (1, 0xCC34), (1, 0xBC74), (1, 0xFF9C), (10, 0xFF5C), (1, 0xFF7C), (1, 0xF71A), (1, 0xFF7C), (3, 0xFF5C), (1,
       0xFF7C), (1, 0xDE58), (4, 0xFF5C), (1, 0xFF9D), (1, 0x39E8), (1, 0x2965), (2, 0x3186), (1, 0x2965), (1, 0x2945), (1, 0x1945), (1,
       0xDA28), (8, 0xFA69), (1, 0xFACB), (1, 0xFAEB), (1, 0xFB0C), (1, 0xFB4C), (1, 0xDACB), (1, 0x9A69), (1, 0x59E7), (1, 0x2165), (1,
       0x4228), (1, 0x62EB), (1, 0x840F), (1, 0xA513), (1, 0xBDF7), (1, 0xDEDA), (1, 0xEF5C), (4, 0xFFFF), (1, 0xF061), (1, 0xF986), (1,
       0xFA8A), (1, 0xFB0C), (2, 0xFB2C), (1, 0xFAAA), (1, 0x61C6), (1, 0x39E7), (2, 0x4208), (1, 0x4228), (2, 0x4208), (1, 0x31E7), (1,
       0xD30C), (1, 0xFBAE), (1, 0xF32C), (1, 0x2A07), (1, 0x4228), (1, 0x3228), (1, 0xE9C7), (1, 0xFA08), (1, 0x39E7), (1, 0x4208), (1,
       0x4228), (2, 0x4208), (1, 0x3A08), (1, 0x49C7), (1, 0xFB0C), (1, 0xFAEB), (1, 0x9A08), (1, 0x2966), (1, 0x3186), (2, 0xFACB), (6,
       0xFAAA), (6, 0xFA8A), (1, 0xC9E7), (7, 0xFA8A), (1, 0xFAAA), (1, 0xFA8A), (1, 0xF269), (1, 0xDA07), (1, 0xFA69), (1, 0x29A6), (5,
       0x39C7), (1, 0x41E8), (1, 0x31A7), (1, 0xCDF6), (1, 0xFF7C), (13, 0xFF5C), (1, 0xF73B), (1, 0xEF3C), (127, 0xFFFF)],
      [(11, 0xFFFF), (1, 0xEB91), (1, 0xFAAF), (2, 0xFA8E), (1, 0xFA6D), (1, 0xFA4D), (1, 0xFA0C), (1, 0xF9CC), (2, 0xF98B), (2,
       0xF96A), (1, 0xF149), (1, 0xC0C8), (1, 0x90C6), (1, 0xC3F0), (1, 0xD1CA), (1, 0xF0C8), (1, 0xF929), (1, 0xF94A), (1, 0xF9AB), (1,
       0xFA2D), (1, 0xFACF), (1, 0xFA6E), (1, 0xFAAF), (1, 0xFB10), (3, 0xFB30), (1, 0xFB50), (1, 0xFBB2), (1, 0xFC13), (1, 0xFC74), (1,
       0xD3B2), (1, 0xBC33), (1, 0xFF9C), (12, 0xFF5C), (1, 0xFF7C), (5, 0xFF5C), (1, 0xFF3B), (1, 0xE6B9), (1, 0xFF7C), (2, 0xFF5C), (1,
       0xFFDD), (1, 0x738D), (1, 0x2965), (5, 0x3186), (1, 0x1965), (1, 0xCA07), (6, 0xFA69), (1, 0xFA89), (1, 0xFACB), (1, 0xFAEB), (1,
       0x9208), (1, 0x3145), (1, 0x2165), (1, 0x2966), (2, 0x3186), (1, 0x3166), (2, 0x2965), (1, 0x2945), (1, 0x2124), (2, 0x2104), (1,
       0x18C3), (1, 0x2965), (1, 0x4A48), (1, 0x630B), (1, 0x6104), (1, 0x80E3), (1, 0xB165), (1, 0xD1E7), (1, 0xF1E7), (1, 0xF881), (1,
       0xF800), (1, 0x4985), (1, 0x39C6), (1, 0x39E7), (3, 0x4208), (1, 0x4228), (1, 0x3207), (1, 0xDAEB), (1, 0xFB8E), (1, 0xFB4D), (1,
       0x6207), (1, 0x5208), (1, 0x7A08), (1, 0xFA69), (1, 0xFAAA), (1, 0x3A08), (4, 0x4228), (1, 0x4208), (1, 0x51C7), (1, 0xFA48), (1,
       0xFA69), (1, 0x79E7), (1, 0x2966), (1, 0x3186), (1, 0x2965), (1, 0xDA69), (6, 0xFAAA), (5, 0xFA8A), (2, 0xFA69), (1, 0xC1E7), (7,
       0xF269), (1, 0xEA69), (1, 0xEA48), (2, 0xFA69), (1, 0x49C6), (3, 0x39E7), (2, 0x39C7), (1, 0x31A6), (1, 0x4A69), (1, 0xFFDD), (9,
       0xFF5C), (1, 0xFF7C), (1, 0xFF5C), (1, 0xFF3B), (1, 0xEF1B), (1, 0xF77D), (1, 0xFFDF), (128, 0xFFFF)],
      [(11, 0xFFFF), (1, 0xF2EF), (1, 0xFACF), (2, 0xFAAF), (1, 0xFA6E), (1, 0xFA4D), (1, 0xFA0D), (1, 0xFA0C), (1, 0xF9CC), (1,
       0xF9AB), (2, 0xF96A), (1, 0xF94A), (1, 0xD928), (1, 0xF96A), (2, 0xF94A), (2, 0xF96A), (1, 0xF96B), (1, 0xF98B), (1, 0xFC94), (1,
       0xFD37), (1, 0xFA2D), (1, 0xFA8E), (1, 0xFACF), (1, 0xFB30), (2, 0xFB10), (1, 0xFB30), (1, 0xFB91), (1, 0xFBD2), (1, 0xCB51), (1,
       0xBBB2), (1, 0xFF7C), (7, 0xFF5C), (1, 0xFF7C), (5, 0xFF5C), (1, 0xFF7C), (5, 0xFF5C), (1, 0xFF7C), (1, 0xDE78), (1, 0xFF7C), (2,
       0xFF5C), (1, 0xFF9D), (3, 0x3186), (1, 0x3166), (3, 0x3186), (1, 0x2165), (1, 0xB9C7), (7, 0xFA69), (1, 0xFACA), (1, 0xDA89), (1,
       0x4986), (1, 0x1965), (1, 0x2966), (12, 0x3186), (1, 0x2986), (1, 0x2965), (1, 0x2986), (2, 0x29A6), (1, 0x29C7), (1, 0x21A7), (1,
       0x31A6), (1, 0x21E7), (2, 0x39E7), (4, 0x4208), (1, 0x4228), (1, 0x3208), (1, 0xD269), (2, 0xFB0C), (2, 0xFB4D), (1, 0xFAAA), (1,
       0xFA69), (1, 0xF269), (1, 0x3A49), (5, 0x4228), (1, 0x51C7), (1, 0xFA08), (1, 0xFACB), (1, 0x71E7), (1, 0x1945), (1, 0x2166), (1,
       0x2186), (1, 0x1165), (1, 0xA228), (1, 0xFACA), (3, 0xFAAA), (6, 0xFA8A), (3, 0xFA69), (1, 0xD1E7), (7, 0xFA8A), (3, 0xFA69), (1,
       0x71C7), (3, 0x39E7), (2, 0x39C7), (1, 0x2945), (1, 0xDE78), (1, 0xFF7C), (6, 0xFF5C), (2, 0xFF7C), (1, 0xFF3B), (1, 0xEEFA), (1,
       0xF77D), (1, 0xF7DF), (131, 0xFFFF)],
      [(10, 0xFFFF), (1, 0xF7FF), (1, 0xFB10), (2, 0xFAEF), (1, 0xFACF), (1, 0xFAAE), (1, 0xFA4D), (2, 0xFA2D), (1, 0xF9CC), (1,
       0xF9AB), (1, 0xF98B), (8, 0xF96A), (1, 0xF96B), (1, 0xF9AB), (2, 0xF9CB), (1, 0xFA0D), (1, 0xFA4D), (1, 0xFA6E), (1, 0xFAEF), (3,
       0xFB10), (1, 0xFB71), (1, 0xCAAF), (1, 0xBB70), (1, 0xFF9C), (1, 0xFF7C), (7, 0xFF5C), (1, 0xE6B9), (1, 0xFF7C), (3, 0xFF5C), (1,
       0xFF7C), (1, 0xF71B), (1, 0xFF7C), (4, 0xFF5C), (1, 0xF71A), (1, 0xF71B), (2, 0xFF5C), (1, 0xFF9C), (1, 0xDDB6), (1, 0x2945), (1,
       0x31A6), (2, 0x39A7), (1, 0x3166), (1, 0x2966), (1, 0x2965), (1, 0xEA48), (8, 0xFA69), (1, 0xFA8A), (1, 0xFACB), (1, 0xFB0B), (1,
       0xE2AA), (1, 0x61C7), (1, 0x2165), (1, 0x2966), (10, 0x3186), (1, 0x31A6), (1, 0x2985), (1, 0x3186), (1, 0x31A6), (4, 0x39C7), (3,
       0x39E7), (4, 0x4208), (2, 0x4228), (1, 0x39E7), (1, 0x9249), (1, 0xD2AA), (1, 0xF30B), (1, 0xFB2C), (1, 0xFA69), (1, 0xF9C7), (1,
       0xF104), (1, 0x3A49), (5, 0x4228), (1, 0x61A6), (1, 0xF945), (1, 0xFA49), (1, 0xFB6D), (1, 0xFB4D), (1, 0xFA08), (1, 0xE9A6), (1,
       0xE124), (1, 0xB8C2), (1, 0xD903), (3, 0xFAAA), (5, 0xFA8A), (5, 0xFA69), (1, 0xE228), (6, 0xFA8A), (3, 0xFA69), (1, 0xA1E7), (1,
       0x31E7), (2, 0x39E7), (1, 0x39C7), (1, 0x31A6), (1, 0x736D), (1, 0xFFBD), (6, 0xFF5C), (1, 0xFF7C), (1, 0xE6B9), (1, 0xDEBA), (1,
       0xE73D), (134, 0xFFFF)],
      [(10, 0xFFFF), (1, 0xF7FF), (1, 0xFB30), (2, 0xFAF0), (1, 0xFAEF), (1, 0xFACF), (1, 0xFA4D), (2, 0xFA2D), (2, 0xF9CC), (1,
       0xF98B), (8, 0xF96A), (1, 0xF96B), (1, 0xF9AB), (2, 0xF9CB), (1, 0xF9ED), (1, 0xFA2D), (1, 0xFA6E), (1, 0xFAAF), (1, 0xFACF), (1,
       0xFAEF), (1, 0xF2CF), (1, 0xCA6D), (1, 0xBB2F), (1, 0xFF9C), (1, 0xFF5C), (2, 0xFF7C), (6, 0xFF5C), (1, 0xFF7C), (4, 0xFF5C), (1,
       0xFF7C), (1, 0xEEDA), (1, 0xFF7C), (4, 0xFF5C), (2, 0xF71B), (2, 0xFF5C), (1, 0xFFBD), (1, 0xF30B), (1, 0xEA49), (1, 0x39C7), (1,
       0x31A6), (1, 0x5AAA), (1, 0x73CF), (1, 0x51C7), (10, 0xFA69), (1, 0xFA89), (1, 0xFACB), (1, 0xFB0C), (1, 0xFB4D), (1, 0xFB6E), (1,
       0xEB0C), (1, 0x7207), (1, 0x1945), (1, 0x2966), (8, 0x3186), (1, 0x31A6), (2, 0x2985), (6, 0x39C7), (2, 0x39E7), (3, 0x4208), (4,
       0x4228), (2, 0x4249), (1, 0x3A69), (1, 0x3248), (2, 0x4A08), (1, 0x3A49), (1, 0x4A49), (5, 0x4228), (1, 0x61A6), (1, 0xF924), (1,
       0xF9E7), (2, 0xFB4D), (1, 0xFB6D), (1, 0xFA69), (1, 0xFA28), (1, 0xF9E7), (1, 0xF9C6), (1, 0xE945), (1, 0xE249), (6, 0xFA8A), (6,
       0xFA69), (1, 0xEA49), (6, 0xFA8A), (2, 0xFA69), (1, 0xDA08), (1, 0x29C7), (2, 0x39E7), (1, 0x39C7), (1, 0x2965), (1, 0xEEDA), (1,
       0xFF7C), (1, 0xFF5C), (1, 0xFF7C), (1, 0xFF5C), (1, 0xFF7C), (1, 0xF71B), (1, 0xF73C), (1, 0xEF5C), (137, 0xFFFF)],
      [(10, 0xFFFF), (1, 0xF7FF), (1, 0xFB51), (2, 0xFB10), (2, 0xFAEF), (1, 0xFA8E), (2, 0xFA2D), (1, 0xF9EC), (1, 0xF9CC), (1,
       0xF9AC), (9, 0xF96A), (1, 0xF9AB), (1, 0xF94A), (1, 0xFE5A), (1, 0xFBF3), (1, 0xFA0D), (1, 0xFA2D), (1, 0xFA8E), (1, 0xFAAF), (1,
       0xF2AE), (1, 0xC1EC), (1, 0xB34F), (1, 0xFFBD), (1, 0xFF7C), (1, 0xFF9D), (1, 0xE679), (1, 0xDE58), (1, 0xFF7C), (10, 0xFF5C), (2,
       0xF71B), (1, 0xFF7C), (3, 0xFF5C), (1, 0xFF9C), (1, 0xD637), (1, 0xFF7C), (1, 0xFF5C), (1, 0xFF7C), (1, 0xEEFA), (1, 0x2965), (1,
       0xEA48), (1, 0xFA69), (1, 0x41C6), (1, 0x31E7), (1, 0x9B8E), (1, 0xFA48), (6, 0xFA69), (1, 0xFA49), (1, 0xEA69), (1, 0xF1E7), (1,
       0xFA69), (1, 0xFA8A), (1, 0xFAEC), (2, 0xFB4D), (2, 0xFB6D), (1, 0xFB8D), (1, 0xF34D), (1, 0x6A08), (1, 0x1945), (8, 0x3186), (1,
       0x2985), (1, 0x3186), (5, 0x39C7), (3, 0x39E7), (3, 0x4208), (5, 0x4228), (1, 0x4A49), (2, 0x4A69), (5, 0x4A49), (4, 0x4228), (1,
       0x3A28), (1, 0x49C7), (1, 0x71E7), (1, 0x8A08), (1, 0xA28A), (1, 0xBA8A), (1, 0xCA8A), (1, 0xD269), (2, 0xEA49), (1, 0xFA69), (1,
       0xFB0C), (1, 0xEACB), (4, 0xFA8A), (8, 0xFA69), (1, 0xF269), (1, 0xF249), (6, 0xFA8A), (1, 0xFA69), (1, 0x41A6), (2, 0x39C7), (1,
       0x39A7), (1, 0x39E7), (1, 0xFFFE), (1, 0xFF7C), (1, 0xFF3B), (1, 0xEEDA), (1, 0xEF1B), (1, 0xF77D), (140, 0xFFFF)],
      [(11, 0xFFFF), (1, 0xFBB1), (2, 0xFB30), (1, 0xFAF0), (1, 0xFAEF), (1, 0xFA8E), (2, 0xFA2D), (1, 0xFA0C), (1, 0xF9EC), (1,
       0xF9CC), (1, 0xF98B), (8, 0xF96A), (1, 0xF98B), (1, 0xF9AB), (1, 0xF98B), (1, 0xF9EC), (1, 0xFA0D), (1, 0xFA2D), (1, 0xFA4D), (1,
       0xF26D), (1, 0xC1AB), (1, 0xB36F), (1, 0xFFDD), (1, 0xFF9C), (1, 0xFF3B), (1, 0xDD56), (1, 0xB3F2), (1, 0xFFBD), (12, 0xFF5C), (1,
       0xFF7C), (4, 0xFF5C), (1, 0xFF9C), (1, 0xD678), (1, 0xFFDE), (1, 0xFFDD), (1, 0xFFFE), (1, 0x738D), (1, 0x39E7), (1, 0x29C6), (1,
       0xD228), (1, 0xFA28), (1, 0x6AAB), (1, 0x932E), (1, 0xBB90), (1, 0xBB4E), (1, 0xE249), (3, 0xFA69), (1, 0xFA28), (1, 0xDB8D), (1,
       0xF7FE), (1, 0xDEFA), (1, 0xCB0C), (1, 0xFA48), (1, 0xFB0C), (1, 0xFB4D), (3, 0xFB6D), (2, 0xFB8E), (1, 0xFBCF), (1, 0xD30C), (1,
       0x51A6), (1, 0x1924), (1, 0x2965), (1, 0x2945), (2, 0x2965), (1, 0x3166), (1, 0x3186), (1, 0x2965), (1, 0x3186), (5, 0x39C7), (2,
       0x39E7), (4, 0x4208), (5, 0x4228), (8, 0x4A49), (3, 0x4228), (3, 0x4208), (1, 0x3A08), (1, 0x31E7), (1, 0x31C6), (1, 0x31C7), (1,
       0x2185), (4, 0x2165), (1, 0x3165), (1, 0x41C7), (1, 0xDA28), (2, 0xFA8A), (1, 0xFA89), (10, 0xFA69), (1, 0xEA28), (1, 0xFA69), (5,
       0xFA8A), (1, 0x79C7), (1, 0x39C7), (2, 0x31A6), (1, 0x2966), (1, 0xDE99), (1, 0xEF5D), (1, 0xFFDF), (143, 0xFFFF)],
      [(11, 0xFFFF), (1, 0xEBB1), (2, 0xFB30), (1, 0xFB10), (1, 0xFACF), (1, 0xFA6E), (1, 0xFA4D), (1, 0xFA2D), (2, 0xFA0D), (1,
       0xF9CC), (1, 0xF9AC), (9, 0xF96A), (1, 0xF98B), (1, 0xF9CC), (1, 0xF9EC), (1, 0xFA0C), (1, 0xFA2D), (1, 0xEA0C), (1, 0xB929), (1,
       0xBC72), (1, 0xFFFE), (1, 0xF679), (1, 0xF4F5), (1, 0xFCD6), (1, 0xC392), (1, 0xEEFA), (1, 0xFF7C), (17, 0xFF5C), (1, 0xFF9D), (1,
       0xB229), (1, 0xC26A), (1, 0x5A49), (1, 0x8C30), (1, 0x31A6), (1, 0x39E7), (1, 0x2985), (1, 0x6A8A), (1, 0xFCF5), (1, 0xFD57), (1,
       0xFDB8), (1, 0xBBF2), (1, 0xBC12), (1, 0xBC94), (1, 0xCA49), (1, 0xFA69), (1, 0xF9E7), (1, 0xD4D2), (1, 0xFFFF), (1, 0xFFBD), (1,
       0xFFDE), (1, 0xFFFF), (1, 0xD595), (1, 0xF2AA), (1, 0xFB4D), (1, 0xFB6D), (3, 0xFB8E), (3, 0xFBAE), (1, 0xFBCF), (1, 0xEB6D), (1,
       0x930C), (1, 0x94D2), (1, 0x8C50), (1, 0x738D), (1, 0x528A), (1, 0x39E7), (1, 0x28E3), (1, 0x29A6), (1, 0x31A6), (3, 0x39C7), (3,
       0x39E7), (3, 0x4208), (5, 0x4228), (1, 0x4248), (7, 0x4A49), (4, 0x4228), (4, 0x4208), (2, 0x39E7), (2, 0x39C7), (1, 0x31A6), (4,
       0x3186), (1, 0x3166), (1, 0x3165), (2, 0xFA8A), (2, 0xFA69), (4, 0xFA49), (5, 0xFA69), (1, 0xFA49), (1, 0xF248), (1, 0xFA69), (4,
       0xFA8A), (1, 0xA9C7), (1, 0x31C7), (1, 0x39C7), (1, 0x31A6), (1, 0x2945), (1, 0x31A6), (1, 0x39C7), (1, 0x5ACB), (130, 0xFFFF),
       (1, 0xBDF7), (1, 0x9CF3), (1, 0x7BCF), (1, 0x630C), (1, 0x4A49), (1, 0x630C), (1, 0x73AE), (1, 0xAD55), (5, 0xFFFF)]]"

definition GIRL_COLORS_6 :: "runs list" where
  "GIRL_COLORS_6 =
     [[(11, 0xFFFF), (1, 0xEC94), (2, 0xFB30), (1, 0xFB10), (1, 0xFA8E), (1, 0xFA6E), (1, 0xFA4D), (2, 0xFA2D), (1, 0xFA0D), (2,
       0xF9CC), (10, 0xF96A), (1, 0xF9AB), (1, 0xF9CC), (1, 0xF9EC), (1, 0xE1CB), (1, 0xA929), (1, 0xAC71), (1, 0xE555), (1, 0xE2EF), (1,
       0xFB71), (1, 0xFC13), (1, 0xE3D3), (1, 0xD5D7), (1, 0xFF9C), (18, 0xFF5C), (1, 0xF6BA), (1, 0xC1E9), (1, 0xCA4A), (1, 0x91E8), (1,
       0x2104), (2, 0x31A6), (1, 0xD3F1), (1, 0xFCF5), (1, 0xFCD5), (1, 0xDC12), (1, 0xBB6F), (1, 0xFD36), (1, 0xFDF9), (1, 0xFE7B), (1,
       0xDD98), (1, 0xDA49), (1, 0xDDD6), (1, 0xFFFF), (4, 0xFFBD), (1, 0xFFFE), (1, 0xF79D), (1, 0xEC30), (1, 0xFB2C), (2, 0xFB8E), (4,
       0xFBAE), (2, 0xFBCF), (1, 0xFBEF), (1, 0xEC51), (3, 0xFFFF), (1, 0xFFFE), (1, 0xEEB9), (1, 0x5840), (1, 0x4185), (1, 0x3186), (1,
       0x21A6), (2, 0x29E7), (1, 0x31E7), (3, 0x4208), (6, 0x4228), (8, 0x4A49), (3, 0x4228), (6, 0x4208), (2, 0x39E7), (1, 0x39C7), (2,
       0x31A6), (4, 0x3186), (1, 0x2986), (1, 0x79C7), (1, 0xFA89), (2, 0xFA69), (5, 0xFA49), (5, 0xFA69), (1, 0xF249), (2, 0xFA69), (3,
       0xFA8A), (1, 0xE228), (1, 0x29A6), (2, 0x39C7), (1, 0x31A6), (2, 0x2965), (1, 0x4228), (128, 0xFFFF), (1, 0xCE59), (1, 0x2104),
       (1, 0x2124), (1, 0x2925), (1, 0x2945), (3, 0x2965), (1, 0x2945), (1, 0x18E3), (1, 0x528A), (4, 0xFFFF)],
      [(11, 0xFFFF), (1, 0xEDB7), (1, 0xFB10), (1, 0xFB30), (1, 0xFB10), (1, 0xFAAE), (1, 0xFA6E), (4, 0xFA2D), (2, 0xF9CC), (1,
       0xF98B), (1, 0xF94A), (8, 0xF96A), (1, 0xF98B), (2, 0xF9AB), (1, 0xE1AB), (1, 0xE1EB), (1, 0xFA6E), (1, 0xFAAF), (1, 0xFAF0), (1,
       0xFB71), (1, 0xF351), (1, 0xBC93), (1, 0xEEFA), (18, 0xFF5C), (1, 0xFF9C), (1, 0xD492), (1, 0xC209), (1, 0xC24A), (1, 0xD28A), (1,
       0x91E8), (1, 0x41A6), (1, 0xFC32), (2, 0xFC73), (1, 0xFC94), (1, 0xFC74), (1, 0xFCF6), (1, 0xFD36), (1, 0xFDF9), (1, 0xFE5A), (1,
       0xE597), (1, 0xDD77), (1, 0xFFBE), (6, 0xFFBD), (1, 0xFFBE), (1, 0xFFFF), (1, 0xEE17), (1, 0xFB4D), (5, 0xFBAE), (3, 0xFBCF), (1,
       0xEB8E), (1, 0xF7DE), (2, 0xFFBD), (1, 0xFF9D), (1, 0xEE58), (1, 0xF965), (1, 0xFB8E), (1, 0xFBAE), (1, 0xFB2C), (1, 0xE207), (1,
       0xC0C3), (1, 0xA082), (1, 0x49C7), (1, 0x4208), (6, 0x4228), (8, 0x4A49), (4, 0x4228), (5, 0x4208), (3, 0x39E7), (2, 0x39C7), (1,
       0x31A6), (6, 0x3186), (2, 0xFA69), (6, 0xFA49), (5, 0xFA69), (1, 0xF248), (2, 0xFA69), (4, 0xFA8A), (1, 0x2986), (3, 0x31A6), (1,
       0x3186), (1, 0x2945), (1, 0x8410), (128, 0xFFFF), (1, 0x2965), (1, 0x3166), (2, 0x3186), (3, 0x31A6), (2, 0x3186), (1, 0x2965),
       (1, 0x4228), (4, 0xFFFF)],
      [(11, 0xFFFF), (1, 0xF6FC), (1, 0xFB30), (2, 0xFB10), (1, 0xFAAE), (1, 0xFA8E), (1, 0xFA4D), (3, 0xFA2D), (2, 0xF9CC), (1,
       0xF9AB), (10, 0xF96A), (1, 0xF98B), (1, 0xF9AB), (1, 0xF9CC), (1, 0xFA2D), (1, 0xFA6D), (1, 0xFAAF), (1, 0xFACF), (1, 0xFAEF), (1,
       0xC473), (1, 0xB594), (1, 0x0020), (1, 0xCE17), (1, 0xFFFE), (1, 0xFFFD), (2, 0xFF9C), (1, 0xFF7C), (12, 0xFF5C), (1, 0xFFBD), (1,
       0xC26B), (1, 0xC24A), (1, 0xCA2A), (1, 0xC229), (1, 0xBAAB), (2, 0xFC11), (1, 0xFC12), (1, 0xFC32), (1, 0xFC53), (1, 0xFC94), (1,
       0xFCD5), (1, 0xFD77), (1, 0xE452), (1, 0xB431), (1, 0xD494), (1, 0x3166), (1, 0x5AEB), (1, 0xFFFF), (7, 0xFFBD), (1, 0xFFFE), (1,
       0xEF9D), (1, 0xEBAF), (1, 0xFB8E), (2, 0xFBAE), (4, 0xFBCF), (1, 0xFB8E), (1, 0xDEB9), (1, 0xFFDE), (1, 0xFFBD), (1, 0xFF9D), (1,
       0xEEB9), (1, 0xFACB), (1, 0xFB6D), (2, 0xFBAE), (1, 0xFBF0), (1, 0xFC10), (1, 0xFA08), (1, 0x9904), (1, 0x3A28), (5, 0x4228), (1,
       0x6208), (1, 0x7228), (1, 0x5229), (1, 0x3A28), (1, 0x3A49), (1, 0x4249), (4, 0x4A49), (3, 0x4228), (5, 0x4208), (2, 0x39E7), (3,
       0x39C7), (1, 0x31A6), (4, 0x3186), (1, 0x2165), (1, 0xA1C6), (2, 0xFA69), (1, 0xFA49), (1, 0xFA69), (4, 0xFA49), (4, 0xFA69), (1,
       0xEA48), (3, 0xFA69), (1, 0xFA89), (3, 0xFA8A), (1, 0x51A6), (1, 0x31A7), (3, 0x39C7), (1, 0x2925), (1, 0x9492), (127, 0xFFFF),
       (1, 0xC618), (1, 0x2124), (1, 0x1986), (1, 0x29C7), (1, 0x5965), (1, 0x69A6), (1, 0x7248), (1, 0x61C6), (1, 0x5A28), (1, 0x41E7),
       (1, 0x29A6), (1, 0x39C7), (4, 0xFFFF)],
      [(11, 0xFFFF), (1, 0xF7FF), (1, 0xFB71), (1, 0xFB10), (1, 0xFAF0), (1, 0xFAAF), (2, 0xFA8E), (2, 0xFA2D), (1, 0xFA0C), (1,
       0xF9EC), (1, 0xF9CB), (1, 0xF9AB), (10, 0xF96A), (1, 0xF94A), (1, 0xF98B), (1, 0xF9AB), (1, 0xF9EC), (1, 0xFA0D), (1, 0xFA6E), (1,
       0xFA2D), (1, 0xCC32), (1, 0xFFFF), (2, 0x0000), (1, 0x8BD9), (1, 0x59F9), (1, 0x59DD), (1, 0xBDBE), (1, 0xC61D), (1, 0xC5D9), (1,
       0xFF5B), (11, 0xFF5C), (1, 0xF6BA), (1, 0xC1C9), (1, 0xAA6A), (1, 0xC4F4), (1, 0xCBAF), (1, 0xFBAF), (4, 0xFBF1), (1, 0xFC53), (1,
       0xFC73), (1, 0xFCF5), (1, 0x5249), (1, 0x41E7), (1, 0xE9E7), (1, 0xD4F5), (1, 0x82ED), (1, 0x2124), (1, 0x5AEB), (1, 0xFFDE), (7,
       0xFFBD), (1, 0xFFBE), (1, 0xF7FF), (1, 0xDCF3), (1, 0xFB4D), (5, 0xFBCF), (1, 0xFC0F), (1, 0xD491), (1, 0xFFFF), (2, 0xFFBD), (1,
       0xF71B), (1, 0xF28A), (1, 0xFB0C), (1, 0xFB8E), (2, 0xFBCF), (1, 0xFC10), (1, 0xFCB2), (1, 0x8AAA), (1, 0x4208), (4, 0x4228), (1,
       0x4229), (1, 0xF1C7), (1, 0xFA8A), (2, 0xFAEB), (1, 0xE28A), (1, 0xBA69), (1, 0x9249), (1, 0x51C7), (1, 0x4249), (1, 0x4A49), (4,
       0x4228), (2, 0x4208), (1, 0x3A28), (1, 0x3A08), (2, 0x31E7), (1, 0x31C7), (2, 0x39C7), (1, 0x31A6), (2, 0x3186), (1, 0x2986), (1,
       0x3166), (1, 0xE208), (6, 0xFA69), (3, 0xFA49), (4, 0xFA69), (1, 0xEA28), (3, 0xFA69), (1, 0xFA89), (2, 0xFA8A), (1, 0xFA89), (1,
       0x79E7), (4, 0x39C7), (2, 0x2965), (127, 0xFFFF), (1, 0x4249), (1, 0x5986), (1, 0xE0C3), (2, 0xF800), (1, 0xF965), (1, 0xF9A6),
       (1, 0xFA48), (1, 0xFA8A), (1, 0xFAAA), (1, 0xB269), (1, 0x2145), (4, 0xFFFF)],
      [(12, 0xFFFF), (1, 0xEC94), (1, 0xFB10), (1, 0xFAF0), (3, 0xFAAF), (1, 0xFA4D), (1, 0xFA2D), (1, 0xFA0D), (2, 0xF9CC), (1,
       0xF9AB), (1, 0xF96B), (11, 0xF96A), (1, 0xF98B), (1, 0xF9AB), (1, 0xF9EC), (1, 0xF18B), (1, 0xD4D3), (1, 0xFFDE), (1, 0xCDF6), (1,
       0x0000), (1, 0x100A), (3, 0x40DF), (1, 0x9C5F), (1, 0xB59F), (1, 0xCEBF), (1, 0xB59B), (1, 0xFF7C), (9, 0xFF5C), (1, 0xFFBD), (1,
       0xBAAB), (1, 0xCA2A), (1, 0xBA29), (1, 0xDBAF), (1, 0xFB4E), (1, 0xFBB0), (2, 0xFBD0), (1, 0xFBD1), (1, 0xFBF1), (1, 0xFC32), (1,
       0xFCB4), (1, 0x5249), (1, 0x4A49), (1, 0x3A28), (1, 0x39E7), (1, 0xC9E7), (1, 0xC494), (1, 0x81C7), (1, 0x2125), (1, 0x31A6), (1,
       0xFFDE), (8, 0xFFBD), (1, 0xFFFF), (1, 0xDE58), (1, 0xEB6D), (3, 0xFBCF), (2, 0xFBEF), (1, 0xEBCF), (1, 0xF7BE), (2, 0xFFBD), (1,
       0xF77C), (1, 0x2965), (1, 0x29A6), (1, 0x41A6), (1, 0x6A08), (1, 0xF3CE), (1, 0xFC30), (1, 0xFC92), (1, 0x7AAA), (1, 0x39E7), (3,
       0x4228), (1, 0x4A49), (1, 0x39E7), (1, 0xF9E7), (1, 0xFA48), (2, 0xFB2C), (1, 0xFAEB), (2, 0xFACB), (1, 0xFAAA), (1, 0x79E7), (1,
       0x4A49), (4, 0x4228), (1, 0x4208), (1, 0x49A6), (1, 0xB124), (1, 0xB145), (1, 0xB124), (1, 0xA903), (1, 0x8904), (1, 0x7904), (1,
       0x6145), (1, 0x4944), (1, 0x3945), (1, 0x2165), (1, 0x69A6), (1, 0xFA89), (1, 0xFA8A), (6, 0xFA69), (4, 0xFA49), (1, 0xFA69), (1,
       0xFA49), (1, 0xFA69), (1, 0xEA28), (1, 0xFA69), (1, 0xFA49), (2, 0xFA69), (2, 0xFA8A), (1, 0xFA69), (1, 0xA207), (1, 0x31C7), (2,
       0x39C7), (1, 0x39A7), (1, 0x4208), (1, 0xAD34), (2, 0xDEBA), (1, 0xE6FB), (1, 0xEF5D), (2, 0xF79E), (1, 0xF7BE), (119, 0xFFFF),
       (1, 0x8410), (1, 0x2986), (1, 0xF800), (1, 0xF8A2), (1, 0xFA49), (1, 0xF000), (1, 0xE0C2), (1, 0xD9A6), (1, 0xDA07), (1, 0xDA69),
       (1, 0xF9E8), (1, 0xC9E7), (1, 0x1924), (4, 0xFFFF)],
      [(12, 0xFFFF), (1, 0xF6FC), (1, 0xFAF0), (1, 0xFACF), (2, 0xFAAF), (1, 0xFA8E), (1, 0xFA6E), (2, 0xFA2D), (2, 0xF9CC), (1,
       0xF9AB), (1, 0xF98B), (10, 0xF96A), (1, 0xF96B), (1, 0xF98B), (1, 0xF9AB), (1, 0xE16A), (1, 0xDDD7), (1, 0xFFBD), (1, 0xFF9C), (1,
       0xAD13), (1, 0x0000), (1, 0x2874), (1, 0x515F), (1, 0x411D), (1, 0x2897), (1, 0x1013), (1, 0x38BB), (1, 0xA4BF), (1, 0xCE7F), (1,
       0xD639), (1, 0xFF7C), (7, 0xFF5C), (1, 0xFF7C), (1, 0xCD54), (1, 0xC1C8), (1, 0xBA09), (1, 0xDAAB), (1, 0xFB2D), (1, 0xFB6E), (1,
       0xFB8F), (2, 0xFBB0), (1, 0xFBD0), (1, 0xFBD1), (1, 0xFC73), (1, 0x5A49), (1, 0x4228), (1, 0x3A28), (1, 0x29E7), (1, 0x3186), (1,
       0x69A6), (1, 0xFA69), (1, 0xB3F1), (1, 0x3186), (1, 0x2104), (1, 0x73AE), (1, 0xFFFE), (8, 0xFFBD), (1, 0xFFDE), (1, 0xE75C), (1,
       0xDBEF), (1, 0xFBCF), (1, 0xFBEF), (1, 0xFBCF), (1, 0xFB8E), (1, 0xF410), (1, 0xEF1B), (1, 0xFFDE), (1, 0xFFBD), (1, 0xFFDE), (2,
       0x31A6), (1, 0x39C7), (1, 0x29A6), (1, 0xB2CB), (1, 0xFB8E), (1, 0xFC71), (1, 0x7289), (1, 0x39E7), (1, 0x4208), (2, 0x4228), (1,
       0x3A48), (1, 0x8186), (1, 0xF9E7), (1, 0xFA28), (1, 0xD2EB), (1, 0xC2EB), (1, 0xEA49), (1, 0xFA28), (1, 0xFACB), (1, 0xFB0B), (1,
       0x6A69), (2, 0x4A49), (3, 0x4228), (1, 0x3208), (1, 0xE903), (1, 0xF9A6), (1, 0xF986), (1, 0xF965), (2, 0xF924), (1, 0xF9A6), (1,
       0xF944), (1, 0xF8E3), (1, 0xF882), (1, 0xF104), (1, 0xFACA), (2, 0xFA8A), (8, 0xFA69), (5, 0xFA49), (1, 0xF228), (3, 0xFA49), (1,
       0xFA69), (1, 0xFA8A), (2, 0xFA69), (1, 0xBA08), (1, 0x31A7), (2, 0x39C7), (1, 0x31A6), (1, 0x5AAA), (1, 0xFFFE), (3, 0xFF7C), (1,
       0xFF5C), (1, 0xFF5B), (2, 0xFF5C), (1, 0xEEFA), (1, 0xEEFB), (1, 0xEF1B), (1, 0xEF5C), (2, 0xEF7D), (111, 0xFFFF), (1, 0xE71C),
       (1, 0x4A69), (1, 0x21A6), (1, 0xB904), (1, 0xFAAA), (1, 0xE4B2), (1, 0x4228), (1, 0x31E7), (3, 0x29E7), (1, 0x29C7), (1, 0x2985),
       (1, 0x51E7), (1, 0x2145), (1, 0xF7BE), (3, 0xFFFF)],
      [(13, 0xFFFF), (1, 0xF370), (1, 0xFACF), (1, 0xFAAF), (2, 0xFA8E), (1, 0xFA6E), (1, 0xFA4D), (1, 0xFA2D), (1, 0xF9EC), (1,
       0xF9CB), (1, 0xF9AB), (1, 0xF98B), (10, 0xF96A), (1, 0xF98B), (1, 0xF909), (1, 0xD28D), (1, 0xF75B), (1, 0xFF9C), (1, 0xFF5C), (1,
       0xFF9C), (1, 0xACF2), (1, 0x0000), (1, 0x2055), (1, 0x491F), (1, 0x2898), (1, 0x1875), (1, 0x2056), (1, 0x2093), (1, 0x837F), (1,
       0xCE9F), (1, 0xCE19), (1, 0xFF7C), (7, 0xFF5C), (1, 0xFF9C), (1, 0xB1C9), (1, 0xB9E9), (1, 0xE2CC), (1, 0xFBD0), (1, 0xFF7D), (1,
       0xFB0D), (1, 0xFB6F), (2, 0xFB8F), (1, 0xFBB0), (1, 0xFC12), (1, 0xAAEC), (1, 0x6207), (1, 0x6A08), (1, 0xA228), (1, 0xF248), (1,
       0xFA69), (1, 0xE228), (1, 0x5986), (2, 0x2124), (1, 0x94B2), (1, 0xFFFF), (10, 0xFFBD), (1, 0xFFDE), (1, 0xF7FF), (1, 0xD534), (1,
       0xDCB2), (1, 0xE5F7), (1, 0xEF9D), (1, 0xFFDE), (1, 0xFFBE), (2, 0xFFBD), (1, 0xFFFF), (1, 0x39C7), (1, 0x3186), (1, 0x39C7), (1,
       0x29A6), (1, 0xD2CB), (1, 0xFB2C), (1, 0xFC31), (1, 0x5A28), (2, 0x39E7), (2, 0x4208), (1, 0x3228), (1, 0xA9E7), (1, 0xFA69), (1,
       0xFA49), (1, 0x4A49), (1, 0x3A29), (1, 0x3249), (1, 0xB165), (1, 0xF9A6), (1, 0xFB4D), (1, 0x4A28), (1, 0x4A49), (1, 0x4248), (3,
       0x4228), (1, 0x41C7), (1, 0xF945), (1, 0xFA28), (1, 0xF9E7), (1, 0xF965), (1, 0xF9C7), (1, 0xFACA), (1, 0xFAEB), (1, 0xFA8A), (1,
       0xFAAA), (1, 0xEA69), (1, 0xFACA), (4, 0xFA8A), (4, 0xFA69), (2, 0xFA8A), (1, 0xFA69), (4, 0xFA49), (1, 0xF228), (4, 0xFA49), (1,
       0xFA28), (3, 0xFA69), (1, 0xBA08), (1, 0x31A7), (3, 0x39C7), (1, 0x2965), (1, 0xFFDD), (7, 0xFF5C), (3, 0xFF7C), (1, 0xFF5C), (1,
       0xFF3B), (1, 0xFF5C), (1, 0xEEDA), (1, 0xDE99), (1, 0xDEBA), (1, 0xEF5D), (1, 0xEF7D), (1, 0xF79E), (1, 0xF7BE), (1, 0xFFDF), (3,
       0xFFFF), (1, 0xDEDB), (1, 0xD6BA), (1, 0xE71C), (1, 0xFFDF), (94, 0xFFFF), (1, 0xEF7D), (1, 0x6B6D), (1, 0x2965), (1, 0x29C6), (1,
       0x69A6), (1, 0xF9C7), (1, 0xFA8A), (1, 0x6A48), (1, 0x31C7), (1, 0x39E7), (3, 0x39C7), (2, 0x39E7), (1, 0x31C6), (1, 0x2925), (1,
       0xF79E), (3, 0xFFFF)],
      [(13, 0xFFFF), (1, 0xEE9A), (1, 0xFAAE), (1, 0xFA8F), (3, 0xFA8E), (1, 0xFA4D), (1, 0xFA2D), (2, 0xF9CC), (1, 0xF9AB), (1,
       0xF98B), (9, 0xF96A), (1, 0xF929), (1, 0xD98A), (1, 0xD5B6), (1, 0xFFDD), (1, 0xFF7C), (2, 0xFF5C), (1, 0xFF9C), (1, 0xACF2), (1,
       0x0000), (1, 0x2855), (1, 0x40DF), (1, 0x48FE), (1, 0x413A), (1, 0x49B9), (1, 0x72BF), (1, 0xD6BF), (1, 0xBDFE), (1, 0xF6FA), (1,
       0xFF7C), (6, 0xFF5C), (1, 0xFF9D), (1, 0xC471), (1, 0xB9A9), (1, 0xEAAB), (3, 0xFB0D), (1, 0xFB4E), (1, 0xFB6E), (1, 0xFB6F), (1,
       0xFB8F), (1, 0xFBB0), (1, 0xEBD0), (1, 0xDA07), (1, 0xEA49), (1, 0xDA28), (1, 0xAA07), (1, 0x5165), (1, 0x18E4), (1, 0x1924), (1,
       0x4A69), (1, 0x9491), (1, 0xFFDE), (1, 0xFFFF), (13, 0xFFBD), (1, 0xFFFE), (1, 0xFFFF), (1, 0xFFFE), (1, 0xFFBE), (4, 0xFFBD), (1,
       0xFFFF), (1, 0x5AEB), (1, 0x2965), (1, 0x31A6), (1, 0x2186), (1, 0xDAAB), (1, 0xFB0C), (1, 0xFBCF), (1, 0x7A69), (1, 0x29A6), (1,
       0x31C7), (2, 0x3208), (1, 0x29E7), (1, 0xCA69), (2, 0xFAAA), (1, 0x3A08), (1, 0x4A49), (1, 0x3A28), (1, 0xA924), (1, 0xF924), (1,
       0xFB2C), (1, 0x2A07), (5, 0x4228), (1, 0x51A6), (1, 0xF945), (1, 0xF9E7), (1, 0xF965), (1, 0xF945), (1, 0xFA49), (1, 0xFA8A), (1,
       0xFA48), (1, 0xF208), (1, 0xE28A), (1, 0xFACB), (1, 0xFAAA), (1, 0xFA8A), (1, 0xFAAA), (3, 0xFA8A), (2, 0xFA69), (1, 0xFA8A), (1,
       0xFAAA), (1, 0xFA89), (3, 0xFA49), (2, 0xFA28), (1, 0xEA07), (4, 0xFA49), (1, 0xFA08), (1, 0xFA48), (2, 0xFA69), (1, 0xBA08), (1,
       0x29A6), (1, 0x3186), (1, 0x2965), (1, 0x62EB), (1, 0xA4D2), (1, 0xFF9C), (13, 0xFF5C), (3, 0xFF7C), (1, 0xFF5C), (1, 0xE6DA), (3,
       0xF7BD), (1, 0xEF5C), (1, 0xDEDA), (1, 0xD6BA), (1, 0x7BEF), (1, 0x2104), (1, 0x2124), (1, 0x2945), (1, 0x2965), (1, 0x39E7), (1,
       0x630C), (1, 0x8430), (1, 0xA534), (1, 0xCE39), (1, 0xDEDB), (1, 0xEF5D), (1, 0xFFBF), (83, 0xFFFF), (1, 0xEF7D), (1, 0x738E), (1,
       0x2965), (1, 0x31A6), (1, 0x31C6), (1, 0x89A6), (1, 0xF9A6), (1, 0xF986), (1, 0xA165), (1, 0x29C7), (1, 0x39E7), (6, 0x39C7), (1,
       0x31A6), (1, 0x2945), (1, 0xD6BA), (3, 0xFFFF)],
      [(14, 0xFFFF), (1, 0xEC13), (1, 0xFA6E), (2, 0xFA8E), (1, 0xFA6E), (1, 0xFA4D), (1, 0xFA2D), (1, 0xF9CC), (2, 0xF9AB), (8,
       0xF96A), (1, 0xF94A), (1, 0xD8E8), (1, 0xC472), (1, 0xE617), (1, 0xFFDD), (4, 0xFF5C), (1, 0xFF9C), (1, 0xB513), (1, 0x0000), (1,
       0x2034), (1, 0x409F), (1, 0x385F), (1, 0xBD3F), (1, 0xFFFE), (1, 0xCE9F), (1, 0xBE3C), (1, 0xDE79), (1, 0xFF7C), (6, 0xFF5C), (1,
       0xFF7C), (1, 0xDE17), (1, 0xB168), (1, 0xFACC), (1, 0xFAEC), (1, 0xFB0C), (1, 0xFB0D), (1, 0xFB2D), (2, 0xFB4E), (1, 0xFB6E), (1,
       0xFB6F), (1, 0xFBF0), (1, 0x41A6), (1, 0x2166), (1, 0x31E7), (1, 0x3208), (1, 0x52EB), (1, 0x9492), (1, 0xCE58), (1, 0xFFBE), (2,
       0xFFFF), (23, 0xFFBD), (1, 0xFFFE), (1, 0x8C30), (1, 0x2125), (1, 0x31A6), (1, 0x2185), (1, 0xDB0C), (1, 0xFBCF), (1, 0xFB6D), (1,
       0xFBAE), (1, 0xDB6D), (1, 0xB2AA), (1, 0xBA49), (1, 0xC228), (1, 0xC28A), (1, 0xFB6D), (1, 0xFB2C), (1, 0xFAAA), (1, 0x3207), (1,
       0x4228), (1, 0x3A28), (1, 0xC903), (1, 0xF945), (1, 0xFAEB), (1, 0x29E7), (1, 0x3207), (1, 0x3A28), (1, 0x3A48), (2, 0x3228), (1,
       0x51C7), (1, 0xF965), (1, 0xF9E7), (1, 0xA165), (2, 0x49C6), (1, 0x7186), (1, 0xB103), (1, 0xF28A), (2, 0xFAEB), (4, 0xFAAA), (5,
       0xFA8A), (2, 0xFA69), (4, 0xFA49), (1, 0xFA08), (1, 0xF208), (4, 0xFA28), (1, 0xFA08), (1, 0xFA28), (2, 0xFA69), (1, 0xB208), (1,
       0x31A7), (1, 0x39A7), (1, 0x2965), (1, 0xFF3B), (1, 0xFFBD), (18, 0xFF5C), (1, 0xFF3B), (1, 0xF79D), (2, 0xFFBD), (1, 0xFFBE), (2,
       0xFFDE), (1, 0xFFFF), (1, 0x4208), (3, 0x3186), (1, 0x3166), (1, 0x2945), (1, 0x2925), (1, 0x2104), (1, 0x20E4), (1, 0x2104), (1,
       0x2925), (1, 0x2945), (1, 0x3166), (1, 0x31A6), (1, 0x526A), (1, 0x736E), (1, 0x8C31), (1, 0xBDF7), (1, 0xCE79), (1, 0xEF7D), (73,
       0xFFFF), (1, 0xDEDB), (1, 0x5AEB), (1, 0x2945), (1, 0x31A6), (1, 0x31E7), (1, 0x7208), (1, 0xFA8A), (1, 0xFA69), (1, 0xF904), (1,
       0xA8E3), (1, 0x29E7), (1, 0x39E7), (6, 0x39C7), (1, 0x3186), (1, 0x2965), (1, 0x2104), (1, 0xD6BA), (3, 0xFFFF)],
      [(14, 0xFFFF), (1, 0x6B8D), (1, 0xEA4D), (1, 0xFA8E), (2, 0xFA6E), (1, 0xFA4D), (1, 0xFA0D), (1, 0xF9CC), (1, 0xF9AC), (1,
       0xF98B), (6, 0xF96A), (1, 0xF909), (1, 0xE129), (1, 0xB36F), (1, 0xEF3B), (1, 0xFFFE), (1, 0xE4D4), (1, 0xFFBD), (4, 0xFF5C), (1,
       0xFF7C), (1, 0xC5B6), (1, 0x0000), (1, 0x524F), (1, 0x5A18), (1, 0x51D9), (1, 0xDE3C), (1, 0xFF9D), (1, 0xCE39), (1, 0xFF5C), (1,
       0xFF7C), (6, 0xFF5C), (1, 0xFFBD), (1, 0xEE79), (1, 0xB988), (2, 0xFACC), (1, 0xFAEC), (1, 0xFB0C), (1, 0xFB0D), (2, 0xFB2D), (3,
       0xFB4E), (1, 0xD431), (1, 0xFF7C), (1, 0xF71B), (1, 0xC5F6), (1, 0xE73B), (2, 0xFFFF), (1, 0xFFDE), (27, 0xFFBD), (1, 0xC5F7), (1,
       0x20E4), (1, 0x3186), (1, 0x29A6), (1, 0xB2EB), (1, 0xFBEF), (1, 0xFBF0), (2, 0xFBCF), (2, 0xFC30), (1, 0xFBEF), (1, 0xFC30), (1,
       0xFBEF), (1, 0xFB8E), (1, 0xFACB), (1, 0x31E7), (1, 0x4228), (1, 0x3A28), (1, 0xE945), (1, 0xF965), (1, 0xFA69), (1, 0xFBCF), (1,
       0xEBAE), (1, 0xEAAA), (1, 0xD1E7), (1, 0xE1A6), (1, 0xC1C7), (1, 0xF1E7), (1, 0xFA08), (1, 0xF9E7), (1, 0x51C7), (1, 0x3A08), (1,
       0x31C6), (1, 0x4186), (1, 0xFAEB), (2, 0xFB0C), (1, 0xFAEB), (1, 0xFACA), (5, 0xFAAA), (3, 0xFA8A), (3, 0xFA69), (3, 0xFA49), (1,
       0xEA08), (2, 0xFA49), (3, 0xFA28), (1, 0xFA08), (1, 0xFA28), (2, 0xFA69), (1, 0xAA08), (1, 0x31C7), (1, 0x39C7), (1, 0x2945), (1,
       0xFFFE), (1, 0xFFBD), (18, 0xFF5C), (1, 0xFF3B), (1, 0xF79D), (5, 0xFFBD), (1, 0xFFFF), (1, 0x7BCE), (1, 0x3166), (12, 0x3186),
       (1, 0x2965), (1, 0x2945), (1, 0x2124), (1, 0x2104), (1, 0x20E4), (1, 0x2945), (1, 0x4208), (1, 0xAD55), (65, 0xFFFF), (1, 0xFFDF),
       (2, 0xFFFF), (1, 0xF79E), (1, 0xA514), (1, 0x39C7), (1, 0x2104), (1, 0x2165), (1, 0x39C7), (1, 0x79C7), (1, 0xF9E8), (1, 0xFA69),
       (1, 0xFA08), (1, 0xF820), (1, 0xB8A2), (1, 0x29E7), (2, 0x39E7), (1, 0x31C6), (1, 0x31A6), (3, 0x39C7), (1, 0x31A6), (1, 0x3186),
       (1, 0x2965), (1, 0x2104), (1, 0xD6BA), (3, 0xFFFF)],
      [(14, 0xFFFF), (1, 0x2965), (1, 0x3186), (2, 0xFA6E), (2, 0xFA2D), (1, 0xF9EC), (2, 0xF9CC), (2, 0xF98B), (2, 0xF96A), (1,
       0xF149), (1, 0xE128), (1, 0xBA6C), (1, 0xD576), (1, 0xF75B), (1, 0xFFDD), (1, 0xFF5C), (1, 0xFF9C), (1, 0xED96), (1, 0xFF7C), (4,
       0xFF5C), (1, 0xFF7C), (1, 0xF6FA), (1, 0x0000), (1, 0xAD53), (1, 0xFFFD), (1, 0xFFFC), (1, 0xFF9D), (1, 0xFF7D), (1, 0xFFBD), (5,
       0xFF5C), (1, 0xFF7C), (1, 0xFF9C), (1, 0xEE79), (1, 0xCB8F), (1, 0xC188), (1, 0xFAAC), (2, 0xFACC), (1, 0xFAEC), (1, 0xFB0C), (2,
       0xFB0D), (2, 0xFB4D), (1, 0xFB4E), (1, 0xF32D), (1, 0xEEFA), (2, 0xFF5C), (1, 0xFF9D), (1, 0xFF3B), (1, 0xEEFB), (1, 0xF75C), (1,
       0xFFBE), (26, 0xFFBD), (1, 0xF79D), (1, 0xE6FB), (1, 0x2104), (1, 0x3186), (1, 0x39C7), (1, 0x49C7), (1, 0xF3AE), (1, 0xFBF0), (1,
       0xFC10), (1, 0xFC31), (1, 0xFC30), (2, 0xFC31), (1, 0xFC30), (1, 0xFC10), (1, 0xFBAE), (1, 0xF2CA), (1, 0x3207), (1, 0x4228), (1,
       0x3A28), (1, 0xF924), (2, 0xFA49), (1, 0xFBCF), (1, 0xFBEF), (1, 0xFBF0), (1, 0xFACB), (2, 0xFB8E), (1, 0xFAAA), (1, 0xFA28), (1,
       0xF945), (1, 0x41C7), (1, 0x39C7), (1, 0x2185), (1, 0xF28A), (1, 0xFB0B), (3, 0xFB0C), (1, 0xFACB), (4, 0xFAAA), (5, 0xFA8A), (2,
       0xFA69), (2, 0xFA49), (1, 0xEA28), (1, 0xF228), (4, 0xFA49), (3, 0xFA28), (2, 0xFA69), (1, 0x81E7), (1, 0x39C7), (1, 0x39A7), (1,
       0x31A6), (1, 0x4A49), (1, 0x2966), (2, 0xFF7C), (16, 0xFF5C), (1, 0xFF3B), (1, 0xF79D), (5, 0xFFBD), (1, 0xFFDE), (1, 0xC638), (1,
       0x1904), (1, 0x2986), (3, 0x31A6), (1, 0x3186), (2, 0x31A6), (11, 0x3186), (1, 0x3166), (1, 0x2104), (1, 0x2945), (1, 0x7BEF), (1,
       0xDEFB), (62, 0xFFFF), (1, 0xE73C), (1, 0xA514), (1, 0x4A49), (1, 0x2945), (1, 0x2124), (1, 0x29A6), (1, 0x41C6), (1, 0xAA08), (1,
       0xFA28), (1, 0xFA48), (1, 0xF9E8), (1, 0xF861), (1, 0xD020), (1, 0x49C6), (1, 0x3228), (1, 0x4208), (1, 0x39C7), (1, 0x31A6), (1,
       0x3166), (1, 0x3186), (3, 0x31A6), (2, 0x3186), (1, 0x2965), (1, 0x2104), (1, 0xD6BA), (3, 0xFFFF)],
      [(13, 0xFFFF), (1, 0xE71C), (1, 0x2124), (1, 0x2986), (1, 0x2965), (1, 0xC9EB), (1, 0xF1EC), (2, 0xF9EC), (1, 0xF9CC), (1,
       0xF9CB), (1, 0xF98B), (1, 0xF96B), (1, 0xE929), (1, 0xD109), (1, 0xB8E8), (1, 0xB8E7), (1, 0xA969), (1, 0xAB4E), (1, 0xE638), (1,
       0xF77C), (1, 0xFFBD), (1, 0xFF5C), (1, 0xFF5B), (1, 0xEE58), (5, 0xFF5C), (1, 0xFFFE), (1, 0x0000), (1, 0x8C30), (1, 0xFFBD), (1,
       0xFF7C), (1, 0xFF9D), (1, 0xFF7D), (4, 0xFF5C), (1, 0xFF9C), (1, 0xF71A), (1, 0xD534), (1, 0xC1EB), (1, 0xB968), (1, 0xD1CA), (2,
       0xFAAC), (2, 0xFACC), (2, 0xFAEC), (1, 0xFB0D), (2, 0xFB2D), (2, 0xFB4D), (1, 0xD471), (1, 0xFFBD), (4, 0xFF5C), (1, 0xFF7C), (1,
       0xFF5C), (1, 0xEF1B), (1, 0xEF3B), (1, 0xFFBE), (1, 0xFFDE), (24, 0xFFBD), (1, 0xF79D), (3, 0x3186), (1, 0x31C7), (1, 0x2986), (1,
       0x39C7), (2, 0x39E7), (2, 0x39C7), (1, 0x5208), (1, 0x5A28), (1, 0x5208), (1, 0x5A08), (1, 0x4A07), (2, 0x4228), (1, 0x3A28), (1,
       0x6944), (1, 0xE9C7), (1, 0xFA69), (1, 0xFAEB), (1, 0xFBF0), (1, 0xFBCF), (1, 0xFBEF), (1, 0xFC30), (1, 0xFBEF), (1, 0xFA08), (1,
       0xF924), (1, 0xF820), (1, 0x3186), (1, 0x29A6), (1, 0x61A6), (1, 0xFAEB), (1, 0xFB0C), (1, 0xFB2C), (1, 0xFB0C), (2, 0xFAEB), (4,
       0xFAAA), (5, 0xFA8A), (2, 0xFA69), (1, 0xFA49), (1, 0xF228), (1, 0xE208), (6, 0xFA49), (1, 0xFA28), (1, 0xFA48), (2, 0xFA69), (1,
       0x69C7), (3, 0x39C7), (1, 0x39A7), (1, 0x3166), (1, 0xC5B5), (1, 0xFF7C), (16, 0xFF5C), (1, 0xFF7C), (1, 0xEF3C), (1, 0xFFDE), (5,
       0xFFBD), (1, 0xF79D), (1, 0x8208), (1, 0x7965), (1, 0x7145), (1, 0x6945), (1, 0x4924), (1, 0x4945), (1, 0x4986), (1, 0x39A6), (1,
       0x31C7), (1, 0x21E7), (1, 0x21C6), (1, 0x29A6), (10, 0x3186), (1, 0x2925), (1, 0x2104), (1, 0x3166), (1, 0x738E), (1, 0xC638), (1,
       0xEF7D), (8, 0xFFFF), (1, 0xFFDF), (46, 0xFFFF), (1, 0xEF5D), (1, 0x8C71), (1, 0x3186), (1, 0x2124), (1, 0x2945), (1, 0x29C6), (1,
       0x39C7), (1, 0x7A48), (1, 0xE2AA), (1, 0xFA69), (1, 0xFA89), (1, 0xFA49), (1, 0xF8C3), (1, 0xD800), (1, 0x5165), (1, 0x2A07), (3,
       0x39E7), (2, 0x3186), (1, 0x31A6), (6, 0x3186), (1, 0x2965), (1, 0x2104), (1, 0xD6BA), (3, 0xFFFF)],
      [(13, 0xFFFF), (1, 0xB576), (1, 0x2945), (1, 0x39C7), (1, 0x39E7), (1, 0x21C6), (1, 0xA188), (1, 0xF9EC), (2, 0xF9CC), (1,
       0xF9AB), (1, 0xF98B), (1, 0xF96A), (1, 0xF14A), (1, 0xD929), (1, 0xC908), (1, 0xC108), (1, 0xC908), (1, 0xC8C7), (1, 0xB866), (1,
       0xB908), (1, 0xBAED), (1, 0xE5B6), (1, 0xF6FB), (1, 0xE71A), (1, 0xFFDD), (1, 0xFF7C), (1, 0xFF3B), (2, 0xFF5C), (1, 0xFFBD), (1,
       0x62CA), (1, 0x2945), (1, 0xFFFF), (1, 0xFFBE), (1, 0xD638), (1, 0xFF7C), (3, 0xFF5C), (1, 0xFFBD), (1, 0xAC92), (1, 0xB595), (1,
       0x9148), (1, 0xA9EA), (1, 0xEA8C), (1, 0xFACD), (1, 0xFA8D), (2, 0xFAAC), (1, 0xFACC), (2, 0xFAEC), (1, 0xFB0D), (2, 0xFB2D), (1,
       0xFB4D), (1, 0xEAEB), (1, 0xF75B), (7, 0xFF5C), (1, 0xFF7C), (1, 0xFF3B), (1, 0xD658), (1, 0xD699), (1, 0xF77D), (1, 0xFFDE), (22,
       0xFFBD), (1, 0xFFFF), (1, 0x39E7), (2, 0x3186), (1, 0x31A6), (2, 0x39C7), (4, 0x39E7), (1, 0x4208), (1, 0x3A08), (1, 0x4208), (4,
       0x4228), (1, 0x4208), (1, 0x3A28), (1, 0x31E7), (1, 0x49E7), (1, 0x69C7), (1, 0x8A49), (1, 0x928A), (1, 0x92CB), (1, 0xAB0C), (1,
       0xAACB), (1, 0xC8C3), (1, 0xC841), (1, 0x68E3), (1, 0x29A6), (1, 0x3186), (1, 0x79C7), (1, 0xFAEB), (3, 0xFB2C), (2, 0xFAEB), (1,
       0xFACB), (4, 0xFAAA), (3, 0xFA8A), (1, 0xFA89), (2, 0xFA69), (1, 0xEA28), (1, 0xE208), (6, 0xFA49), (2, 0xFA28), (3, 0xFA69), (1,
       0x59C7), (3, 0x39C7), (1, 0x39A7), (1, 0x2945), (1, 0xB554), (1, 0xFF7C), (16, 0xFF5C), (1, 0xFF7C), (1, 0xEF1B), (1, 0xFFDE), (5,
       0xFFBD), (1, 0xF7BE), (1, 0xFB2C), (1, 0xFB6D), (1, 0xFB0C), (1, 0xFA69), (1, 0xFA08), (1, 0xF9A6), (1, 0xF925), (1, 0xF8C3), (1,
       0xF061), (1, 0xE041), (1, 0xB082), (1, 0x80C2), (1, 0x5104), (1, 0x3945), (1, 0x2185), (1, 0x21C6), (1, 0x31C7), (4, 0x39C7), (1,
       0x39A7), (1, 0x31A6), (2, 0x3186), (1, 0x2945), (1, 0x18E3), (1, 0x2124), (2, 0x3186), (1, 0x31A6), (1, 0x39C7), (1, 0x52AA), (1,
       0x7BAF), (1, 0x9CD3), (1, 0xC618), (1, 0xE73C), (1, 0xEF7D), (6, 0xFFFF), (2, 0xFFDF), (29, 0xFFFF), (1, 0xFFDF), (4, 0xFFFF), (1,
       0xEF7D), (1, 0xC618), (1, 0x52AA), (1, 0x2104), (1, 0x2924), (1, 0x31A6), (1, 0x2986), (1, 0x51C7), (1, 0xBAAA), (1, 0xFB2D), (1,
       0xFB0C), (1, 0xFACB), (1, 0xFA8A), (1, 0xF903), (1, 0xC840), (1, 0x4985), (1, 0x2A07), (1, 0x31E7), (3, 0x39E7), (1, 0x39C7), (1,
       0x3186), (3, 0x31A6), (5, 0x3186), (1, 0x2965), (1, 0x2104), (1, 0xD6BA), (3, 0xFFFF)],
      [(13, 0xFFFF), (1, 0x632C), (1, 0x31A6), (3, 0x39E7), (1, 0x31A6), (1, 0xF9AC), (1, 0xF9CB), (2, 0xF9AB), (1, 0xF96B), (4,
       0xF96A), (1, 0xF94A), (1, 0xE129), (1, 0xC909), (1, 0xC0E8), (1, 0xC108), (1, 0xC8C7), (1, 0xC066), (1, 0xB8C7), (1, 0xB148), (1,
       0xAACD), (1, 0xCD35), (1, 0xEEB9), (1, 0xF73B), (1, 0xFFBD), (1, 0xFFDD), (1, 0xFFBD), (1, 0x0040), (1, 0x39A6), (1, 0x18A2), (1,
       0xFF7C), (1, 0xFF9D), (1, 0xFFBD), (1, 0xF75B), (1, 0xD5D6), (1, 0xA2CD), (1, 0xDAAD), (1, 0xC1EB), (1, 0xEAAD), (1, 0xFB0E), (2,
       0xFACD), (1, 0xFAAD), (2, 0xFAAC), (1, 0xFACC), (2, 0xFAEC), (2, 0xFB0D), (1, 0xFB2D), (1, 0xF2AB), (1, 0xCE38), (1, 0xFF3B), (9,
       0xFF5C), (1, 0xFF9C), (1, 0xFF5C), (1, 0xD637), (1, 0xD699), (1, 0xFFDE), (21, 0xFFBD), (1, 0xFFFF), (1, 0x6B4D), (1, 0x2945), (2,
       0x3186), (1, 0x31A6), (2, 0x39C7), (4, 0x39E7), (1, 0x4208), (5, 0x4228), (4, 0x4208), (1, 0x31E7), (1, 0x31C7), (2, 0x31E7), (2,
       0x29C6), (2, 0x29E7), (1, 0x29C6), (2, 0x3186), (1, 0x3165), (1, 0xFACB), (1, 0xFB0C), (1, 0xFB2C), (1, 0xFB0C), (3, 0xFAEB), (1,
       0xFACB), (4, 0xFAAA), (2, 0xFA8A), (2, 0xFA69), (1, 0xD9E7), (1, 0xEA28), (7, 0xFA49), (1, 0xFA28), (1, 0xFA49), (3, 0xFA69), (1,
       0x39A6), (4, 0x31A6), (1, 0x2965), (1, 0xB533), (1, 0xFF7C), (16, 0xFF5C), (1, 0xFF7C), (1, 0xEF1B), (1, 0xFFDE), (5, 0xFFBD), (1,
       0xF7DE), (1, 0xF36D), (1, 0xFB4D), (1, 0xFACB), (1, 0xFA69), (1, 0xFA28), (2, 0xFA08), (1, 0xFA28), (1, 0xFA49), (1, 0xFA48), (1,
       0xFA49), (1, 0xFA48), (1, 0xFA28), (1, 0xF9C7), (1, 0xF165), (1, 0xC924), (1, 0x8165), (1, 0x49C7), (1, 0x39A6), (1, 0x29A7), (7,
       0x39C7), (1, 0x31C6), (1, 0x31A6), (3, 0x3186), (1, 0x2965), (1, 0x2945), (1, 0x2124), (1, 0x20E4), (1, 0x18E3), (1, 0x2945), (1,
       0x3186), (1, 0x39C7), (1, 0x4A69), (1, 0x73AE), (1, 0x9CF3), (1, 0xBDF7), (1, 0xE71C), (1, 0xEF5D), (1, 0xF79E), (26, 0xFFFF), (1,
       0xF7BE), (1, 0xEF7D), (1, 0xE71C), (1, 0xBDF7), (1, 0x8430), (1, 0x528A), (1, 0x31A6), (1, 0x2124), (1, 0x18E3), (1, 0x3186), (1,
       0x29A6), (1, 0x39C7), (1, 0x8A69), (1, 0xF34D), (1, 0xFB8E), (2, 0xFB6D), (1, 0xFB2C), (1, 0xFA49), (1, 0xA082), (1, 0x39A6), (1,
       0x2A07), (6, 0x39E7), (1, 0x39C7), (4, 0x31A6), (5, 0x3186), (1, 0x2965), (1, 0x2104), (1, 0xDEFB), (3, 0xFFFF)],
      [(13, 0xFFFF), (6, 0x39E7), (1, 0x51A7), (3, 0xF98B), (8, 0xF96A), (1, 0xF14A), (1, 0xE129), (1, 0xC909), (2, 0xC908), (1,
       0xC108), (1, 0xC8E8), (1, 0xC0A7), (1, 0xB8A7), (1, 0xB949), (1, 0xB9EB), (1, 0xBACE), (1, 0xC3D1), (1, 0xDD55), (1, 0x838E), (1,
       0xCD75), (1, 0xDD76), (1, 0xD4B3), (1, 0xBB50), (1, 0xBA8E), (1, 0xCA6E), (1, 0xFB91), (1, 0xEB0F), (1, 0xFB2F), (1, 0xFB0F), (1,
       0xFAEE), (2, 0xFACD), (1, 0xFAAD), (2, 0xFAAC), (1, 0xFACC), (3, 0xFAEC), (1, 0xFACC), (1, 0xF2EC), (1, 0xDE9A), (1, 0xFFFF), (1,
       0xE71B), (1, 0xF6FA), (1, 0xFF7C), (7, 0xFF5C), (1, 0xFF7C), (1, 0xF71B), (1, 0xDE78), (1, 0xCE17), (1, 0xBD95), (1, 0xEF5C), (1,
       0xFFDE), (20, 0xFFBD), (1, 0xB595), (1, 0x20E4), (2, 0x3186), (1, 0x3166), (1, 0x31A6), (3, 0x39C7), (3, 0x39E7), (5, 0x4228), (1,
       0x4208), (3, 0x39E7), (6, 0x39C7), (3, 0x31A6), (2, 0x3186), (1, 0x2986), (1, 0x6186), (1, 0xFB0B), (1, 0xFB2C), (2, 0xFB0C), (5,
       0xFAEB), (1, 0xFACB), (1, 0xFAAA), (1, 0xFA8A), (1, 0xFAAA), (1, 0xF249), (1, 0xC9E7), (1, 0xF248), (1, 0xF229), (1, 0xFA49), (3,
       0xFA69), (4, 0xFA49), (4, 0xFA69), (1, 0x1985), (4, 0x31A6), (1, 0x2145), (1, 0xCE17), (1, 0xFF7C), (16, 0xFF5C), (1, 0xFF7C), (1,
       0xEF3B), (1, 0xFFDE), (5, 0xFFBD), (1, 0xFFFE), (1, 0xCBCE), (1, 0xD38E), (1, 0xD2CA), (1, 0xD1E7), (1, 0xE208), (1, 0xE9E7), (1,
       0xF1E8), (1, 0xF9E8), (1, 0xFA08), (1, 0xFA28), (1, 0xFA69), (4, 0xFA8A), (2, 0xFACA), (1, 0xFAAA), (1, 0xF28A), (1, 0xCA08), (1,
       0x69A6), (2, 0x31A6), (1, 0x2986), (1, 0x2186), (1, 0x29A6), (1, 0x31C7), (1, 0x31E7), (3, 0x39E7), (2, 0x39C7), (1, 0x31A6), (5,
       0x3186), (1, 0x31A6), (1, 0x3186), (1, 0x2965), (1, 0x2945), (1, 0x2104), (1, 0x20E4), (1, 0x2925), (1, 0x3166), (1, 0x39A7), (1,
       0x39E7), (2, 0x4228), (1, 0x4A69), (2, 0x630C), (1, 0x7BCF), (1, 0x8C51), (2, 0x630C), (1, 0x5ACB), (2, 0x4228), (3, 0x4208), (1,
       0x4228), (3, 0x630C), (1, 0x4A69), (2, 0x4228), (2, 0x39E7), (1, 0x3186), (1, 0x2945), (2, 0x2104), (1, 0x2965), (1, 0x31A6), (1,
       0x39C7), (1, 0x31A7), (1, 0x2986), (1, 0x39C7), (1, 0xAB2C), (1, 0xFBCE), (1, 0xFB8E), (1, 0xFBAE), (1, 0xFBCF), (1, 0xFB2C), (1,
       0xE249), (1, 0x71C7), (1, 0x39C6), (1, 0x3207), (1, 0x39C7), (5, 0x39E7), (3, 0x39C7), (5, 0x31A6), (4, 0x3186), (1, 0x2945), (1,
       0x18A3), (1, 0xF79E), (3, 0xFFFF)],
      [(12, 0xFFFF), (1, 0xEF5D), (1, 0x39E7), (1, 0x4208), (5, 0x39E7), (1, 0x39A6), (1, 0xE169), (1, 0xF94A), (10, 0xF96A), (1,
       0xF8E8), (1, 0xF96A), (1, 0xF149), (1, 0xE92A), (1, 0xD929), (1, 0xC929), (2, 0xC129), (1, 0xC149), (1, 0xC14A), (1, 0xC16A), (1,
       0xC14A), (1, 0xC18B), (1, 0xB9AB), (1, 0xC1EC), (1, 0xCA4D), (1, 0xE2F0), (3, 0xFB71), (1, 0xF32F), (1, 0xFB30), (1, 0xFB0F), (1,
       0xFAEE), (2, 0xFACD), (1, 0xFA8D), (1, 0xFA8C), (1, 0xFAAC), (2, 0xFACC), (1, 0xFAEC), (1, 0xFACB), (1, 0xECB3), (1, 0xF7DF), (3,
       0xFFFF), (1, 0xEF7D), (1, 0xDE99), (1, 0xFF7C), (7, 0xFF5C), (1, 0xFF7C), (1, 0xFF9C), (1, 0xFF7C), (1, 0xFF9D), (1, 0xFF3B), (1,
       0xEF1B), (1, 0xF79D), (1, 0xFFDE), (17, 0xFFBD), (1, 0xF79D), (1, 0xE73B), (1, 0x2124), (5, 0x3186), (3, 0x31A6), (1, 0x31C6), (3,
       0x39E7), (4, 0x4208), (3, 0x39E7), (4, 0x39C7), (4, 0x31A6), (2, 0x3186), (1, 0x2165), (1, 0x6186), (1, 0xFACB), (1, 0xDA69), (1,
       0xFAEB), (2, 0xFB0C), (6, 0xFAEB), (2, 0xFACB), (1, 0xDA49), (1, 0xEA48), (1, 0xFA49), (1, 0xEA48), (1, 0xE228), (1, 0xDA07), (1,
       0xE228), (1, 0xEA48), (1, 0xF248), (2, 0xFA49), (1, 0xFA29), (1, 0xFA49), (3, 0xFA69), (1, 0xDA28), (1, 0x2186), (4, 0x31A6), (1,
       0x2124), (1, 0xF6FA), (1, 0xFF7C), (16, 0xFF5C), (1, 0xFF7C), (1, 0xEF1B), (1, 0xFFDE), (5, 0xFFBD), (1, 0xFFFF), (1, 0x4A69), (2,
       0x2165), (2, 0x2186), (1, 0x2185), (1, 0x2985), (1, 0x3186), (1, 0x39A6), (1, 0x49C7), (1, 0x51A6), (1, 0x71C6), (1, 0xA208), (1,
       0xD249), (1, 0xF269), (1, 0xFA8A), (1, 0xFAAA), (1, 0xFACA), (1, 0xFAAA), (1, 0xFA49), (1, 0xFAEB), (1, 0xFB0C), (1, 0xF34D), (1,
       0xEB6D), (1, 0xD32C), (1, 0xAA8A), (1, 0x8A28), (1, 0x61E7), (1, 0x49C6), (1, 0x41C7), (1, 0x39C6), (1, 0x31A6), (1, 0x29C6), (1,
       0x21E7), (2, 0x2A07), (1, 0x3207), (2, 0x31E7), (2, 0x39E7), (9, 0x39C7), (1, 0x39E7), (3, 0x39C7), (2, 0x31A6), (3, 0x39C7), (5,
       0x39E7), (1, 0x39C7), (3, 0x2986), (2, 0x29A6), (1, 0x2186), (1, 0x2165), (1, 0x1945), (1, 0x2145), (1, 0x2165), (1, 0x2965), (1,
       0x31A6), (1, 0x39C7), (1, 0x41C7), (1, 0x51E7), (1, 0x6A69), (1, 0xC3CF), (2, 0xFC71), (1, 0xFC30), (1, 0xFB8E), (1, 0xFA08), (1,
       0xD0E3), (1, 0x5185), (1, 0x31E7), (6, 0x39E7), (6, 0x39C7), (4, 0x31A6), (2, 0x3186), (1, 0x2945), (1, 0x20E4), (1, 0x3186), (1,
       0x4208), (1, 0xB5B6), (4, 0xFFFF)],
      [(12, 0xFFFF), (1, 0xCE79), (1, 0x31C6), (2, 0x4208), (4, 0x39E7), (1, 0x29A6), (1, 0xD32C), (1, 0xD1C8), (1, 0xF149), (1,
       0xF909), (7, 0xF96A), (1, 0xF94A), (1, 0xFDD8), (1, 0xF8E9), (2, 0xF96A), (1, 0xF96B), (1, 0xF98B), (1, 0xF9AB), (1, 0xF18B), (1,
       0xE98B), (1, 0xE9AB), (1, 0xD9EC), (1, 0xE22D), (1, 0xEA6E), (1, 0xF2CE), (1, 0xFB10), (2, 0xFB50), (1, 0xFB51), (1, 0xFB71), (1,
       0xE30F), (1, 0xDACD), (1, 0xDAAD), (1, 0xE2AD), (1, 0xFACE), (1, 0xFAAD), (1, 0xFA8D), (1, 0xFA6C), (1, 0xFA8C), (1, 0xFAAC), (1,
       0xF28B), (1, 0xE28B), (1, 0xBAAB), (8, 0xFFFF), (1, 0xDE99), (1, 0xFF5C), (1, 0xFF7C), (10, 0xFF5C), (1, 0xFF7C), (1, 0xFF3B), (1,
       0xDE99), (1, 0xF77D), (2, 0xFFDE), (15, 0xFFBD), (1, 0xFFFF), (1, 0x39A7), (8, 0x3186), (1, 0x3166), (1, 0x3186), (1, 0x39C7), (3,
       0x39E7), (1, 0x4208), (1, 0x3A07), (3, 0x39E7), (3, 0x39C7), (5, 0x31A6), (1, 0x2986), (1, 0x2165), (1, 0xBA28), (1, 0xFAEB), (2,
       0xFACB), (1, 0xDA89), (1, 0xEACB), (2, 0xFB0C), (6, 0xFAEB), (1, 0xE28A), (1, 0xFAAA), (8, 0xFA69), (2, 0xFA49), (1, 0xFA48), (1,
       0xF248), (1, 0xC1C7), (1, 0xDA07), (1, 0xFA89), (1, 0x89C7), (1, 0x29A6), (1, 0x3186), (1, 0x31A6), (1, 0x2965), (1, 0x2986), (1,
       0x1903), (1, 0xFFDD), (17, 0xFF5C), (1, 0xFF7C), (1, 0xE71B), (1, 0xFFDE), (5, 0xFFBD), (1, 0xFFFF), (1, 0x4A49), (6, 0x3186), (5,
       0x31A6), (1, 0x31C7), (2, 0x29A6), (1, 0x39A6), (1, 0x49C7), (1, 0x71C7), (1, 0xB9A6), (1, 0xF185), (1, 0xFA49), (1, 0xFB6D), (1,
       0xFBCF), (1, 0xFBCE), (1, 0xFB6D), (1, 0xFB0C), (1, 0xFAAA), (1, 0xFA89), (1, 0xFA8A), (1, 0xFA69), (1, 0xFA28), (1, 0xF208), (1,
       0xE1E7), (1, 0xD945), (1, 0xB0E3), (1, 0xA0A2), (1, 0x80E3), (1, 0x6903), (1, 0x5924), (1, 0x4185), (1, 0x41A6), (2, 0x39C6), (1,
       0x39C7), (4, 0x31E7), (8, 0x31C7), (1, 0x31A6), (2, 0x39C7), (3, 0x39A6), (3, 0x41A6), (2, 0x5965), (1, 0x7986), (1, 0x8186), (1,
       0x99C6), (1, 0xAA89), (1, 0xCB2C), (1, 0xDB6D), (1, 0xE3AF), (1, 0xEBEF), (1, 0xF471), (1, 0xFC92), (1, 0xFC71), (1, 0xFC92), (1,
       0xFCB2), (1, 0xFD34), (1, 0xFD13), (1, 0xFC71), (1, 0xFAAA), (1, 0xF882), (1, 0xD820), (1, 0x4945), (1, 0x29E7), (1, 0x39C7), (5,
       0x39E7), (7, 0x39C7), (4, 0x31A6), (2, 0x3186), (1, 0x2104), (1, 0x7BEF), (1, 0xE71C), (7, 0xFFFF)],
      [(12, 0xFFFF), (1, 0x9CF3), (1, 0x39E7), (2, 0x4208), (5, 0x39E7), (1, 0x7A28), (1, 0xFA8A), (1, 0xF3AE), (1, 0xEC11), (1,
       0xF1AA), (1, 0xF909), (1, 0xF929), (4, 0xF96A), (1, 0xF909), (1, 0xFBB2), (1, 0xF929), (2, 0xF96A), (1, 0xF96B), (1, 0xF98B), (1,
       0xF9AB), (1, 0xF9AC), (1, 0xF9CC), (1, 0xFA0C), (1, 0xFA4D), (1, 0xFA8E), (1, 0xFAAF), (1, 0xFACF), (1, 0xFAEF), (1, 0xFB30), (1,
       0xFB50), (1, 0xFB51), (2, 0xF350), (1, 0xFB51), (1, 0xFB2F), (1, 0xFB0F), (1, 0xF2CD), (1, 0xFA8C), (1, 0xFA4B), (1, 0xFA0B), (1,
       0xFA0A), (1, 0xFA4B), (2, 0xFACC), (1, 0xEA4A), (1, 0xCDB6), (8, 0xFFFF), (1, 0xEF7D), (1, 0xF73B), (1, 0xFF7C), (11, 0xFF5C), (1,
       0xFF9C), (1, 0xF71B), (1, 0xD658), (1, 0xE71B), (1, 0xFFBE), (1, 0xFFDE), (6, 0xFFBD), (1, 0xFFBE), (5, 0xFFDE), (2, 0xFFBD), (1,
       0x7BEF), (1, 0x18C3), (1, 0x2945), (7, 0x2965), (1, 0x3186), (1, 0x3166), (1, 0x3186), (4, 0x31A6), (5, 0x39C7), (5, 0x31A6), (1,
       0x2165), (1, 0x5186), (1, 0xF269), (4, 0xFACB), (1, 0xFAEB), (1, 0xE2CB), (1, 0xDAAA), (4, 0xFB0C), (2, 0xFAEB), (1, 0xEA8A), (1,
       0xFAAA), (2, 0xFA8A), (6, 0xFA69), (1, 0xFA8A), (1, 0xFA69), (1, 0xFA8A), (1, 0xFA89), (1, 0xEA28), (2, 0xFA69), (1, 0xFA49), (1,
       0x5186), (1, 0x31A6), (1, 0x3186), (1, 0x2965), (1, 0x9471), (1, 0x7BAE), (1, 0x5AAA), (1, 0xFFBD), (17, 0xFF5C), (1, 0xFF5B), (1,
       0xEF7C), (1, 0xFFBE), (5, 0xFFBD), (1, 0xFFFF), (1, 0x4228), (11, 0x3186), (1, 0x31A6), (2, 0x39C7), (1, 0x31A6), (1, 0x39A6), (1,
       0x39C7), (1, 0x29C7), (1, 0x29A6), (1, 0x4945), (1, 0x8945), (1, 0xE186), (1, 0xFA49), (2, 0xFAEB), (1, 0xFAAA), (1, 0xFA89), (1,
       0xFAAB), (1, 0xFAAA), (1, 0xFA49), (2, 0xFA69), (1, 0xFA49), (2, 0xFA69), (1, 0xFA28), (1, 0xF9C7), (1, 0xF985), (1, 0xF904), (1,
       0xF820), (3, 0xF800), (2, 0xF000), (2, 0xE841), (1, 0xE882), (1, 0xE8C3), (1, 0xE924), (3, 0xE965), (2, 0xE985), (1, 0xF124), (1,
       0xF965), (1, 0xF986), (1, 0xF965), (2, 0xF985), (2, 0xF9A6), (1, 0xF9C7), (1, 0xF9E7), (2, 0xF9C7), (1, 0xFA07), (1, 0xFA69), (1,
       0xFBEF), (2, 0xFC10), (1, 0xFC51), (4, 0xFC71), (1, 0xFC51), (1, 0xFB4D), (1, 0xF986), (1, 0xF841), (1, 0xF800), (1, 0xE000), (1,
       0x6165), (1, 0x29E7), (1, 0x39A7), (3, 0x39C7), (3, 0x39E7), (5, 0x39C7), (1, 0x39A7), (3, 0x31A6), (3, 0x3186), (1, 0x3166), (1,
       0x2104), (1, 0xCE79), (1, 0xFFFF), (1, 0xFFDF), (7, 0xFFFF)],
      [(12, 0xFFFF), (1, 0x73AE), (1, 0x3A07), (1, 0x4228), (1, 0x4208), (5, 0x39E7), (1, 0x39E8), (1, 0xF32C), (1, 0xFA89), (1,
       0xFC30), (1, 0xFDF7), (1, 0xF5B7), (1, 0xEACD), (1, 0xF16A), (1, 0xF929), (1, 0xF96A), (1, 0xF929), (1, 0xFC33), (1, 0xFA4D), (5,
       0xF96A), (1, 0xF98B), (1, 0xF9AB), (1, 0xF9CC), (1, 0xFA0D), (1, 0xFA4D), (1, 0xFA6E), (1, 0xFAAE), (1, 0xFACF), (1, 0xFAEF), (1,
       0xFB10), (1, 0xFB50), (1, 0xFB51), (1, 0xEB30), (1, 0xFB71), (1, 0xFB30), (1, 0xFB0F), (1, 0xFAAE), (1, 0xFAAD), (1, 0xEB8F), (1,
       0xED76), (1, 0xEE7A), (1, 0xEE59), (1, 0xED14), (1, 0xEACC), (1, 0xFA4A), (1, 0xFB0C), (1, 0xD2EC), (9, 0xFFFF), (1, 0xFFDF), (1,
       0xF71B), (1, 0xFF7C), (12, 0xFF5C), (1, 0xFF9D), (1, 0xF71B), (1, 0xE6BA), (1, 0xE6FA), (1, 0xF79D), (2, 0xF7BD), (1, 0xF79D), (1,
       0xEF7C), (1, 0xF7BD), (1, 0xEF5C), (1, 0xE6FB), (1, 0xE73C), (1, 0xEF3C), (1, 0xE71B), (1, 0xDEFB), (1, 0xE73C), (2, 0xF79E), (1,
       0xA534), (1, 0x73AE), (1, 0x528A), (1, 0x4A49), (1, 0x528A), (1, 0x4A69), (1, 0x528A), (1, 0x52AA), (1, 0x5269), (1, 0x31C7), (1,
       0x3186), (1, 0x2965), (1, 0x2165), (1, 0x2966), (1, 0x3186), (2, 0x3166), (1, 0x3186), (7, 0x31A6), (1, 0x2165), (1, 0xAA28), (1,
       0xFAAA), (1, 0xFACA), (2, 0xFAEB), (2, 0xFACB), (2, 0xFAEB), (1, 0xFAEC), (1, 0xD28A), (2, 0xFB0C), (2, 0xFACB), (1, 0xF28A), (1,
       0xEA69), (1, 0xFAAA), (3, 0xFA8A), (1, 0xFA6A), (1, 0xFA69), (1, 0xFA8A), (1, 0xFA69), (1, 0xFA8A), (2, 0xFAAA), (2, 0xFA8A), (1,
       0xFA49), (2, 0xFA69), (1, 0xFA48), (1, 0x2165), (1, 0x31A6), (1, 0x2985), (1, 0x5269), (1, 0xFFFE), (1, 0xFFBD), (1, 0xFF9D), (18,
       0xFF5C), (1, 0xFF3B), (1, 0xF79D), (6, 0xFFBD), (1, 0xFFDE), (1, 0x39C7), (14, 0x3186), (3, 0x31A6), (2, 0x39C7), (1, 0x39A7), (1,
       0x31E7), (1, 0x29C7), (1, 0x3986), (1, 0x5124), (1, 0x6104), (1, 0x88E3), (1, 0xB8A2), (1, 0xD882), (1, 0xF8E3), (1, 0xF945), (1,
       0xF9E7), (1, 0xFA48), (1, 0xFA28), (1, 0xFA49), (1, 0xFA69), (1, 0xFA49), (1, 0xFA69), (1, 0xFB0C), (1, 0xFB8E), (1, 0xFC51), (1,
       0xFCD3), (1, 0xFD34), (1, 0xFD75), (1, 0xFD55), (1, 0xFC71), (1, 0xFBAE), (1, 0xFB4D), (1, 0xFAAA), (2, 0xFA89), (1, 0xFA69), (1,
       0xF9C7), (1, 0xF9A6), (3, 0xF965), (3, 0xF986), (2, 0xF9A6), (2, 0xF9C7), (1, 0xF9A6), (1, 0xF9C6), (1, 0xF9A6), (1, 0xF965), (1,
       0xF904), (1, 0xF8A2), (1, 0xF861), (1, 0xF945), (1, 0xF986), (1, 0xF924), (1, 0xF882), (1, 0xF820), (1, 0xE800), (1, 0xD041), (1,
       0xB020), (1, 0xA861), (1, 0x88E3), (1, 0x6165), (1, 0x5186), (1, 0x29C7), (13, 0x39C7), (5, 0x31A6), (3, 0x3186), (1, 0x2965), (1,
       0x2945), (1, 0xB596), (9, 0xFFFF)],
      [(12, 0xFFFF), (1, 0x528A), (1, 0x4208), (2, 0x4228), (1, 0x39E7), (1, 0x29C6), (1, 0x31E7), (2, 0x39E7), (1, 0x4208), (1,
       0x4A08), (1, 0xE3AE), (1, 0xFBEF), (3, 0xFC71), (1, 0xFD13), (1, 0xB34D), (1, 0x9127), (1, 0xF129), (1, 0xFB51), (1, 0xF9EC), (6,
       0xF96A), (1, 0xF98B), (1, 0xF9CC), (1, 0xF9EC), (1, 0xFA4D), (1, 0xFA6E), (1, 0xFA8E), (1, 0xFACF), (1, 0xFAEF), (1, 0xFB10), (2,
       0xEB0F), (1, 0xFB92), (1, 0xFB51), (1, 0xFAEF), (1, 0xE30F), (1, 0xD576), (1, 0xF7DF), (6, 0xFFFF), (1, 0xEEDB), (1, 0xE32D), (1,
       0xFA8B), (1, 0xF77D), (10, 0xFFFF), (1, 0xEF1B), (1, 0xFF7C), (13, 0xFF5C), (2, 0xFF7C), (1, 0xF71B), (2, 0xFF3B), (1, 0xF71B),
       (1, 0xD6BA), (1, 0xE73C), (18, 0xFFFF), (1, 0xF451), (1, 0xFA69), (1, 0xEA48), (1, 0xDA28), (1, 0x81C7), (1, 0x2165), (1, 0x2986),
       (4, 0x3186), (3, 0x31A6), (1, 0x3186), (1, 0x2966), (1, 0x81C7), (1, 0xFAAA), (1, 0xFACA), (9, 0xFAEB), (1, 0xE28A), (2, 0xFACB),
       (1, 0xFAAA), (2, 0xEA69), (1, 0xE249), (1, 0xFAAA), (7, 0xFA8A), (1, 0xFAAA), (1, 0xFACB), (1, 0xFA8A), (1, 0xEA69), (1, 0x39A6),
       (1, 0x91E7), (1, 0xF249), (1, 0xB1E7), (1, 0x29C6), (1, 0x3186), (1, 0x2965), (1, 0xB554), (1, 0xFF7C), (20, 0xFF5C), (1, 0xFF3B),
       (1, 0xF79D), (6, 0xFFBD), (1, 0xF79D), (1, 0x2124), (17, 0x3186), (3, 0x31A6), (5, 0x39C7), (1, 0x31E7), (1, 0x2A07), (1, 0x2A08),
       (1, 0x29E7), (1, 0x39A6), (1, 0x4185), (1, 0x4965), (1, 0x59A6), (1, 0x61A6), (1, 0x79C7), (1, 0x89E7), (1, 0xA207), (1, 0xB269),
       (1, 0xCAEB), (1, 0xCB4D), (1, 0xE471), (1, 0xED55), (1, 0xFE38), (1, 0xFE79), (1, 0xFD76), (1, 0xFC10), (1, 0xFB4D), (1, 0xFACA),
       (1, 0xFA69), (2, 0xFA49), (1, 0xF9E7), (2, 0xF9C7), (1, 0xF8A2), (1, 0xF861), (4, 0xF841), (1, 0xF041), (1, 0xE820), (1, 0xE082),
       (1, 0xE0C3), (1, 0xC041), (1, 0xC082), (1, 0xA082), (1, 0x88C3), (1, 0x78E3), (1, 0x6125), (1, 0x5945), (1, 0x5165), (1, 0x4986),
       (1, 0x39A6), (1, 0x31A7), (1, 0x21C7), (1, 0x29E7), (1, 0x31E7), (2, 0x31C7), (2, 0x39A7), (4, 0x39C7), (1, 0x39A7), (1, 0x3186),
       (6, 0x31A6), (1, 0x39A7), (2, 0x31A6), (6, 0x3186), (1, 0x2965), (2, 0x3186), (1, 0x2945), (1, 0xBDD7), (8, 0xFFFF)]]"

definition GIRL_COLORS_7 :: "runs list" where
  "GIRL_COLORS_7 =
     [[(12, 0xFFFF), (1, 0x4A69), (3, 0x4228), (1, 0x5A28), (1, 0xEA69), (1, 0x39A6), (1, 0x31E7), (1, 0x39E7), (2, 0x4208), (1,
       0x31C7), (1, 0x5228), (2, 0x6269), (1, 0x4A28), (1, 0x31A6), (1, 0x2125), (1, 0x2986), (1, 0x2165), (1, 0x4966), (1, 0x9947), (1,
       0xF94A), (5, 0xF96A), (1, 0xF94A), (1, 0xF98B), (1, 0xF9AB), (1, 0xFA0C), (1, 0xFA6E), (1, 0xFAAE), (1, 0xFACF), (1, 0xF2CF), (1,
       0xDACE), (1, 0xF30F), (1, 0xFB30), (1, 0xEACE), (1, 0xCC12), (1, 0xE6DB), (11, 0xFFFF), (1, 0xEA8A), (1, 0xF6FB), (11, 0xFFFF),
       (1, 0xEF3C), (1, 0xFF5B), (1, 0xFF7C), (16, 0xFF5C), (1, 0xF73B), (1, 0xFFDE), (1, 0xDEDB), (17, 0xFFFF), (1, 0xF75D), (1,
       0xFA08), (2, 0xFA69), (1, 0xFAAA), (1, 0xFB0C), (1, 0xEAEB), (1, 0x3965), (1, 0x2165), (7, 0x3186), (1, 0x2966), (1, 0xB228), (1,
       0xFAAA), (9, 0xFAEB), (1, 0xFACB), (1, 0xFACA), (1, 0xF289), (1, 0xF28A), (1, 0xFA8A), (1, 0xEA69), (1, 0xFA8A), (1, 0xF269), (1,
       0xE269), (1, 0xFAAA), (3, 0xFA8A), (3, 0xFAAA), (3, 0xFACB), (1, 0x8A08), (1, 0x39E7), (1, 0x31E7), (1, 0x21C7), (1, 0x31C7), (1,
       0x39E7), (1, 0x31C6), (1, 0x2966), (1, 0xFF9D), (21, 0xFF5C), (1, 0xF73B), (1, 0xF7BD), (5, 0xFFBD), (1, 0xFFDE), (1, 0xC638), (1,
       0x2104), (23, 0x3186), (2, 0x31A6), (1, 0x39A7), (1, 0x39C7), (3, 0x39E7), (2, 0x39C7), (3, 0x39E7), (2, 0x31E7), (1, 0x31C7), (2,
       0x29C6), (1, 0x29A6), (1, 0x2185), (1, 0x2145), (1, 0x2985), (1, 0x29C6), (2, 0x31C6), (1, 0x3A28), (4, 0x39E8), (3, 0x3A08), (1,
       0x3A28), (1, 0x31C7), (1, 0x2A28), (1, 0x2A29), (3, 0x21E7), (1, 0x29E7), (1, 0x29C7), (1, 0x2A07), (1, 0x29E7), (2, 0x31C7), (2,
       0x39C7), (3, 0x39A7), (10, 0x39C7), (1, 0x39A7), (1, 0x31A6), (1, 0x3186), (1, 0x3166), (3, 0x3186), (5, 0x3166), (8, 0x3186), (1,
       0x2965), (3, 0x3186), (1, 0x2104), (1, 0x39A7), (1, 0x738E), (1, 0xCE59), (5, 0xFFFF)],
      [(12, 0xFFFF), (1, 0x4248), (2, 0x4228), (1, 0x31E7), (1, 0xD410), (1, 0xFB0C), (1, 0xFAEB), (1, 0x49E7), (1, 0x31C7), (1,
       0x39E7), (6, 0x4208), (1, 0x39E7), (4, 0x3186), (1, 0x2986), (1, 0x2165), (1, 0x5166), (1, 0xB128), (2, 0xF94A), (1, 0xF96A), (1,
       0xF96B), (1, 0xF98B), (2, 0xF9CC), (1, 0xF22C), (1, 0xC9EB), (1, 0xE24C), (1, 0xF28D), (1, 0xFACF), (1, 0xFB0F), (1, 0xE28E), (1,
       0xB9EB), (1, 0xC493), (12, 0xFFFF), (1, 0xED96), (1, 0xF69A), (12, 0xFFFF), (1, 0xEF7D), (1, 0xFF3B), (1, 0xFF7C), (14, 0xFF5C),
       (1, 0xFF7C), (1, 0xEF3B), (1, 0xF7BD), (1, 0xF79D), (1, 0xEF5D), (16, 0xFFFF), (1, 0xEBEF), (2, 0xFA69), (1, 0xFAAA), (1, 0xFAEB),
       (1, 0xFB2C), (1, 0xFB4D), (1, 0xFB6D), (1, 0x9A49), (1, 0x2145), (1, 0x2965), (5, 0x3186), (1, 0x2966), (1, 0x9A08), (1, 0xFAEB),
       (1, 0xFB0C), (8, 0xFAEB), (3, 0xFAAA), (1, 0xFA8A), (1, 0xEA49), (1, 0xEA48), (2, 0xFA8A), (1, 0xFAAA), (1, 0xEA69), (3, 0xFAAA),
       (1, 0xFACA), (2, 0xFACB), (1, 0xFAEB), (1, 0xFACB), (1, 0xFAEB), (1, 0x41E7), (1, 0x39E7), (1, 0x39C7), (1, 0x31A6), (1, 0x31C6),
       (1, 0x39E7), (1, 0x31C6), (1, 0x62EB), (1, 0xFFFE), (1, 0xFFBD), (1, 0xFF7C), (18, 0xFF5C), (1, 0xFF7C), (1, 0xEEFA), (1, 0xFFDE),
       (5, 0xFFBD), (1, 0xFFFF), (1, 0x738E), (25, 0x3186), (2, 0x3166), (2, 0x3186), (1, 0x39C7), (18, 0x39E7), (17, 0x39C7), (2,
       0x39E7), (14, 0x39C7), (1, 0x31A6), (2, 0x3186), (1, 0x3166), (19, 0x3186), (4, 0x2965), (3, 0x3186), (1, 0x18C3), (1, 0xEF5D),
       (4, 0xFFFF)],
      [(12, 0xFFFF), (1, 0x4A69), (2, 0x4228), (1, 0x4A48), (1, 0xFCF4), (1, 0xFE18), (1, 0xFB2C), (1, 0xFBAE), (1, 0x39C7), (7,
       0x4208), (1, 0x39E7), (7, 0x3186), (1, 0x1944), (1, 0x18E3), (1, 0x7967), (1, 0xF129), (1, 0xF909), (1, 0xF98B), (1, 0xF9EC), (1,
       0xFA0C), (1, 0x9928), (1, 0xFA4D), (1, 0xFA4E), (1, 0xFA8E), (1, 0xFAAE), (2, 0xFACF), (1, 0xDA0C), (1, 0xB22B), (12, 0xFFFF), (1,
       0xEE9A), (1, 0xFF3C), (13, 0xFFFF), (1, 0xF7DF), (1, 0xF71B), (1, 0xFF7C), (12, 0xFF5C), (1, 0xFF7C), (1, 0xF73B), (1, 0xEF5C),
       (1, 0xFFBE), (1, 0xFFDE), (1, 0xE6FB), (16, 0xFFFF), (1, 0xFAEB), (1, 0xFA69), (1, 0xFA8A), (1, 0xFACA), (1, 0xFAEB), (3, 0xFB4D),
       (1, 0xFB6D), (1, 0xFB0C), (1, 0x7A08), (1, 0x2165), (1, 0x2966), (3, 0x3186), (1, 0x2986), (1, 0x61A6), (3, 0xFB0C), (1, 0xFAEB),
       (3, 0xFACB), (5, 0xFAAA), (3, 0xFA8A), (1, 0xDA08), (1, 0xC1E7), (1, 0xFA8A), (1, 0xE249), (1, 0xEA69), (1, 0xFA8A), (1, 0xFAAA),
       (4, 0xFACB), (2, 0xFAEB), (1, 0xEAAA), (1, 0x29C6), (3, 0x39E7), (1, 0x31C6), (1, 0x3186), (1, 0x31A6), (1, 0x3186), (1, 0x5AAA),
       (1, 0x83CE), (1, 0xE699), (1, 0xFF7C), (17, 0xFF5C), (1, 0xFF7C), (1, 0xE71B), (1, 0xFFDE), (5, 0xFFBD), (1, 0xFFFF), (1, 0x39E7),
       (29, 0x3186), (1, 0x3166), (3, 0x3186), (2, 0x31A6), (1, 0x31C6), (1, 0x39C7), (4, 0x39E7), (17, 0x39C7), (2, 0x31A6), (2,
       0x3186), (3, 0x31A6), (13, 0x39C7), (1, 0x31A6), (2, 0x3186), (1, 0x3166), (22, 0x3186), (1, 0x2965), (3, 0x3186), (3, 0x2965),
       (1, 0x20E4), (1, 0xEF7D), (4, 0xFFFF)],
      [(12, 0xFFFF), (1, 0x7BEF), (1, 0x39E7), (2, 0x4228), (1, 0x5A69), (1, 0x5AAA), (1, 0x4207), (1, 0x31C7), (1, 0x4228), (2,
       0x4208), (1, 0x39E7), (3, 0x4208), (1, 0x3A07), (1, 0x31C6), (1, 0x3166), (2, 0x3186), (1, 0x2945), (2, 0x2124), (1, 0x2945), (1,
       0x8C51), (1, 0xD6BA), (1, 0xFFFF), (1, 0xF7FF), (1, 0xDCD4), (1, 0xF14A), (1, 0xF9AB), (1, 0xFA2D), (1, 0xF1EC), (1, 0xB472), (1,
       0xD370), (1, 0xF9EC), (4, 0xFA6D), (1, 0xB908), (12, 0xFFFF), (1, 0xDDD7), (16, 0xFFFF), (1, 0xEF1B), (1, 0xFF7C), (10, 0xFF5C),
       (1, 0xFF7C), (1, 0xFF1B), (1, 0xDEDA), (3, 0xFFBD), (1, 0xF79D), (1, 0xEF5D), (15, 0xFFFF), (1, 0xFA48), (1, 0xFA69), (1, 0xFA8A),
       (1, 0xFACB), (1, 0xFAEB), (1, 0xFB2C), (3, 0xFB4D), (1, 0xFB2C), (1, 0xFB4C), (1, 0xFB0C), (1, 0x79E7), (3, 0x2165), (1, 0x3965),
       (1, 0xAA07), (1, 0xFB4D), (1, 0xFB0C), (1, 0xFAEB), (3, 0xFACB), (6, 0xFAAA), (5, 0xFA8A), (1, 0xF269), (3, 0xFA8A), (1, 0xFAAA),
       (4, 0xFACB), (2, 0xFB0C), (1, 0x8A48), (1, 0x31E7), (5, 0x39E7), (1, 0x39C7), (1, 0x3186), (2, 0x2965), (1, 0xACF3), (1, 0xFF7C),
       (17, 0xFF5C), (1, 0xF71B), (1, 0xF79D), (5, 0xFFBD), (1, 0xFFDE), (1, 0xD6BA), (1, 0x2104), (35, 0x3186), (3, 0x3166), (19,
       0x3186), (2, 0x3166), (3, 0x3186), (6, 0x31A6), (7, 0x39C7), (1, 0x31A6), (2, 0x3186), (1, 0x3166), (24, 0x3186), (2, 0x3166), (3,
       0x3186), (1, 0x2965), (1, 0x2124), (1, 0x2104), (1, 0x10A2), (5, 0xFFFF)],
      [(12, 0xFFFF), (1, 0xD6BA), (1, 0x2965), (1, 0x4208), (7, 0x4228), (1, 0x4208), (4, 0x39C7), (1, 0x3186), (1, 0x2925), (1,
       0x2104), (2, 0x2124), (1, 0x5ACB), (1, 0xA514), (1, 0xDEFB), (6, 0xFFFF), (1, 0xF7FF), (1, 0xE453), (1, 0xF9EC), (1, 0xFAAF), (1,
       0xBA6D), (1, 0xFFFF), (1, 0xD576), (1, 0xF9CC), (3, 0xFA6D), (1, 0xD969), (1, 0xE6BB), (10, 0xFFFF), (1, 0xE71C), (18, 0xFFFF),
       (1, 0xEF1B), (1, 0xFF7C), (8, 0xFF5C), (1, 0xFF7C), (1, 0xF6FA), (1, 0xD699), (1, 0xF77C), (1, 0xFFBE), (2, 0xFFBD), (1, 0xFFDE),
       (1, 0xE6FB), (15, 0xFFFF), (1, 0xFA08), (2, 0xFA69), (1, 0xFAAA), (1, 0xFAEB), (1, 0xFB0C), (1, 0xFB2D), (1, 0xFB4D), (3, 0xFB2C),
       (1, 0xFB0C), (1, 0xFACB), (1, 0xE249), (1, 0xD228), (1, 0xF269), (2, 0xFACB), (1, 0xF30B), (1, 0xFB0C), (3, 0xFACB), (7, 0xFAAA),
       (4, 0xFA8A), (1, 0xFA69), (3, 0xFA8A), (4, 0xFAAA), (2, 0xFACB), (2, 0xFB0C), (1, 0x5A07), (9, 0x39E7), (1, 0x2966), (1, 0xD617),
       (1, 0xFF7C), (16, 0xFF5C), (1, 0xFF7C), (1, 0xDE99), (1, 0xF7BD), (5, 0xFFBD), (1, 0xFFFF), (1, 0x52AA), (69, 0x3186), (2,
       0x2965), (1, 0x2945), (4, 0x2124), (2, 0x2925), (6, 0x2945), (1, 0x2925), (3, 0x2124), (2, 0x2925), (1, 0x2124), (1, 0x2104), (1,
       0x2124), (1, 0x2945), (1, 0x2965), (1, 0x3166), (8, 0x3186), (1, 0x2965), (1, 0x3166), (1, 0x2945), (1, 0x2104), (1, 0x2124), (1,
       0x39C7), (1, 0x9CD3), (1, 0xCE79), (1, 0xF7BE), (5, 0xFFFF)],
      [(13, 0xFFFF), (1, 0xCE59), (1, 0x528A), (1, 0x31C6), (2, 0x39C7), (4, 0x31C6), (1, 0x39C7), (1, 0x3186), (1, 0x2965), (1,
       0x2124), (1, 0x2945), (1, 0x52AA), (1, 0x8430), (1, 0xBDF7), (1, 0xE71C), (12, 0xFFFF), (1, 0xEEDB), (1, 0xF2EF), (1, 0xF2AF), (1,
       0xDE9A), (1, 0xFFFF), (1, 0xE432), (1, 0xFA6D), (1, 0xFA4D), (1, 0xFAAE), (1, 0xE9EB), (1, 0xE67A), (30, 0xFFFF), (1, 0xEF1B), (1,
       0xFF7C), (5, 0xFF5C), (2, 0xFF7C), (1, 0xD658), (1, 0xD6B9), (1, 0xEF5C), (1, 0xFFDE), (5, 0xFFBD), (1, 0xE71C), (14, 0xFFFF), (1,
       0xEA07), (2, 0xFA28), (1, 0xFA48), (1, 0xF249), (1, 0xF32C), (1, 0xF36D), (1, 0xF38E), (1, 0xEB0C), (1, 0xFAEB), (2, 0xFB0C), (1,
       0xF2AA), (2, 0xFA8A), (1, 0xFACA), (1, 0xFACB), (1, 0xFB0C), (1, 0xEAEB), (1, 0xFB0B), (3, 0xFACB), (7, 0xFAAA), (4, 0xFA8A), (3,
       0xFA69), (1, 0xFAAA), (1, 0xCA28), (1, 0xF289), (3, 0xFAAA), (1, 0xFACB), (1, 0xFB0C), (1, 0xFACB), (1, 0x41A7), (1, 0x39C7), (8,
       0x39E7), (1, 0x2986), (1, 0xCDF7), (1, 0xFF7C), (11, 0xFF5C), (3, 0xFF7C), (2, 0xFF5C), (1, 0xFF3B), (1, 0xD679), (1, 0xFFDE), (4,
       0xFFBD), (1, 0xFFDE), (1, 0xD6BA), (1, 0x2124), (8, 0x3186), (1, 0x3166), (1, 0x2945), (1, 0x2925), (4, 0x2124), (3, 0x2925), (3,
       0x2124), (1, 0x2945), (41, 0x3186), (1, 0x2965), (1, 0x2945), (4, 0x2124), (1, 0x39E7), (1, 0x630C), (1, 0x8430), (1, 0xAD55), (1,
       0xC618), (1, 0xCE79), (1, 0xDEFB), (1, 0xF79E), (1, 0xF7BE), (1, 0xFFDF), (4, 0xFFFF), (1, 0xFFDF), (1, 0xF7BE), (1, 0xA514), (1,
       0xBDD7), (1, 0xEF5D), (1, 0xF77E), (1, 0xEF7D), (1, 0xD69A), (1, 0xC618), (1, 0xB576), (1, 0x73AE), (1, 0x39C7), (1, 0x3186), (4,
       0x2124), (1, 0x2925), (1, 0x2104), (1, 0x18E3), (1, 0x2104), (1, 0x2124), (1, 0x39C7), (1, 0x8410), (1, 0xB5B6), (1, 0xEF7D), (9,
       0xFFFF)],
      [(15, 0xFFFF), (1, 0xFFDF), (1, 0xDEDB), (1, 0xCE79), (4, 0xC638), (1, 0xCE59), (1, 0xD6BA), (1, 0xE73C), (19, 0xFFFF), (1,
       0xF7FF), (1, 0xEBB1), (1, 0xCC33), (2, 0xFFFF), (1, 0xFA0C), (1, 0xFFDF), (1, 0xFAAE), (1, 0xF28D), (1, 0xE69A), (31, 0xFFFF), (1,
       0xE6DA), (2, 0xFF5C), (1, 0xFF7C), (2, 0xFF5C), (1, 0xEF1B), (1, 0xE71B), (1, 0xFFDE), (1, 0xFFBE), (7, 0xFFBD), (1, 0xDEDA), (1,
       0xFFDF), (13, 0xFFFF), (1, 0xF7FF), (1, 0xE77D), (1, 0xEFFF), (1, 0xF7FF), (5, 0xFFFF), (1, 0xCC30), (2, 0xFAEB), (1, 0xF289), (1,
       0xFA8A), (1, 0xFAAA), (1, 0xFACB), (1, 0xFAEB), (1, 0xFB0C), (1, 0xEACB), (1, 0xFB0C), (3, 0xFACB), (6, 0xFAAA), (5, 0xFA8A), (1,
       0xFA89), (1, 0xFA69), (1, 0xFA8A), (2, 0xFAAA), (1, 0xDA48), (1, 0xF289), (2, 0xFAAA), (1, 0xFAEB), (1, 0xFAAA), (1, 0xF249), (1,
       0x21A6), (1, 0x31A7), (2, 0x39C7), (6, 0x39E7), (1, 0x2966), (1, 0xD637), (7, 0xFF7C), (4, 0xFF5C), (1, 0xFF3B), (1, 0xEEFA), (1,
       0xEEFB), (1, 0xEF1B), (1, 0xDEDA), (1, 0xDEFA), (1, 0xEF5C), (1, 0xFFDE), (3, 0xFFBD), (2, 0xFFDE), (1, 0xFFFF), (1, 0x39C7), (4,
       0x3186), (1, 0x3166), (1, 0x2945), (3, 0x2124), (1, 0x31A6), (1, 0x6B6D), (1, 0x94B2), (1, 0xBDD7), (1, 0xD69A), (1, 0xE73C), (1,
       0xF7BE), (3, 0xFFFF), (1, 0xF7BE), (1, 0xE73C), (1, 0xC638), (1, 0x7BEF), (1, 0x2945), (1, 0x2124), (1, 0x2945), (31, 0x3186), (1,
       0x2965), (2, 0x2945), (3, 0x2124), (1, 0x2945), (1, 0x52AA), (1, 0x8430), (1, 0xB596), (1, 0xCE99), (1, 0xEF7D), (29, 0xFFFF), (1,
       0xF79E), (2, 0xEF7D), (1, 0xF79E), (1, 0xCE59), (1, 0xD69A), (1, 0xF7BE), (14, 0xFFFF)],
      [(45, 0xFFFF), (1, 0xF7FF), (1, 0xCB70), (2, 0xFFFF), (1, 0xED77), (1, 0xFAEF), (1, 0xFB50), (1, 0xF310), (1, 0xE69B), (32,
       0xFFFF), (1, 0xCE79), (1, 0xE71B), (1, 0xDEDA), (1, 0xE71B), (1, 0xEF5C), (1, 0xF7BD), (1, 0xFFBE), (9, 0xFFBD), (1, 0xFFFE), (1,
       0xC617), (23, 0xFFFF), (1, 0xDAEB), (2, 0xFA8A), (1, 0xE249), (2, 0xFAAA), (1, 0xFAEB), (1, 0xFB0C), (1, 0xF2EB), (1, 0xFB0C), (1,
       0xFAEB), (3, 0xFACB), (6, 0xFAAA), (4, 0xFA8A), (2, 0xFA69), (3, 0xFA8A), (1, 0xFAAA), (1, 0xEA89), (1, 0xF289), (1, 0xFAAA), (1,
       0xFA8A), (1, 0xFA69), (2, 0xF248), (1, 0x81A6), (1, 0x29A6), (1, 0x31E7), (6, 0x39E7), (1, 0x2965), (1, 0xD637), (1, 0xF71B), (2,
       0xEEFA), (4, 0xEF1B), (4, 0xEF5C), (1, 0xF79D), (3, 0xFFDE), (1, 0xFFBE), (1, 0xFFBD), (2, 0xFFBE), (1, 0xFFDE), (2, 0xFFBD), (1,
       0xE71B), (1, 0xB5B6), (1, 0x6B2C), (1, 0x2945), (1, 0x2965), (1, 0x2945), (1, 0x2124), (1, 0x2104), (1, 0x2965), (1, 0x736E), (1,
       0xA554), (1, 0xD6BA), (16, 0xFFFF), (1, 0xC618), (1, 0x630C), (1, 0x2104), (1, 0x2124), (1, 0x2945), (20, 0x3186), (1, 0x3166),
       (1, 0x2965), (1, 0x2945), (1, 0x2925), (3, 0x2124), (1, 0x2104), (1, 0x39E7), (1, 0x632C), (1, 0x8C51), (1, 0xB5B6), (1, 0xD69A),
       (1, 0xF7BE), (56, 0xFFFF)],
      [(46, 0xFFFF), (1, 0xF75D), (1, 0xDE19), (2, 0xFFFF), (1, 0xF350), (2, 0xFB91), (1, 0xE6BB), (32, 0xFFFF), (1, 0xFFDF), (1,
       0xEF5C), (1, 0xFFDE), (2, 0xFFBE), (12, 0xFFBD), (1, 0xE71B), (1, 0xF7BE), (22, 0xFFFF), (1, 0xF7FF), (1, 0xEA8A), (1, 0xFA28),
       (1, 0xE207), (2, 0xFAAA), (1, 0xFAEB), (1, 0xFB0C), (1, 0xF2EB), (2, 0xFB0C), (1, 0xFAEB), (1, 0xFACB), (7, 0xFAAA), (4, 0xFA8A),
       (2, 0xFA69), (1, 0xFA8A), (1, 0xEA69), (1, 0xF289), (3, 0xFAAA), (1, 0xF269), (2, 0xFA69), (1, 0xE228), (3, 0xFA69), (1, 0xA208),
       (1, 0x29C6), (5, 0x4208), (1, 0x2965), (1, 0xF7BD), (7, 0xFFDE), (2, 0xFFBD), (3, 0xFFBE), (5, 0xFFBD), (1, 0xEF3C), (1, 0xE73C),
       (1, 0xDEDB), (1, 0xDEFB), (1, 0xDEFC), (1, 0xF7BE), (1, 0xCE7A), (1, 0x4228), (1, 0x39E7), (1, 0x4208), (1, 0x7BCF), (1, 0xB5B6),
       (1, 0xEF7D), (23, 0xFFFF), (1, 0xBDF7), (1, 0x6B6D), (1, 0x2104), (1, 0x2124), (1, 0x2965), (1, 0x3186), (2, 0x3166), (1, 0x2965),
       (3, 0x3166), (3, 0x2965), (2, 0x2945), (1, 0x2925), (3, 0x2124), (1, 0x2104), (1, 0x3186), (1, 0x52AA), (1, 0x7BCF), (1, 0x9CF3),
       (1, 0xBDD7), (1, 0xDEFB), (64, 0xFFFF)],
      [(47, 0xFFFF), (1, 0xDEBB), (2, 0xFFFF), (1, 0xEDD8), (1, 0xFBD2), (1, 0xFBF2), (1, 0xF79E), (33, 0xFFFF), (1, 0xEF7D), (1,
       0xF79D), (14, 0xFFBD), (1, 0xFFFE), (1, 0xD69A), (24, 0xFFFF), (1, 0xF618), (1, 0xD492), (1, 0xFA89), (1, 0xFAAA), (1, 0xFAEB),
       (1, 0xFB0C), (1, 0xF2CB), (2, 0xFAEB), (2, 0xFACB), (8, 0xFAAA), (3, 0xFA8A), (1, 0xFA69), (1, 0xDA28), (1, 0xE249), (1, 0xEA49),
       (2, 0xFA8A), (1, 0xFAAA), (2, 0xFA69), (2, 0xF249), (1, 0xDA07), (1, 0xFA89), (1, 0xFA69), (2, 0xEA28), (1, 0x3208), (4, 0x4208),
       (1, 0x41E8), (1, 0x528A), (1, 0xFFFF), (3, 0xFFDE), (2, 0xFFBE), (3, 0xFFBD), (1, 0xFFBE), (1, 0xEF5C), (1, 0xEF3C), (1, 0xEF5C),
       (1, 0xEF5D), (1, 0xEF7D), (1, 0xF77D), (2, 0xF79E), (39, 0xFFFF), (1, 0xB596), (1, 0x630C), (1, 0x2104), (1, 0x3186), (1, 0x39A7),
       (1, 0x39C7), (1, 0x39A7), (2, 0x3186), (1, 0x39C7), (1, 0x4A49), (1, 0x5AEB), (1, 0x73AE), (1, 0x8C71), (1, 0xA534), (1, 0xBDF7),
       (1, 0xD6BA), (1, 0xEF7D), (71, 0xFFFF)],
      [(47, 0xFFFF), (1, 0xFFDF), (3, 0xFFFF), (1, 0xFC33), (1, 0xF454), (35, 0xFFFF), (1, 0xDEDB), (1, 0xFFDE), (14, 0xFFBD), (1,
       0xF77D), (1, 0xF7BE), (24, 0xFFFF), (1, 0xF7FF), (1, 0xF208), (1, 0xFAAA), (1, 0xFACB), (1, 0xFAEB), (1, 0xF2CA), (2, 0xFAEB), (3,
       0xFACB), (7, 0xFAAA), (1, 0xFA8A), (1, 0xEA69), (1, 0xDA49), (1, 0xE249), (5, 0xFA8A), (5, 0xFA69), (1, 0xD1E7), (2, 0xE228), (1,
       0xFA69), (1, 0x9208), (5, 0x4208), (1, 0x39C7), (1, 0xA575), (1, 0xEFDE), (1, 0xE6FA), (1, 0xDE58), (1, 0xBDB6), (1, 0xE75C), (1,
       0xE71B), (1, 0xEF5C), (1, 0xF79D), (2, 0xF79E), (136, 0xFFFF)],
      [(51, 0xFFFF), (1, 0xEDD8), (1, 0xF537), (36, 0xFFFF), (1, 0xD679), (1, 0xFFDE), (13, 0xFFBD), (1, 0xFFDE), (1, 0xEF5C), (25,
       0xFFFF), (1, 0xE3AE), (1, 0xFA8A), (1, 0xFAAA), (1, 0xFACB), (1, 0xF2AA), (1, 0xFACB), (2, 0xFAEB), (3, 0xFACB), (4, 0xFAAA), (1,
       0xF289), (2, 0xF28A), (3, 0xFAAA), (1, 0xFA8A), (3, 0xFAAA), (1, 0xFA8A), (8, 0xFA69), (1, 0xF248), (1, 0x31E8), (5, 0x4208), (1,
       0x49C7), (1, 0xFA08), (1, 0xF9E7), (1, 0xFA07), (1, 0xFA28), (1, 0xFA07), (1, 0xD30C), (1, 0xDEFB), (140, 0xFFFF)],
      [(51, 0xFFFF), (1, 0xF6FC), (1, 0xEDF9), (36, 0xFFFF), (1, 0xEF7D), (1, 0xEF3C), (1, 0xFFBE), (14, 0xFFBD), (1, 0xEF7D), (24,
       0xFFFF), (1, 0xE6BA), (1, 0xFA28), (3, 0xFAAA), (1, 0xFAAB), (2, 0xFACB), (2, 0xFAEB), (1, 0xEA8A), (1, 0xE28A), (1, 0xEA8A), (2,
       0xF2AA), (4, 0xFACB), (6, 0xFAAA), (1, 0xFA8A), (8, 0xFA69), (1, 0x51E7), (1, 0x4208), (3, 0x39E7), (1, 0x4208), (1, 0x31E7), (1,
       0xDA08), (6, 0xFA69), (1, 0xF9E7), (1, 0xDC30), (1, 0xF7FF), (138, 0xFFFF)],
      [(51, 0xFFFF), (1, 0xFF7D), (1, 0xEEFC), (37, 0xFFFF), (1, 0xDEDB), (1, 0xFFBE), (14, 0xFFBD), (1, 0xF77D), (25, 0xFFFF), (1,
       0xEAAA), (1, 0xFA6A), (2, 0xFAAA), (1, 0xE249), (1, 0xFACB), (1, 0xEA8A), (2, 0xDA89), (1, 0xF2CB), (1, 0xFAEB), (7, 0xFACB), (5,
       0xFAAA), (2, 0xFA8A), (7, 0xFA69), (1, 0x91C7), (1, 0x31E7), (1, 0x4208), (1, 0x39E7), (2, 0x4208), (1, 0x31C7), (1, 0x4986), (8,
       0xFA69), (1, 0xFA48), (1, 0xF228), (1, 0xED75), (137, 0xFFFF)],
      [(51, 0xFFFF), (1, 0xE73C), (39, 0xFFFF), (1, 0xD699), (1, 0xFFDE), (13, 0xFFBD), (1, 0xFFDE), (1, 0xEF5C), (24, 0xFFFF), (1,
       0xF451), (1, 0xFA48), (1, 0xFA69), (1, 0xFA8A), (1, 0xE249), (1, 0xEA8A), (1, 0xDA69), (4, 0xFAEB), (9, 0xFACB), (3, 0xFAAA), (3,
       0xFA8A), (5, 0xFA69), (1, 0xCA07), (1, 0x29E7), (1, 0x31A6), (3, 0x39E7), (1, 0x39C7), (1, 0x6BAE), (1, 0xD450), (1, 0xE9E7), (1,
       0xFA48), (8, 0xFA69), (1, 0xFA28), (1, 0xEAAA), (1, 0xEEFB), (135, 0xFFFF)],
      [(91, 0xFFFF), (1, 0xF7BE), (1, 0xE73B), (1, 0xFFBE), (14, 0xFFBD), (1, 0xF79E), (23, 0xFFFF), (1, 0xF2AA), (3, 0xFA69), (1,
       0xDA07), (1, 0xFAAA), (1, 0xFB0B), (1, 0xEAAA), (3, 0xFAEB), (9, 0xFACB), (1, 0xFACA), (2, 0xFAAA), (4, 0xFA8A), (1, 0xFA89), (2,
       0xFA69), (1, 0xEA08), (1, 0x39E7), (1, 0x39C7), (1, 0x31A6), (1, 0x39E7), (1, 0x4228), (1, 0x9CD3), (1, 0x8410), (2, 0xFFFF), (1,
       0xF7FF), (1, 0xECF3), (1, 0xF248), (1, 0xFA48), (8, 0xFA69), (1, 0xF9E7), (1, 0xEC10), (1, 0xF7FF), (133, 0xFFFF)],
      [(92, 0xFFFF), (1, 0xF79E), (1, 0xF79D), (13, 0xFFBD), (1, 0xFFBE), (1, 0xEF7C), (23, 0xFFFF), (1, 0xFA28), (2, 0xFA69), (1,
       0xF248), (1, 0xF249), (1, 0xE269), (1, 0xE28A), (1, 0xEAAA), (3, 0xFAEB), (9, 0xFACB), (3, 0xFAAA), (5, 0xFA8A), (1, 0xFA69), (1,
       0xF228), (1, 0x41C7), (1, 0x4208), (2, 0x39E7), (1, 0x31C6), (1, 0x4A69), (7, 0xFFFF), (1, 0xED34), (1, 0xF228), (1, 0xFA48), (7,
       0xFA69), (1, 0xFA48), (1, 0xF228), (1, 0xEDF7), (132, 0xFFFF)],
      [(93, 0xFFFF), (1, 0xE73C), (1, 0xFFDE), (13, 0xFFBD), (1, 0xFFDE), (1, 0xEF5C), (22, 0xFFFF), (1, 0xF207), (1, 0xFA49), (1,
       0xE208), (2, 0xFA69), (2, 0xFACB), (1, 0xFB0C), (1, 0xFB0B), (2, 0xFAEB), (8, 0xFACB), (5, 0xFAAA), (4, 0xFA8A), (1, 0xDA08), (1,
       0x39E7), (2, 0x4228), (1, 0x4208), (2, 0x39E7), (1, 0x2985), (1, 0xAD75), (8, 0xFFFF), (1, 0xED14), (1, 0xF207), (1, 0xFA48), (7,
       0xFA69), (1, 0xFA07), (1, 0xEB8E), (1, 0xF7DF), (130, 0xFFFF)],
      [(94, 0xFFFF), (1, 0xE71C), (1, 0xFFDE), (13, 0xFFBD), (1, 0xF79D), (1, 0xF7BF), (21, 0xFFFF), (1, 0xD289), (1, 0xFA48), (1,
       0xEA28), (1, 0xFA48), (1, 0xFA69), (1, 0xFACB), (1, 0xF2EB), (1, 0xFB0C), (1, 0xFB4C), (1, 0xFB4D), (1, 0xFB2C), (1, 0xFAEB), (1,
       0xFACB), (1, 0xFAEB), (6, 0xFACB), (6, 0xFAAA), (1, 0xFA69), (1, 0x81E7), (1, 0x3228), (3, 0x4228), (2, 0x4208), (1, 0x39C7), (1,
       0x31C6), (11, 0xFFFF), (1, 0xEC92), (1, 0xF9E7), (7, 0xFA69), (2, 0xFA49), (1, 0xEDF7), (129, 0xFFFF)],
      [(95, 0xFFFF), (1, 0xEF5C), (1, 0xFFBE), (12, 0xFFBD), (1, 0xFFDE), (1, 0xEF3C), (21, 0xFFFF), (1, 0xEEFB), (1, 0xF3EF), (1,
       0xFB6D), (1, 0xDAAA), (1, 0xFA8A), (1, 0xFACB), (1, 0xFAEB), (1, 0xF2EB), (3, 0xFB4D), (1, 0xFB0C), (3, 0xFAEB), (5, 0xFACB), (4,
       0xFAAA), (1, 0xF289), (1, 0xA228), (1, 0x3A07), (1, 0x3A28), (4, 0x4228), (2, 0x4208), (1, 0x2985), (1, 0xDEFB), (12, 0xFFFF), (1,
       0xF7BF), (1, 0xEBEF), (1, 0xF9E7), (4, 0xFA69), (3, 0xFA8A), (1, 0xFA28), (1, 0xEBAE), (1, 0xF7FF), (127, 0xFFFF)]]"

definition GIRL_COLORS_8 :: "runs list" where
  "GIRL_COLORS_8 =
     [[(95, 0xFFFF), (1, 0xF79E), (1, 0xF79D), (13, 0xFFBD), (1, 0xF79D), (1, 0xFFBF), (23, 0xFFFF), (1, 0xDD55), (1, 0xFA69), (1,
       0xFACB), (1, 0xFB0B), (1, 0xF30B), (1, 0xFB2C), (3, 0xFB4D), (1, 0xFB2C), (1, 0xFB0B), (2, 0xFAEB), (5, 0xFACB), (1, 0xFAAA), (1,
       0xDA69), (1, 0x6A08), (1, 0x31E8), (1, 0x3A28), (3, 0x4228), (1, 0x4208), (1, 0x3A07), (1, 0x4208), (1, 0x2965), (1, 0x3186), (1,
       0xDEDB), (15, 0xFFFF), (1, 0xEF1C), (1, 0xEAEB), (1, 0xFA08), (2, 0xFA69), (4, 0xFA8A), (1, 0xFA69), (1, 0xF269), (1, 0xEE79),
       (126, 0xFFFF)],
      [(96, 0xFFFF), (1, 0xEF5D), (1, 0xFFBE), (12, 0xFFBD), (1, 0xFFDE), (1, 0xE71B), (23, 0xFFFF), (1, 0xEF5D), (1, 0xFA28), (1,
       0xFACB), (1, 0xFAEB), (1, 0xF30B), (1, 0xFB2C), (3, 0xFB4D), (1, 0xFB6D), (3, 0xFB2C), (2, 0xFAEB), (1, 0xF2AA), (1, 0xDAAA), (1,
       0xA249), (1, 0x4208), (2, 0x3A28), (2, 0x4208), (2, 0x4228), (1, 0x3A07), (2, 0x4228), (1, 0x3186), (1, 0xEF5D), (19, 0xFFFF), (1,
       0xEDD7), (1, 0xF248), (1, 0xFA49), (3, 0xFA8A), (3, 0xFAAA), (1, 0xFA69), (1, 0xEC92), (125, 0xFFFF)],
      [(97, 0xFFFF), (1, 0xE71C), (1, 0xFFDE), (12, 0xFFBD), (1, 0xF77D), (1, 0xFFDF), (23, 0xFFFF), (1, 0xEB2C), (1, 0xFA8A), (1,
       0xFAEB), (1, 0xF2EB), (2, 0xFB2C), (1, 0xF30C), (1, 0xCAAA), (1, 0x5A28), (1, 0x4A48), (1, 0x5A69), (1, 0x5A49), (1, 0x4A48), (3,
       0x4249), (1, 0x3A08), (1, 0x4208), (2, 0x4228), (4, 0x4208), (2, 0x39E7), (1, 0x6B4D), (1, 0xAD55), (22, 0xFFFF), (1, 0xEC71), (1,
       0xFA08), (2, 0xFA8A), (1, 0xFAAA), (2, 0xFACB), (1, 0xFAEB), (1, 0xFACA), (1, 0xF30C), (1, 0xF75D), (123, 0xFFFF)],
      [(97, 0xFFFF), (1, 0xFFDF), (1, 0xEF5C), (1, 0xFFBE), (11, 0xFFBD), (1, 0xFFDE), (1, 0xDEDB), (23, 0xFFFF), (1, 0xF575), (1,
       0xFA49), (1, 0xFACA), (1, 0xFB2C), (1, 0xE2CB), (1, 0xF2EB), (1, 0xE2EB), (1, 0xCACB), (1, 0x3A69), (5, 0x4A69), (1, 0x4A49), (1,
       0x4228), (4, 0x4208), (4, 0x4228), (1, 0x39C7), (1, 0x6B4D), (25, 0xFFFF), (1, 0xEF3C), (1, 0xF2EB), (1, 0xFA49), (1, 0xFAAA), (1,
       0xFACB), (2, 0xFAEB), (2, 0xFB0C), (1, 0xFAAA), (1, 0xDD96), (122, 0xFFFF)],
      [(98, 0xFFFF), (1, 0xEF7D), (12, 0xFFBD), (1, 0xFFDE), (1, 0xDEFB), (23, 0xFFFF), (1, 0xF534), (1, 0xFA28), (1, 0xFA69), (1,
       0xFACA), (1, 0xDA8A), (1, 0xFB0C), (1, 0xFB2C), (1, 0xFAEB), (1, 0x4248), (5, 0x4A69), (1, 0x4A49), (1, 0x4228), (7, 0x4A49), (1,
       0x4A69), (1, 0x4208), (1, 0x7BEF), (27, 0xFFFF), (1, 0xED34), (1, 0xFA49), (1, 0xFACB), (1, 0xFAEB), (2, 0xFB0C), (2, 0xFB2C), (1,
       0xFAEB), (1, 0xDBEF), (1, 0xF7DF), (120, 0xFFFF)],
      [(99, 0xFFFF), (1, 0xD6BA), (1, 0xFFDE), (11, 0xFFBD), (1, 0xF79D), (1, 0xF79E), (22, 0xFFFF), (1, 0xEC30), (2, 0xFA48), (2,
       0xFA8A), (1, 0xE269), (1, 0xFA8A), (1, 0xFA48), (1, 0x7A07), (1, 0x4269), (3, 0x4A69), (1, 0x4A49), (1, 0x4228), (1, 0x4208), (3,
       0x39E7), (1, 0x4A69), (1, 0x4A49), (1, 0x4208), (1, 0x528A), (1, 0x632C), (1, 0x9472), (29, 0xFFFF), (1, 0xF79E), (1, 0xEB6D), (1,
       0xFAAA), (1, 0xFB0C), (2, 0xFB2C), (1, 0xFB4D), (2, 0xFB8E), (1, 0xEB4C), (1, 0xEEDB), (119, 0xFFFF)],
      [(99, 0xFFFF), (1, 0xFFDF), (1, 0xDEFB), (1, 0xFFDE), (11, 0xFFBD), (1, 0xE73C), (22, 0xFFFF), (1, 0xF34C), (1, 0x5165), (1,
       0x2986), (1, 0x59A6), (1, 0xD248), (1, 0xE248), (1, 0xAA28), (1, 0x4A48), (1, 0x4269), (4, 0x4A69), (1, 0x4228), (1, 0x4A49), (1,
       0x4228), (1, 0x39E7), (1, 0x4A49), (1, 0x528A), (1, 0x4A69), (1, 0x528A), (1, 0xB596), (34, 0xFFFF), (1, 0xED96), (1, 0xFAAB), (1,
       0xFB2C), (1, 0xFB4D), (1, 0xFB6D), (3, 0xFBAE), (1, 0xFB2C), (1, 0xEDB6), (118, 0xFFFF)],
      [(100, 0xFFFF), (1, 0xE71C), (1, 0xF7BD), (10, 0xFFBD), (1, 0xFFDE), (1, 0xEF5C), (22, 0xFFFF), (1, 0xD34D), (1, 0x2145), (1,
       0x3186), (1, 0x2986), (1, 0x21A6), (1, 0x3A49), (1, 0x3A69), (4, 0x4A69), (1, 0x4A49), (2, 0x4228), (1, 0x4A49), (1, 0x31C6), (1,
       0x4228), (1, 0x630C), (39, 0xFFFF), (1, 0xF79E), (1, 0xF38E), (1, 0xFB2C), (1, 0xFB8E), (4, 0xFBAE), (1, 0xFB6D), (1, 0xEC50),
       (117, 0xFFFF)],
      [(100, 0xFFFF), (1, 0xFFDF), (1, 0xEF5C), (1, 0xFFBE), (10, 0xFFBD), (1, 0xF79D), (1, 0xFFDF), (21, 0xFFFF), (1, 0xD6BA), (1,
       0x2124), (1, 0x3186), (1, 0x3166), (1, 0x31A6), (1, 0x39C7), (1, 0x4228), (2, 0x4A49), (1, 0x4228), (1, 0x31A6), (2, 0x4228), (1,
       0x4A49), (1, 0x5ACB), (1, 0xFFDF), (43, 0xFFFF), (1, 0xED14), (1, 0xFB2D), (6, 0xFBAE), (1, 0xF3AE), (1, 0xEF1C), (115, 0xFFFF)],
      [(101, 0xFFFF), (1, 0xEF5D), (12, 0xFFBD), (1, 0xF79E), (21, 0xFFFF), (1, 0xD6BA), (1, 0x2124), (2, 0x3186), (1, 0x39C7), (1,
       0x52AA), (1, 0x7BEF), (1, 0x31A6), (1, 0x4208), (1, 0x8C71), (1, 0xEF7D), (1, 0xC618), (1, 0x31A6), (1, 0x8430), (46, 0xFFFF), (1,
       0xEEDB), (1, 0xF36D), (3, 0xFBAE), (3, 0xFBCF), (1, 0xFB4D), (1, 0xEDF7), (114, 0xFFFF)],
      [(101, 0xFFFF), (1, 0xF7BF), (1, 0xF79D), (10, 0xFFBD), (1, 0xFFDE), (1, 0xEF5C), (21, 0xFFFF), (1, 0xD6BA), (1, 0x2124), (1,
       0x3186), (1, 0x31A6), (1, 0x2965), (1, 0x9CF3), (1, 0xFFFF), (1, 0xEF7D), (4, 0xFFFF), (1, 0xF7BE), (48, 0xFFFF), (1, 0xF7FF), (1,
       0xEC50), (1, 0xFB8E), (1, 0xFBAE), (4, 0xFBCF), (1, 0xFB6E), (1, 0xECB2), (113, 0xFFFF)],
      [(102, 0xFFFF), (1, 0xE73C), (1, 0xFFDE), (10, 0xFFBD), (1, 0xF79D), (1, 0xFFDF), (20, 0xFFFF), (1, 0xD6BA), (1, 0x1082), (1,
       0x2104), (1, 0x39E7), (1, 0x9CF3), (1, 0xF79E), (57, 0xFFFF), (1, 0xE555), (1, 0xFB6E), (6, 0xFBCF), (1, 0xF3CF), (1, 0xF77E),
       (111, 0xFFFF)],
      [(102, 0xFFFF), (1, 0xF79E), (12, 0xFFBD), (1, 0xEF7D), (21, 0xFFFF), (1, 0xC638), (1, 0xEF5D), (61, 0xFFFF), (1, 0xEEBA), (1,
       0xFB6E), (5, 0xFBCF), (1, 0xFBAE), (1, 0xFB4D), (1, 0xEE59), (110, 0xFFFF)],
      [(103, 0xFFFF), (1, 0xEF3C), (1, 0xFFDE), (9, 0xFFBD), (1, 0xFFDE), (1, 0xE71B), (22, 0xFFFF), (1, 0xFFDF), (62, 0xFFFF), (1,
       0xF79E), (1, 0xF3CF), (1, 0xFBAF), (2, 0xFBCF), (1, 0xFBAE), (1, 0xFB8E), (1, 0xFB6D), (1, 0xFAEC), (1, 0xE4F3), (109, 0xFFFF)],
      [(103, 0xFFFF), (1, 0xEF7D), (11, 0xFFBD), (1, 0xF79D), (1, 0xF79E), (86, 0xFFFF), (1, 0xE431), (1, 0xFBAF), (2, 0xFBAE), (1,
       0xFB6D), (2, 0xFB4D), (1, 0xFB2C), (1, 0xEBAE), (1, 0xF7FF), (107, 0xFFFF)],
      [(103, 0xFFFF), (1, 0xF7BF), (1, 0xF77D), (11, 0xFFBD), (1, 0xE71C), (6, 0xFFFF), (1, 0x8410), (1, 0xA534), (79, 0xFFFF), (1,
       0xCC51), (1, 0xFB8D), (1, 0xFBAE), (3, 0xFB4D), (2, 0xFB2C), (1, 0xF30B), (1, 0xEF1C), (106, 0xFFFF)],
      [(104, 0xFFFF), (1, 0xDEDB), (1, 0xFFDE), (9, 0xFFBD), (1, 0xFFDE), (1, 0xDEFB), (5, 0xFFFF), (1, 0x73CE), (1, 0x2945), (1,
       0x2124), (1, 0x6B2D), (79, 0xFFFF), (1, 0xD514), (1, 0xFB4D), (1, 0xFB6D), (1, 0xFB4D), (1, 0xFB2D), (3, 0xFB2C), (1, 0xFAAA), (1,
       0xCCF3), (105, 0xFFFF)],
      [(104, 0xFFFF), (1, 0xEF7D), (1, 0xF79D), (10, 0xFFBD), (1, 0xF79D), (1, 0xEF7D), (3, 0xFFFF), (1, 0x8430), (1, 0x2945), (2,
       0x3186), (1, 0x2965), (1, 0x39E8), (79, 0xFFFF), (1, 0xE638), (1, 0xFB0C), (1, 0xFB4D), (3, 0xFB2C), (2, 0xFB0C), (1, 0xFAAB), (1,
       0xDE18), (104, 0xFFFF)],
      [(105, 0xFFFF), (1, 0xD6BA), (1, 0xFFDE), (9, 0xFFBD), (1, 0xFFDE), (1, 0xDEDA), (1, 0xFFFF), (1, 0xE71C), (1, 0x8C51), (1,
       0x2925), (3, 0x3186), (1, 0x2166), (1, 0x69A6), (1, 0xDA69), (79, 0xFFFF), (1, 0xEE59), (1, 0xFB0C), (3, 0xFB2C), (3, 0xFB0C), (1,
       0xDAEB), (104, 0xFFFF)],
      [(105, 0xFFFF), (1, 0xEF5D), (1, 0xF79D), (10, 0xFFBD), (1, 0xFFFE), (1, 0x2965), (1, 0x18C3), (1, 0x2945), (3, 0x3186), (1,
       0x2986), (1, 0x4986), (1, 0xFA69), (1, 0xFA49), (1, 0xCB6D), (79, 0xFFFF), (1, 0xE3AE), (1, 0xFB4C), (1, 0xFB2C), (4, 0xFB0C), (1,
       0xFAAA), (1, 0xE73C), (103, 0xFFFF)]]"

definition GIRL_COLORS_9 :: "runs list" where
  "GIRL_COLORS_9 =
     [[(106, 0xFFFF), (1, 0xD679), (1, 0xFFDE), (8, 0xFFBD), (1, 0xFFDE), (1, 0xFFFF), (1, 0x73AE), (1, 0x2945), (3, 0x3186), (1,
       0x2986), (1, 0x3966), (2, 0xFA69), (1, 0xFA89), (1, 0x8165), (1, 0xAD96), (78, 0xFFFF), (1, 0xDE79), (1, 0xFAAA), (1, 0xFAEB), (1,
       0xFAEC), (2, 0xFB0C), (1, 0xFAEB), (1, 0xFAAA), (1, 0xE596), (103, 0xFFFF)],
      [(106, 0xFFFF), (1, 0xE73C), (1, 0xF79D), (6, 0xFFBD), (1, 0xFFFE), (1, 0xFFFF), (1, 0xE6FB), (1, 0x528A), (1, 0x2945), (4,
       0x3186), (1, 0x2165), (3, 0xFA69), (1, 0x91C7), (1, 0x2166), (1, 0x2124), (79, 0xFFFF), (1, 0xDB2C), (2, 0xFAEB), (2, 0xFB0C), (1,
       0xFAEB), (1, 0xFACA), (1, 0xE3CE), (103, 0xFFFF)],
      [(107, 0xFFFF), (1, 0xDEDA), (1, 0xFFFE), (1, 0xFFDE), (1, 0xFFFE), (3, 0xFFFF), (1, 0xC5F7), (1, 0x630B), (1, 0x2104), (5,
       0x3186), (1, 0x1945), (1, 0xEAAA), (1, 0xFAEB), (1, 0xFAAA), (1, 0xCA07), (1, 0x2165), (1, 0x3186), (1, 0x2965), (1, 0x738E), (78,
       0xFFFF), (1, 0xDE9A), (1, 0xFA49), (1, 0xFACB), (4, 0xFAEB), (1, 0xFA89), (1, 0xF7DF), (102, 0xFFFF)],
      [(107, 0xFFFF), (1, 0x7BCF), (2, 0xCE58), (1, 0xB575), (1, 0x9491), (1, 0x6B6D), (1, 0x39C7), (2, 0x31A6), (4, 0x3166), (1,
       0x3186), (1, 0x2165), (1, 0xDAAA), (1, 0xFB0C), (1, 0xFAEB), (1, 0xFACB), (1, 0x3165), (1, 0x3166), (2, 0x3186), (1, 0x2104), (1,
       0xDEDB), (78, 0xFFFF), (1, 0xDB2C), (3, 0xFACB), (2, 0xFAEB), (1, 0xFAAA), (1, 0xEDB6), (102, 0xFFFF)],
      [(107, 0xFFFF), (1, 0xA534), (1, 0x1904), (1, 0x2985), (1, 0x39C7), (1, 0x4208), (1, 0x4228), (3, 0x4208), (1, 0x39C7), (2,
       0x39E7), (1, 0x3A08), (1, 0x39E7), (1, 0xEACB), (3, 0xFB0C), (1, 0x69E7), (1, 0x31E7), (1, 0x39C7), (1, 0x3186), (1, 0x3166), (1,
       0x2104), (1, 0xEF7D), (78, 0xFFFF), (1, 0xDE9A), (1, 0xFA48), (1, 0xFAAA), (1, 0xFACB), (3, 0xFAEB), (1, 0xEB2C), (102, 0xFFFF)],
      [(107, 0xFFFF), (1, 0xFFDF), (1, 0x31A6), (1, 0x39E7), (7, 0x4228), (1, 0x3A08), (1, 0x31E8), (1, 0x6A08), (1, 0xFAEC), (2,
       0xFB0C), (1, 0xFB2C), (1, 0x8208), (1, 0x31C7), (1, 0x39E7), (1, 0x39C7), (1, 0x31A6), (1, 0x2124), (1, 0xE71C), (80, 0xFFFF), (1,
       0xE32C), (1, 0xFAAA), (4, 0xFACB), (1, 0xFA6A), (1, 0xEEDB), (101, 0xFFFF)],
      [(108, 0xFFFF), (1, 0x73CE), (1, 0x39E7), (2, 0x4228), (3, 0x3A28), (1, 0x3228), (1, 0x3A07), (1, 0x8248), (1, 0xDAAA), (1,
       0xFB2C), (3, 0xFB0C), (1, 0x59E7), (1, 0x31C7), (2, 0x39E7), (2, 0x31A6), (1, 0xF79E), (81, 0xFFFF), (1, 0xEE79), (1, 0xFA28), (2,
       0xFAAA), (2, 0xFACB), (1, 0xFAAA), (1, 0xEBEF), (101, 0xFFFF)],
      [(108, 0xFFFF), (1, 0xEF5D), (1, 0x29A6), (1, 0x3228), (1, 0x4A07), (1, 0x6A08), (1, 0x9228), (1, 0xB228), (1, 0xE249), (1,
       0xFAAA), (2, 0xFAEB), (2, 0xFB0C), (1, 0xB28A), (1, 0x31C6), (3, 0x39E7), (1, 0x31A6), (1, 0x52CA), (84, 0xFFFF), (1, 0xF30C), (2,
       0xFA8A), (1, 0xFAAA), (2, 0xFACB), (1, 0xFA69), (1, 0xE6DB), (100, 0xFFFF)],
      [(109, 0xFFFF), (1, 0xE2CB), (5, 0xFA69), (2, 0xFA8A), (1, 0xFAAA), (1, 0xFAEB), (1, 0xBA69), (1, 0x41E7), (1, 0x3A08), (3,
       0x39E7), (1, 0x2965), (1, 0x738E), (85, 0xFFFF), (1, 0xEE18), (1, 0xFA28), (1, 0xFA8A), (2, 0xFAAA), (2, 0xFACB), (1, 0xD30C),
       (100, 0xFFFF)],
      [(109, 0xFFFF), (1, 0xE679), (1, 0xFA07), (5, 0xFA69), (1, 0xF269), (1, 0xAA28), (1, 0x41C7), (1, 0x3A08), (4, 0x4208), (1,
       0x2965), (1, 0x9CF3), (87, 0xFFFF), (1, 0xF2AA), (2, 0xFA8A), (2, 0xFAAA), (1, 0xFACB), (1, 0xFA69), (1, 0xE659), (99, 0xFFFF)],
      [(110, 0xFFFF), (1, 0xDAEB), (1, 0xE228), (1, 0xB228), (1, 0x9228), (1, 0x7A28), (1, 0x49E7), (1, 0x3208), (1, 0x3A08), (4,
       0x4208), (1, 0x39E7), (1, 0x2945), (1, 0xA514), (88, 0xFFFF), (1, 0xEE79), (1, 0xFA07), (2, 0xFA8A), (3, 0xFAAA), (1, 0xEAAA),
       (99, 0xFFFF)],
      [(110, 0xFFFF), (1, 0xDEFB), (1, 0x29A6), (3, 0x3A08), (4, 0x4208), (2, 0x39E7), (1, 0x31A6), (1, 0x4A89), (1, 0xE6FB), (1,
       0xFFFF), (1, 0xD6BA), (1, 0xDEBA), (1, 0xDEFB), (1, 0xEF5D), (1, 0xFFDF), (84, 0xFFFF), (1, 0xEB0C), (2, 0xFA69), (3, 0xFAAA), (1,
       0xFA89), (1, 0xECB2), (98, 0xFFFF)],
      [(111, 0xFFFF), (1, 0x73AE), (2, 0x4208), (3, 0x39E7), (1, 0x39C7), (1, 0x39E7), (1, 0x31C7), (1, 0x2124), (1, 0x8430), (1,
       0xFFFF), (1, 0xFFDE), (1, 0xFFBD), (3, 0xFFDE), (1, 0xFFBE), (1, 0xF77D), (1, 0xEF5D), (83, 0xFFFF), (1, 0xEF1C), (1, 0xF9E7), (1,
       0xFA8A), (4, 0xFAAA), (1, 0xFA48), (1, 0xEE59), (97, 0xFFFF)],
      [(112, 0xFFFF), (1, 0x31C6), (4, 0x39E7), (1, 0x31C6), (1, 0x2965), (1, 0x73AE), (1, 0xE71B), (1, 0xFFFF), (8, 0xFFBD), (1,
       0xFFDE), (1, 0xEF3C), (1, 0xEF7D), (82, 0xFFFF), (1, 0xEC30), (6, 0xFAAA), (1, 0xFA28), (1, 0xEF1C), (96, 0xFFFF)],
      [(112, 0xFFFF), (1, 0xEF5D), (1, 0x2985), (1, 0x31C6), (2, 0x2985), (1, 0x738D), (1, 0xE71B), (1, 0xFFFF), (1, 0xFFDE), (10,
       0xFFBD), (1, 0xFFDE), (1, 0xEF5C), (1, 0xD6BA), (1, 0xE73C), (80, 0xFFFF), (1, 0xF7FF), (1, 0xF269), (6, 0xFAAA), (1, 0xFA69), (1,
       0xEEDB), (95, 0xFFFF)],
      [(113, 0xFFFF), (1, 0xEF7D), (1, 0x9CD3), (1, 0xBDD6), (1, 0xFFBE), (1, 0xFFFF), (1, 0xFFDE), (13, 0xFFBD), (1, 0xFFBE), (1,
       0xFFDE), (1, 0xF79D), (1, 0xC617), (1, 0xDEBA), (1, 0xDEFB), (1, 0xE73C), (1, 0xF79E), (76, 0xFFFF), (1, 0xEE79), (1, 0xFA48), (6,
       0xFAAA), (1, 0xFA28), (1, 0xED75), (94, 0xFFFF)],
      [(115, 0xFFFF), (1, 0xDEDA), (1, 0xFFFE), (18, 0xFFBD), (2, 0xFFDE), (1, 0xFFBE), (1, 0xFFBD), (1, 0xEF5C), (77, 0xFFFF), (1,
       0xCC30), (1, 0xFA89), (6, 0xFAAA), (1, 0xFA8A), (1, 0xEB2C), (1, 0xF699), (92, 0xFFFF)],
      [(115, 0xFFFF), (1, 0xEF7D), (1, 0xE73B), (12, 0xFFBD), (1, 0xF79D), (1, 0xE73B), (1, 0xF77D), (1, 0xE73B), (1, 0xEF3B), (1,
       0xFFDE), (1, 0xFFFE), (3, 0xFFDE), (1, 0xEF5C), (78, 0xFFFF), (1, 0xCB0C), (2, 0xFAAA), (5, 0xFACB), (1, 0xFAAB), (1, 0xFA8A), (1,
       0xF28A), (1, 0xEC30), (1, 0xED55), (1, 0xED96), (1, 0xDBCE), (1, 0xEBCE), (1, 0xDC92), (85, 0xFFFF)],
      [(116, 0xFFFF), (1, 0xD6BA), (1, 0xF79D), (10, 0xFFBD), (1, 0xFFBE), (1, 0xF77D), (1, 0xFFDF), (2, 0xFFFF), (1, 0xF7BE), (1,
       0xDEDB), (1, 0xD679), (1, 0xDEDA), (1, 0xE71C), (1, 0xEF7D), (79, 0xFFFF), (1, 0xF7FF), (1, 0xD28A), (9, 0xFACB), (1, 0xFAAA), (2,
       0xFA8A), (2, 0xFACA), (1, 0xFAEB), (1, 0xDB2C), (1, 0xEFDF), (83, 0xFFFF)],
      [(117, 0xFFFF), (1, 0xDEDB), (1, 0xFFBE), (8, 0xFFBD), (1, 0xFFDE), (1, 0xEF7D), (90, 0xFFFF), (1, 0xF7FF), (1, 0xDACB), (8,
       0xFACB), (5, 0xFAEB), (2, 0xFB0C), (1, 0xEACB), (1, 0xEF5D), (82, 0xFFFF)]]"

definition GIRL_COLORS_10 :: "runs list" where
  "GIRL_COLORS_10 =
     [[(118, 0xFFFF), (1, 0xEF3C), (1, 0xFFDE), (6, 0xFFBD), (1, 0xFFBE), (1, 0xEF3C), (1, 0xF7BE), (92, 0xFFFF), (1, 0xD36D), (1,
       0xFA8A), (5, 0xFACB), (5, 0xFAEB), (4, 0xFB0C), (1, 0xF2CA), (1, 0xEF5D), (81, 0xFFFF)],
      [(119, 0xFFFF), (1, 0xEF5C), (1, 0xFFBE), (5, 0xFFBD), (1, 0xFFBE), (1, 0xE71B), (94, 0xFFFF), (1, 0xD534), (1, 0xF249), (4,
       0xFACB), (5, 0xFAEB), (4, 0xFB0C), (1, 0xFB2C), (1, 0xE2EB), (1, 0xF7FF), (80, 0xFFFF)],
      [(119, 0xFFFF), (1, 0xF7BE), (1, 0xF79D), (7, 0xFFBD), (1, 0xEF7D), (94, 0xFFFF), (1, 0xF7DF), (1, 0xE4B2), (1, 0xF2EB), (1,
       0xFA49), (1, 0xFACB), (1, 0xFB0B), (4, 0xFAEB), (3, 0xFB0C), (3, 0xFB2C), (1, 0xDB2C), (1, 0xE77D), (79, 0xFFFF)],
      [(120, 0xFFFF), (1, 0xEF7D), (6, 0xFFBD), (1, 0xFFDE), (1, 0xCE79), (1, 0xFFDF), (96, 0xFFFF), (1, 0xEF1C), (1, 0xED14), (1,
       0xEBEF), (1, 0xF3AE), (2, 0xF3CE), (1, 0xF36D), (1, 0xFAAB), (2, 0xFB0C), (4, 0xFB2C), (1, 0xF2EB), (1, 0xD3AF), (1, 0xEE17), (1,
       0xF73C), (1, 0xF79E), (1, 0xF7FF), (74, 0xFFFF)],
      [(121, 0xFFFF), (1, 0xEF5C), (1, 0xFFBE), (4, 0xFFBD), (1, 0xFFBE), (1, 0xEF3C), (1, 0xEF5C), (1, 0xF7BE), (102, 0xFFFF), (1,
       0xDE79), (1, 0xF30C), (1, 0xFAEC), (3, 0xFB2C), (3, 0xFB4D), (1, 0xFB0C), (1, 0xFB2C), (1, 0xFB6D), (1, 0xFBAE), (1, 0xEBAE), (1,
       0xEC72), (1, 0xED34), (1, 0xEDD7), (1, 0xEE79), (1, 0xF6FC), (1, 0xF77D), (67, 0xFFFF)],
      [(122, 0xFFFF), (1, 0xEF5C), (1, 0xFFDE), (4, 0xFFBD), (1, 0xF77D), (1, 0xF79D), (1, 0xEF7C), (104, 0xFFFF), (1, 0xEC92), (1,
       0xFACA), (1, 0xFB4C), (1, 0xFB2C), (3, 0xFB4D), (1, 0xFB6D), (2, 0xFB8E), (4, 0xFBAE), (1, 0xFB8E), (1, 0xFB6E), (1, 0xFB8D), (1,
       0xFB8E), (1, 0xD596), (66, 0xFFFF)],
      [(123, 0xFFFF), (1, 0xEF5C), (1, 0xFFDE), (3, 0xFFBD), (1, 0xFFDE), (1, 0xDEDA), (1, 0xF77D), (105, 0xFFFF), (1, 0xEF1C), (1,
       0xF34C), (1, 0xFB0C), (4, 0xFB4D), (1, 0xFB6E), (3, 0xFBAE), (4, 0xFBCF), (2, 0xFBEF), (1, 0xFB8E), (1, 0xCC92), (1, 0xF7FF), (64,
       0xFFFF)],
      [(124, 0xFFFF), (1, 0xEF5C), (1, 0xFFBE), (2, 0xFFBD), (1, 0xFFDE), (1, 0xDEDA), (1, 0xDEFB), (107, 0xFFFF), (1, 0xED96), (1,
       0xFB0C), (1, 0xFB2D), (2, 0xFB4D), (1, 0xFB8E), (3, 0xFBAE), (4, 0xFBCF), (3, 0xFBEF), (1, 0xFBCF), (1, 0xD34D), (1, 0xD618), (1,
       0xF7FF), (62, 0xFFFF)],
      [(124, 0xFFFF), (1, 0xFFDF), (1, 0xF77D), (1, 0xFFBE), (1, 0xFFBD), (1, 0xFFBE), (1, 0xE73B), (1, 0xF7BD), (1, 0xE71C), (107,
       0xFFFF), (1, 0xFFDF), (1, 0xECD3), (1, 0xFAEC), (1, 0xFB0C), (1, 0xFB8E), (2, 0xFBAE), (5, 0xFBCF), (4, 0xFBEF), (1, 0xFC0F), (1,
       0xFBCF), (1, 0xF410), (1, 0xE5D7), (1, 0xFFBE), (60, 0xFFFF)],
      [(125, 0xFFFF), (1, 0xEF7D), (1, 0xF77C), (2, 0xFFBD), (1, 0xFFDE), (1, 0xE73B), (1, 0xFFDE), (1, 0xF79E), (108, 0xFFFF), (1,
       0xFFBE), (1, 0xE555), (1, 0xF36D), (1, 0xFB4C), (1, 0xFBAE), (4, 0xFBCF), (6, 0xFBEF), (1, 0xFC10), (1, 0xFC30), (2, 0xFC10), (1,
       0xF492), (1, 0xDD55), (1, 0xE6BA), (1, 0xFFBE), (56, 0xFFFF)],
      [(126, 0xFFFF), (1, 0xE71B), (1, 0xF79D), (1, 0xFFBD), (1, 0xFFDE), (1, 0xE6FB), (1, 0xF7BD), (1, 0xF79E), (110, 0xFFFF), (1,
       0xF7FF), (1, 0xE69A), (1, 0xD410), (1, 0xF38D), (1, 0xF36D), (1, 0xFB6D), (1, 0xFB8E), (1, 0xFBCF), (5, 0xFBEF), (1, 0xFC10), (1,
       0xFBF0), (2, 0xFBCF), (1, 0xFBEF), (1, 0xF430), (1, 0xD32C), (1, 0xDF1C), (56, 0xFFFF)],
      [(127, 0xFFFF), (1, 0xD69A), (1, 0xFFDE), (1, 0xFFBE), (1, 0xE71B), (1, 0xE73C), (114, 0xFFFF), (1, 0xEFBF), (1, 0xF77D), (1,
       0xE69A), (1, 0xE575), (1, 0xECB2), (1, 0xEC50), (1, 0xEC71), (1, 0xF410), (1, 0xF451), (1, 0xEC71), (1, 0xEC72), (1, 0xED14), (1,
       0xEDD7), (1, 0xEEDB), (1, 0xF75D), (1, 0xF7FF), (58, 0xFFFF)],
      [(127, 0xFFFF), (1, 0xDEFB), (1, 0xFFDE), (1, 0xFFBD), (1, 0xFFBE), (1, 0xDEDA), (1, 0xE73C), (187, 0xFFFF)],
      [(128, 0xFFFF), (1, 0xDEFA), (1, 0xFFBD), (1, 0xFFBE), (1, 0xEF7C), (1, 0xF79D), (1, 0xF7BE), (186, 0xFFFF)],
      [(128, 0xFFFF), (1, 0xE71B), (2, 0xFFBE), (1, 0xEF3C), (1, 0xFFDE), (1, 0xEF5C), (186, 0xFFFF)],
      [(128, 0xFFFF), (1, 0xE71C), (1, 0xFFDE), (1, 0xFFBE), (1, 0xDEDA), (1, 0xFFDE), (1, 0xF79D), (1, 0xF7BE), (185, 0xFFFF)],
      [(129, 0xFFFF), (1, 0xEF5C), (1, 0xFFBE), (1, 0xE71B), (1, 0xF7BD), (1, 0xFFDE), (1, 0xF79E), (185, 0xFFFF)],
      [(129, 0xFFFF), (1, 0xF77D), (1, 0xFFBD), (1, 0xFFFE), (1, 0xC618), (1, 0xF79D), (1, 0xF79E), (185, 0xFFFF)],
      [(129, 0xFFFF), (1, 0xF79D), (1, 0xFFBD), (1, 0xFFDE), (1, 0xEF5C), (1, 0xF7BE), (186, 0xFFFF)],
      [(129, 0xFFFF), (1, 0xE73C), (2, 0xFFDE), (1, 0xDEFB), (187, 0xFFFF)]]"

definition GIRL_COLORS_11 :: "runs list" where
  "GIRL_COLORS_11 =
     [[(129, 0xFFFF), (1, 0xEF7D), (2, 0xF79D), (1, 0xF79E), (187, 0xFFFF)],
      [(130, 0xFFFF), (1, 0xE71B), (1, 0xEF5C), (188, 0xFFFF)],
      [(130, 0xFFFF), (1, 0xEF7D), (189, 0xFFFF)],
      [(320, 0xFFFF)],
      [(320, 0xFFFF)],
      [(320, 0xFFFF)],
      [(320, 0xFFFF)],
      [(320, 0xFFFF)],
      [(320, 0xFFFF)],
      [(320, 0xFFFF)],
      [(320, 0xFFFF)],
      [(320, 0xFFFF)],
      [(320, 0xFFFF)],
      [(320, 0xFFFF)],
      [(320, 0xFFFF)],
      [(320, 0xFFFF)],
      [(320, 0xFFFF)],
      [(320, 0xFFFF)],
      [(320, 0xFFFF)],
      [(320, 0xFFFF)]]"

lemma GIRL_COLORS_0_ok: "length GIRL_COLORS_0 = 20 \<and> list_all row_ok GIRL_COLORS_0"
  unfolding GIRL_COLORS_0_def by (simp add: row_ok_def)

lemma GIRL_COLORS_1_ok: "length GIRL_COLORS_1 = 20 \<and> list_all row_ok GIRL_COLORS_1"
  unfolding GIRL_COLORS_1_def by (simp add: row_ok_def)

lemma GIRL_COLORS_2_ok: "length GIRL_COLORS_2 = 20 \<and> list_all row_ok GIRL_COLORS_2"
  unfolding GIRL_COLORS_2_def by (simp add: row_ok_def)

lemma GIRL_COLORS_3_ok: "length GIRL_COLORS_3 = 20 \<and> list_all row_ok GIRL_COLORS_3"
  unfolding GIRL_COLORS_3_def by (simp add: row_ok_def)

lemma GIRL_COLORS_4_ok: "length GIRL_COLORS_4 = 20 \<and> list_all row_ok GIRL_COLORS_4"
  unfolding GIRL_COLORS_4_def by (simp add: row_ok_def)

lemma GIRL_COLORS_5_ok: "length GIRL_COLORS_5 = 20 \<and> list_all row_ok GIRL_COLORS_5"
  unfolding GIRL_COLORS_5_def by (simp add: row_ok_def)

lemma GIRL_COLORS_6_ok: "length GIRL_COLORS_6 = 20 \<and> list_all row_ok GIRL_COLORS_6"
  unfolding GIRL_COLORS_6_def by (simp add: row_ok_def)

lemma GIRL_COLORS_7_ok: "length GIRL_COLORS_7 = 20 \<and> list_all row_ok GIRL_COLORS_7"
  unfolding GIRL_COLORS_7_def by (simp add: row_ok_def)

lemma GIRL_COLORS_8_ok: "length GIRL_COLORS_8 = 20 \<and> list_all row_ok GIRL_COLORS_8"
  unfolding GIRL_COLORS_8_def by (simp add: row_ok_def)

lemma GIRL_COLORS_9_ok: "length GIRL_COLORS_9 = 20 \<and> list_all row_ok GIRL_COLORS_9"
  unfolding GIRL_COLORS_9_def by (simp add: row_ok_def)

lemma GIRL_COLORS_10_ok: "length GIRL_COLORS_10 = 20 \<and> list_all row_ok GIRL_COLORS_10"
  unfolding GIRL_COLORS_10_def by (simp add: row_ok_def)

lemma GIRL_COLORS_11_ok: "length GIRL_COLORS_11 = 20 \<and> list_all row_ok GIRL_COLORS_11"
  unfolding GIRL_COLORS_11_def by (simp add: row_ok_def)

definition GIRL_COLORS :: "nat list" where
  "GIRL_COLORS = concat (map run_row
     (GIRL_COLORS_0 @ GIRL_COLORS_1 @ GIRL_COLORS_2 @ GIRL_COLORS_3
       @ GIRL_COLORS_4 @ GIRL_COLORS_5 @ GIRL_COLORS_6 @ GIRL_COLORS_7
       @ GIRL_COLORS_8 @ GIRL_COLORS_9 @ GIRL_COLORS_10 @ GIRL_COLORS_11))"

lemmas GIRL_COLORS_ok = GIRL_COLORS_0_ok GIRL_COLORS_1_ok GIRL_COLORS_2_ok GIRL_COLORS_3_ok
  GIRL_COLORS_4_ok GIRL_COLORS_5_ok GIRL_COLORS_6_ok GIRL_COLORS_7_ok
  GIRL_COLORS_8_ok GIRL_COLORS_9_ok GIRL_COLORS_10_ok GIRL_COLORS_11_ok

lemma length_GIRL_COLORS: "length GIRL_COLORS = 320 * 240"
  unfolding GIRL_COLORS_def by (subst concat_rows(1)) (simp_all add: GIRL_COLORS_ok)

lemma GIRL_COLORS_range: "\<forall>c \<in> set GIRL_COLORS. c < 2 ^ 16"
proof -
  have "\<forall>c \<in> set GIRL_COLORS. c < 65536"
    unfolding GIRL_COLORS_def by (rule concat_rows(2)) (simp add: GIRL_COLORS_ok)
  then show ?thesis by simp
qed

end
