(* ===== verification/Arm_Lcd.thy ===== *)
theory Arm_Lcd
  imports Arm_Peripheral Fonts Girl
begin

text \<open>
  \<^verbatim>\<open>src/arch/arm11/peripheral/spi.rs\<close>: the SPI controller and the display with an ILI9340
  controller behind it, and \<^verbatim>\<open>peripheral::init\<close> of \<^verbatim>\<open>mod.rs\<close>.

  An action takes the device state and returns the next one; \<open>None\<close> is an action that never
  ends, \<open>Some (Inl p)\<close> a panic.  Coordinates are \<^verbatim>\<open>u16\<close>: natural numbers with checked arithmetic.
  The picture \<^verbatim>\<open>GIRL_COLORS\<close> is in theory \<open>Girl\<close>, the font in \<open>Fonts\<close>.
\<close>

section \<open>Actions\<close>

type_synonym 'd action = "'d \<Rightarrow> 'd res option"

definition act_then :: "'d action \<Rightarrow> 'd action \<Rightarrow> 'd action" where
  "act_then f g d = (case f d of Some (Inr d') \<Rightarrow> g d' | r \<Rightarrow> r)"

fun act_seq :: "'d action list \<Rightarrow> 'd action" where
  "act_seq [] d = Some (Inr d)"
| "act_seq (f # fs) d = act_then f (act_seq fs) d"

text \<open>Checked arithmetic on \<^verbatim>\<open>u16\<close>, as a guard before the action that uses the result.\<close>

definition u16_add :: "nat \<Rightarrow> nat \<Rightarrow> (nat \<Rightarrow> 'd action) \<Rightarrow> 'd action" where
  "u16_add x y f d = (if x + y < 2 ^ 16 then f (x + y) d else Some (Inl Overflow))"

definition u16_sub :: "nat \<Rightarrow> nat \<Rightarrow> (nat \<Rightarrow> 'd action) \<Rightarrow> 'd action" where
  "u16_sub x y f d = (if y \<le> x then f (x - y) d else Some (Inl Overflow))"

section \<open>The SPI controller\<close>

datatype Chip = Ce0 | Ce1 | Ce2

definition bitmask :: "u32 \<Rightarrow> u32 \<Rightarrow> u32 \<Rightarrow> u32" where
  "bitmask current_value clobbered_mask value = (current_value AND NOT clobbered_mask) OR (value AND clobbered_mask)"

definition select_chip :: "'d device_api \<Rightarrow> board \<Rightarrow> Chip \<Rightarrow> 'd \<Rightarrow> 'd" where
  "select_chip D b ce d =
     (let pattern = (case ce of Ce0 \<Rightarrow> 0 | Ce1 \<Rightarrow> 1 | Ce2 \<Rightarrow> 2);
          (current_config, d1) = addr_load D b Spi0RegisterCs d;
          new_config = bitmask current_config 3 pattern
      in addr_store D b Spi0RegisterCs new_config d1)"

text \<open>The polling loops: load the control register until the masked bits are not all zero.\<close>

partial_function (option) poll :: "'d device_api \<Rightarrow> board \<Rightarrow> u32 \<Rightarrow> 'd \<Rightarrow> 'd option" where
  "poll D b m d =
     (if fst (addr_load D b Spi0RegisterCs d) AND m \<noteq> 0 then Some (snd (addr_load D b Spi0RegisterCs d))
      else poll D b m (snd (addr_load D b Spi0RegisterCs d)))"

definition spi_transfer :: "'d device_api \<Rightarrow> board \<Rightarrow> u8 \<Rightarrow> 'd \<Rightarrow> (u8 \<times> 'd) option" where
  "spi_transfer D b trans_value d =
     (let (v0, d0) = addr_load D b Spi0RegisterCs d;
          d1 = addr_store D b Spi0RegisterCs (bitmask v0 (push_bit 4 0xB) (push_bit 4 0xB)) d0
      in Option.bind (poll D b (push_bit 18 1) d1) (\<lambda>d2.
         let d3 = addr_store D b Spi0RegisterFifo (0xFF AND ucast trans_value) d2;
             (r, d4) = addr_load D b Spi0RegisterFifo d3;
             read_value = ucast (r AND 0xFF)
         in Option.bind (poll D b (push_bit 16 1) d4) (\<lambda>d5.
            let (v6, d6) = addr_load D b Spi0RegisterCs d5
            in Some (read_value, addr_store D b Spi0RegisterCs (bitmask v6 (push_bit 7 1) (push_bit 7 0)) d6))))"

section \<open>The display\<close>

definition u16_lo :: "nat \<Rightarrow> u8" where
  "u16_lo v = of_nat (v AND 0xFF)"

definition u16_hi :: "nat \<Rightarrow> u8" where
  "u16_hi v = of_nat (drop_bit 8 v AND 0xFF)"

definition write_command :: "'d device_api \<Rightarrow> board \<Rightarrow> u8 \<Rightarrow> 'd action" where
  "write_command D b command d =
     map_option (\<lambda>(_, d'). Inr d') (spi_transfer D b command (write_output_pin D b Ili9340Dc Clear d))"

definition write_data :: "'d device_api \<Rightarrow> board \<Rightarrow> u8 \<Rightarrow> 'd action" where
  "write_data D b data d =
     map_option (\<lambda>(_, d'). Inr d') (spi_transfer D b data (write_output_pin D b Ili9340Dc Set d))"

definition set_color :: "'d device_api \<Rightarrow> board \<Rightarrow> nat \<Rightarrow> 'd action" where
  "set_color D b color = act_seq [write_data D b (u16_hi color), write_data D b (u16_lo color)]"

definition set_draw_area :: "'d device_api \<Rightarrow> board \<Rightarrow> nat \<Rightarrow> nat \<Rightarrow> nat \<Rightarrow> nat \<Rightarrow> 'd action" where
  "set_draw_area D b x_begin x_end y_begin y_end =
     act_seq
       [write_command D b 0x00,
        write_command D b 0x2A, write_data D b (u16_hi x_begin), write_data D b (u16_lo x_begin),
        u16_sub x_end 1 (\<lambda>tmp. act_seq [write_data D b (u16_hi tmp), write_data D b (u16_lo tmp)]),
        write_command D b 0x2B, write_data D b (u16_hi y_begin), write_data D b (u16_lo y_begin),
        u16_sub y_end 1 (\<lambda>tmp. act_seq [write_data D b (u16_hi tmp), write_data D b (u16_lo tmp)]),
        write_command D b 0x2C]"

definition fill_screen :: "'d device_api \<Rightarrow> board \<Rightarrow> nat \<Rightarrow> 'd action" where
  "fill_screen D b color =
     act_then (set_draw_area D b 0 320 0 240) (act_seq (replicate (320 * 240) (set_color D b color)))"

definition FONT_HEIGHT :: nat where "FONT_HEIGHT = 13"
definition FONT_WIDTH :: nat where "FONT_WIDTH = 8"
definition GIRL_HEIGHT :: nat where "GIRL_HEIGHT = 240"
definition GIRL_WIDTH :: nat where "GIRL_WIDTH = 320"

text \<open>An index outside an array is a panic.\<close>

definition girl_pixel :: "'d device_api \<Rightarrow> board \<Rightarrow> nat \<Rightarrow> 'd action" where
  "girl_pixel D b i d =
     (case vec_get GIRL_COLORS i of Inl e \<Rightarrow> Some (Inl e) | Inr c \<Rightarrow> set_color D b c d)"

definition draw_girl :: "'d device_api \<Rightarrow> board \<Rightarrow> 'd action" where
  "draw_girl D b =
     act_then (set_draw_area D b 0 GIRL_WIDTH 0 GIRL_HEIGHT)
       (act_seq (map (girl_pixel D b) [0..<GIRL_HEIGHT * GIRL_WIDTH]))"

definition draw_row :: "'d device_api \<Rightarrow> board \<Rightarrow> u8 \<Rightarrow> nat \<Rightarrow> nat \<Rightarrow> 'd action" where
  "draw_row D b line color_bg color_fg =
     act_seq (map (\<lambda>j.
       let bt = drop_bit (FONT_WIDTH - j - 1) line AND 0x1
       in if bt = 1 then set_color D b color_fg else set_color D b color_bg) [0..<FONT_WIDTH])"

definition draw_glyph :: "'d device_api \<Rightarrow> board \<Rightarrow> u8 list \<Rightarrow> nat \<Rightarrow> nat \<Rightarrow> 'd action" where
  "draw_glyph D b font color_bg color_fg =
     act_seq (map (\<lambda>i d.
       case vec_get font i of Inl e \<Rightarrow> Some (Inl e) | Inr line \<Rightarrow> draw_row D b line color_bg color_fg d)
       [0..<FONT_HEIGHT])"

text \<open>A Rust \<^verbatim>\<open>char\<close> is its code point; \<^verbatim>\<open>c as u8\<close> keeps the low byte.\<close>

definition draw_char :: "'d device_api \<Rightarrow> board \<Rightarrow> nat \<Rightarrow> nat \<Rightarrow> u32 \<Rightarrow> nat \<Rightarrow> nat \<Rightarrow> 'd action" where
  "draw_char D b x_begin y_begin c color_bg color_fg =
     act_then (write_command D b 0x00)
     (u16_add x_begin FONT_WIDTH (\<lambda>x_end.
      u16_add y_begin FONT_HEIGHT (\<lambda>y_end.
      act_then (set_draw_area D b x_begin x_end y_begin y_end)
      (\<lambda>d. let char_code = ucast c :: u8 in
        case vec_get FONTS (unat char_code) of
          Inl e \<Rightarrow> Some (Inl e)
        | Inr font \<Rightarrow> draw_glyph D b font color_bg color_fg d))))"

fun draw_string_loop ::
  "'d device_api \<Rightarrow> board \<Rightarrow> nat \<Rightarrow> nat \<Rightarrow> nat \<Rightarrow> u32 list \<Rightarrow> nat \<Rightarrow> nat \<Rightarrow> 'd action" where
  "draw_string_loop D b x_begin x y [] color_bg color_fg d = Some (Inr d)"
| "draw_string_loop D b x_begin x y (c # cs) color_bg color_fg d =
     (if c = 0x0A
      then u16_add y FONT_HEIGHT (\<lambda>y'. draw_string_loop D b x_begin x_begin y' cs color_bg color_fg) d
      else act_then (draw_char D b x y c color_bg color_fg)
             (u16_add x FONT_WIDTH (\<lambda>x'. draw_string_loop D b x_begin x' y cs color_bg color_fg)) d)"

definition draw_string :: "'d device_api \<Rightarrow> board \<Rightarrow> nat \<Rightarrow> nat \<Rightarrow> u32 list \<Rightarrow> nat \<Rightarrow> nat \<Rightarrow> 'd action" where
  "draw_string D b x_begin y_begin string color_bg color_fg =
     draw_string_loop D b x_begin x_begin y_begin string color_bg color_fg"

definition aart :: "u32 list" where
  "aart = map (\<lambda>c. of_nat (of_char c))
     (''    ___                   __'' @ [CHR 0x0A] @ ''   /   |   _  __  ___    / /'' @ [CHR 0x0A]
      @ ''  / /| |  | |/_/ / _ '' @ [CHR 0x5C] @ ''  / /'' @ [CHR 0x0A]
      @ '' / ___ | _>  <  /  __/ / /'' @ [CHR 0x0A]
      @ ''/_/  |_|/_/|_|  '' @ [CHR 0x5C] @ ''___/ /_/'')"

definition draw_aa :: "'d device_api \<Rightarrow> board \<Rightarrow> 'd action" where
  "draw_aa D b = draw_string D b 50 100 aart 0x0000 0xF800"

definition draw_dot :: "'d device_api \<Rightarrow> board \<Rightarrow> nat \<Rightarrow> nat \<Rightarrow> nat \<Rightarrow> 'd action" where
  "draw_dot D b x y c =
     u16_add x 1 (\<lambda>x_end. u16_add y 1 (\<lambda>y_end.
       act_then (set_draw_area D b x x_end y y_end) (set_color D b c)))"

text \<open>An access that cannot fail, as an action.\<close>

definition pure_act :: "('d \<Rightarrow> 'd) \<Rightarrow> 'd action" where
  "pure_act f d = Some (Inr (f d))"

definition ili9340_init :: "'d device_api \<Rightarrow> board \<Rightarrow> 'd action" where
  "ili9340_init D b =
     act_seq
       [pure_act (set_pin_function D b Spi0Ce0N Alternate0),
        pure_act (set_pin_function D b Spi0Mosi Alternate0),
        pure_act (set_pin_function D b Spi0Sclk Alternate0),
        pure_act (set_pin_function D b Ili9340Dc Output),
        pure_act (addr_store D b Spi0RegisterCs 0x30),
        pure_act (addr_store D b Spi0RegisterClk 4),
        write_command D b 0x01, wait D b 120,
        write_command D b 0x28,
        write_command D b 0xC0, write_data D b 0x23, write_data D b 0x00,
        write_command D b 0xC1, write_data D b 0x10,
        write_command D b 0xC5, write_data D b 0x3E, write_data D b 0x28,
        write_command D b 0xC7, write_data D b 0x86,
        write_command D b 0x3A, write_data D b 0x55,
        write_command D b 0xB1, write_data D b 0x00, write_data D b 0x18,
        write_command D b 0xB6, write_data D b 0x08, write_data D b 0x82, write_data D b 0x27,
        write_command D b 0x26, write_data D b 0x01,
        write_command D b 0xE0, write_data D b 0x0F, write_data D b 0x31, write_data D b 0x2B,
        write_data D b 0x0C, write_data D b 0x0E, write_data D b 0x08, write_data D b 0x4E,
        write_data D b 0xF1, write_data D b 0x37, write_data D b 0x07, write_data D b 0x10,
        write_data D b 0x03, write_data D b 0x0E, write_data D b 0x09, write_data D b 0x00,
        write_command D b 0xE1, write_data D b 0x00, write_data D b 0x0E, write_data D b 0x14,
        write_data D b 0x03, write_data D b 0x11, write_data D b 0x07, write_data D b 0x31,
        write_data D b 0xC1, write_data D b 0x48, write_data D b 0x08, write_data D b 0x0F,
        write_data D b 0x0C, write_data D b 0x31, write_data D b 0x36, write_data D b 0x0F,
        write_command D b 0x36, write_data D b 0x28,
        write_command D b 0x11, wait D b 120,
        write_command D b 0x29,
        fill_screen D b 0x0000]"

definition init_spi0 :: "'d device_api \<Rightarrow> board \<Rightarrow> 'd action" where
  "init_spi0 D b = ili9340_init D b"

section \<open>Start-up on the Raspberry Pi\<close>

text \<open>
  The endless loop of \<^verbatim>\<open>peripheral::init\<close>: one iteration with its flag \<^verbatim>\<open>switch\<close>, and the run
  of its first \<open>n\<close> iterations.
\<close>

definition blink :: "'d device_api \<Rightarrow> board \<Rightarrow> bool \<Rightarrow> 'd action" where
  "blink D b sw =
     act_seq
       ([pure_act (write_output_pin D b OkLed Clear), wait D b 500,
         pure_act (write_output_pin D b OkLed Set), wait D b 500]
        @ (if sw then [draw_girl D b] else [fill_screen D b 0x0000, draw_aa D b]))"

fun blink_loop :: "'d device_api \<Rightarrow> board \<Rightarrow> nat \<Rightarrow> bool \<Rightarrow> 'd action" where
  "blink_loop D b 0 sw d = Some (Inr d)"
| "blink_loop D b (Suc n) sw d = act_then (blink D b sw) (blink_loop D b n (\<not> sw)) d"

definition peripheral_init :: "'d device_api \<Rightarrow> board \<Rightarrow> nat \<Rightarrow> 'd action" where
  "peripheral_init D b n =
     act_seq [init_spi0 D b, pure_act (set_pin_function D b OkLed Output), blink_loop D b n True]"

definition arm11_init :: "'d device_api \<Rightarrow> board \<Rightarrow> nat \<Rightarrow> 'd action" where
  "arm11_init D b n = peripheral_init D b n"

end
