(* ===== verification/Arm_Device.thy ===== *)
theory Arm_Device
  imports Arm_Lcd
begin

text \<open>
  What the drivers rely on from the hardware, as locales over the device \<open>D\<close>: registers that
  read back what was stored (\<open>register_bank\<close>), the levels of the pins (\<open>gpio_pins\<close>), the system
  timer (\<open>system_timer\<close>), the SPI controller with the display's data/command line
  (\<open>lcd_device\<close>), and the whole board (\<open>pi_board\<close>).  Each is interpreted on a simulation of the
  board, \<open>pi_device\<close>.
\<close>

section \<open>Interfaces\<close>

locale register_bank =
  fixes D :: "'d device_api" and bank :: "usize set"
  assumes load_store: "r \<in> bank \<Longrightarrow> q \<in> bank \<Longrightarrow>
      fst (dev_load D q (dev_store D r v d)) = (if q = r then v else fst (dev_load D q d))"
    and load_load: "r \<in> bank \<Longrightarrow> q \<in> bank \<Longrightarrow> fst (dev_load D q (snd (dev_load D r d))) = fst (dev_load D q d)"

definition gpio_select_bank :: "board \<Rightarrow> usize set" where
  "gpio_select_bank b = (\<lambda>k. to_usize b GpioBase + k * 4) ` {0..<6}"

text \<open>
  The pins: a store to a set or clear register changes the pins whose bits are one, the two
  kinds of register are write-only and read as zero, and the level registers read the pins.
\<close>

locale gpio_pins =
  fixes D :: "'d device_api" and b :: board and level :: "'d \<Rightarrow> nat \<Rightarrow> bool"
  assumes load_pins: "r \<in> {GpioGpSet0, GpioGpSet1, GpioGpClr0, GpioGpClr1} \<Longrightarrow> addr_load D b r d = (v, d') \<Longrightarrow>
      v = 0 \<and> level d' = level d"
    and store_set0: "p < 54 \<Longrightarrow> level (addr_store D b GpioGpSet0 v d) p \<longleftrightarrow> level d p \<or> p < 32 \<and> bit v p"
    and store_set1: "p < 54 \<Longrightarrow> level (addr_store D b GpioGpSet1 v d) p \<longleftrightarrow> level d p \<or> 32 \<le> p \<and> bit v (p - 32)"
    and store_clr0: "p < 54 \<Longrightarrow> level (addr_store D b GpioGpClr0 v d) p \<longleftrightarrow> level d p \<and> \<not> (p < 32 \<and> bit v p)"
    and store_clr1: "p < 54 \<Longrightarrow> level (addr_store D b GpioGpClr1 v d) p \<longleftrightarrow> level d p \<and> \<not> (32 \<le> p \<and> bit v (p - 32))"
    and load_lev0: "p < 32 \<Longrightarrow> bit (fst (addr_load D b GpioGpLev0 d)) p \<longleftrightarrow> level d p"
    and load_lev1: "32 \<le> p \<Longrightarrow> p < 54 \<Longrightarrow> bit (fst (addr_load D b GpioGpLev1 d)) (p - 32) \<longleftrightarrow> level d p"

text \<open>The clock counts microseconds; a load of a timer register takes between 0 (1 for the low word) and \<open>\<delta>\<close> of them.\<close>

locale system_timer =
  fixes D :: "'d device_api" and b :: board and clk :: "'d \<Rightarrow> nat" and \<delta> :: nat
  assumes load_lo: "fst (addr_load D b TimerClo d) = of_nat (clk d)"
    and load_hi: "fst (addr_load D b TimerChi d) = of_nat (clk d div 2 ^ 32)"
    and lo_advances: "clk d < clk (snd (addr_load D b TimerClo d))" "clk (snd (addr_load D b TimerClo d)) \<le> clk d + \<delta>"
    and hi_advances: "clk d \<le> clk (snd (addr_load D b TimerChi d))" "clk (snd (addr_load D b TimerChi d)) \<le> clk d + \<delta>"

text \<open>
  The display: \<open>dc\<close> is the level of its data/command pin, \<open>ta\<close> says that a transfer is active,
  \<open>sent\<close> are the bytes it received, each with the level of the pin, \<open>led\<close> is the level of the pin
  of the LED.  A store to the FIFO during a transfer sends a byte; with an active transfer the
  controller reports room in the FIFO (bit 18) and the end of the transfer (bit 16) after at most
  \<open>K\<close> polls.  An access takes at most \<open>\<delta>\<close> microseconds.
\<close>

fun after_loads :: "'d device_api \<Rightarrow> board \<Rightarrow> nat \<Rightarrow> 'd \<Rightarrow> 'd" where
  "after_loads D b 0 d = d"
| "after_loads D b (Suc n) d = after_loads D b n (snd (addr_load D b Spi0RegisterCs d))"

definition spent :: "('d \<Rightarrow> nat) \<Rightarrow> nat \<Rightarrow> 'd \<Rightarrow> 'd \<Rightarrow> bool" where
  "spent clk n d d' \<longleftrightarrow> clk d \<le> clk d' \<and> clk d' \<le> clk d + n"

lemma spent_refl [simp]: "spent clk n d d"
  by (simp add: spent_def)

lemma spent_trans: "spent clk m d e \<Longrightarrow> spent clk n e d' \<Longrightarrow> spent clk (m + n) d d'"
  by (simp add: spent_def)

lemma spent_mono: "spent clk m d e \<Longrightarrow> m \<le> n \<Longrightarrow> spent clk n d e"
  by (simp add: spent_def)

locale lcd_device =
  fixes D :: "'d device_api" and b :: board and inv :: "'d \<Rightarrow> bool"
    and dc :: "'d \<Rightarrow> bool" and ta :: "'d \<Rightarrow> bool" and sent :: "'d \<Rightarrow> (bool \<times> u8) list"
    and led :: "'d \<Rightarrow> bool" and clk :: "'d \<Rightarrow> nat" and \<delta> :: nat and K :: nat
  assumes load: "inv d \<Longrightarrow> r \<in> {Spi0RegisterCs, Spi0RegisterFifo, GpioGpSet0, GpioGpClr0} \<Longrightarrow>
      addr_load D b r d = (v, d') \<Longrightarrow>
      inv d' \<and> dc d' = dc d \<and> ta d' = ta d \<and> sent d' = sent d \<and> led d' = led d \<and> spent clk \<delta> d d'"
    and load_pin: "inv d \<Longrightarrow> r \<in> {GpioGpSet0, GpioGpClr0} \<Longrightarrow> fst (addr_load D b r d) = 0"
    and store_set: "inv d \<Longrightarrow> d' = addr_store D b GpioGpSet0 (push_bit 25 1) d \<Longrightarrow>
      inv d' \<and> dc d' \<and> ta d' = ta d \<and> sent d' = sent d \<and> led d' = led d \<and> spent clk \<delta> d d'"
    and store_clear: "inv d \<Longrightarrow> d' = addr_store D b GpioGpClr0 (push_bit 25 1) d \<Longrightarrow>
      inv d' \<and> \<not> dc d' \<and> ta d' = ta d \<and> sent d' = sent d \<and> led d' = led d \<and> spent clk \<delta> d d'"
    and store_cs: "inv d \<Longrightarrow> d' = addr_store D b Spi0RegisterCs v d \<Longrightarrow>
      inv d' \<and> dc d' = dc d \<and> (ta d' \<longleftrightarrow> bit v 7) \<and> sent d' = sent d \<and> led d' = led d \<and> spent clk \<delta> d d'"
    and store_fifo: "inv d \<Longrightarrow> ta d \<Longrightarrow> d' = addr_store D b Spi0RegisterFifo v d \<Longrightarrow>
      inv d' \<and> dc d' = dc d \<and> ta d' = ta d \<and> sent d' = sent d @ [(dc d, ucast v)] \<and> led d' = led d \<and> spent clk \<delta> d d'"
    and room: "inv d \<Longrightarrow> ta d \<Longrightarrow> \<exists>n \<le> K. bit (fst (addr_load D b Spi0RegisterCs (after_loads D b n d))) 18"
    and finished: "inv d \<Longrightarrow> ta d \<Longrightarrow> \<exists>n \<le> K. bit (fst (addr_load D b Spi0RegisterCs (after_loads D b n d))) 16"

text \<open>
  The board: the timer, the display and the LED on one device.  The accesses to the other
  registers that the start-up uses do not disturb the display.
\<close>

definition led_register :: "board \<Rightarrow> Output_mode \<Rightarrow> Addr" where
  "led_register b mode =
     (if pin_number b OkLed \<le> 31 then (case mode of Set \<Rightarrow> GpioGpSet0 | Clear \<Rightarrow> GpioGpClr0)
      else (case mode of Set \<Rightarrow> GpioGpSet1 | Clear \<Rightarrow> GpioGpClr1))"

locale pi_board =
  lcd_device D b inv dc ta sent led clk \<delta> K + system_timer D b clk \<delta>
  for D :: "'d device_api" and b :: board and inv :: "'d \<Rightarrow> bool"
    and dc :: "'d \<Rightarrow> bool" and ta :: "'d \<Rightarrow> bool" and sent :: "'d \<Rightarrow> (bool \<times> u8) list"
    and led :: "'d \<Rightarrow> bool" and clk :: "'d \<Rightarrow> nat" and \<delta> :: nat and K :: nat +
  assumes load_timer: "inv d \<Longrightarrow> r \<in> {TimerClo, TimerChi} \<Longrightarrow> addr_load D b r d = (v, d') \<Longrightarrow>
      inv d' \<and> sent d' = sent d \<and> led d' = led d"
    and load_select: "inv d \<Longrightarrow> q \<in> gpio_select_bank b \<Longrightarrow> dev_load D q d = (v, d') \<Longrightarrow>
      inv d' \<and> sent d' = sent d \<and> led d' = led d \<and> spent clk \<delta> d d'"
    and store_select: "inv d \<Longrightarrow> q \<in> gpio_select_bank b \<Longrightarrow> d' = dev_store D q v d \<Longrightarrow>
      inv d' \<and> sent d' = sent d \<and> led d' = led d \<and> spent clk \<delta> d d'"
    and store_divider: "inv d \<Longrightarrow> d' = addr_store D b Spi0RegisterClk v d \<Longrightarrow>
      inv d' \<and> sent d' = sent d \<and> led d' = led d \<and> spent clk \<delta> d d'"
    and load_led: "inv d \<Longrightarrow> addr_load D b (led_register b mode) d = (v, d') \<Longrightarrow>
      v = 0 \<and> inv d' \<and> sent d' = sent d \<and> spent clk \<delta> d d'"
    and store_led: "inv d \<Longrightarrow>
      d' = addr_store D b (led_register b mode) (push_bit (pin_number b OkLed mod 32) 1) d \<Longrightarrow>
      inv d' \<and> sent d' = sent d \<and> (led d' \<longleftrightarrow> mode = Set) \<and> spent clk \<delta> d d'"

section \<open>A simulated board\<close>

record pi_device =
  pi_regs :: "usize \<Rightarrow> u32"
  pi_level :: "nat \<Rightarrow> bool"
  pi_ta :: bool
  pi_sent :: "(bool \<times> u8) list"
  pi_clock :: nat

abbreviation pi_dc :: "pi_device \<Rightarrow> bool" where
  "pi_dc d \<equiv> pi_level d 25"

definition level_word :: "(nat \<Rightarrow> bool) \<Rightarrow> nat \<Rightarrow> u32" where
  "level_word lv n = horner_sum of_bool 2 (map (\<lambda>i. lv (n + i)) [0..<32])"

definition pi_load :: "board \<Rightarrow> usize \<Rightarrow> pi_device \<Rightarrow> u32 \<times> pi_device" where
  "pi_load b r d =
     (if r = to_usize b TimerClo then (of_nat (pi_clock d), d\<lparr>pi_clock := pi_clock d + 1\<rparr>)
      else if r = to_usize b TimerChi then (of_nat (pi_clock d div 2 ^ 32), d\<lparr>pi_clock := pi_clock d + 1\<rparr>)
      else if r = to_usize b Spi0RegisterCs then (if pi_ta d then 0x50080 else 0, d)
      else if r = to_usize b GpioGpLev0 then (level_word (pi_level d) 0, d)
      else if r = to_usize b GpioGpLev1 then (level_word (pi_level d) 32, d)
      else if r \<in> {to_usize b GpioGpSet0, to_usize b GpioGpSet1, to_usize b GpioGpClr0, to_usize b GpioGpClr1} then (0, d)
      else (pi_regs d r, d))"

definition pi_store :: "board \<Rightarrow> usize \<Rightarrow> u32 \<Rightarrow> pi_device \<Rightarrow> pi_device" where
  "pi_store b r v d =
     (if r = to_usize b GpioGpSet0 then d\<lparr>pi_level := (\<lambda>p. pi_level d p \<or> p < 32 \<and> bit v p)\<rparr>
      else if r = to_usize b GpioGpSet1 then d\<lparr>pi_level := (\<lambda>p. pi_level d p \<or> 32 \<le> p \<and> bit v (p - 32))\<rparr>
      else if r = to_usize b GpioGpClr0 then d\<lparr>pi_level := (\<lambda>p. pi_level d p \<and> \<not> (p < 32 \<and> bit v p))\<rparr>
      else if r = to_usize b GpioGpClr1 then d\<lparr>pi_level := (\<lambda>p. pi_level d p \<and> \<not> (32 \<le> p \<and> bit v (p - 32)))\<rparr>
      else if r = to_usize b Spi0RegisterCs then d\<lparr>pi_ta := bit v 7\<rparr>
      else if r = to_usize b Spi0RegisterFifo
           then (if pi_ta d then d\<lparr>pi_sent := pi_sent d @ [(pi_dc d, ucast v)]\<rparr> else d)
      else d\<lparr>pi_regs := (pi_regs d)(r := v)\<rparr>)"

definition pi_api :: "board \<Rightarrow> pi_device device_api" where
  "pi_api b = \<lparr>dev_load = pi_load b, dev_store = pi_store b\<rparr>"

text \<open>The board after power on, with the clock at \<open>t\<close>.\<close>

definition pi_start :: "nat \<Rightarrow> pi_device" where
  "pi_start t = \<lparr>pi_regs = (\<lambda>_. 0), pi_level = (\<lambda>_. False), pi_ta = False, pi_sent = [], pi_clock = t\<rparr>"

lemma pi_start_simps [simp]: "pi_sent (pi_start t) = []" "pi_clock (pi_start t) = t" "\<not> pi_level (pi_start t) p"
  by (simp_all add: pi_start_def)

lemma bit_level_word: "i < 32 \<Longrightarrow> bit (level_word lv n) i \<longleftrightarrow> lv (n + i)"
  by (simp add: level_word_def bit_horner_sum_bit_word_iff)

lemma pi_addresses:
  "to_usize b TimerClo = peripheral_base b + 0x3004"
  "to_usize b TimerChi = peripheral_base b + 0x3008"
  "to_usize b GpioBase = peripheral_base b + 0x200000"
  "to_usize b GpioGpSet0 = peripheral_base b + 0x20001C"
  "to_usize b GpioGpSet1 = peripheral_base b + 0x200020"
  "to_usize b GpioGpClr0 = peripheral_base b + 0x200028"
  "to_usize b GpioGpClr1 = peripheral_base b + 0x20002C"
  "to_usize b GpioGpLev0 = peripheral_base b + 0x200034"
  "to_usize b GpioGpLev1 = peripheral_base b + 0x200038"
  "to_usize b Spi0RegisterCs = peripheral_base b + 0x204000"
  "to_usize b Spi0RegisterFifo = peripheral_base b + 0x204004"
  "to_usize b Spi0RegisterClk = peripheral_base b + 0x204008"
  by (simp_all add: to_usize_def Let_def)

lemmas pi_simps = pi_api_def pi_load_def pi_store_def addr_load_def addr_store_def pi_addresses spent_def

lemma select_bank_plain:
  assumes "r \<in> gpio_select_bank b"
  shows "dev_load (pi_api b) r d = (pi_regs d r, d)"
    and "dev_store (pi_api b) r v d = d\<lparr>pi_regs := (pi_regs d)(r := v)\<rparr>"
proof -
  have "peripheral_base b + 0x200000 \<le> r" "r < peripheral_base b + 0x200018"
    using assms by (auto simp: gpio_select_bank_def pi_addresses)
  then show "dev_load (pi_api b) r d = (pi_regs d r, d)"
    "dev_store (pi_api b) r v d = d\<lparr>pi_regs := (pi_regs d)(r := v)\<rparr>"
    by (simp_all add: pi_simps)
qed

interpretation pi_bank: register_bank "pi_api b" "gpio_select_bank b" for b
  by unfold_locales (simp_all add: select_bank_plain)

interpretation pi_pins: gpio_pins "pi_api b" b pi_level for b
  by unfold_locales (auto simp: pi_simps bit_level_word)

interpretation pi_timer: system_timer "pi_api b" b pi_clock 1 for b
  by unfold_locales (auto simp: pi_simps)

abbreviation pi_led :: "board \<Rightarrow> pi_device \<Rightarrow> bool" where
  "pi_led b d \<equiv> pi_level d (pin_number b OkLed)"

interpretation pi_lcd: lcd_device "pi_api b" b "\<lambda>_. True" pi_dc pi_ta pi_sent "pi_led b" pi_clock 1 0 for b
proof (unfold_locales, goal_cases)
  case (7 d)
  then show ?case by (simp add: pi_simps bit_simps)
next
  case (8 d)
  then show ?case by (simp add: pi_simps bit_simps)
qed (auto simp: pi_simps bit_simps)

interpretation pi_pi: pi_board "pi_api b" b "\<lambda>_. True" pi_dc pi_ta pi_sent "pi_led b" pi_clock 1 0 for b
proof (unfold_locales, goal_cases)
  case (5 d mode v d')
  then show ?case by (cases mode; cases "b \<in> {RPi_a, RPi_aplus}") (auto simp: pi_simps led_register_def)
next
  case (6 d d' mode)
  then show ?case by (cases mode; cases "b \<in> {RPi_a, RPi_aplus}") (auto simp: pi_simps led_register_def bit_simps)
qed (auto simp: select_bank_plain spent_def, auto simp: pi_simps)

end
