(* ===== verification/Lcd_Panel.thy ===== *)
theory Lcd_Panel
  imports Arm_Device
begin

text \<open>
  What the display shows.  \<open>panel_step\<close> is the part of the ILI9340 controller the drawing
  operations use: the commands that set the column and page range, and the memory write that
  fills the window row by row.  The driver sends a list of bytes and the panel turns it into a
  picture: \<open>paint\<close> is the effect of one window that is filled completely.
\<close>

section \<open>The panel\<close>

record panel =
  cmd :: u8
  args :: "u8 list"
  columns :: "nat \<times> nat"
  pages :: "nat \<times> nat"
  cursor :: "nat \<times> nat"
  gram :: "nat \<times> nat \<Rightarrow> nat"

definition word16 :: "u8 \<Rightarrow> u8 \<Rightarrow> nat" where
  "word16 h l = unat h * 256 + unat l"

definition advance :: "panel \<Rightarrow> panel" where
  "advance p =
     (let (x, y) = cursor p in
      p\<lparr>cursor := if x < snd (columns p) then (x + 1, y)
                else (fst (columns p), if y < snd (pages p) then y + 1 else fst (pages p))\<rparr>)"

fun panel_data :: "u8 \<Rightarrow> panel \<Rightarrow> panel" where
  "panel_data byte p =
     (if cmd p = 0x2A then
        (case args p of
           [c, d, e] \<Rightarrow> p\<lparr>columns := (word16 c d, word16 e byte), args := []\<rparr>
         | as \<Rightarrow> p\<lparr>args := as @ [byte]\<rparr>)
      else if cmd p = 0x2B then
        (case args p of
           [c, d, e] \<Rightarrow> p\<lparr>pages := (word16 c d, word16 e byte), args := []\<rparr>
         | as \<Rightarrow> p\<lparr>args := as @ [byte]\<rparr>)
      else if cmd p = 0x2C then
        (case args p of
           [c] \<Rightarrow> advance (p\<lparr>gram := (gram p)(cursor p := word16 c byte), args := []\<rparr>)
         | as \<Rightarrow> p\<lparr>args := as @ [byte]\<rparr>)
      else p)"

fun panel_step :: "bool \<times> u8 \<Rightarrow> panel \<Rightarrow> panel" where
  "panel_step (True, byte) p = panel_data byte p"
| "panel_step (False, byte) p =
     p\<lparr>cmd := byte, args := [], cursor := if byte = 0x2C then (fst (columns p), fst (pages p)) else cursor p\<rparr>"

definition panel_run :: "(bool \<times> u8) list \<Rightarrow> panel \<Rightarrow> panel" where
  "panel_run bs p = fold panel_step bs p"

lemma panel_run_append [simp]: "panel_run (as @ bs) p = panel_run bs (panel_run as p)"
  by (simp add: panel_run_def)

lemma panel_run_Nil [simp]: "panel_run [] p = p"
  by (simp add: panel_run_def)

lemma panel_run_Cons: "panel_run (b # bs) p = panel_run bs (panel_step b p)"
  by (simp add: panel_run_def)

text \<open>The bytes of a window and of a row of pixels.\<close>

definition u16_bytes :: "nat \<Rightarrow> (bool \<times> u8) list" where
  "u16_bytes v = [(True, u16_hi v), (True, u16_lo v)]"

definition window_bytes :: "nat \<Rightarrow> nat \<Rightarrow> nat \<Rightarrow> nat \<Rightarrow> (bool \<times> u8) list" where
  "window_bytes x0 x1 y0 y1 =
     [(False, 0x00), (False, 0x2A)] @ u16_bytes x0 @ u16_bytes x1 @ [(False, 0x2B)] @ u16_bytes y0 @ u16_bytes y1
     @ [(False, 0x2C)]"

lemma length_bytes [simp]:
  "length (u16_bytes v) = 2" "length (window_bytes x0 x1 y0 y1) = 12" "length (concat (map u16_bytes ps)) = 2 * length ps"
  by (simp_all add: u16_bytes_def window_bytes_def length_concat o_def sum_list_triv mult.commute)

lemma word16_bytes: "v < 2 ^ 16 \<Longrightarrow> word16 (u16_hi v) (u16_lo v) = v"
proof -
  assume "v < 2 ^ 16"
  moreover have "v AND 255 = v mod 256" "drop_bit 8 v AND 255 = v div 256 mod 256"
    using take_bit_eq_mask[of 8 v] take_bit_eq_mask[of 8 "drop_bit 8 v"]
    by (simp_all add: mask_eq_exp_minus_1 take_bit_eq_mod drop_bit_eq_div)
  ultimately show ?thesis
    by (simp add: word16_def u16_hi_def u16_lo_def unat_of_nat)
qed

lemma window_run:
  assumes "x0 < 2 ^ 16" "x1 < 2 ^ 16" "y0 < 2 ^ 16" "y1 < 2 ^ 16"
  shows "panel_run (window_bytes x0 x1 y0 y1) p =
    p\<lparr>cmd := 0x2C, args := [], columns := (x0, x1), pages := (y0, y1), cursor := (x0, y0)\<rparr>"
  using assms by (simp add: window_bytes_def u16_bytes_def panel_run_Cons word16_bytes)

text \<open>Filling the window: after \<open>k\<close> pixels of a window of \<open>w\<close> columns, row by row.\<close>

definition drawing :: "nat \<Rightarrow> nat \<Rightarrow> nat \<Rightarrow> nat \<Rightarrow> nat list \<Rightarrow> panel \<Rightarrow> panel \<Rightarrow> bool" where
  "drawing x0 y0 w h ps p q \<longleftrightarrow>
     cmd q = 0x2C \<and> args q = [] \<and> columns q = (x0, x0 + w - 1) \<and> pages q = (y0, y0 + h - 1)
     \<and> cursor q = (x0 + length ps mod w, y0 + length ps div w mod h)
     \<and> gram q = (\<lambda>(x, y). if x0 \<le> x \<and> x < x0 + w \<and> y0 \<le> y \<and> (y - y0) * w + (x - x0) < length ps
                           then ps ! ((y - y0) * w + (x - x0)) else gram p (x, y))"

lemma drawing_start:
  assumes "0 < w" "0 < h" "x0 + w \<le> 2 ^ 16" "y0 + h \<le> 2 ^ 16"
  shows "drawing x0 y0 w h [] p (panel_run (window_bytes x0 (x0 + w - 1) y0 (y0 + h - 1)) p)"
  using assms by (simp add: window_run drawing_def)

lemma cell_index:
  fixes w x y x0 y0 n :: nat
  assumes "x0 \<le> x" "x < x0 + w" "y0 \<le> y"
  shows "(y - y0) * w + (x - x0) = n \<longleftrightarrow> x = x0 + n mod w \<and> y = y0 + n div w"
proof -
  obtain i j where "x = x0 + i" "y = y0 + j" "i < w"
    using assms by (metis add_less_cancel_left le_Suc_ex)
  then show ?thesis
    by (auto simp: div_mult_self3 mult.commute)
qed

lemma cell_bounds:
  fixes n w h :: nat
  assumes "n < w * h"
  shows "0 < w" "0 < h" "n div w < h"
  using assms by (auto intro: gr0I less_mult_imp_div_less simp: mult.commute)

lemma next_cell:
  fixes n w h :: nat
  assumes "n < w * h"
  shows "(if n mod w < w - 1 then (n mod w + 1, n div w)
          else (0, if n div w < h - 1 then n div w + 1 else 0)) = (Suc n mod w, Suc n div w mod h)"
proof -
  have "n mod w < w - 1 \<longleftrightarrow> Suc (n mod w) \<noteq> w"
    using mod_less_divisor[OF cell_bounds(1)[OF assms], of n] by linarith
  then show ?thesis
    using cell_bounds[OF assms] by (auto simp: mod_Suc div_Suc)
qed

lemma drawing_pixel:
  assumes "drawing x0 y0 w h ps p q" "length ps < w * h" "c < 2 ^ 16"
  shows "drawing x0 y0 w h (ps @ [c]) p (panel_run (u16_bytes c) q)"
proof -
  let ?n = "length ps"
  note wh = cell_bounds[OF assms(2)]
  have q: "cmd q = 0x2C" "args q = []" "columns q = (x0, x0 + w - 1)" "pages q = (y0, y0 + h - 1)"
      "cursor q = (x0 + ?n mod w, y0 + ?n div w)"
    using assms(1) wh by (simp_all add: drawing_def)
  have g: "gram q = (\<lambda>(x, y). if x0 \<le> x \<and> x < x0 + w \<and> y0 \<le> y \<and> (y - y0) * w + (x - x0) < ?n
      then ps ! ((y - y0) * w + (x - x0)) else gram p (x, y))"
    using assms(1) by (simp add: drawing_def)
  let ?q = "panel_run (u16_bytes c) q"
  have r: "?q = advance (q\<lparr>gram := (gram q)(cursor q := c), args := []\<rparr>)"
    using q word16_bytes[OF assms(3)] by (simp add: u16_bytes_def panel_run_Cons)
  have "cursor ?q = (x0 + Suc ?n mod w, y0 + Suc ?n div w mod h)"
    using next_cell[OF assms(2)] wh by (auto simp: r advance_def q Let_def split: if_splits)
  moreover have "gram ?q = (\<lambda>(x, y). if x0 \<le> x \<and> x < x0 + w \<and> y0 \<le> y \<and> (y - y0) * w + (x - x0) < Suc ?n
      then (ps @ [c]) ! ((y - y0) * w + (x - x0)) else gram p (x, y))"
  proof (intro ext, clarify)
    fix x y
    show "gram ?q (x, y) = (if x0 \<le> x \<and> x < x0 + w \<and> y0 \<le> y \<and> (y - y0) * w + (x - x0) < Suc ?n
      then (ps @ [c]) ! ((y - y0) * w + (x - x0)) else gram p (x, y))"
      using cell_index[of x0 x w y0 y ?n] wh
      by (auto simp: r advance_def Let_def q g nth_append less_Suc_eq)
  qed
  moreover have "cmd ?q = 0x2C" "args ?q = []" "columns ?q = (x0, x0 + w - 1)" "pages ?q = (y0, y0 + h - 1)"
    using q by (simp_all add: r advance_def case_prod_beta)
  ultimately show ?thesis
    by (simp add: drawing_def del: panel_data.simps)
qed

lemma drawing_pixels:
  assumes "drawing x0 y0 w h [] p q" "length cs \<le> w * h" "\<forall>c \<in> set cs. c < 2 ^ 16"
  shows "drawing x0 y0 w h cs p (panel_run (concat (map u16_bytes cs)) q)"
  using assms(2,3)
proof (induction cs rule: rev_induct)
  case Nil
  then show ?case using assms(1) by simp
next
  case (snoc c cs)
  then show ?case using drawing_pixel[of x0 y0 w h cs p _ c] by simp
qed

text \<open>A window that is filled completely shows the list of pixels and keeps everything around it.\<close>

definition paint :: "nat \<Rightarrow> nat \<Rightarrow> nat \<Rightarrow> nat \<Rightarrow> (nat \<Rightarrow> nat \<Rightarrow> nat) \<Rightarrow> (nat \<times> nat \<Rightarrow> nat) \<Rightarrow> (nat \<times> nat \<Rightarrow> nat)" where
  "paint x0 y0 w h f g =
     (\<lambda>(x, y). if x0 \<le> x \<and> x < x0 + w \<and> y0 \<le> y \<and> y < y0 + h then f (x - x0) (y - y0) else g (x, y))"

definition picture :: "nat \<Rightarrow> nat \<Rightarrow> (nat \<Rightarrow> nat \<Rightarrow> nat) \<Rightarrow> nat list" where
  "picture w h f = concat (map (\<lambda>j. map (\<lambda>i. f i j) [0..<w]) [0..<h])"

lemma length_picture: "length (picture w h f) = w * h"
  by (simp add: picture_def length_concat o_def sum_list_triv)

lemma nth_picture: "i < w \<Longrightarrow> j < h \<Longrightarrow> picture w h f ! (j * w + i) = f i j"
proof (induction h)
  case (Suc h)
  have e: "picture w (Suc h) f = picture w h f @ map (\<lambda>i. f i h) [0..<w]"
    by (simp add: picture_def)
  show ?case
  proof (cases "j < h")
    case True
    then have "j * w + i < w * h"
      using Suc.prems(1) mult_le_mono1[of "Suc j" h w] by (simp add: mult.commute)
    then show ?thesis using Suc True by (simp add: e nth_append length_picture)
  next
    case False
    then have "j = h" using Suc.prems(2) by simp
    then show ?thesis using Suc.prems(1) by (simp add: e nth_append length_picture mult.commute)
  qed
qed simp

lemma picture_of_list:
  assumes "length ps = w * h"
  shows "picture w h (\<lambda>i j. ps ! (j * w + i)) = ps"
proof (rule nth_equalityI)
  fix k assume "k < length (picture w h (\<lambda>i j. ps ! (j * w + i)))"
  then have k: "k < w * h" by (simp add: length_picture)
  note B = cell_bounds[OF k]
  have "picture w h (\<lambda>i j. ps ! (j * w + i)) ! (k div w * w + k mod w) = ps ! (k div w * w + k mod w)"
    using B by (intro nth_picture) auto
  then show "picture w h (\<lambda>i j. ps ! (j * w + i)) ! k = ps ! k" by simp
qed (simp add: assms length_picture)

lemma picture_const: "picture w h (\<lambda>_ _. c) = replicate (w * h) c"
  by (rule replicate_eqI) (auto simp: length_picture, auto simp: picture_def split: if_splits)

lemma concat_map_picture:
  "concat (map g (picture w h f)) = concat (map (\<lambda>j. concat (map (\<lambda>i. g (f i j)) [0..<w])) [0..<h])"
  by (induction h) (simp_all add: picture_def o_def)

lemma window_index:
  fixes w h x y x0 y0 :: nat
  assumes "x0 \<le> x" "x < x0 + w" "y0 \<le> y"
  shows "(y - y0) * w + (x - x0) < w * h \<longleftrightarrow> y < y0 + h"
proof -
  obtain i j where e: "x = x0 + i" "y = y0 + j" "i < w" using assms by (metis add_less_cancel_left le_Suc_ex)
  have "j * w + i < w * h \<longleftrightarrow> j < h"
  proof (cases "j < h")
    case True
    then show ?thesis using e(3) mult_le_mono1[of "Suc j" h w] by (simp add: mult.commute)
  next
    case False
    then have "h * w \<le> j * w" by (intro mult_le_mono1) simp
    then have "w * h \<le> j * w + i" by (metis mult.commute trans_le_add1)
    then show ?thesis using False by (simp only: not_less[symmetric] simp_thms)
  qed
  then show ?thesis by (simp add: e)
qed

lemma paint_picture:
  assumes "0 < w" "0 < h" "x0 + w \<le> 2 ^ 16" "y0 + h \<le> 2 ^ 16" "\<forall>i < w. \<forall>j < h. f i j < 2 ^ 16"
  shows "gram (panel_run (window_bytes x0 (x0 + w - 1) y0 (y0 + h - 1) @ concat (map u16_bytes (picture w h f))) p)
    = paint x0 y0 w h f (gram p)"
proof -
  have "\<forall>c \<in> set (picture w h f). c < 2 ^ 16"
    using assms(5) by (auto simp: picture_def)
  note D = drawing_pixels[OF drawing_start[OF assms(1-4)] _ this, of p]
  show ?thesis
  proof (intro ext, clarify)
    fix x y
    show "gram (panel_run (window_bytes x0 (x0 + w - 1) y0 (y0 + h - 1) @ concat (map u16_bytes (picture w h f))) p) (x, y)
      = paint x0 y0 w h f (gram p) (x, y)"
      using D nth_picture[of "x - x0" w "y - y0" h f] window_index[of x0 x w y0 y h]
      by (auto simp: drawing_def length_picture paint_def)
  qed
qed

text \<open>The colour of the glyph's pixel in column \<open>i\<close> and row \<open>j\<close>.\<close>

definition glyph_pixel :: "u32 \<Rightarrow> nat \<Rightarrow> nat \<Rightarrow> nat \<Rightarrow> nat \<Rightarrow> nat" where
  "glyph_pixel c bg fg i j = (if bit (FONTS ! unat (ucast c :: u8) ! j) (7 - i) then fg else bg)"

end
