(* ===== verification/Lcd_Theorems.thy ===== *)
theory Lcd_Theorems
  imports Lcd_Panel
begin

text \<open>
  The driver on a display that keeps its contract: each operation ends, sends a list of bytes
  (\<open>sends\<close>) and changes the picture by a function (\<open>displays\<close>), in a time that the number of
  bytes bounds.
\<close>

section \<open>What the driver sends\<close>

context lcd_device
begin

text \<open>A byte takes two accesses for the pin, eight for the transfer and two runs of the polling loop.\<close>

definition byte_time :: nat where
  "byte_time = (2 * K + 10) * \<delta>"

definition sends :: "'d action \<Rightarrow> (bool \<times> u8) list \<Rightarrow> bool" where
  "sends f bs \<longleftrightarrow> (\<forall>d. inv d \<longrightarrow> (\<exists>d'. f d = Some (Inr d') \<and> inv d' \<and> sent d' = sent d @ bs
     \<and> led d' = led d \<and> spent clk (length bs * byte_time) d d'))"

lemma sendsI:
  "(\<And>d. inv d \<Longrightarrow> \<exists>d'. f d = Some (Inr d') \<and> inv d' \<and> sent d' = sent d @ bs \<and> led d' = led d
     \<and> spent clk (length bs * byte_time) d d') \<Longrightarrow> sends f bs"
  by (simp add: sends_def)

lemma sendsE:
  assumes "sends f bs" "inv d"
  obtains d' where "f d = Some (Inr d')" "inv d'" "sent d' = sent d @ bs" "led d' = led d"
    "spent clk (length bs * byte_time) d d'"
  using assms unfolding sends_def by blast

lemma sends_then:
  assumes "sends f as" "sends g bs"
  shows "sends (act_then f g) (as @ bs)"
proof (rule sendsI)
  fix d assume "inv d"
  from assms(1) this obtain e where e: "f d = Some (Inr e)" "inv e" "sent e = sent d @ as" "led e = led d"
    "spent clk (length as * byte_time) d e" by (rule sendsE)
  from assms(2) e(2) obtain d' where d': "g e = Some (Inr d')" "inv d'" "sent d' = sent e @ bs" "led d' = led e"
    "spent clk (length bs * byte_time) e d'" by (rule sendsE)
  show "\<exists>d'. act_then f g d = Some (Inr d') \<and> inv d' \<and> sent d' = sent d @ as @ bs \<and> led d' = led d
     \<and> spent clk (length (as @ bs) * byte_time) d d'"
    using e d' spent_trans[OF e(5) d'(5)] by (simp add: act_then_def add_mult_distrib)
qed

lemma sends_Nil: "sends (act_seq []) []"
  by (simp add: sends_def)

lemma sends_Cons: "sends f as \<Longrightarrow> sends (act_seq fs) bs \<Longrightarrow> sends (act_seq (f # fs)) (as @ bs)"
  using sends_then[of f as "act_seq fs" bs] by (simp add: sends_def)

lemma sends_map: "(\<And>x. x \<in> set xs \<Longrightarrow> sends (f x) (g x)) \<Longrightarrow> sends (act_seq (map f xs)) (concat (map g xs))"
  by (induction xs) (simp_all only: list.map concat.simps sends_Nil sends_Cons list.set_intros)

lemma poll_returns:
  assumes "inv d" "bit (fst (addr_load D b Spi0RegisterCs (after_loads D b n d))) k"
  shows "\<exists>d'. poll D b (push_bit k 1) d = Some d' \<and> inv d' \<and> dc d' = dc d \<and> ta d' = ta d \<and> sent d' = sent d
    \<and> led d' = led d \<and> spent clk (Suc n * \<delta>) d d'"
  using assms
proof (induction n arbitrary: d)
  case (0 d)
  obtain v e where l: "addr_load D b Spi0RegisterCs d = (v, e)" by (cases "addr_load D b Spi0RegisterCs d")
  have "v AND push_bit k 1 \<noteq> 0" using 0 l by (simp add: and_exp_eq_0_iff_not_bit)
  then show ?case using load[OF 0(1) _ l] l by (subst poll.simps) simp
next
  case (Suc n d)
  obtain v e where l: "addr_load D b Spi0RegisterCs d = (v, e)" by (cases "addr_load D b Spi0RegisterCs d")
  note L = load[OF Suc.prems(1) _ l, simplified]
  show ?case
  proof (cases "v AND push_bit k 1 = 0")
    case True
    obtain d' where d': "poll D b (push_bit k 1) e = Some d'" "inv d'" "dc d' = dc e" "ta d' = ta e" "sent d' = sent e"
      "led d' = led e" "spent clk (Suc n * \<delta>) e d'"
      using Suc.IH[of e] Suc.prems(2) L l by auto
    then show ?thesis
      using L l True spent_trans[OF _ d'(7), of \<delta> d] by (subst poll.simps) simp
  next
    case False
    then show ?thesis using L l spent_mono[of clk \<delta> d e] by (subst poll.simps) simp
  qed
qed

lemma poll_within:
  assumes "inv d" "\<exists>n \<le> K. bit (fst (addr_load D b Spi0RegisterCs (after_loads D b n d))) k"
  obtains d' where "poll D b (push_bit k 1) d = Some d'" "inv d'" "dc d' = dc d" "ta d' = ta d" "sent d' = sent d"
    "led d' = led d" "spent clk ((K + 1) * \<delta>) d d'"
proof -
  from assms(2) obtain n where n: "n \<le> K" "bit (fst (addr_load D b Spi0RegisterCs (after_loads D b n d))) k" by blast
  then have "Suc n * \<delta> \<le> (K + 1) * \<delta>" by (intro mult_le_mono1) simp
  with poll_returns[OF assms(1) n(2)] show thesis
    using that spent_mono by metis
qed

lemma spi_transfer_sends:
  assumes "inv d"
  shows "\<exists>r d'. spi_transfer D b byte d = Some (r, d') \<and> inv d' \<and> sent d' = sent d @ [(dc d, byte)] \<and> led d' = led d
    \<and> spent clk ((2 * K + 8) * \<delta>) d d'"
proof -
  obtain v0 d0 where l0: "addr_load D b Spi0RegisterCs d = (v0, d0)" by (cases "addr_load D b Spi0RegisterCs d")
  note s0 = load[OF assms _ l0, simplified]
  define d1 where "d1 = addr_store D b Spi0RegisterCs (bitmask v0 (push_bit 4 0xB) (push_bit 4 0xB)) d0"
  have "bit (bitmask v0 (push_bit 4 0xB) (push_bit 4 0xB)) 7" by (simp add: bitmask_def bit_simps)
  then have s1: "inv d1" "dc d1 = dc d" "ta d1" "sent d1 = sent d" "led d1 = led d" "spent clk \<delta> d0 d1"
    using s0 store_cs[of d0 d1] d1_def by auto
  obtain d2 where p2: "poll D b (push_bit 18 1) d1 = Some d2"
    and s2: "inv d2" "dc d2 = dc d1" "ta d2 = ta d1" "sent d2 = sent d1" "led d2 = led d1" "spent clk ((K + 1) * \<delta>) d1 d2"
    by (rule poll_within[OF s1(1) room[OF s1(1,3)]])
  define d3 where "d3 = addr_store D b Spi0RegisterFifo (0xFF AND ucast byte) d2"
  have "ucast (0xFF AND ucast byte :: u32) = byte"
  proof -
    have m: "(0xFF :: u32) = mask 8" by (simp add: mask_eq_exp_minus_1)
    show ?thesis unfolding m by (intro bit_word_eqI) (auto simp: bit_simps)
  qed
  then have s3: "inv d3" "ta d3" "sent d3 = sent d @ [(dc d, byte)]" "led d3 = led d" "spent clk \<delta> d2 d3"
    using store_fifo[OF s2(1) _ d3_def] s1 s2 by auto
  obtain r d4 where l4: "addr_load D b Spi0RegisterFifo d3 = (r, d4)" by (cases "addr_load D b Spi0RegisterFifo d3")
  then have s4: "inv d4" "ta d4" "sent d4 = sent d3" "led d4 = led d3" "spent clk \<delta> d3 d4"
    using load[OF s3(1) _ l4] s3 by auto
  obtain d5 where p5: "poll D b (push_bit 16 1) d4 = Some d5"
    and s5: "inv d5" "sent d5 = sent d4" "led d5 = led d4" "spent clk ((K + 1) * \<delta>) d4 d5"
    by (rule poll_within[OF s4(1) finished[OF s4(1,2)]])
  obtain v6 d6 where l6: "addr_load D b Spi0RegisterCs d5 = (v6, d6)" by (cases "addr_load D b Spi0RegisterCs d5")
  define d7 where "d7 = addr_store D b Spi0RegisterCs (bitmask v6 (push_bit 7 1) (push_bit 7 0)) d6"
  have s6: "inv d6" "sent d6 = sent d5" "led d6 = led d5" "spent clk \<delta> d5 d6" using load[OF s5(1) _ l6] by auto
  have s7: "inv d7" "sent d7 = sent d6" "led d7 = led d6" "spent clk \<delta> d6 d7"
    using store_cs[OF s6(1) d7_def] by auto
  have "spent clk (\<delta> + \<delta> + (K + 1) * \<delta> + \<delta> + \<delta> + (K + 1) * \<delta> + \<delta> + \<delta>) d d7"
    using s0 s1(6) s2(6) s3(5) s4(5) s5(4) s6(4) s7(4) by (blast intro: spent_trans)
  then have t: "spent clk ((2 * K + 8) * \<delta>) d d7"
    by (rule spent_mono) (simp add: algebra_simps)
  have "spi_transfer D b byte d = Some (ucast (r AND 0xFF), d7)"
    using p2 p5 d1_def[symmetric] d3_def[symmetric] d7_def by (simp add: spi_transfer_def Let_def l0 l4 l6)
  then show ?thesis
    using s3 s4 s5 s6 s7 t by auto
qed

lemma write_pin:
  fixes mode
  assumes "inv d"
  defines "d' \<equiv> write_output_pin D b Ili9340Dc mode d"
  shows "inv d'" and "dc d' \<longleftrightarrow> mode = Set" and "sent d' = sent d" and "led d' = led d" and "spent clk (2 * \<delta>) d d'"
proof -
  define r where "r = (case mode of Set \<Rightarrow> GpioGpSet0 | Clear \<Rightarrow> GpioGpClr0)"
  have r: "r \<in> {GpioGpSet0, GpioGpClr0}" by (cases mode) (simp_all add: r_def)
  obtain v e where l: "addr_load D b r d = (v, e)" by (cases "addr_load D b r d")
  have "v = 0" using load_pin[OF assms(1) r] l by simp
  have w: "d' = addr_store D b r (push_bit 25 1) e"
    using l \<open>v = 0\<close> by (cases mode) (simp_all add: d'_def write_output_pin_def Let_def r_def addr_load_def addr_store_def)
  have e: "inv e" "sent e = sent d" "led e = led d" "spent clk \<delta> d e" using load[OF assms(1) _ l] r by auto
  show "inv d'" "dc d' \<longleftrightarrow> mode = Set" "sent d' = sent d" "led d' = led d" "spent clk (2 * \<delta>) d d'"
    using store_set[OF e(1), of d'] store_clear[OF e(1), of d'] e w spent_trans[OF e(4), of \<delta> d']
    by (cases mode; simp add: r_def mult_2)+
qed

lemma write_byte:
  assumes "inv d"
  shows "\<exists>d'. map_option (\<lambda>(_, d'). Inr d') (spi_transfer D b byte (write_output_pin D b Ili9340Dc mode d)) = Some (Inr d')
    \<and> inv d' \<and> sent d' = sent d @ [(mode = Set, byte)] \<and> led d' = led d \<and> spent clk byte_time d d'"
proof -
  let ?e = "write_output_pin D b Ili9340Dc mode d"
  note e = write_pin[OF assms, of mode]
  obtain r d' where d': "spi_transfer D b byte ?e = Some (r, d')" "inv d'" "sent d' = sent ?e @ [(dc ?e, byte)]"
      "led d' = led ?e" "spent clk ((2 * K + 8) * \<delta>) ?e d'"
    using spi_transfer_sends[OF e(1)] by blast
  have "2 * \<delta> + (2 * K + 8) * \<delta> = byte_time" by (simp add: byte_time_def algebra_simps)
  then have "spent clk byte_time d d'" using spent_trans[OF e(5) d'(5)] by simp
  with d' e show ?thesis by auto
qed

lemma write_command_sends: "sends (write_command D b byte) [(False, byte)]"
  using write_byte[of _ byte Clear] by (intro sendsI) (auto simp: write_command_def)

lemma write_data_sends: "sends (write_data D b byte) [(True, byte)]"
  using write_byte[of _ byte Set] by (intro sendsI) (auto simp: write_data_def)

lemmas sends_intros = sends_Cons sends_Nil write_command_sends write_data_sends

lemma sends_eq: "sends f as \<Longrightarrow> as = bs \<Longrightarrow> sends f bs"
  by simp

lemma data16_sends: "sends (act_seq [write_data D b (u16_hi v), write_data D b (u16_lo v)]) (u16_bytes v)"
  by (rule sends_eq, (rule sends_intros)+) (simp add: u16_bytes_def)

lemma set_color_sends: "sends (set_color D b c) (u16_bytes c)"
  unfolding set_color_def by (rule data16_sends)

lemma sends_u16_sub: "y \<le> x \<Longrightarrow> sends (f (x - y)) bs \<Longrightarrow> sends (u16_sub x y f) bs"
  by (simp add: sends_def u16_sub_def)

lemma sends_u16_add: "x + y < 2 ^ 16 \<Longrightarrow> sends (f (x + y)) bs \<Longrightarrow> sends (u16_add x y f) bs"
  by (simp add: sends_def u16_add_def)

lemma set_draw_area_sends:
  assumes "0 < x1" "0 < y1"
  shows "sends (set_draw_area D b x0 x1 y0 y1) (window_bytes x0 (x1 - 1) y0 (y1 - 1))"
proof -
  have sub: "sends (u16_sub v 1 (\<lambda>t. act_seq [write_data D b (u16_hi t), write_data D b (u16_lo t)])) (u16_bytes (v - 1))"
    if "0 < v" for v
    using that by (intro sends_u16_sub data16_sends) simp
  show ?thesis
    unfolding set_draw_area_def
    by (rule sends_eq, (rule sends_intros sub[OF assms(1)] sub[OF assms(2)])+)
      (simp add: window_bytes_def u16_bytes_def)
qed

section \<open>What the display shows\<close>

text \<open>The action sends \<open>n\<close> bytes and changes the picture by \<open>F\<close>.\<close>

definition displays :: "'d action \<Rightarrow> nat \<Rightarrow> ((nat \<times> nat \<Rightarrow> nat) \<Rightarrow> (nat \<times> nat \<Rightarrow> nat)) \<Rightarrow> bool" where
  "displays a n F \<longleftrightarrow> (\<forall>d. inv d \<longrightarrow> (\<exists>d'. a d = Some (Inr d') \<and> inv d' \<and> led d' = led d
     \<and> spent clk (n * byte_time) d d'
     \<and> (\<forall>p. gram (panel_run (sent d') p) = F (gram (panel_run (sent d) p)))))"

lemma displaysE:
  assumes "displays a n F" "inv d"
  obtains d' where "a d = Some (Inr d')" "inv d'" "led d' = led d" "spent clk (n * byte_time) d d'"
    "\<And>p. gram (panel_run (sent d') p) = F (gram (panel_run (sent d) p))"
  using assms unfolding displays_def by metis

lemma sends_displays:
  assumes "sends a bs" "\<And>p. gram (panel_run bs p) = F (gram p)"
  shows "displays a (length bs) F"
  unfolding displays_def using assms(2) by (fastforce elim: sendsE[OF assms(1)])

lemma displays_then:
  assumes "displays f m F" "displays g n G"
  shows "displays (act_then f g) (m + n) (G \<circ> F)"
  unfolding displays_def
proof (intro allI impI)
  fix d assume "inv d"
  from assms(1) this obtain e where e: "f d = Some (Inr e)" "inv e" "led e = led d" "spent clk (m * byte_time) d e"
    "\<And>p. gram (panel_run (sent e) p) = F (gram (panel_run (sent d) p))" by (rule displaysE) blast
  from assms(2) e(2) obtain d' where d': "g e = Some (Inr d')" "inv d'" "led d' = led e" "spent clk (n * byte_time) e d'"
    "\<And>p. gram (panel_run (sent d') p) = G (gram (panel_run (sent e) p))" by (rule displaysE) blast
  show "\<exists>d'. act_then f g d = Some (Inr d') \<and> inv d' \<and> led d' = led d \<and> spent clk ((m + n) * byte_time) d d'
     \<and> (\<forall>p. gram (panel_run (sent d') p) = (G \<circ> F) (gram (panel_run (sent d) p)))"
    using e d' spent_trans[OF e(4) d'(4)] by (simp add: act_then_def add_mult_distrib)
qed

lemma displays_Nil: "displays (act_seq []) 0 id"
  by (auto simp: displays_def)

lemma displays_Cons: "displays f m F \<Longrightarrow> displays (act_seq fs) n G \<Longrightarrow> displays (act_seq (f # fs)) (m + n) (G \<circ> F)"
  using displays_then[of f m F "act_seq fs" n G] by (simp add: displays_def)

lemma displays_u16_add: "x + y < 2 ^ 16 \<Longrightarrow> displays (f (x + y)) n F \<Longrightarrow> displays (u16_add x y f) n F"
  by (simp add: displays_def u16_add_def)

lemma window_displays:
  assumes "0 < w" "0 < h" "x0 + w < 2 ^ 16" "y0 + h < 2 ^ 16" "\<forall>i < w. \<forall>j < h. f i j < 2 ^ 16"
    and "sends pixels (concat (map u16_bytes (picture w h f)))"
  shows "displays (act_then (set_draw_area D b x0 (x0 + w) y0 (y0 + h)) pixels) (12 + 2 * (w * h)) (paint x0 y0 w h f)"
proof -
  let ?bs = "window_bytes x0 (x0 + w - 1) y0 (y0 + h - 1) @ concat (map u16_bytes (picture w h f))"
  have "sends (act_then (set_draw_area D b x0 (x0 + w) y0 (y0 + h)) pixels) ?bs"
    using assms(1,2,6) by (intro sends_then set_draw_area_sends) simp_all
  then have "displays (act_then (set_draw_area D b x0 (x0 + w) y0 (y0 + h)) pixels) (length ?bs) (paint x0 y0 w h f)"
    using paint_picture[of w h x0 y0 f] assms(1-5) by (intro sends_displays) simp_all
  then show ?thesis by (simp add: length_picture)
qed

lemma fill_screen_displays:
  assumes "c < 2 ^ 16"
  shows "displays (fill_screen D b c) 153612 (paint 0 0 320 240 (\<lambda>_ _. c))"
proof -
  have "sends (act_seq (map (\<lambda>_. set_color D b c) [0..<320 * 240])) (concat (map (\<lambda>_. u16_bytes c) [0..<320 * 240]))"
    by (intro sends_map set_color_sends)
  then have "sends (act_seq (replicate (320 * 240) (set_color D b c))) (concat (map u16_bytes (picture 320 240 (\<lambda>_ _. c))))"
    by (simp only: map_replicate_const length_upt diff_zero picture_const map_replicate)
  from window_displays[OF _ _ _ _ _ this, of 0 0] assms show ?thesis
    by (simp add: fill_screen_def)
qed

lemma draw_girl_displays: "displays (draw_girl D b) 153612 (paint 0 0 320 240 (\<lambda>x y. GIRL_COLORS ! (y * 320 + x)))"
proof -
  let ?c = "\<lambda>i. GIRL_COLORS ! i"
  have "sends (girl_pixel D b i) (u16_bytes (?c i))" if "i < 320 * 240" for i
    using that set_color_sends[of "?c i"] by (simp add: sends_def girl_pixel_def vec_get_def length_GIRL_COLORS)
  then have "sends (act_seq (map (girl_pixel D b) [0..<320 * 240])) (concat (map (\<lambda>i. u16_bytes (?c i)) [0..<320 * 240]))"
    by (intro sends_map) simp
  moreover have "map (\<lambda>i. u16_bytes (?c i)) [0..<320 * 240] = map u16_bytes GIRL_COLORS"
    using map_nth[of GIRL_COLORS] by (metis (no_types) length_GIRL_COLORS list.map_comp o_def map_eq_conv)
  ultimately have "sends (act_seq (map (girl_pixel D b) [0..<320 * 240]))
      (concat (map u16_bytes (picture 320 240 (\<lambda>x y. ?c (y * 320 + x)))))"
    by (simp only: picture_of_list[OF length_GIRL_COLORS])
  moreover have "?c (j * 320 + i) < 2 ^ 16" if "i < 320" "j < 240" for i j
    using that by (intro bspec[OF GIRL_COLORS_range] nth_mem) (simp add: length_GIRL_COLORS)
  ultimately show ?thesis
    using window_displays[of 320 240 0 0 "\<lambda>x y. ?c (y * 320 + x)"]
    by (simp add: draw_girl_def GIRL_WIDTH_def GIRL_HEIGHT_def mult.commute)
qed

lemma draw_row_sends:
  "sends (draw_row D b line bg fg) (concat (map (\<lambda>i. u16_bytes (if bit line (7 - i) then fg else bg)) [0..<8]))"
proof -
  have "drop_bit n line AND 1 = (1 :: u8) \<longleftrightarrow> bit line n" for n
    by (simp add: and_one_eq bit_iff_odd_drop_bit odd_iff_mod_2_eq_one)
  then have "sends (let bt = drop_bit (FONT_WIDTH - i - 1) line AND 0x1
       in if bt = 1 then set_color D b fg else set_color D b bg) (u16_bytes (if bit line (7 - i) then fg else bg))" for i
    by (simp add: FONT_WIDTH_def set_color_sends Let_def)
  then show ?thesis
    unfolding draw_row_def by (simp only: FONT_WIDTH_def) (rule sends_map)
qed

lemma draw_glyph_sends:
  assumes "length font = 13"
  shows "sends (draw_glyph D b font bg fg)
    (concat (map u16_bytes (picture 8 13 (\<lambda>i j. if bit (font ! j) (7 - i) then fg else bg))))"
proof -
  have "sends (\<lambda>d. case vec_get font j of Inl e \<Rightarrow> Some (Inl e) | Inr line \<Rightarrow> draw_row D b line bg fg d)
      (concat (map (\<lambda>i. u16_bytes (if bit (font ! j) (7 - i) then fg else bg)) [0..<8]))" if "j \<in> set [0..<13]" for j
    using that draw_row_sends[of "font ! j" bg fg] assms by (simp add: vec_get_def)
  then show ?thesis
    unfolding draw_glyph_def concat_map_picture FONT_HEIGHT_def by (rule sends_map)
qed

lemma draw_char_displays:
  assumes "x + 8 < 2 ^ 16" "y + 13 < 2 ^ 16" "bg < 2 ^ 16" "fg < 2 ^ 16"
  shows "displays (draw_char D b x y c bg fg) 221 (paint x y 8 13 (glyph_pixel c bg fg))"
proof -
  let ?px = "\<lambda>d. let char_code = ucast c :: u8 in
        case vec_get FONTS (unat char_code) of
          Inl e \<Rightarrow> Some (Inl e)
        | Inr font \<Rightarrow> draw_glyph D b font bg fg d"
  have c: "unat (ucast c :: u8) < 256" using unsigned_less[where ?'a = nat, of "ucast c :: u8"] by simp
  then have "sends ?px (concat (map u16_bytes (picture 8 13 (glyph_pixel c bg fg))))"
    using draw_glyph_sends[OF length_glyph[OF c], of bg fg]
    by (simp add: Let_def vec_get_def length_FONTS glyph_pixel_def[abs_def])
  from window_displays[OF _ _ assms(1,2) _ this] assms(3,4)
  have "displays (act_then (set_draw_area D b x (x + 8) y (y + 13)) ?px) 220 (paint x y 8 13 (glyph_pixel c bg fg))"
    by (simp add: glyph_pixel_def)
  then have w: "displays (u16_add x FONT_WIDTH (\<lambda>x_end. u16_add y FONT_HEIGHT (\<lambda>y_end.
      act_then (set_draw_area D b x x_end y y_end) ?px))) 220 (paint x y 8 13 (glyph_pixel c bg fg))"
    using assms(1,2) by (intro displays_u16_add) (simp_all add: FONT_WIDTH_def FONT_HEIGHT_def)
  have "displays (write_command D b 0) 1 id"
    using sends_displays[OF write_command_sends[of 0], of id] by (simp add: panel_run_Cons)
  from displays_then[OF this w] show ?thesis
    by (simp add: draw_char_def)
qed

lemma draw_dot_displays:
  assumes "x + 1 < 2 ^ 16" "y + 1 < 2 ^ 16" "c < 2 ^ 16"
  shows "displays (draw_dot D b x y c) 14 (paint x y 1 1 (\<lambda>_ _. c))"
proof -
  have "sends (set_color D b c) (concat (map u16_bytes (picture 1 1 (\<lambda>_ _. c))))"
    using set_color_sends[of c] by (simp add: picture_def)
  from window_displays[OF _ _ assms(1,2) _ this] assms
  have "displays (act_then (set_draw_area D b x (x + 1) y (y + 1)) (set_color D b c)) 14 (paint x y 1 1 (\<lambda>_ _. c))"
    by simp
  then show ?thesis
    unfolding draw_dot_def using assms by (intro displays_u16_add)
qed

lemma draw_char_overflow:
  assumes "inv d" "2 ^ 16 \<le> x + 8 \<or> 2 ^ 16 \<le> y + 13"
  shows "draw_char D b x y c bg fg d = Some (Inl Overflow)"
proof -
  obtain e where "write_command D b 0 d = Some (Inr e)"
    by (rule sendsE[OF write_command_sends[of 0] assms(1)])
  then show ?thesis
    using assms(2) by (auto simp: draw_char_def act_then_def u16_add_def FONT_WIDTH_def FONT_HEIGHT_def)
qed

end

section \<open>The properties\<close>

text \<open>
  \<^verbatim>\<open>draw_char\<close> on a display that keeps its contract ends; it shows the glyph of the low byte of
  the character in the two colours at the position and leaves every other pixel alone.  It
  panics exactly when the position leaves the range of \<^verbatim>\<open>u16\<close>.
\<close>
theorem draw_char_correct:
  assumes "lcd_device D b ok dc ta sent led clk \<delta> K" and "ok d" and "bg < 2 ^ 16" and "fg < 2 ^ 16"
  shows "if x + 8 < 2 ^ 16 \<and> y + 13 < 2 ^ 16
    then \<exists>d'. draw_char D b x y c bg fg d = Some (Inr d') \<and> ok d' \<and>
      (\<forall>p. gram (panel_run (sent d') p) =
         paint x y 8 13 (\<lambda>i j. if bit (FONTS ! unat (ucast c :: u8) ! j) (7 - i) then fg else bg)
           (gram (panel_run (sent d) p)))
    else draw_char D b x y c bg fg d = Some (Inl Overflow)"
  using lcd_device.draw_char_displays[OF assms(1), of x y bg fg c] lcd_device.draw_char_overflow[OF assms(1,2), of x y c bg fg]
    assms(2-4)
  by (auto simp: lcd_device.displays_def[OF assms(1)] glyph_pixel_def[abs_def])

theorem draw_char_correct_witness:
  "\<exists>d'. draw_char (pi_api RPi_zero) RPi_zero 50 100 0x41 0 0xF800 (pi_start 0) = Some (Inr d')"
  using draw_char_correct[OF pi_lcd.lcd_device_axioms, of 0 "0xF800" 50 100 RPi_zero "0x41" "pi_start 0"]
  by auto

text \<open>
  \<^verbatim>\<open>fill_screen\<close> and \<^verbatim>\<open>draw_girl\<close> end and set every pixel of the 320 by 240 screen: to the one
  colour, or to the entry of the picture for its row and column.
\<close>
theorem full_screen_correct:
  assumes "lcd_device D b ok dc ta sent led clk \<delta> K" and "ok d" and "c < 2 ^ 16"
  shows "(\<exists>d'. fill_screen D b c d = Some (Inr d') \<and> ok d' \<and>
      (\<forall>p. gram (panel_run (sent d') p) = paint 0 0 320 240 (\<lambda>_ _. c) (gram (panel_run (sent d) p))))
    \<and> (\<exists>d'. draw_girl D b d = Some (Inr d') \<and> ok d' \<and>
      (\<forall>p. gram (panel_run (sent d') p) =
         paint 0 0 320 240 (\<lambda>x y. GIRL_COLORS ! (y * 320 + x)) (gram (panel_run (sent d) p))))"
  using lcd_device.fill_screen_displays[OF assms(1,3)] lcd_device.draw_girl_displays[OF assms(1)] assms(2)
  by (auto simp: lcd_device.displays_def[OF assms(1)])

theorem full_screen_correct_witness:
  "\<exists>d'. fill_screen (pi_api RPi_zero) RPi_zero 0x1F (pi_start 0) = Some (Inr d')
    \<and> (\<forall>p. gram (panel_run (pi_sent d') p) (319, 239) = 0x1F)"
  using full_screen_correct[OF pi_lcd.lcd_device_axioms, of "0x1F" RPi_zero "pi_start 0"]
  by (auto simp: paint_def)

end
