(* ===== verification/Lcd_Text.thy ===== *)
theory Lcd_Text
  imports Lcd_Theorems
begin

text \<open>
  Text on the display: \<^verbatim>\<open>draw_string\<close> puts the characters of line \<open>r\<close> of the text into the cells of
  8 by 13 pixels of row \<open>r\<close>, from left to right.
\<close>

section \<open>Lines and cells\<close>

fun text_lines :: "u32 list \<Rightarrow> u32 list list" where
  "text_lines [] = [[]]"
| "text_lines (c # s) =
     (if c = 0x0A then [] # text_lines s
      else case text_lines s of [] \<Rightarrow> [[c]] | l # ls \<Rightarrow> (c # l) # ls)"

lemma text_lines_not_Nil [simp]: "text_lines s \<noteq> []"
  by (induction s) (auto split: list.splits)

text \<open>
  The cell that covers a pixel: its character and the column and row in the glyph.  The first
  line starts in column \<open>x\<close>, the following ones in column \<open>x0\<close>.
\<close>

fun text_pixel :: "nat \<Rightarrow> nat \<Rightarrow> nat \<Rightarrow> u32 list list \<Rightarrow> nat \<times> nat \<Rightarrow> (u32 \<times> nat \<times> nat) option" where
  "text_pixel x0 x y [] (px, py) = None"
| "text_pixel x0 x y (l # ls) (px, py) =
     (if y \<le> py \<and> py < y + 13
      then if x \<le> px \<and> (px - x) div 8 < length l then Some (l ! ((px - x) div 8), (px - x) mod 8, py - y) else None
      else text_pixel x0 x0 (y + 13) ls (px, py))"

definition text_paint ::
  "nat \<Rightarrow> nat \<Rightarrow> nat \<Rightarrow> nat \<Rightarrow> nat \<Rightarrow> u32 list list \<Rightarrow> (nat \<times> nat \<Rightarrow> nat) \<Rightarrow> (nat \<times> nat \<Rightarrow> nat)" where
  "text_paint x0 x y bg fg ls g =
     (\<lambda>P. case text_pixel x0 x y ls P of None \<Rightarrow> g P | Some (c, i, j) \<Rightarrow> glyph_pixel c bg fg i j)"

fun text_fits :: "nat \<Rightarrow> nat \<Rightarrow> nat \<Rightarrow> u32 list list \<Rightarrow> bool" where
  "text_fits x0 x y [] \<longleftrightarrow> True"
| "text_fits x0 x y (l # ls) \<longleftrightarrow>
     x + 8 * length l < 2 ^ 16 \<and> (l \<noteq> [] \<or> ls \<noteq> [] \<longrightarrow> y + 13 < 2 ^ 16) \<and> text_fits x0 x0 (y + 13) ls"

lemma text_pixel_above: "py < y \<Longrightarrow> text_pixel x0 x y ls (px, py) = None"
  by (induction ls arbitrary: x y) auto

lemma text_paint_newline: "text_paint x0 x y bg fg ([] # ls) = text_paint x0 x0 (y + 13) bg fg ls"
  by (intro ext) (auto simp: text_paint_def text_pixel_above)

lemma text_paint_char:
  "text_paint x0 (x + 8) y bg fg (l # ls) (paint x y 8 13 (glyph_pixel c bg fg) g) = text_paint x0 x y bg fg ((c # l) # ls) g"
proof (intro ext, clarify)
  fix px py
  consider "py < y \<or> y + 13 \<le> py" | "y \<le> py" "py < y + 13" "px < x" | "y \<le> py" "py < y + 13" "x \<le> px" "px < x + 8"
    | "y \<le> py" "py < y + 13" "x + 8 \<le> px"
    by linarith
  then show "text_paint x0 (x + 8) y bg fg (l # ls) (paint x y 8 13 (glyph_pixel c bg fg) g) (px, py)
      = text_paint x0 x y bg fg ((c # l) # ls) g (px, py)"
  proof cases
    case 4
    then obtain k where "px = x + 8 + k" using le_Suc_ex by blast
    moreover have "(8 + k) div 8 = Suc (k div 8)" by (simp add: div_add_self1)
    ultimately show ?thesis using 4 by (simp add: text_paint_def paint_def)
  qed (auto simp: text_paint_def paint_def text_pixel_above)
qed

text \<open>The same by row and column.\<close>

lemma text_pixel_cell:
  "text_pixel x0 x0 y ls (px, py) =
     (let r = (py - y) div 13; q = (px - x0) div 8 in
      if y \<le> py \<and> x0 \<le> px \<and> r < length ls \<and> q < length (ls ! r)
      then Some (ls ! r ! q, (px - x0) mod 8, (py - y) mod 13) else None)"
proof (induction ls arbitrary: y)
  case (Cons l ls)
  consider "py < y" | "y \<le> py" "py < y + 13" | "y + 13 \<le> py" by linarith
  then show ?case
  proof cases
    case 3
    then obtain k where "py = y + 13 + k" using le_Suc_ex by blast
    moreover have "(13 + k) div 13 = Suc (k div 13)" by (simp add: div_add_self1)
    ultimately show ?thesis using Cons[of "y + 13"] by (simp add: Let_def)
  qed (auto simp: text_pixel_above Let_def)
qed (simp add: Let_def)

lemma text_fits_rows:
  assumes "y < 2 ^ 16" "ls \<noteq> []"
  shows "text_fits x0 x0 y ls \<longleftrightarrow> (\<forall>l \<in> set ls. x0 + 8 * length l < 2 ^ 16)
    \<and> y + 13 * (if last ls = [] then length ls - 1 else length ls) < 2 ^ 16"
  using assms
proof (induction ls arbitrary: y)
  case (Cons l ls)
  show ?case
  proof (cases "ls = [] \<or> 2 ^ 16 \<le> y + 13")
    case True
    then show ?thesis using Cons.prems by (cases ls) (auto split: if_splits)
  next
    case False
    then have "ls \<noteq> []" "y + 13 < 2 ^ 16" by auto
    then show ?thesis using Cons.IH[of "y + 13"] by (cases ls) auto
  qed
qed simp

section \<open>Drawing text\<close>

context lcd_device
begin

lemma draw_string_loop_displays:
  assumes "text_fits x0 x y (text_lines s)" "bg < 2 ^ 16" "fg < 2 ^ 16"
  shows "displays (draw_string_loop D b x0 x y s bg fg) (221 * length (filter (\<lambda>c. c \<noteq> 0x0A) s))
    (text_paint x0 x y bg fg (text_lines s))"
  using assms(1)
proof (induction s arbitrary: x y)
  case Nil
  have "text_paint x0 x y bg fg (text_lines []) = id"
    by (intro ext) (auto simp: text_paint_def)
  then show ?case by (simp add: displays_def)
next
  case (Cons c s)
  obtain l ls where e: "text_lines s = l # ls" by (cases "text_lines s") auto
  show ?case
  proof (cases "c = 0x0A")
    case True
    then have "y + FONT_HEIGHT < 2 ^ 16" "text_fits x0 x0 (y + FONT_HEIGHT) (text_lines s)"
      using Cons.prems e by (simp_all add: FONT_HEIGHT_def)
    from displays_u16_add[where f = "\<lambda>y'. draw_string_loop D b x0 x0 y' s bg fg", OF this(1) Cons.IH[OF this(2)]] True show ?thesis
      by (simp add: displays_def text_paint_newline FONT_HEIGHT_def)
  next
    case False
    then have f: "x + 8 < 2 ^ 16" "y + 13 < 2 ^ 16" "text_fits x0 (x + 8) y (text_lines s)"
      using Cons.prems e by auto
    have "displays (u16_add x FONT_WIDTH (\<lambda>x'. draw_string_loop D b x0 x' y s bg fg))
        (221 * length (filter (\<lambda>c. c \<noteq> 0x0A) s)) (text_paint x0 (x + 8) y bg fg (text_lines s))"
      using f(1) Cons.IH[OF f(3)] by (intro displays_u16_add) (simp_all add: FONT_WIDTH_def)
    from displays_then[OF draw_char_displays[OF f(1,2) assms(2,3)] this, of c] False e show ?thesis
      by (simp add: displays_def text_paint_char)
  qed
qed

lemma draw_string_loop_overflow:
  assumes "\<not> text_fits x0 x y (text_lines s)" "inv d" "x < 2 ^ 16" "x0 < 2 ^ 16" "bg < 2 ^ 16" "fg < 2 ^ 16"
  shows "draw_string_loop D b x0 x y s bg fg d = Some (Inl Overflow)"
  using assms(1-3)
proof (induction s arbitrary: x y d)
  case (Cons c s)
  obtain l ls where e: "text_lines s = l # ls" by (cases "text_lines s") auto
  show ?case
  proof (cases "c = 0x0A")
    case True
    then show ?thesis using Cons.IH[of x0 "y + 13" d] Cons.prems assms(4) by (auto simp: u16_add_def FONT_HEIGHT_def)
  next
    case False
    show ?thesis
    proof (cases "x + 8 < 2 ^ 16 \<and> y + 13 < 2 ^ 16")
      case True
      then obtain d' where "draw_char D b x y c bg fg d = Some (Inr d')" "inv d'"
        using displaysE[OF draw_char_displays[OF _ _ assms(5,6)] Cons.prems(2)] by metis
      then show ?thesis
        using Cons.IH[of "x + 8" y d'] Cons.prems True False e by (auto simp: act_then_def u16_add_def FONT_WIDTH_def)
    next
      case False
      then have "draw_char D b x y c bg fg d = Some (Inl Overflow)"
        using Cons.prems(2) by (intro draw_char_overflow) auto
      then show ?thesis using \<open>c \<noteq> 0x0A\<close> by (simp add: act_then_def)
    qed
  qed
qed simp

end

text \<open>
  C21. \<^verbatim>\<open>draw_string\<close> ends.  When the lines of the text fit into the range of \<^verbatim>\<open>u16\<close>, the pixel
  (\<open>px\<close>, \<open>py\<close>) shows the character of the text whose cell covers it, in line \<open>(py - y) div 13\<close>
  and column \<open>(px - x) div 8\<close>, and every pixel outside the cells of the text keeps its colour;
  otherwise it panics.
\<close>
theorem draw_string_correct:
  fixes string :: "u32 list"
  assumes "lcd_device D b ok dc ta sent led clk \<delta> K" and "ok d" and "bg < 2 ^ 16" and "fg < 2 ^ 16"
    and "x < 2 ^ 16" and "y < 2 ^ 16"
  defines "ls \<equiv> text_lines string"
  shows "if (\<forall>l \<in> set ls. x + 8 * length l < 2 ^ 16) \<and> y + 13 * (if last ls = [] then length ls - 1 else length ls) < 2 ^ 16
    then \<exists>d'. draw_string D b x y string bg fg d = Some (Inr d') \<and> ok d' \<and>
      (\<forall>p px py. gram (panel_run (sent d') p) (px, py) =
         (let r = (py - y) div 13; q = (px - x) div 8 in
          if y \<le> py \<and> x \<le> px \<and> r < length ls \<and> q < length (ls ! r)
          then glyph_pixel (ls ! r ! q) bg fg ((px - x) mod 8) ((py - y) mod 13)
          else gram (panel_run (sent d) p) (px, py)))
    else draw_string D b x y string bg fg d = Some (Inl Overflow)"
proof -
  have F: "text_fits x x y ls \<longleftrightarrow> (\<forall>l \<in> set ls. x + 8 * length l < 2 ^ 16)
      \<and> y + 13 * (if last ls = [] then length ls - 1 else length ls) < 2 ^ 16"
    using assms(6) by (intro text_fits_rows) (simp_all add: ls_def)
  show ?thesis
  proof (cases "text_fits x x y ls")
    case True
    obtain d' where d': "draw_string D b x y string bg fg d = Some (Inr d')" "ok d'"
      "\<And>p. gram (panel_run (sent d') p) = text_paint x x y bg fg ls (gram (panel_run (sent d) p))"
      using lcd_device.draw_string_loop_displays[OF assms(1) True[unfolded ls_def] assms(3,4)]
      unfolding ls_def draw_string_def by (rule lcd_device.displaysE[OF assms(1)]) (use assms(2) in auto)
    show ?thesis
      unfolding F[symmetric] if_P[OF True]
      using d'(1,2) by (intro exI[of _ d']) (simp add: d'(3) text_paint_def text_pixel_cell Let_def)
  next
    case False
    then show ?thesis
      unfolding F[symmetric] if_not_P[OF False]
      using lcd_device.draw_string_loop_overflow[OF assms(1) False[unfolded ls_def] assms(2,5,5,3,4)]
      by (simp add: draw_string_def)
  qed
qed

theorem draw_string_correct_witness:
  "\<exists>d'. draw_string (pi_api RPi_zero) RPi_zero 50 100 [0x41, 0x0A, 0x42, 0x43] 0 0xF800 (pi_start 0) = Some (Inr d')
    \<and> (\<forall>p. gram (panel_run (pi_sent d') p) (59, 115) = glyph_pixel 0x43 0 0xF800 1 2)"
  using draw_string_correct[OF pi_lcd.lcd_device_axioms, of 0 "0xF800" 50 100 "[0x41, 0x0A, 0x42, 0x43]" RPi_zero "pi_start 0"]
  by auto

end
