(* ===== verification/Arm_Theorems.thy ===== *)
theory Arm_Theorems
  imports Arm_Device
begin

text \<open>
  The drivers of the pins and of the timer of the Raspberry Pi on any device that keeps the
  contracts of theory \<open>Arm_Device\<close>.
\<close>

section \<open>Pins\<close>

text \<open>The function of pin number \<open>p\<close> as the select registers give it.\<close>

definition pin_function :: "'d device_api \<Rightarrow> board \<Rightarrow> nat \<Rightarrow> 'd \<Rightarrow> u32" where
  "pin_function D b p d =
     take_bit 3 (drop_bit (3 * (p mod 10)) (fst (dev_load D (to_usize b GpioBase + p div 10 * 4) d)))"

lemma pin_number_less: "pin_number b pin < 54"
  by (cases pin) auto

lemma pin_bank: "p < 60 \<Longrightarrow> to_usize b GpioBase + p div 10 * 4 \<in> gpio_select_bank b"
  unfolding gpio_select_bank_def by (intro imageI) auto

lemma seven_mask: "(7 :: u32) = mask 3"
  by (simp add: mask_eq_exp_minus_1)

lemma field_set:
  fixes v w :: u32
  assumes "k < 10" "j < 10" "take_bit 3 w = w"
  shows "take_bit 3 (drop_bit (3 * j) ((v AND NOT (push_bit (3 * k) 7)) OR push_bit (3 * k) w))
    = (if j = k then w else take_bit 3 (drop_bit (3 * j) v))"
proof (rule bit_word_eqI)
  fix n assume "n < LENGTH(32)"
  have w: "bit w i \<Longrightarrow> i < 3" for i
    using assms(3) by (metis bit_take_bit_iff)
  have j: "3 * j + 2 < 32" using assms(2) by simp
  show "bit (take_bit 3 (drop_bit (3 * j) ((v AND NOT (push_bit (3 * k) 7)) OR push_bit (3 * k) w))) n
    = bit (if j = k then w else take_bit 3 (drop_bit (3 * j) v)) n"
  proof (cases "n < 3")
    case True
    then have "3 * j + n < 32" "j \<noteq> k \<Longrightarrow> \<not> (3 * k \<le> 3 * j + n \<and> 3 * j + n - 3 * k < 3)"
      using j by linarith+
    then show ?thesis
      unfolding seven_mask using True w[of "3 * j + n - 3 * k"] by (auto simp: bit_simps)
  next
    case False
    then show ?thesis using w[of n] by (auto simp: bit_simps)
  qed
qed

lemma function_code_take: "take_bit 3 (function_code f) = function_code f"
  by (cases f) (simp_all add: take_bit_eq_mask mask_eq_exp_minus_1)

lemma pin_function_set:
  assumes "register_bank D (gpio_select_bank b)" and "p < 60"
  shows "pin_function D b p (set_pin_function D b pin func d) =
    (if p = pin_number b pin then function_code func else pin_function D b p d)"
proof -
  let ?q = "pin_number b pin"
  let ?r = "to_usize b GpioBase + ?q div 10 * 4"
  let ?v = "fst (dev_load D ?r d)"
  let ?w = "(?v AND NOT (push_bit (3 * (?q mod 10)) 7)) OR push_bit (3 * (?q mod 10)) (function_code func)"
  have bk: "?r \<in> gpio_select_bank b" using pin_number_less[of b pin] by (intro pin_bank) simp
  have e: "set_pin_function D b pin func d = dev_store D ?r ?w (snd (dev_load D ?r d))"
    by (simp add: set_pin_function_def Let_def split: prod.splits)
  have same: "p div 10 * 4 = ?q div 10 * 4 \<and> p mod 10 = ?q mod 10 \<longleftrightarrow> p = ?q"
    by (metis mult_cancel2 zero_neq_numeral div_mod_decomp)
  show ?thesis
    using same field_set[of "?q mod 10" "p mod 10" "function_code func" ?v] function_code_take
    by (auto simp: pin_function_def e register_bank.load_store[OF assms(1) bk pin_bank[OF assms(2)]]
        register_bank.load_load[OF assms(1) bk pin_bank[OF assms(2)]])
qed

text \<open>
  \<^verbatim>\<open>write_output_pin\<close> sets the level of its pin and of no other, and \<^verbatim>\<open>read_pin_level\<close> reads it back.
\<close>

context gpio_pins
begin

lemma level_write_output_pin:
  assumes "p < 54"
  shows "level (write_output_pin D b pin mode d) p = (if p = pin_number b pin then mode = Set else level d p)"
proof -
  let ?q = "pin_number b pin"
  define r where "r = (if ?q \<le> 31 then (case mode of Set \<Rightarrow> GpioGpSet0 | Clear \<Rightarrow> GpioGpClr0)
     else (case mode of Set \<Rightarrow> GpioGpSet1 | Clear \<Rightarrow> GpioGpClr1))"
  obtain v e where l: "addr_load D b r d = (v, e)" by (cases "addr_load D b r d")
  have e: "v = 0" "level e = level d"
    using load_pins[OF _ l] by (cases mode; simp add: r_def split: if_splits)+
  have w: "write_output_pin D b pin mode d = addr_store D b r (push_bit (?q mod 32) 1) e"
    using l e(1) by (cases mode; simp add: write_output_pin_def Let_def r_def addr_load_def addr_store_def split: if_splits)
  show ?thesis
    unfolding w using pin_number_less[of b pin] assms
    by (cases mode) (auto simp: r_def e store_set0 store_set1 store_clr0 store_clr1 bit_exp_iff le_mod_geq not_le)
qed

lemma read_pin_level_level: "fst (read_pin_level D b pin d) \<longleftrightarrow> level d (pin_number b pin)"
proof -
  have b: "drop_bit n v AND 1 \<noteq> 0 \<longleftrightarrow> bit v n" for v :: u32 and n
    by (simp add: and_one_eq bit_iff_odd_drop_bit odd_iff_mod_2_eq_one)
  show ?thesis
    using pin_number_less[of b pin] load_lev0[of "pin_number b pin" d] load_lev1[of "pin_number b pin" d]
    by (auto simp: read_pin_level_def Let_def case_prod_beta b le_mod_geq not_le)
qed

end



section \<open>Waiting\<close>

lemma join_words:
  "push_bit 32 (ucast (of_nat h :: u32)) OR (ucast (of_nat n :: u32) :: u64) = of_nat (h * 2 ^ 32 + n mod 2 ^ 32)"
proof -
  have "push_bit 32 h + take_bit 32 n = push_bit 32 h OR take_bit 32 n"
    by (rule disjunctive_add) (auto simp: bit_simps)
  then have e: "h * 2 ^ 32 + n mod 2 ^ 32 = push_bit 32 h OR take_bit 32 n"
    by (simp add: push_bit_eq_mult take_bit_eq_mod)
  show ?thesis
    unfolding e by (rule bit_word_eqI) (auto simp: bit_simps)
qed

lemma of_nat_less_u64: "x < y \<Longrightarrow> y < 2 ^ 64 \<Longrightarrow> (of_nat x :: u64) < of_nat y"
  by (simp add: word_less_nat_alt unat_of_nat)

lemma add_div_same:
  fixes c k m :: nat
  assumes "c mod m + k < m"
  shows "(c + k) div m = c div m"
proof -
  have "c + k = c div m * m + (c mod m + k)" by simp
  then have "(c + k) div m = (c div m * m + (c mod m + k)) div m" by simp
  also have "\<dots> = c div m" using assms by (subst div_mult_self3) auto
  finally show ?thesis .
qed

context system_timer
begin

lemma counter_value_torn:
  "fst (get_time_counter_value D b d) =
     of_nat (clk (snd (addr_load D b TimerClo d)) div 2 ^ 32 * 2 ^ 32 + clk d mod 2 ^ 32)"
  using join_words[of "clk (snd (addr_load D b TimerClo d)) div 2 ^ 32" "clk d"] load_lo[of d]
    load_hi[of "snd (addr_load D b TimerClo d)"]
  by (simp add: get_time_counter_value_def Let_def case_prod_beta)

text \<open>Reading the counter, as long as the low word does not wrap around between the two loads.\<close>

lemma counter_value:
  assumes "(clk d + \<delta>) div 2 ^ 32 = clk d div 2 ^ 32" "clk d < 2 ^ 64"
  shows "fst (get_time_counter_value D b d) = of_nat (clk d)"
    and "clk d < clk (snd (get_time_counter_value D b d))"
    and "clk (snd (get_time_counter_value D b d)) \<le> clk d + 2 * \<delta>"
proof -
  let ?e = "snd (addr_load D b TimerClo d)"
  have "clk ?e div 2 ^ 32 = clk d div 2 ^ 32"
    using lo_advances[of d] assms(1) div_le_mono[of "clk d" "clk ?e" "2 ^ 32"]
      div_le_mono[of "clk ?e" "clk d + \<delta>" "2 ^ 32"] by linarith
  then show "fst (get_time_counter_value D b d) = of_nat (clk d)"
    by (simp add: counter_value_torn)
  show "clk d < clk (snd (get_time_counter_value D b d))"
    "clk (snd (get_time_counter_value D b d)) \<le> clk d + 2 * \<delta>"
    using lo_advances[of d] hi_advances[of ?e]
    by (simp_all add: get_time_counter_value_def Let_def case_prod_beta)
qed

lemma wait_loop_returns:
  assumes "(t + u + 4 * \<delta>) div 2 ^ 32 = t div 2 ^ 32" "t + u + 4 * \<delta> < 2 ^ 64"
    and keeps: "\<And>d. Q d \<Longrightarrow> Q (snd (get_time_counter_value D b d))"
    and "t \<le> clk d" "clk d \<le> t + u + 2 * \<delta>" "Q d"
  shows "\<exists>d'. wait_loop D b (of_nat u) (of_nat t) d = Some (Inr d') \<and> t + u < clk d' \<and> clk d' \<le> t + u + 4 * \<delta> \<and> Q d'"
  using assms(4-6)
proof (induction "t + u + 2 * \<delta> - clk d" arbitrary: d rule: less_induct)
  case less
  let ?d = "snd (get_time_counter_value D b d)"
  have "(clk d + \<delta>) div 2 ^ 32 = clk d div 2 ^ 32" "clk d < 2 ^ 64"
    using less.prems assms(1,2) div_le_mono[of t "clk d" "2 ^ 32"] div_le_mono[of "clk d" "clk d + \<delta>" "2 ^ 32"]
      div_le_mono[of "clk d + \<delta>" "t + u + 4 * \<delta>" "2 ^ 32"] by linarith+
  note R = counter_value[OF this]
  have cmp: "(of_nat (clk d) :: u64) < of_nat t \<longleftrightarrow> clk d < t"
    "(of_nat u :: u64) \<le> of_nat (clk d) - of_nat t \<longleftrightarrow> u \<le> clk d - t"
    using less.prems assms(2) by (simp_all add: word_less_nat_alt word_le_nat_alt unat_of_nat flip: of_nat_diff)
  show ?case
  proof (cases "u \<le> clk d - t")
    case True
    then show ?thesis
      using R less.prems cmp keeps by (subst wait_loop.simps) auto
  next
    case False
    then have "clk ?d \<le> t + u + 2 * \<delta>" "t \<le> clk ?d" "t + u + 2 * \<delta> - clk ?d < t + u + 2 * \<delta> - clk d"
      using R(2,3) less.prems by linarith+
    then show ?thesis
      using less.hyps[of ?d] False cmp R(1) less.prems keeps by (subst wait_loop.simps) simp
  qed
qed

lemma wait_usec_returns:
  assumes "clk d + u + 4 * \<delta> < 2 ^ 64" "(clk d + u + 4 * \<delta>) div 2 ^ 32 = clk d div 2 ^ 32"
    and keeps: "\<And>d. Q d \<Longrightarrow> Q (snd (get_time_counter_value D b d))" and "Q d"
  shows "\<exists>d'. wait_usec D b (of_nat u) d = Some (Inr d') \<and> clk d + u < clk d' \<and> clk d' \<le> clk d + u + 4 * \<delta> \<and> Q d'"
proof -
  have "(clk d + \<delta>) div 2 ^ 32 = clk d div 2 ^ 32" "clk d < 2 ^ 64"
    using assms(1,2) div_le_mono[of "clk d" "clk d + \<delta>" "2 ^ 32"]
      div_le_mono[of "clk d + \<delta>" "clk d + u + 4 * \<delta>" "2 ^ 32"] by linarith+
  note R = counter_value[OF this]
  have "clk d \<le> clk (snd (get_time_counter_value D b d))"
    "clk (snd (get_time_counter_value D b d)) \<le> clk d + u + 2 * \<delta>" using R(2,3) by linarith+
  from wait_loop_returns[where Q = Q, OF assms(2,1) keeps this keeps[OF assms(4)]] R(1) show ?thesis
    by (simp add: wait_usec_def Let_def case_prod_beta)
qed

text \<open>
  Waiting ends in any case.  The value read is never too small: it is the clock, or \<open>2 ^ 32\<close> more
  after a wrap-around of the low word between the two loads.
\<close>

lemma counter_value_cases:
  assumes "\<delta> < 2 ^ 20"
  shows "(fst (get_time_counter_value D b d) = of_nat (clk d)) \<or>
    (fst (get_time_counter_value D b d) = of_nat (clk d + 2 ^ 32) \<and> clk d mod 2 ^ 32 + \<delta> \<ge> 2 ^ 32)"
proof -
  let ?e = "snd (addr_load D b TimerClo d)"
  show ?thesis
  proof (cases "clk d mod 2 ^ 32 + \<delta> < 2 ^ 32")
    case True
    then have "(clk d + \<delta>) div 2 ^ 32 = clk d div 2 ^ 32" by (rule add_div_same)
    then have "clk ?e div 2 ^ 32 = clk d div 2 ^ 32"
      using lo_advances[of d] div_le_mono[of "clk d" "clk ?e" "2 ^ 32"] div_le_mono[of "clk ?e" "clk d + \<delta>" "2 ^ 32"]
      by linarith
    then show ?thesis by (simp add: counter_value_torn)
  next
    case False
    have "clk ?e < clk d + 2 ^ 32" using lo_advances[of d] assms by simp
    then have "clk ?e div 2 ^ 32 \<le> clk d div 2 ^ 32 + 1"
      using div_le_mono[of "clk ?e" "clk d + 2 ^ 32" "2 ^ 32"] by simp
    then consider "clk ?e div 2 ^ 32 = clk d div 2 ^ 32" | "clk ?e div 2 ^ 32 = clk d div 2 ^ 32 + 1"
      using lo_advances[of d] div_le_mono[of "clk d" "clk ?e" "2 ^ 32"] by linarith
    then show ?thesis
    proof cases
      case 2
      then have "clk ?e div 2 ^ 32 * 2 ^ 32 + clk d mod 2 ^ 32 = clk d + 2 ^ 32"
        by (simp add: algebra_simps)
      then show ?thesis using False counter_value_torn[of d] by (simp only: not_less simp_thms)
    qed (simp add: counter_value_torn)
  qed
qed

lemma step_bounds:
  "clk d < clk (snd (get_time_counter_value D b d))" "clk (snd (get_time_counter_value D b d)) \<le> clk d + 2 * \<delta>"
  using lo_advances[of d] hi_advances[of "snd (addr_load D b TimerClo d)"]
  by (simp_all add: get_time_counter_value_def Let_def case_prod_beta)

lemma wait_loop_ends:
  assumes "\<delta> < 2 ^ 20" "t + u + 4 * \<delta> + 2 ^ 33 < 2 ^ 64" "t \<le> clk d" "clk d \<le> t + u + 2 * \<delta>"
  shows "\<exists>d'. wait_loop D b (of_nat u) (of_nat t) d = Some (Inr d') \<and> clk d' \<le> t + u + 4 * \<delta>"
  using assms(3,4)
proof (induction "t + u + 2 * \<delta> - clk d" arbitrary: d rule: less_induct)
  case less
  let ?d = "snd (get_time_counter_value D b d)"
  note S = step_bounds[of d]
  obtain v where v: "fst (get_time_counter_value D b d) = of_nat v" "clk d \<le> v" "v \<le> clk d + 2 ^ 32"
    using counter_value_cases[OF assms(1), of d] by (metis le_add1 order_refl)
  then have cmp: "(of_nat v :: u64) < of_nat t \<longleftrightarrow> v < t" "(of_nat u :: u64) \<le> of_nat v - of_nat t \<longleftrightarrow> u \<le> v - t"
    using less.prems assms(2) by (simp_all add: word_less_nat_alt word_le_nat_alt unat_of_nat flip: of_nat_diff)
  show ?case
  proof (cases "u \<le> v - t")
    case True
    then show ?thesis
      using v less.prems cmp S by (subst wait_loop.simps) auto
  next
    case False
    then have "clk ?d \<le> t + u + 2 * \<delta>" "t \<le> clk ?d" "t + u + 2 * \<delta> - clk ?d < t + u + 2 * \<delta> - clk d"
      using S less.prems v by linarith+
    then show ?thesis
      using less.hyps[of ?d] False cmp v less.prems by (subst wait_loop.simps) simp
  qed
qed

lemma after_torn:
  assumes "\<delta> < 2 ^ 20" "2 ^ 32 \<le> clk d mod 2 ^ 32 + \<delta>"
    and "clk d div 2 ^ 32 < clk (snd (addr_load D b TimerClo d)) div 2 ^ 32"
  shows "clk (snd (get_time_counter_value D b d)) mod 2 ^ 32 + \<delta> < 2 ^ 32"
proof -
  let ?e = "snd (addr_load D b TimerClo d)" and ?d = "snd (get_time_counter_value D b d)"
  let ?w = "(clk d div 2 ^ 32 + 1) * 2 ^ 32"
  have "(clk d div 2 ^ 32 + 1) * 2 ^ 32 \<le> clk ?e div 2 ^ 32 * 2 ^ 32" using assms(3) by (intro mult_le_mono1) simp
  then have "?w \<le> clk ?e" by (meson div_times_less_eq_dividend le_trans)
  moreover have "clk ?e \<le> clk ?d"
    using hi_advances[of ?e] by (simp add: get_time_counter_value_def Let_def case_prod_beta)
  ultimately have lo: "?w \<le> clk ?d" by simp
  have "clk d < ?w" by (simp add: dividend_less_div_times mult.commute)
  then have hi: "clk ?d \<le> ?w + 2 * \<delta>" using step_bounds(2)[of d] by linarith
  have "clk ?d mod 2 ^ 32 = (clk ?d - ?w) mod 2 ^ 32"
    using lo by (metis le_add_diff_inverse2 mod_mult_self1)
  also have "\<dots> \<le> clk ?d - ?w" by simp
  finally show ?thesis using hi assms(1) by simp
qed

lemma wait_usec_ends:
  assumes "\<delta> < 2 ^ 20" "clk d + u + 4 * \<delta> + 2 ^ 33 < 2 ^ 64"
  shows "(\<exists>d'. wait_usec D b (of_nat u) d = Some (Inr d') \<and> clk d' \<le> clk d + u + 4 * \<delta>)
    \<or> wait_usec D b (of_nat u) d = Some (Inl Overflow)"
proof -
  let ?d = "snd (get_time_counter_value D b d)"
  note S = step_bounds[of d]
  show ?thesis
  proof (cases "fst (get_time_counter_value D b d) = of_nat (clk d)")
    case True
    have "\<exists>d'. wait_loop D b (of_nat u) (of_nat (clk d)) ?d = Some (Inr d') \<and> clk d' \<le> clk d + u + 4 * \<delta>"
      using S assms by (intro wait_loop_ends) simp_all
    then show ?thesis using True by (simp add: wait_usec_def Let_def case_prod_beta)
  next
    case False
    then have t: "fst (get_time_counter_value D b d) = of_nat (clk d + 2 ^ 32)" "2 ^ 32 \<le> clk d mod 2 ^ 32 + \<delta>"
      using counter_value_cases[OF assms(1), of d] by auto
    have "clk (snd (addr_load D b TimerClo d)) div 2 ^ 32 \<noteq> clk d div 2 ^ 32"
      using False counter_value_torn[of d] by (metis div_mult_mod_eq)
    then have "clk d div 2 ^ 32 < clk (snd (addr_load D b TimerClo d)) div 2 ^ 32"
      using lo_advances[of d] div_le_mono[of "clk d" "clk (snd (addr_load D b TimerClo d))" "2 ^ 32"] by linarith
    then have "clk ?d mod 2 ^ 32 + \<delta> < 2 ^ 32"
      using assms(1) t(2) by (intro after_torn)
    then have "fst (get_time_counter_value D b ?d) = of_nat (clk ?d)"
      using counter_value_cases[OF assms(1), of ?d] by linarith
    moreover have "(of_nat (clk ?d) :: u64) < of_nat (clk d + 2 ^ 32)"
      using S assms by (intro of_nat_less_u64) simp_all
    ultimately show ?thesis
      using t(1) by (simp add: wait_usec_def Let_def case_prod_beta wait_loop.simps)
  qed
qed

end

text \<open>
  C32. \<^verbatim>\<open>wait_usec\<close> always ends, at most the time of four register loads later than asked or with the
  panic of a torn read; as long as the low word of the counter does not wrap around meanwhile, it
  returns and has waited at least as long as asked.
\<close>
theorem wait_usec_correct:
  assumes "system_timer D b clk \<delta>" and "\<delta> < 2 ^ 20" and "clk d + u + 4 * \<delta> + 2 ^ 33 < 2 ^ 64"
  shows "((\<exists>d'. wait_usec D b (of_nat u) d = Some (Inr d') \<and> clk d' \<le> clk d + u + 4 * \<delta>)
      \<or> wait_usec D b (of_nat u) d = Some (Inl Overflow))
    \<and> ((clk d + u + 4 * \<delta>) div 2 ^ 32 = clk d div 2 ^ 32 \<longrightarrow>
      (\<exists>d'. wait_usec D b (of_nat u) d = Some (Inr d') \<and> clk d + u < clk d' \<and> clk d' \<le> clk d + u + 4 * \<delta>))"
proof -
  have "clk d + u + 4 * \<delta> < 2 ^ 64" using assms(3) by simp
  then show ?thesis
    using system_timer.wait_usec_ends[OF assms] system_timer.wait_usec_returns[OF assms(1), of d u "\<lambda>_. True"] by blast
qed

theorem wait_usec_correct_witness:
  "\<exists>d'. wait_usec (pi_api RPi_zero) RPi_zero 1000
      (pi_start 7) = Some (Inr d')
     \<and> 1007 < pi_clock d'"
  using wait_usec_correct[OF pi_timer.system_timer_axioms,
      of "pi_start 7" 1000 RPi_zero]
  by auto



end
