(* ===== verification/Arm_Start.thy ===== *)
theory Arm_Start
  imports Lcd_Text Arm_Theorems
begin

text \<open>
  The start-up of the Raspberry Pi, \<^verbatim>\<open>arch::arm11::init\<close>, from the set-up of the display through the
  iterations of the endless loop, on a board that keeps the contract \<open>pi_board\<close>.
\<close>

section \<open>Steps of the start-up\<close>

lemma act_then_assoc: "act_then (act_then f g) h = act_then f (act_then g h)"
  by (auto simp: act_then_def fun_eq_iff split: option.splits sum.splits)

lemma act_seq_Cons: "act_seq (f # fs) = act_then f (act_seq fs)"
  by (simp add: fun_eq_iff)

lemma act_seq_append: "act_seq (fs @ gs) = act_then (act_seq fs) (act_seq gs)"
proof (induction fs)
  case (Cons f fs)
  then show ?case by (simp only: append_Cons act_seq_Cons act_then_assoc)
qed (simp add: act_then_def fun_eq_iff)

text \<open>The system timer has no wrap-around of its low word within \<open>n\<close> microseconds.\<close>

definition in_window :: "nat \<Rightarrow> nat \<Rightarrow> bool" where
  "in_window t n \<longleftrightarrow> (t + n) div 2 ^ 32 = t div 2 ^ 32 \<and> t + n < 2 ^ 64"

lemma in_window_split:
  assumes "in_window t (m + n)" "t \<le> t'" "t' \<le> t + m"
  shows "in_window t m" "in_window t' n"
proof -
  have "(t + m) div 2 ^ 32 \<le> (t + (m + n)) div 2 ^ 32" "t div 2 ^ 32 \<le> (t + m) div 2 ^ 32"
    "t div 2 ^ 32 \<le> t' div 2 ^ 32" "t' div 2 ^ 32 \<le> (t' + n) div 2 ^ 32" "(t' + n) div 2 ^ 32 \<le> (t + (m + n)) div 2 ^ 32"
    using assms(2,3) by (intro div_le_mono; linarith)+
  then show "in_window t m" "in_window t' n"
    using assms unfolding in_window_def by linarith+
qed

lemma length_text_lines: "length (filter (\<lambda>c. c \<noteq> 0x0A) s) = sum_list (map length (text_lines s))"
proof (induction s)
  case (Cons c s)
  then show ?case by (cases "text_lines s") auto
qed simp

lemma aart_size: "map length (text_lines aart) = [28, 28, 27, 26, 25]"
  by (simp add: aart_def)

lemma aart_fits: "text_fits 50 50 100 (text_lines aart)"
proof -
  obtain l0 l1 l2 l3 l4 where "text_lines aart = [l0, l1, l2, l3, l4]"
    using aart_size by (auto simp: map_eq_Cons_conv)
  then show ?thesis using aart_size by simp
qed

lemma aart_count: "length (filter (\<lambda>c. c \<noteq> 0x0A) aart) = 134"
  by (simp add: length_text_lines aart_size)

text \<open>
  What the set-up of the display sends between the two waits.  Nothing of it is a memory write or
  a window, so it leaves the picture alone.
\<close>

definition setup_bytes :: "(bool \<times> u8) list" where
  "setup_bytes =
     [(False, 0x28), (False, 0xC0), (True, 0x23), (True, 0x00), (False, 0xC1), (True, 0x10), (False,
      0xC5), (True, 0x3E), (True, 0x28), (False, 0xC7), (True, 0x86), (False, 0x3A), (True, 0x55), (False,
      0xB1), (True, 0x00), (True, 0x18), (False, 0xB6), (True, 0x08), (True, 0x82), (True, 0x27), (False,
      0x26), (True, 0x01), (False, 0xE0), (True, 0x0F), (True, 0x31), (True, 0x2B), (True, 0x0C), (True,
      0x0E), (True, 0x08), (True, 0x4E), (True, 0xF1), (True, 0x37), (True, 0x07), (True, 0x10), (True,
      0x03), (True, 0x0E), (True, 0x09), (True, 0x00), (False, 0xE1), (True, 0x00), (True, 0x0E), (True,
      0x14), (True, 0x03), (True, 0x11), (True, 0x07), (True, 0x31), (True, 0xC1), (True, 0x48), (True,
      0x08), (True, 0x0F), (True, 0x0C), (True, 0x31), (True, 0x36), (True, 0x0F), (False, 0x36), (True,
      0x28), (False, 0x11)]"

definition write_byte_act :: "'d device_api \<Rightarrow> board \<Rightarrow> bool \<times> u8 \<Rightarrow> 'd action" where
  "write_byte_act D b = (\<lambda>(is_data, byte). if is_data then write_data D b byte else write_command D b byte)"

lemma ili9340_init_steps:
  "ili9340_init D b = act_seq
     ([pure_act (set_pin_function D b Spi0Ce0N Alternate0), pure_act (set_pin_function D b Spi0Mosi Alternate0),
       pure_act (set_pin_function D b Spi0Sclk Alternate0), pure_act (set_pin_function D b Ili9340Dc Output),
       pure_act (addr_store D b Spi0RegisterCs 0x30), pure_act (addr_store D b Spi0RegisterClk 4),
       write_command D b 0x01, wait D b 120]
      @ (map (write_byte_act D b) setup_bytes @ [wait D b 120, write_command D b 0x29, fill_screen D b 0x0000]))"
  by (simp add: ili9340_init_def setup_bytes_def write_byte_act_def)

lemma panel_quiet:
  assumes "cmd p \<notin> {0x2A, 0x2B, 0x2C}" "list_all (\<lambda>(is_data, x). is_data \<or> x \<notin> {0x2A, 0x2B, 0x2C}) bs"
  shows "gram (panel_run bs p) = gram p"
  using assms
proof (induction bs arbitrary: p)
  case (Cons x bs)
  then show ?case by (cases x; cases "fst x") (auto simp: panel_run_Cons)
qed simp

lemma panel_step_gram: "gram (panel_step (False, x) p) = gram p"
  by simp

lemma setup_bytes_quiet: "gram (panel_run setup_bytes p) = gram p"
proof -
  have "list_all (\<lambda>(is_data, x). is_data \<or> x \<notin> {0x2A, 0x2B, 0x2C}) (tl setup_bytes)"
    by (simp add: setup_bytes_def)
  moreover have "cmd (panel_step (False, 0x28) p) \<notin> {0x2A, 0x2B, 0x2C}" by simp
  ultimately have "gram (panel_run (tl setup_bytes) (panel_step (False, 0x28) p)) = gram (panel_step (False, 0x28) p)"
    by (intro panel_quiet)
  moreover have "setup_bytes = (False, 0x28) # tl setup_bytes" by (simp add: setup_bytes_def)
  ultimately show ?thesis
    by (metis panel_run_Cons panel_step_gram)
qed

section \<open>The frames of the loop\<close>

text \<open>The picture that an iteration draws, and its effect on what the display shows.\<close>

definition frame_of :: "bool \<Rightarrow> nat \<times> nat \<Rightarrow> nat" where
  "frame_of sw =
     (if sw then (\<lambda>(x, y). GIRL_COLORS ! (y * 320 + x))
      else text_paint 50 50 100 0 0xF800 (text_lines aart) (\<lambda>_. 0))"

definition blink_effect :: "bool \<Rightarrow> (nat \<times> nat \<Rightarrow> nat) \<Rightarrow> (nat \<times> nat \<Rightarrow> nat)" where
  "blink_effect sw =
     (if sw then paint 0 0 320 240 (\<lambda>x y. GIRL_COLORS ! (y * 320 + x))
      else text_paint 50 50 100 0 0xF800 (text_lines aart) \<circ> paint 0 0 320 240 (\<lambda>_ _. 0))"

fun blinks_effect :: "nat \<Rightarrow> bool \<Rightarrow> (nat \<times> nat \<Rightarrow> nat) \<Rightarrow> (nat \<times> nat \<Rightarrow> nat)" where
  "blinks_effect 0 sw = id"
| "blinks_effect (Suc n) sw = blinks_effect n (\<not> sw) \<circ> blink_effect sw"

lemma blink_effect_frame: "x < 320 \<Longrightarrow> y < 240 \<Longrightarrow> blink_effect sw g (x, y) = frame_of sw (x, y)"
  by (auto simp: blink_effect_def frame_of_def text_paint_def paint_def split: option.splits)

lemma blinks_effect_frame:
  "x < 320 \<Longrightarrow> y < 240 \<Longrightarrow> blinks_effect (Suc n) sw g (x, y) = frame_of (sw = even n) (x, y)"
proof (induction n arbitrary: sw g)
  case (Suc n)
  have "blinks_effect (Suc (Suc n)) sw g (x, y) = frame_of ((\<not> sw) = even n) (x, y)"
    using Suc.IH[OF Suc.prems, of "\<not> sw" "blink_effect sw g"] by simp
  moreover have "((\<not> sw) = even n) = (sw = even (Suc n))" by auto
  ultimately show ?case by simp
qed (simp add: blink_effect_frame)

context pi_board
begin

text \<open>The action ends within \<open>n\<close> microseconds, changes the picture by \<open>F\<close> and the LED by \<open>L\<close>.\<close>

definition runs :: "'d action \<Rightarrow> nat \<Rightarrow> ((nat \<times> nat \<Rightarrow> nat) \<Rightarrow> (nat \<times> nat \<Rightarrow> nat)) \<Rightarrow> (bool \<Rightarrow> bool) \<Rightarrow> bool" where
  "runs a n F L \<longleftrightarrow> (\<forall>d. inv d \<and> in_window (clk d) n \<longrightarrow>
     (\<exists>d'. a d = Some (Inr d') \<and> inv d' \<and> spent clk n d d' \<and> led d' = L (led d)
       \<and> (\<forall>p. gram (panel_run (sent d') p) = F (gram (panel_run (sent d) p)))))"

lemma runsE:
  assumes "runs a n F L" "inv d" "in_window (clk d) n"
  obtains d' where "a d = Some (Inr d')" "inv d'" "spent clk n d d'" "led d' = L (led d)"
    "\<And>p. gram (panel_run (sent d') p) = F (gram (panel_run (sent d) p))"
  using assms unfolding runs_def by metis

lemma runs_then:
  assumes "runs f m F L" "runs g n G M"
  shows "runs (act_then f g) (m + n) (G \<circ> F) (M \<circ> L)"
  unfolding runs_def
proof (intro allI impI, elim conjE)
  fix d assume d: "inv d" "in_window (clk d) (m + n)"
  then have "in_window (clk d) m" using in_window_split(1)[of "clk d" m n "clk d"] by simp
  from assms(1) d(1) this obtain e where e: "f d = Some (Inr e)" "inv e" "spent clk m d e" "led e = L (led d)"
    "\<And>p. gram (panel_run (sent e) p) = F (gram (panel_run (sent d) p))" by (rule runsE) blast
  have "in_window (clk e) n" using in_window_split(2)[OF d(2)] e(3) by (simp add: spent_def)
  from assms(2) e(2) this obtain d' where d': "g e = Some (Inr d')" "inv d'" "spent clk n e d'" "led d' = M (led e)"
    "\<And>p. gram (panel_run (sent d') p) = G (gram (panel_run (sent e) p))" by (rule runsE) blast
  show "\<exists>d'. act_then f g d = Some (Inr d') \<and> inv d' \<and> spent clk (m + n) d d' \<and> led d' = (M \<circ> L) (led d)
     \<and> (\<forall>p. gram (panel_run (sent d') p) = (G \<circ> F) (gram (panel_run (sent d) p)))"
    using e d' spent_trans[OF e(3) d'(3)] by (simp add: act_then_def)
qed

lemma runs_Nil: "runs (act_seq []) 0 id id"
  by (simp add: runs_def)

lemma runs_Cons: "runs f m F L \<Longrightarrow> runs (act_seq fs) n G M \<Longrightarrow> runs (act_seq (f # fs)) (m + n) (G \<circ> F) (M \<circ> L)"
  using runs_then[of f m F L "act_seq fs" n G M] by (simp add: runs_def)

lemma runs_displays: "displays a n F \<Longrightarrow> runs a (n * byte_time) F id"
  unfolding runs_def displays_def by auto

lemma runs_sends: "sends a bs \<Longrightarrow> (\<And>p. gram (panel_run bs p) = gram p) \<Longrightarrow> runs a (length bs * byte_time) id id"
  using sends_displays[of a bs id] by (simp add: runs_displays)

lemma runs_eq: "runs a m F L \<Longrightarrow> m = n \<Longrightarrow> F = G \<Longrightarrow> L = M \<Longrightarrow> runs a n G M"
  by simp

lemma timer_keeps:
  "inv d \<and> sent d = s \<and> led d = l \<Longrightarrow>
     inv (snd (get_time_counter_value D b d)) \<and> sent (snd (get_time_counter_value D b d)) = s
     \<and> led (snd (get_time_counter_value D b d)) = l"
proof -
  assume d: "inv d \<and> sent d = s \<and> led d = l"
  obtain v e where l: "addr_load D b TimerClo d = (v, e)" by (cases "addr_load D b TimerClo d")
  obtain w e' where h: "addr_load D b TimerChi e = (w, e')" by (cases "addr_load D b TimerChi e")
  show ?thesis
    using d load_timer[OF _ _ l] load_timer[OF _ _ h] by (simp add: get_time_counter_value_def l h)
qed

lemma wait_runs:
  assumes "m * 1000 < 2 ^ 32"
  shows "runs (wait D b (of_nat m)) (m * 1000 + 4 * \<delta>) id id"
  unfolding runs_def
proof (intro allI impI, elim conjE)
  fix d assume d: "inv d" "in_window (clk d) (m * 1000 + 4 * \<delta>)"
  have "\<exists>d'. wait_usec D b (of_nat (m * 1000)) d = Some (Inr d') \<and> clk d + m * 1000 < clk d'
      \<and> clk d' \<le> clk d + m * 1000 + 4 * \<delta> \<and> (inv d' \<and> sent d' = sent d \<and> led d' = led d)"
    using d timer_keeps by (intro wait_usec_returns) (simp_all add: in_window_def add.assoc)
  moreover have "unat (of_nat m :: u64) * 1000 < 2 ^ 64"
    using assms by (simp add: unat_of_nat)
  ultimately show "\<exists>d'. wait D b (of_nat m) d = Some (Inr d') \<and> inv d' \<and> spent clk (m * 1000 + 4 * \<delta>) d d'
     \<and> led d' = id (led d) \<and> (\<forall>p. gram (panel_run (sent d') p) = id (gram (panel_run (sent d) p)))"
    by (auto simp: wait_def spent_def)
qed

lemma set_pin_function_runs: "runs (pure_act (set_pin_function D b pin func)) (2 * \<delta>) id id"
  unfolding runs_def
proof (intro allI impI, elim conjE)
  fix d assume d: "inv d"
  let ?r = "to_usize b GpioBase + pin_number b pin div 10 * 4"
  have r: "?r \<in> gpio_select_bank b" using pin_number_less[of b pin] by (intro pin_bank) simp
  obtain v e where l: "dev_load D ?r d = (v, e)" by (cases "dev_load D ?r d")
  obtain w where w: "set_pin_function D b pin func d = dev_store D ?r w e"
    using l by (simp add: set_pin_function_def Let_def)
  note e = load_select[OF d r l]
  note s = store_select[OF conjunct1[OF e] r w]
  show "\<exists>d'. pure_act (set_pin_function D b pin func) d = Some (Inr d') \<and> inv d' \<and> spent clk (2 * \<delta>) d d'
     \<and> led d' = id (led d) \<and> (\<forall>p. gram (panel_run (sent d') p) = id (gram (panel_run (sent d) p)))"
    using e s spent_trans[of clk \<delta> d e \<delta>] by (simp add: pure_act_def mult_2)
qed

lemma led_runs: "runs (pure_act (write_output_pin D b OkLed mode)) (2 * \<delta>) id (\<lambda>_. mode = Set)"
  unfolding runs_def
proof (intro allI impI, elim conjE)
  fix d assume d: "inv d"
  let ?r = "led_register b mode"
  obtain v e where l: "addr_load D b ?r d = (v, e)" by (cases "addr_load D b ?r d")
  note e = load_led[OF d l]
  have w: "write_output_pin D b OkLed mode d = addr_store D b ?r (push_bit (pin_number b OkLed mod 32) 1) e"
    using l e by (cases mode; cases "pin_number b OkLed \<le> 31")
      (simp_all add: write_output_pin_def led_register_def Let_def addr_load_def addr_store_def del: pin_number.simps)
  note s = store_led[OF _ w]
  show "\<exists>d'. pure_act (write_output_pin D b OkLed mode) d = Some (Inr d') \<and> inv d' \<and> spent clk (2 * \<delta>) d d'
     \<and> led d' = (mode = Set) \<and> (\<forall>p. gram (panel_run (sent d') p) = id (gram (panel_run (sent d) p)))"
    using e s spent_trans[of clk \<delta> d e \<delta>] by (simp add: pure_act_def mult_2)
qed

lemma store_cs_runs: "runs (pure_act (addr_store D b Spi0RegisterCs v)) \<delta> id id"
  using store_cs by (simp add: runs_def pure_act_def)

lemma store_divider_runs: "runs (pure_act (addr_store D b Spi0RegisterClk v)) \<delta> id id"
  using store_divider by (simp add: runs_def pure_act_def)

lemma runs_mono:
  assumes "runs a m F L" "m \<le> n"
  shows "runs a n F L"
  unfolding runs_def
proof (intro allI impI, elim conjE)
  fix d assume d: "inv d" "in_window (clk d) n"
  then have "in_window (clk d) m" using in_window_split(1)[of "clk d" m "n - m" "clk d"] assms(2) by simp
  from assms(1) d(1) this show "\<exists>d'. a d = Some (Inr d') \<and> inv d' \<and> spent clk n d d' \<and> led d' = L (led d)
      \<and> (\<forall>p. gram (panel_run (sent d') p) = F (gram (panel_run (sent d) p)))"
    by (rule runsE) (use assms(2) in \<open>auto intro: spent_mono\<close>)
qed

lemma command_runs: "runs (write_command D b x) byte_time id id"
  using runs_sends[OF write_command_sends[of x]] by (simp add: panel_run_Cons)

lemma setup_runs: "runs (act_seq (map (write_byte_act D b) setup_bytes)) (57 * byte_time) id id"
proof -
  have "sends (act_seq (map (write_byte_act D b) setup_bytes)) (concat (map (\<lambda>x. [x]) setup_bytes))"
    using write_command_sends write_data_sends by (intro sends_map) (auto simp: write_byte_act_def)
  then have "sends (act_seq (map (write_byte_act D b) setup_bytes)) setup_bytes" by simp
  moreover have "length setup_bytes = 57" by (simp add: setup_bytes_def)
  ultimately show ?thesis using runs_sends[OF _ setup_bytes_quiet] by metis
qed

lemmas step_runs = runs_Cons runs_Nil set_pin_function_runs store_cs_runs store_divider_runs command_runs led_runs

definition init_time :: nat where
  "init_time = 240000 + 20 * \<delta> + 153671 * byte_time"

definition blink_time :: nat where
  "blink_time = 1000000 + 12 * \<delta> + 183226 * byte_time"

lemma wait_literal_runs:
  "runs (wait D b 120) (120000 + 4 * \<delta>) id id" "runs (wait D b 500) (500000 + 4 * \<delta>) id id"
  using wait_runs[of 120] wait_runs[of 500] by simp_all

lemma fill_screen_runs: "runs (fill_screen D b 0) (153612 * byte_time) (paint 0 0 320 240 (\<lambda>_ _. 0)) id"
  by (intro runs_displays fill_screen_displays) simp

lemma ili9340_init_runs:
  "runs (ili9340_init D b) (240000 + 18 * \<delta> + 153671 * byte_time) (paint 0 0 320 240 (\<lambda>_ _. 0)) id"
  unfolding ili9340_init_steps act_seq_append
  by (rule runs_eq, (rule runs_then step_runs setup_runs wait_literal_runs fill_screen_runs)+)
    (simp_all add: algebra_simps)

lemma draw_aa_runs:
  "runs (draw_aa D b) (29614 * byte_time) (text_paint 50 50 100 0 0xF800 (text_lines aart)) id"
  using runs_displays[OF draw_string_loop_displays[OF aart_fits, of 0 "0xF800"]]
  by (simp add: draw_aa_def draw_string_def aart_count)

lemma blink_runs: "runs (blink D b sw) blink_time (blink_effect sw) (\<lambda>_. True)"
proof (cases sw)
  case True
  have "runs (blink D b True) (1000000 + 12 * \<delta> + 153612 * byte_time) (blink_effect True) (\<lambda>_. True)"
    unfolding blink_def append.simps if_True
    by (rule runs_eq, (rule step_runs wait_literal_runs runs_displays[OF draw_girl_displays])+)
      (simp_all add: algebra_simps blink_effect_def fun_eq_iff)
  then show ?thesis using True by (auto simp: blink_time_def elim!: runs_mono)
next
  case False
  have "runs (blink D b False) blink_time (blink_effect False) (\<lambda>_. True)"
    unfolding blink_def append.simps if_False
    by (rule runs_eq, (rule step_runs wait_literal_runs fill_screen_runs draw_aa_runs)+)
      (simp_all add: algebra_simps blink_effect_def fun_eq_iff blink_time_def)
  then show ?thesis using False by simp
qed

lemma blink_loop_runs: "runs (blink_loop D b n sw) (n * blink_time) (blinks_effect n sw) (\<lambda>l. 0 < n \<or> l)"
proof (induction n arbitrary: sw)
  case (Suc n)
  from runs_then[OF blink_runs Suc.IH] show ?case
    by (simp add: runs_def o_def)
qed (simp add: runs_def)

lemma peripheral_init_runs:
  "runs (peripheral_init D b n) (init_time + n * blink_time)
     (blinks_effect n True \<circ> paint 0 0 320 240 (\<lambda>_ _. 0)) (\<lambda>l. 0 < n \<or> l)"
  unfolding peripheral_init_def init_spi0_def
  by (rule runs_eq, (rule step_runs ili9340_init_runs blink_loop_runs)+)
    (simp_all add: algebra_simps init_time_def fun_eq_iff)

end



end
