(* ===== verification/Buddy_Sim.thy ===== *)
theory Buddy_Sim
  imports Buddy
begin

text \<open>
  The choice of the list: a run of the buddy allocator that succeeds with the reference list
  \<open>seq_list\<close> succeeds in the same way with every implementation of the intrusive list that keeps
  the laws of \<open>linked_list\<close>.
\<close>

text \<open>\<open>follows r s h\<close>: when \<open>s\<close> has a result, \<open>r\<close> has one too, and \<open>h\<close> maps it to that of \<open>s\<close>.\<close>

definition follows :: "'a res \<Rightarrow> 'b res \<Rightarrow> ('a \<Rightarrow> 'b) \<Rightarrow> bool" where
  "follows r s h \<longleftrightarrow> (\<forall>y. s = Inr y \<longrightarrow> (\<exists>x. r = Inr x \<and> y = h x))"

lemma follows_bind:
  assumes "follows r s h" "\<And>x. follows (f x) (g (h x)) k"
  shows "follows (res_bind r f) (res_bind s g) k"
  using assms unfolding follows_def by (force simp: res_bind_eq_Inr)

lemma follows_Inr: "y = h x \<Longrightarrow> follows (Inr x) (Inr y) h"
  by (simp add: follows_def)

lemma follows_refl: "follows r r (\<lambda>x. x)"
  by (simp add: follows_def)

lemma follows_Inl: "follows r (Inl e) h"
  by (simp add: follows_def)

lemma follows_same: "(\<And>x. follows (f x) (g x) k) \<Longrightarrow> follows (res_bind r f) (res_bind r g) k"
  by (rule follows_bind[OF follows_refl])

lemma follows_if: "follows a c h \<Longrightarrow> follows b d h \<Longrightarrow> follows (if P then a else b) (if P then c else d) h"
  by simp

lemma follows_option:
  "follows a c h \<Longrightarrow> (\<And>q. follows (f q) (g q) h) \<Longrightarrow>
     follows (case b of None \<Rightarrow> a | Some q \<Rightarrow> f q) (case b of None \<Rightarrow> c | Some q \<Rightarrow> g q) h"
  by (cases b) simp_all

lemma follows_vec_get: "follows (vec_get xs i) (vec_get (map h xs) i) h"
  by (simp add: follows_def vec_get_def)

context linked_list
begin

definition reference :: "'l BuddyAllocator \<Rightarrow> nat list BuddyAllocator" where
  "reference a = \<lparr>base_addr = base_addr a, obj_count = obj_count a, free_lists = map elems (free_lists a),
     free_counts = free_counts a, objs = objs a\<rparr>"

lemma reference_sel [simp]:
  "base_addr (reference a) = base_addr a" "obj_count (reference a) = obj_count a"
  "free_lists (reference a) = map elems (free_lists a)" "free_counts (reference a) = free_counts a"
  "objs (reference a) = objs a"
  by (simp_all add: reference_def)

lemma reference_update:
  "obj_update p g (reference a) = reference (obj_update p g a)"
  "reference a\<lparr>free_counts := c\<rparr> = reference (a\<lparr>free_counts := c\<rparr>)"
  "reference a\<lparr>free_lists := (map elems (free_lists a))[k := elems l]\<rparr> = reference (a\<lparr>free_lists := (free_lists a)[k := l]\<rparr>)"
  by (simp_all add: reference_def obj_update_def map_update)

lemma follows_lists:
  "(\<And>l. follows (f l) (g (elems l)) k) \<Longrightarrow>
     follows (res_bind (vec_get (free_lists a) i) f) (res_bind (vec_get (free_lists (reference a)) i) g) k"
  unfolding reference_sel by (rule follows_bind[OF follows_vec_get])

lemma list_push_back_follows: "follows (list_push_back L k p a) (list_push_back seq_list k p (reference a)) reference"
proof -
  have "ll_push_back seq_list (elems l) p = elems (ll_push_back L l p)" for l
    by (simp add: seq_list_def elems_push_back)
  then show ?thesis
    unfolding list_push_back_def reference_sel
    by (intro follows_bind[OF follows_vec_get] follows_if follows_Inl follows_Inr) (simp add: reference_update)
qed

lemma count_follows:
  "follows (count_incr k a) (count_incr k (reference a)) reference"
  "follows (count_decr k a) (count_decr k (reference a)) reference"
  unfolding count_incr_def count_decr_def reference_sel
  by (intro follows_same follows_Inr; simp add: reference_update)+

lemma push_free_follows: "follows (push_free L k p a) (push_free seq_list k p (reference a)) reference"
  unfolding push_free_def by (intro follows_bind[OF list_push_back_follows] count_follows)

lemma buddy_reference: "buddy (reference a) p k = buddy a p k"
  by (simp add: buddy_def is_managed_obj_def)

lemma new_while_follows:
  "follows (new_while L count k index a) (new_while seq_list count k index (reference a)) (map_prod id reference)"
proof (induction "count - index" arbitrary: index a rule: less_induct)
  case less
  show ?case
  proof (subst (1 2) new_while.simps, cases "usub count index")
    case (Inr rest)
    have "follows (new_while L count k (index + 2 ^ k) x) (new_while seq_list count k (index + 2 ^ k) (reference x))
        (map_prod id reference)" if "2 ^ k \<le> rest" for x
    proof (rule less)
      have "0 < (2 :: nat) ^ k" by simp
      moreover have "2 ^ k \<le> count - index" using Inr that by (simp add: usub_eq_Inr)
      ultimately show "count - (index + 2 ^ k) < count - index" by linarith
    qed
    then show "follows (res_bind (usub count index) (\<lambda>rest. if 2 ^ k \<le> rest
          then res_bind (push_free L k index (obj_update index (mark_free \<circ> set_order k) a)) (new_while L count k (index + 2 ^ k))
          else Inr (index, a)))
        (res_bind (usub count index) (\<lambda>rest. if 2 ^ k \<le> rest
          then res_bind (push_free seq_list k index (obj_update index (mark_free \<circ> set_order k) (reference a)))
                 (new_while seq_list count k (index + 2 ^ k))
          else Inr (index, reference a))) (map_prod id reference)"
      using Inr by (auto simp: reference_update intro!: follows_bind[OF push_free_follows] follows_Inr)
  qed (simp add: follows_Inl)
qed

lemma new_orders_follows:
  "follows (new_orders L count ks index a) (new_orders seq_list count ks index (reference a)) (map_prod id reference)"
proof (induction ks arbitrary: index a)
  case (Cons k ks)
  then show ?case
    by (auto intro!: follows_bind[OF new_while_follows])
qed (simp add: follows_Inr)

lemma buddy_new_follows: "follows (buddy_new L b os count) (buddy_new seq_list b os count) reference"
proof -
  let ?a = "\<lparr>base_addr = b, obj_count = count, free_lists = replicate MAX_ORDER (ll_new L),
     free_counts = replicate MAX_ORDER 0, objs = map reset_link os\<rparr>"
  have "reference ?a = \<lparr>base_addr = b, obj_count = count, free_lists = replicate MAX_ORDER (ll_new seq_list),
     free_counts = replicate MAX_ORDER 0, objs = map reset_link os\<rparr>"
    by (simp add: reference_def elems_new seq_list_def)
  with follows_bind[OF new_orders_follows[of count "rev [0..<MAX_ORDER]" 0 ?a], of "\<lambda>(index, a). Inr a" "\<lambda>(index, a). Inr a" reference]
  show ?thesis
    unfolding buddy_new_def by (auto simp: follows_Inr)
qed

lemma allocate_split_follows:
  "follows (allocate_split L p ks a) (allocate_split seq_list p ks (reference a)) reference"
proof (induction ks arbitrary: a)
  case (Cons i ks)
  then show ?case
    by (auto simp: buddy_reference reference_update split: option.splits
        intro!: follows_same follows_bind[OF push_free_follows] follows_Inr)
qed (simp add: follows_Inr)

lemma pop_front_cases:
  "(ll_pop_front L l = None \<and> ll_pop_front seq_list (elems l) = None)
   \<or> (\<exists>p l'. ll_pop_front L l = Some (p, l') \<and> ll_pop_front seq_list (elems l) = Some (p, elems l'))"
  using pop_front_empty[of l] pop_front_cons[of l] by (cases "elems l") (auto simp: seq_list_def)

lemma allocate_search_follows:
  "follows (allocate_search L r ks a) (allocate_search seq_list r ks (reference a)) (map_prod id reference)"
proof (induction ks arbitrary: a)
  case (Cons k ks)
  have "follows (case ll_pop_front L l of
        None \<Rightarrow> allocate_search L r ks a
      | Some (obj, l') \<Rightarrow>
          res_bind (count_decr k (obj_update obj (\<lambda>f. f\<lparr>link := False\<rparr>) (a\<lparr>free_lists := (free_lists a)[k := l']\<rparr>)))
            (\<lambda>a1. res_bind (allocate_split L obj [r..<k] (obj_update obj (mark_used \<circ> set_order r) a1)) (\<lambda>a2. Inr (Some obj, a2))))
     (case ll_pop_front seq_list (elems l) of
        None \<Rightarrow> allocate_search seq_list r ks (reference a)
      | Some (obj, l') \<Rightarrow>
          res_bind (count_decr k (obj_update obj (\<lambda>f. f\<lparr>link := False\<rparr>)
              (reference a\<lparr>free_lists := (free_lists (reference a))[k := l']\<rparr>)))
            (\<lambda>a1. res_bind (allocate_split seq_list obj [r..<k] (obj_update obj (mark_used \<circ> set_order r) a1))
              (\<lambda>a2. Inr (Some obj, a2)))) (map_prod id reference)" for l
    using pop_front_cases[of l]
    by (auto simp: reference_update intro!: Cons.IH follows_bind[OF count_follows(2)] follows_bind[OF allocate_split_follows] follows_Inr)
  then show ?case
    by (simp only: allocate_search.simps reference_sel) (rule follows_bind[OF follows_vec_get])
qed (simp add: follows_Inr)

lemma allocate_follows: "follows (allocate L a r) (allocate seq_list (reference a) r) (map_prod id reference)"
  unfolding allocate_def by (intro follows_if follows_Inr allocate_search_follows) simp

lemma unlink_cases:
  "ll_unlink seq_list (elems l) p = None
   \<or> (\<exists>l'. ll_unlink L l p = Some (p, l') \<and> ll_unlink seq_list (elems l) p = Some (p, elems l'))"
  using unlink_member[of p l] by (auto simp: seq_list_def)

lemma free_merge_follows:
  "follows (free_merge L p ks a) (free_merge seq_list p ks (reference a)) (map_prod id reference)"
proof (induction ks arbitrary: p a)
  case (Cons i ks)
  have M: "follows (case ll_unlink L l q of
        None \<Rightarrow> Inl UnwrapNone
      | Some (b, l') \<Rightarrow>
          res_bind (count_decr i (obj_update b (\<lambda>f. f\<lparr>link := False\<rparr>) (a\<lparr>free_lists := (free_lists a)[i := l']\<rparr>)))
            (\<lambda>a1. if b < p then free_merge L b ks (obj_update b (set_order (i + 1) \<circ> mark_free) a1)
                  else free_merge L p ks (obj_update p (set_order (i + 1)) a1)))
     (case ll_unlink seq_list (elems l) q of
        None \<Rightarrow> Inl UnwrapNone
      | Some (b, l') \<Rightarrow>
          res_bind (count_decr i (obj_update b (\<lambda>f. f\<lparr>link := False\<rparr>)
              (reference a\<lparr>free_lists := (free_lists (reference a))[i := l']\<rparr>)))
            (\<lambda>a1. if b < p then free_merge seq_list b ks (obj_update b (set_order (i + 1) \<circ> mark_free) a1)
                  else free_merge seq_list p ks (obj_update p (set_order (i + 1)) a1))) (map_prod id reference)" for l q
    using unlink_cases[of l q]
    by (auto simp: reference_update follows_Inl intro!: Cons.IH follows_bind[OF count_follows(2)])
  show ?case
    unfolding free_merge.simps buddy_reference reference_sel(5)
    by (intro follows_same follows_option follows_if follows_Inr follows_lists M) simp_all
qed (simp add: follows_Inr)

lemma buddy_free_follows: "follows (buddy_free L a p) (buddy_free seq_list (reference a) p) reference"
  unfolding buddy_free_def
  by (auto simp: Let_def reference_update is_managed_obj_def
      intro!: follows_same follows_bind[OF free_merge_follows] push_free_follows)

lemma count_free_objs_reference: "count_free_objs (reference a) = count_free_objs a"
  by (simp add: count_free_objs_def)

lemma is_managed_obj_reference: "is_managed_obj (reference a) p = is_managed_obj a p"
  by (simp add: is_managed_obj_def)

end

end
