(* ===== verification/Unit_Tests.thy ===== *)
theory Unit_Tests
  imports Buddy_Sim Buddy_Theorems Early_Alloc Paging_Entry Graphic Interrupt
begin

text \<open>
  The unit tests of the repository (the modules \<^verbatim>\<open>test\<close> and \<^verbatim>\<open>tests\<close>), run on the model: a failed
  assertion is a panic.  The memory that a test allocates for its objects has an arbitrary content,
  the lists, bit fields and bit flags are any that keep the contracts of their crates.
\<close>

definition assert_true :: "bool \<Rightarrow> unit res" where
  "assert_true b = (if b then Inr () else Inl (ExplicitPanic ''assertion failed''))"

definition assert_eq :: "'a \<Rightarrow> 'a \<Rightarrow> unit res" where
  "assert_eq l r = assert_true (l = r)"

fun in_order :: "unit res list \<Rightarrow> unit res" where
  "in_order [] = Inr ()"
| "in_order (r # rs) = res_bind r (\<lambda>_. in_order rs)"

section \<open>Alignment, indices, entries, the early allocator\<close>

definition test_alignment :: "unit res" where
  "test_alignment = in_order
     [res_bind (align_up 0x1000 0x1000) (\<lambda>v. assert_eq v 0x1000),
      res_bind (align_down 0x1000 0x1000) (\<lambda>v. assert_eq v 0x1000),
      res_bind (align_up 0x1123 0x1000) (\<lambda>v. assert_eq v 0x2000),
      res_bind (align_down 0x1123 0x1000) (\<lambda>v. assert_eq v 0x1000),
      res_bind (align_down 9 2) (\<lambda>v. assert_eq v 8),
      res_bind (align_up 9 2) (\<lambda>v. assert_eq v 10),
      res_bind (align_up 9 1) (\<lambda>v. assert_eq v 9),
      res_bind (align_down 9 1) (\<lambda>v. assert_eq v 9)]"

text \<open>The address is octal, \<^verbatim>\<open>0o123_456_712_345_1234\<close>.\<close>

definition test_index_functions :: "unit res" where
  "test_index_functions =
     (let addr = (((83 * 512 + 302) * 512 + 458) * 512 + 229) * 4096 + 668 in
      in_order
        [assert_eq (offset addr) 668, assert_eq (level1_index addr) 229, assert_eq (level2_index addr) 458,
         assert_eq (level3_index addr) 302, assert_eq (level4_index addr) 83])"

definition test_flags :: "bitflags_api \<Rightarrow> unit res" where
  "test_flags B =
     (let e = 0xFFFFFFFFFFFFFF00 in assert_eq False (flags_contains B (flags B e) PRESENT))"

definition test_capacity :: "unit res" where
  "test_capacity =
     res_bind (early_new 0 0x1000) (\<lambda>eallocator. res_bind (capacity eallocator) (\<lambda>c. assert_eq c 0x1000))"

text \<open>The test's structure \<^verbatim>\<open>Object\<close> holds one \<^verbatim>\<open>usize\<close>: its size and alignment are 8.\<close>

definition test_allocate :: "unit res" where
  "test_allocate =
     res_bind (early_new 0 0x1000) (\<lambda>eallocator.
     res_bind (capacity eallocator) (\<lambda>cap.
     res_bind (early_allocate 8 8 10 eallocator) (\<lambda>(_, eallocator1).
     res_bind (usub cap (8 * 10)) (\<lambda>cap1.
     res_bind (capacity eallocator1) (\<lambda>c1.
     res_bind (assert_eq c1 cap1) (\<lambda>_.
     res_bind (early_allocate 8 8 50 eallocator1) (\<lambda>(_, eallocator2).
     res_bind (usub cap1 (8 * 50)) (\<lambda>cap2.
     res_bind (capacity eallocator2) (\<lambda>c2. assert_eq c2 cap2)))))))))"

section \<open>Console and descriptors\<close>

definition creating_position :: "unit res" where
  "creating_position =
     (let p = (100, 100) :: Position in
      in_order
        [assert_eq p (100, 100), res_bind (area_from_origin p) (\<lambda>v. assert_eq v (100 * 100)),
         assert_eq (fst p) 100, assert_eq (snd p) 100,
         (let p = (fst p, 255) :: Position in assert_eq (snd p) 255)])"

definition creating_character_display :: "(usize \<Rightarrow> u16 list) \<Rightarrow> unit res" where
  "creating_character_display raw =
     res_bind (display_new raw 0xB8000 (800, 600)) (\<lambda>c_disp. assert_eq (current_position c_disp) (0, 0))"

definition setting_bg_fg_color :: "(usize \<Rightarrow> u16 list) \<Rightarrow> unit res" where
  "setting_bg_fg_color raw =
     res_bind (display_new raw 0xB8000 (800, 600)) (\<lambda>c_disp.
     let c_disp1 = set_color_foreground LightBlue (set_color_background Red c_disp) in
     in_order
       [res_bind (char_color (color_background c_disp1)) (\<lambda>color_code. assert_eq color_code 0x4),
        res_bind (char_color (color_foreground c_disp1)) (\<lambda>color_code. assert_eq color_code 0x9)])"

definition flags_test :: "u16 bitfield_api \<Rightarrow> unit res" where
  "flags_test F = in_order
     [assert_eq 5 (interrupt_stack_table F 5),
      assert_eq 9 (descriptor_type F 0x900),
      assert_eq 3 (privilege_level F 0x6000),
      assert_eq True (flags_present F 0x8000)]"

definition descriptor_test :: "unit res" where
  "descriptor_test = assert_eq (0x1111, 0x2222, 0x44443333) (parse_addr 0x4444333322221111)"

section \<open>The buddy allocator\<close>

text \<open>The objects lie in memory that is not initialised: their content is the list \<open>nodes\<close>.\<close>

definition make_frame_allocator :: "'l linked_list_api \<Rightarrow> Frame list \<Rightarrow> usize \<Rightarrow> 'l BuddyAllocator res" where
  "make_frame_allocator L nodes count = buddy_new L 0 nodes count"

definition assert_free :: "'l BuddyAllocator \<Rightarrow> usize \<Rightarrow> unit res" where
  "assert_free a n = res_bind (count_free_objs a) (assert_eq n)"

text \<open>The loops \<^verbatim>\<open>for i in 0..MAX_ORDER\<close>: one block of order \<open>k\<close> is free and no other.\<close>

definition assert_counts :: "'l BuddyAllocator \<Rightarrow> usize \<Rightarrow> unit res" where
  "assert_counts a k = in_order (map (\<lambda>i.
     res_bind (vec_get (free_counts a) i) (assert_eq (if i = k then 1 else 0))) [0..<MAX_ORDER])"

definition test_allocate_simple_split :: "'l linked_list_api \<Rightarrow> Frame list \<Rightarrow> unit res" where
  "test_allocate_simple_split L nodes =
     res_bind (make_frame_allocator L nodes 32) (\<lambda>a.
     res_bind (assert_free a 32) (\<lambda>_.
     res_bind (allocate L a 4) (\<lambda>(obj, a1).
     res_bind (assert_true (obj \<noteq> None)) (\<lambda>_.
     res_bind (assert_free a1 (32 - 2 ^ 4)) (\<lambda>_.
     res_bind (assert_counts a1 4) (\<lambda>_.
     case obj of
       None \<Rightarrow> Inl UnwrapNone
     | Some p \<Rightarrow>
         res_bind (buddy_free L a1 p) (\<lambda>a2.
         res_bind (assert_free a2 32) (\<lambda>_.
         assert_counts a2 5))))))))"

definition test_allocate_and_free :: "'l linked_list_api \<Rightarrow> Frame list \<Rightarrow> unit res" where
  "test_allocate_and_free L nodes =
     res_bind (make_frame_allocator L nodes 32) (\<lambda>a.
     res_bind (assert_free a 32) (\<lambda>_.
     res_bind (allocate L a 2) (\<lambda>(r, a1).
     case r of
       None \<Rightarrow> assert_true False
     | Some p \<Rightarrow>
         res_bind (assert_eq 2 (order (objs a1 ! p))) (\<lambda>_.
         res_bind (assert_free a1 (32 - 4)) (\<lambda>_.
         res_bind (buddy_free L a1 p) (\<lambda>a2.
         assert_free a2 32))))))"

text \<open>
  The test that takes everything: the loop \<^verbatim>\<open>while let\<close> puts the objects into a list of its own
  and \<^verbatim>\<open>into_iter\<close> takes them out again.  Both loops may not end (\<open>None\<close>).  \<open>iter_count\<close> is
  \<^verbatim>\<open>iter().count()\<close> of the crate's list.
\<close>

partial_function (option) allocate_all ::
  "'l linked_list_api \<Rightarrow> 'l \<Rightarrow> 'l BuddyAllocator \<Rightarrow> ('l \<times> 'l BuddyAllocator) res option" where
  "allocate_all L list a =
     (case allocate L a 0 of
        Inl e \<Rightarrow> Some (Inl e)
      | Inr (r, a1) \<Rightarrow>
          (case r of
             None \<Rightarrow> Some (Inr (list, a1))
           | Some p \<Rightarrow>
               (case assert_eq 0 (order (objs a1 ! p)) of
                  Inl e \<Rightarrow> Some (Inl e)
                | Inr _ \<Rightarrow>
                    if link (objs a1 ! p) then Some (Inl AlreadyLinked)
                    else allocate_all L (ll_push_back L list p) (obj_update p (\<lambda>f. f\<lparr>link := True\<rparr>) a1))))"

partial_function (option) free_all ::
  "'l linked_list_api \<Rightarrow> 'l \<Rightarrow> 'l BuddyAllocator \<Rightarrow> 'l BuddyAllocator res option" where
  "free_all L list a =
     (case ll_pop_front L list of
        None \<Rightarrow> Some (Inr a)
      | Some pl \<Rightarrow>
          (case buddy_free L (obj_update (fst pl) (\<lambda>f. f\<lparr>link := False\<rparr>) a) (fst pl) of
             Inl e \<Rightarrow> Some (Inl e)
           | Inr a1 \<Rightarrow> free_all L (snd pl) a1))"

definition res_obind :: "'a res option \<Rightarrow> ('a \<Rightarrow> 'b res option) \<Rightarrow> 'b res option" where
  "res_obind r f = (case r of None \<Rightarrow> None | Some (Inl e) \<Rightarrow> Some (Inl e) | Some (Inr x) \<Rightarrow> f x)"

definition test_try_to_allocate_all :: "'l linked_list_api \<Rightarrow> ('l \<Rightarrow> nat) \<Rightarrow> Frame list \<Rightarrow> unit res option" where
  "test_try_to_allocate_all L iter_count nodes =
     res_obind (Some (make_frame_allocator L nodes 32)) (\<lambda>a.
     res_obind (allocate_all L (ll_new L) a) (\<lambda>(list, a1).
     res_obind (Some (allocate L a1 0)) (\<lambda>(r, a2).
     res_obind (Some (assert_eq True (r = None))) (\<lambda>_.
     res_obind (Some (assert_free a2 0)) (\<lambda>_.
     res_obind (Some (assert_eq 32 (iter_count list))) (\<lambda>_.
     res_obind (free_all L list a2) (\<lambda>a3. Some (assert_free a3 32))))))))"

definition test_is_managed_obj :: "'l linked_list_api \<Rightarrow> Frame list \<Rightarrow> unit res" where
  "test_is_managed_obj L nodes =
     res_bind (make_frame_allocator L nodes 32) (\<lambda>a.
     in_order
       [res_bind (is_managed_obj a 0) (assert_eq True),
        res_bind (is_managed_obj a (32 - 1)) (assert_eq True),
        res_bind (is_managed_obj a (- 1)) (assert_eq False),
        res_bind (is_managed_obj a 32) (assert_eq False)])"

definition compare_buddy :: "'l BuddyAllocator \<Rightarrow> nat \<Rightarrow> nat \<times> usize \<Rightarrow> bool res" where
  "compare_buddy a expected_buddy_ptr = (\<lambda>(node, order).
     res_bind (buddy a node order) (\<lambda>r.
     case r of Some b \<Rightarrow> Inr (expected_buddy_ptr = b) | None \<Rightarrow> Inr False))"

definition test_buddy :: "'l linked_list_api \<Rightarrow> Frame list \<Rightarrow> unit res" where
  "test_buddy L nodes =
     res_bind (make_frame_allocator L nodes (2 ^ MAX_ORDER)) (\<lambda>a.
     in_order
       (map (\<lambda>i. res_bind (compare_buddy a (2 ^ i) (0, i)) (assert_eq True)) [0..<MAX_ORDER]
        @ [res_bind (compare_buddy a 0 (0, MAX_ORDER)) (assert_eq False),
           res_bind (compare_buddy a 0 (1, 0)) (assert_eq True)]
        @ map (\<lambda>i. res_bind (compare_buddy a (2 ^ i + 1) (1, i)) (assert_eq True)) [1..<MAX_ORDER]
        @ [res_bind (compare_buddy a 0 (1, MAX_ORDER)) (assert_eq False)]))"

section \<open>The simple tests\<close>

lemmas assert_simps = assert_eq_def assert_true_def

lemma plain_tests:
  "test_alignment = Inr ()" "test_index_functions = Inr ()" "test_capacity = Inr ()" "test_allocate = Inr ()"
  "creating_position = Inr ()" "creating_character_display raw = Inr ()" "setting_bg_fg_color raw = Inr ()"
  "descriptor_test = Inr ()"
proof -
  show "test_alignment = Inr ()"
    by (simp add: test_alignment_def assert_simps align_up_def align_down_def unot_def mask_eq_exp_minus_1)
  show "test_index_functions = Inr ()"
    by (simp add: test_index_functions_def assert_simps offset_def level1_index_def level2_index_def level3_index_def level4_index_def)
  show "test_capacity = Inr ()" by (simp add: test_capacity_def early_new_def capacity_def assert_simps)
  show "test_allocate = Inr ()"
    by (simp add: test_allocate_def assert_simps early_new_def capacity_def early_allocate_def align_addr_begin_def align_up_def
        unot_def mask_eq_exp_minus_1 Let_def)
  show "creating_position = Inr ()" by (simp add: creating_position_def assert_simps area_from_origin_def)
  show "creating_character_display raw = Inr ()"
    by (simp add: creating_character_display_def display_new_def area_from_origin_def display_default_def assert_simps)
  show "setting_bg_fg_color raw = Inr ()"
    by (simp add: setting_bg_fg_color_def display_new_def area_from_origin_def display_default_def assert_simps
        set_color_foreground_def set_color_background_def)
  show "descriptor_test = Inr ()"
    by (simp add: descriptor_test_def assert_simps parse_addr_def)
qed

context bitflags
begin

lemma test_flags_passes: "test_flags B = Inr ()"
  by (simp add: test_flags_def assert_simps flags_def truncate contains flags_all_def flag_defs)

end

context bitfield
begin

lemma get_bit_range_eq: "lsb \<le> msb \<Longrightarrow> get_bit_range F msb lsb x = take_bit (Suc msb - lsb) (drop_bit lsb x)"
  by (intro bit_word_eqI) (auto simp: bit_get_bit_range bit_simps)

end

lemma flags_test_passes: "bitfield F \<Longrightarrow> flags_test F = Inr ()"
  by (simp add: flags_test_def assert_simps gate_flag_defs bitfield.get_bit_range_eq bitfield.get_one_bit_bit bit_numeral_rec)

section \<open>The tests of the allocator\<close>

lemma seq_list_simps:
  "ll_new seq_list = []" "ll_push_back seq_list l p = l @ [p]" "ll_pop_front seq_list [] = None"
  "ll_pop_front seq_list (p # l) = Some (p, l)"
  "ll_unlink seq_list l p = (if p \<in> set l then Some (p, remove1 p l) else None)"
  by (simp_all add: seq_list_def)

lemmas test_eval = MAX_ORDER_def upt_rec new_while.simps seq_list_simps push_free_def list_push_back_def
  count_incr_def count_decr_def vec_get_def obj_update_def frame_op_defs allocate_def buddy_def is_managed_obj_def
  buddy_free_def Let_def count_free_objs_def ushl_def assert_simps assert_free_def assert_counts_def

lemma res_obind_simps [simp]:
  "res_obind (Some (Inr x)) f = f x" "res_obind (Some (Inl e)) f = Some (Inl e)" "res_obind None f = None"
  by (simp_all add: res_obind_def)

lemma res_obind_weak_cong: "r = r' \<Longrightarrow> res_obind r f = res_obind r' f"
  by simp

lemma list_update_numeral: "(x # xs)[numeral v := y] = x # xs[pred_numeral v := y]"
  by (simp add: numeral_eq_Suc)

lemma thirty_two:
  assumes "length (ns :: 'a list) = 32"
  obtains n0 n1 n2 n3 n4 n5 n6 n7 m0 m1 m2 m3 m4 m5 m6 m7 p0 p1 p2 p3 p4 p5 p6 p7 q0 q1 q2 q3 q4 q5 q6 q7 where
    "ns = [n0, n1, n2, n3, n4, n5, n6, n7, m0, m1, m2, m3, m4, m5, m6, m7, p0, p1, p2, p3, p4, p5, p6, p7, q0, q1, q2, q3, q4, q5, q6, q7]"
  using assms by (auto simp: numeral_eq_Suc length_Suc_conv)

text \<open>The fresh allocator: one block of order 5.\<close>

definition fresh_32 :: "Frame list \<Rightarrow> nat list BuddyAllocator" where
  "fresh_32 nodes =
     \<lparr>base_addr = 0, obj_count = 32, free_lists = [[], [], [], [], [], [0], [], [], [], [], [], [], [], [], []],
      free_counts = [0, 0, 0, 0, 0, 1, 0, 0, 0, 0, 0, 0, 0, 0, 0],
      objs = (hd nodes)\<lparr>link := True, order := 5, state := Free\<rparr> # map (\<lambda>f. f\<lparr>link := False\<rparr>) (tl nodes)\<rparr>"

lemma make_frame_allocator_32:
  assumes "length nodes = 32"
  shows "make_frame_allocator seq_list nodes 32 = Inr (fresh_32 nodes)"
  by (rule thirty_two[OF assms])
    (simp add: make_frame_allocator_def buddy_new_def fresh_32_def test_eval list_update_numeral cong: res_bind_weak_cong,
      simp add: numeral_eq_Suc)

lemma simple_split_seq:
  assumes "length nodes = 32"
  shows "test_allocate_simple_split seq_list nodes = Inr ()"
  unfolding test_allocate_simple_split_def make_frame_allocator_32[OF assms]
  by (rule thirty_two[OF assms])
    (simp add: fresh_32_def test_eval list_update_numeral cong: res_bind_weak_cong)

lemma allocate_and_free_seq:
  assumes "length nodes = 32"
  shows "test_allocate_and_free seq_list nodes = Inr ()"
  unfolding test_allocate_and_free_def make_frame_allocator_32[OF assms]
  by (rule thirty_two[OF assms])
    (simp add: fresh_32_def test_eval list_update_numeral cong: res_bind_weak_cong)

lemma try_to_allocate_all_seq:
  assumes "length nodes = 32"
  shows "test_try_to_allocate_all seq_list length nodes = Some (Inr ())"
  unfolding test_try_to_allocate_all_def make_frame_allocator_32[OF assms]
  by (rule thirty_two[OF assms])
    (simp add: fresh_32_def test_eval allocate_all.simps free_all.simps list_update_numeral
      cong: res_bind_weak_cong res_obind_weak_cong)

text \<open>The tests with any list: they follow the tests with the reference list.\<close>

lemma follows_unit: "follows r r (\<lambda>_. ())"
  by (simp add: follows_def)

definition ofollows :: "'a res option \<Rightarrow> 'b res option \<Rightarrow> ('a \<Rightarrow> 'b) \<Rightarrow> bool" where
  "ofollows r s h \<longleftrightarrow> (\<forall>y. s = Some (Inr y) \<longrightarrow> (\<exists>x. r = Some (Inr x) \<and> y = h x))"

lemma ofollows_bind:
  assumes "ofollows r s h" "\<And>x. ofollows (f x) (g (h x)) k"
  shows "ofollows (res_obind r f) (res_obind s g) k"
  using assms unfolding ofollows_def res_obind_def by (force split: option.splits sum.splits)

lemma ofollows_Some: "follows r s h \<Longrightarrow> ofollows (Some r) (Some s) h"
  by (simp add: follows_def ofollows_def)

context linked_list
begin

lemma assert_free_reference: "assert_free (reference a) n = assert_free a n"
  by (simp add: assert_free_def count_free_objs_reference)

lemma assert_counts_reference: "assert_counts (reference a) k = assert_counts a k"
  by (simp add: assert_counts_def)

lemma make_frame_allocator_follows:
  "follows (make_frame_allocator L nodes n) (make_frame_allocator seq_list nodes n) reference"
  unfolding make_frame_allocator_def by (rule buddy_new_follows)

lemma allocate_all_follows: "ofollows (allocate_all L l a) (allocate_all seq_list (elems l) (reference a)) (map_prod elems reference)"
proof -
  let ?P = "\<lambda>M k s y. M = seq_list \<longrightarrow> (\<forall>l a z. k = elems l \<longrightarrow> s = reference a \<longrightarrow> y = Inr z \<longrightarrow>
      (\<exists>x. allocate_all L l a = Some (Inr x) \<and> z = map_prod elems reference x))"
  have "?P M k s y" if "allocate_all M k s = Some y" for M k s y
  proof (rule allocate_all.raw_induct[where P = ?P, OF _ that], intro impI allI, goal_cases)
    case (1 rec M k s y l a z)
    then obtain r s1 where r: "allocate seq_list (reference a) 0 = Inr (r, s1)"
      by (auto split: sum.splits)
    then obtain a1 where a1: "allocate L a 0 = Inr (r, a1)" "s1 = reference a1"
      using allocate_follows[of a 0] by (auto simp: follows_def)
    show ?case
    proof (cases r)
      case None
      then show ?thesis using 1 r a1 by (subst allocate_all.simps) auto
    next
      case (Some p)
      let ?l = "ll_push_back L l p" and ?a = "obj_update p (\<lambda>f. f\<lparr>link := True\<rparr>) a1"
      have "rec seq_list (elems ?l) (reference ?a) = Some y" "order (objs a1 ! p) = 0" "\<not> link (objs a1 ! p)"
        using 1(2-) r a1 Some
        by (auto simp: elems_push_back seq_list_simps reference_update assert_simps split: if_splits)
      then show ?thesis
        using 1(1)[of seq_list "elems ?l" "reference ?a" y] 1(6) r a1 Some
        by (subst allocate_all.simps) (auto simp: assert_simps)
    qed
  qed
  then show ?thesis by (auto simp: ofollows_def)
qed

lemma free_all_follows: "ofollows (free_all L l a) (free_all seq_list (elems l) (reference a)) reference"
proof -
  let ?P = "\<lambda>M k s y. M = seq_list \<longrightarrow> (\<forall>l a z. k = elems l \<longrightarrow> s = reference a \<longrightarrow> y = Inr z \<longrightarrow>
      (\<exists>x. free_all L l a = Some (Inr x) \<and> z = reference x))"
  have "?P M k s y" if "free_all M k s = Some y" for M k s y
  proof (rule free_all.raw_induct[where P = ?P, OF _ that], intro impI allI, goal_cases)
    case (1 rec M k s y l a z)
    show ?case
    proof (cases "ll_pop_front seq_list (elems l)")
      case None
      then show ?thesis using 1 pop_front_cases[of l] by (subst free_all.simps) auto
    next
      case (Some q)
      then obtain p l' where p: "ll_pop_front L l = Some (p, l')" "ll_pop_front seq_list (elems l) = Some (p, elems l')"
        using pop_front_cases[of l] by auto
      let ?a = "obj_update p (\<lambda>f. f\<lparr>link := False\<rparr>) a"
      obtain s1 where s1: "buddy_free seq_list (reference ?a) p = Inr s1"
        using 1(2-) p by (auto simp: reference_update split: sum.splits)
      then obtain a1 where a1: "buddy_free L ?a p = Inr a1" "s1 = reference a1"
        using buddy_free_follows[of ?a p] by (auto simp: follows_def)
      then have "rec seq_list (elems l') (reference a1) = Some y"
        using 1(2-) p s1 by (auto simp: reference_update)
      then show ?thesis
        using 1(1)[of seq_list "elems l'" "reference a1" y] 1(6) p a1 by (subst free_all.simps) auto
    qed
  qed
  then show ?thesis by (auto simp: ofollows_def)
qed

lemma tests_follow:
  "follows (test_allocate_simple_split L nodes) (test_allocate_simple_split seq_list nodes) (\<lambda>_. ())"
  "follows (test_allocate_and_free L nodes) (test_allocate_and_free seq_list nodes) (\<lambda>_. ())"
  "ofollows (test_try_to_allocate_all L (\<lambda>l. length (elems l)) nodes) (test_try_to_allocate_all seq_list length nodes) (\<lambda>_. ())"
proof -
  note I = follows_bind[OF make_frame_allocator_follows] follows_same follows_bind[OF allocate_follows]
    follows_bind[OF buddy_free_follows] follows_option follows_unit follows_Inl
  show "follows (test_allocate_simple_split L nodes) (test_allocate_simple_split seq_list nodes) (\<lambda>_. ())"
    unfolding test_allocate_simple_split_def
    by (auto simp: assert_free_reference assert_counts_reference case_prod_beta intro!: I)
  show "follows (test_allocate_and_free L nodes) (test_allocate_and_free seq_list nodes) (\<lambda>_. ())"
    unfolding test_allocate_and_free_def
    by (auto simp: assert_free_reference case_prod_beta intro!: I)
  have n: "ll_new seq_list = elems (ll_new L)" by (simp add: elems_new seq_list_simps)
  note O = ofollows_bind[OF ofollows_Some[OF make_frame_allocator_follows]]
    ofollows_bind[OF allocate_all_follows] ofollows_bind[OF ofollows_Some[OF allocate_follows]]
    ofollows_bind[OF free_all_follows] ofollows_bind[OF ofollows_Some[OF follows_refl]] ofollows_Some[OF follows_unit]
  show "ofollows (test_try_to_allocate_all L (\<lambda>l. length (elems l)) nodes) (test_try_to_allocate_all seq_list length nodes) (\<lambda>_. ())"
    unfolding test_try_to_allocate_all_def n
    by (auto simp: assert_free_reference case_prod_beta intro!: O)
qed

lemma managed_test_passes: "length nodes = 32 \<Longrightarrow> test_is_managed_obj L nodes = Inr ()"
  using buddy_new_ok[of nodes 32 0]
  by (auto simp: test_is_managed_obj_def make_frame_allocator_def is_managed_obj_def assert_simps)

lemma buddy_test_passes: "length nodes = 2 ^ 15 \<Longrightarrow> test_buddy L nodes = Inr ()"
  using buddy_new_ok[of nodes "2 ^ 15" 0]
  by (auto simp: test_buddy_def make_frame_allocator_def compare_buddy_def buddy_def is_managed_obj_def assert_simps
      MAX_ORDER_def upt_rec)

end

text \<open>
  C31. The unit tests of the repository pass on the model, whatever the memory for the objects holds
  and whichever implementation the lists, bit fields and bit flags have: no assertion fails, nothing
  panics, and the loops of the test that takes all objects end.
\<close>
theorem unit_tests_pass:
  assumes "linked_list L elems" and "bitfield F" and "bitflags B"
    and "length nodes = 32" and "length many_nodes = 2 ^ 15"
  shows "test_allocate_simple_split L nodes = Inr () \<and> test_allocate_and_free L nodes = Inr ()
    \<and> test_try_to_allocate_all L (\<lambda>l. length (elems l)) nodes = Some (Inr ())
    \<and> test_is_managed_obj L nodes = Inr () \<and> test_buddy L many_nodes = Inr ()
    \<and> test_alignment = Inr () \<and> test_index_functions = Inr () \<and> test_flags B = Inr ()
    \<and> test_capacity = Inr () \<and> test_allocate = Inr () \<and> creating_position = Inr ()
    \<and> creating_character_display raw = Inr () \<and> setting_bg_fg_color raw = Inr ()
    \<and> flags_test F = Inr () \<and> descriptor_test = Inr ()"
  using linked_list.tests_follow[OF assms(1), of nodes] simple_split_seq[OF assms(4)] allocate_and_free_seq[OF assms(4)]
    try_to_allocate_all_seq[OF assms(4)] linked_list.managed_test_passes[OF assms(1,4)]
    linked_list.buddy_test_passes[OF assms(1,5)] bitflags.test_flags_passes[OF assms(3)] flags_test_passes[OF assms(2)]
  by (simp add: follows_def ofollows_def plain_tests)

theorem unit_tests_pass_witness:
  "test_try_to_allocate_all seq_list length (replicate 32 (frame_from_address 0)) = Some (Inr ())
    \<and> test_buddy seq_list (replicate (2 ^ 15) (frame_from_address 0)) = Inr ()"
  using unit_tests_pass[OF seq.linked_list_axioms word_fields.bitfield_axioms bit_flags.bitflags_axioms,
      of "replicate 32 (frame_from_address 0)" "replicate (2 ^ 15) (frame_from_address 0)"]
  unfolding length_replicate by blast

end
